(* ===== verification/Triage_Prelude.thy ===== *)
theory Triage_Prelude
  imports Main "HOL-Library.Sublist" "HOL-Library.AList" "HOL-Library.Word"
begin

text \<open>
  Shared vocabulary of the development: the string operations of JavaScript that
  the handlers in \<^verbatim>\<open>api/triage.js\<close> use (\<^verbatim>\<open>includes\<close>, \<^verbatim>\<open>split\<close>,
  \<^verbatim>\<open>join\<close>, \<^verbatim>\<open>trim\<close>, \<^verbatim>\<open>lastIndexOf\<close>, \<^verbatim>\<open>toLowerCase\<close>), written as
  executable functions on \<open>string\<close> (a list of 8-bit characters), and the lemmas
  that connect them to the list library (\<open>sublist\<close>, \<open>prefix\<close>, \<open>take\<close>,
  \<open>drop\<close>, \<open>AList.update\<close>). JavaScript strings are UTF-16; the model reads them as
  byte strings, which agrees with the code on ASCII text. The collection \<open>js_eval\<close>
  gathers the definitions that \<open>simp\<close> unfolds to run the model on a concrete input.
\<close>

named_theorems js_eval "definitions unfolded to evaluate the model on concrete inputs"

subsection \<open>Operations\<close>

fun starts_with :: "string \<Rightarrow> string \<Rightarrow> bool" where
  "starts_with s [] = True"
| "starts_with [] (p # ps) = False"
| "starts_with (c # cs) (p # ps) = (c = p \<and> starts_with cs ps)"

text \<open>\<^verbatim>\<open>s.includes(p)\<close>.\<close>

fun js_includes :: "string \<Rightarrow> string \<Rightarrow> bool" where
  "js_includes [] p = (p = [])"
| "js_includes (c # cs) p = (starts_with (c # cs) p \<or> js_includes cs p)"

text \<open>The first occurrence of a separator: the text before and after it.\<close>

fun split_first :: "string \<Rightarrow> string \<Rightarrow> (string \<times> string) option" where
  "split_first sep [] = (if sep = [] then Some ([], []) else None)"
| "split_first sep (c # cs) =
     (if prefix sep (c # cs) then Some ([], drop (length sep) (c # cs))
      else map_option (\<lambda>(a, b). (c # a, b)) (split_first sep cs))"

text \<open>\<^verbatim>\<open>s.split(sep)\<close>: a left-to-right scan that closes a piece at each occurrence
  of \<open>sep\<close> (\<open>acc\<close> is the current piece, reversed). An empty separator splits into
  characters.\<close>

fun split_scan :: "string \<Rightarrow> string \<Rightarrow> string \<Rightarrow> string list" where
  "split_scan sep acc [] = [rev acc]"
| "split_scan sep acc (c # cs) =
     (if sep \<noteq> [] \<and> prefix sep (c # cs) then rev acc # split_scan sep [] (drop (length sep) (c # cs))
      else split_scan sep (c # acc) cs)"

definition js_split :: "string \<Rightarrow> string \<Rightarrow> string list" where
  "js_split s sep = (if sep = [] then map (\<lambda>c. [c]) s else split_scan sep [] s)"

text \<open>\<^verbatim>\<open>xs.join(sep)\<close>.\<close>

fun js_join :: "string \<Rightarrow> string list \<Rightarrow> string" where
  "js_join sep [] = []"
| "js_join sep [x] = x"
| "js_join sep (x # y # ys) = x @ sep @ js_join sep (y # ys)"

text \<open>
  ECMAScript's \<^verbatim>\<open>trim\<close> removes white space and line terminators; on byte strings these
  are TAB, LF, VT, FF, CR and SPACE (the Unicode spaces beyond ASCII are not modelled).
\<close>

definition js_ws :: "char \<Rightarrow> bool" where
  "js_ws c \<longleftrightarrow> c \<in> {CHR 0x09, CHR 0x0A, CHR 0x0B, CHR 0x0C, CHR 0x0D, CHR 0x20}"

definition js_trim :: "string \<Rightarrow> string" where
  "js_trim s = rev (dropWhile js_ws (rev (dropWhile js_ws s)))"

text \<open>\<^verbatim>\<open>toLowerCase\<close> on ASCII letters.\<close>

definition js_lower_char :: "char \<Rightarrow> char" where
  "js_lower_char c =
     (let n = (of_char c :: nat) in if 65 \<le> n \<and> n \<le> 90 then char_of (n + 32) else c)"

definition js_to_lower :: "string \<Rightarrow> string" where
  "js_to_lower s = map js_lower_char s"

text \<open>\<^verbatim>\<open>lastIndexOf(c)\<close> for a one-character argument: \<open>-1\<close> when absent.\<close>

definition js_last_index_of :: "string \<Rightarrow> char \<Rightarrow> int" where
  "js_last_index_of s c =
     (if c \<in> set s then int (length s - 1 - length (takeWhile (\<lambda>x. x \<noteq> c) (rev s))) else -1)"

text \<open>\<^verbatim>\<open>xs.map(f)\<close> where \<open>f\<close> may throw: the first exception, in order, ends the
  loop.\<close>

fun map_sum :: "('a \<Rightarrow> 'e + 'b) \<Rightarrow> 'a list \<Rightarrow> 'e + 'b list" where
  "map_sum f [] = Inr []"
| "map_sum f (x # xs) =
     (case f x of
        Inl e \<Rightarrow> Inl e
      | Inr y \<Rightarrow> (case map_sum f xs of Inl e \<Rightarrow> Inl e | Inr ys \<Rightarrow> Inr (y # ys)))"

declare js_split_def [js_eval] js_ws_def [js_eval] js_trim_def [js_eval] js_lower_char_def [js_eval]
  js_to_lower_def [js_eval] js_last_index_of_def [js_eval]

subsection \<open>\<^verbatim>\<open>includes\<close> is \<open>sublist\<close>\<close>

lemma starts_with_prefix [simp]: "starts_with s p \<longleftrightarrow> prefix p s"
  by (induction s p rule: starts_with.induct) auto

lemma js_includes_sublist: "js_includes s p \<longleftrightarrow> sublist p s"
  by (induction s) (auto simp: sublist_Cons_right)

lemma js_includes_mono: "js_includes s p \<Longrightarrow> js_includes (a @ s @ b) p"
  unfolding js_includes_sublist sublist_def by (metis append.assoc)

subsection \<open>First occurrences and \<^verbatim>\<open>split\<close>\<close>

lemma split_first_eq: "split_first sep s = Some (a, b) \<Longrightarrow> s = a @ sep @ b"
proof (induction sep s arbitrary: a rule: split_first.induct)
  case (1 sep)
  then show ?case by (simp split: if_splits)
next
  case (2 sep c cs)
  then show ?case by (auto split: if_splits simp: prefix_def)
qed

lemma split_first_None: "split_first sep s = None \<longleftrightarrow> \<not> js_includes s sep"
  by (induction sep s rule: split_first.induct) (auto simp: js_includes_sublist sublist_Cons_right)

lemma prefix_take_le: "prefix xs ys \<Longrightarrow> length xs \<le> n \<Longrightarrow> prefix xs (take n ys)"
  by (auto simp: prefix_def)

text \<open>
  The separator's first occurrence sits right after \<open>a\<close> exactly when no occurrence
  starts inside \<open>a\<close>, that is, when \<open>sep\<close> is no sublist of \<open>a @ butlast sep\<close>.
\<close>

lemma split_first_append:
  assumes "\<not> sublist sep (a @ butlast sep)" and "sep \<noteq> []"
  shows "split_first sep (a @ sep @ b) = Some (a, b)"
  using assms
proof (induction a)
  case Nil
  then show ?case by (cases sep) simp_all
next
  case (Cons c a)
  have nosub: "\<not> sublist sep (a @ butlast sep)"
    using Cons.prems(1) by (auto intro: sublist_Cons_right[THEN iffD2])
  have noprefix: "\<not> prefix sep (c # a @ sep @ b)"
  proof
    assume p: "prefix sep (c # a @ sep @ b)"
    have "length sep \<le> length (c # a @ butlast sep)"
      using Cons.prems(2) by simp
    with p have "prefix sep (take (length (c # a @ butlast sep)) (c # a @ sep @ b))"
      by (rule prefix_take_le)
    moreover have "take (length (c # a @ butlast sep)) (c # a @ sep @ b) = c # a @ butlast sep"
      using Cons.prems(2) by (cases sep rule: rev_cases) auto
    ultimately show False
      using Cons.prems(1) by auto
  qed
  with Cons.IH[OF nosub Cons.prems(2)] show ?case by simp
qed

text \<open>The scan closes its first piece at the first occurrence of the separator.\<close>

lemma split_scan_first:
  "sep \<noteq> [] \<Longrightarrow> split_scan sep acc s =
     (case split_first sep s of
        None \<Rightarrow> [rev acc @ s]
      | Some (a, b) \<Rightarrow> (rev acc @ a) # split_scan sep [] b)"
proof (induction s arbitrary: acc)
  case Nil
  then show ?case by simp
next
  case (Cons c cs)
  then show ?case by (auto split: option.splits)
qed

lemma js_split_not_found: "sep \<noteq> [] \<Longrightarrow> \<not> js_includes s sep \<Longrightarrow> js_split s sep = [s]"
  by (simp add: js_split_def split_scan_first split_first_None[symmetric])

lemma js_split_found:
  "sep \<noteq> [] \<Longrightarrow> split_first sep s = Some (a, b) \<Longrightarrow> js_split s sep = a # js_split b sep"
  by (simp add: js_split_def split_scan_first)

lemma js_split_hd:
  "sep \<noteq> [] \<Longrightarrow> js_split s sep ! 0 = (case split_first sep s of None \<Rightarrow> s | Some (a, b) \<Rightarrow> a)"
  by (simp add: js_split_def split_scan_first split: option.splits)

lemma js_split_length_found: "sep \<noteq> [] \<Longrightarrow> js_includes s sep \<Longrightarrow> 2 \<le> length (js_split s sep)"
  using split_first_None[of sep s]
  by (cases "split_first sep s") (auto simp: js_split_def split_scan_first split: option.splits)

lemma js_split_second:
  "sep \<noteq> [] \<Longrightarrow> split_first sep s = Some (a, b) \<Longrightarrow>
     js_split s sep ! 1 = (case split_first sep b of None \<Rightarrow> b | Some (c, d) \<Rightarrow> c)"
  by (simp add: js_split_found js_split_hd)

subsection \<open>Association lists updated in place\<close>

text \<open>A JavaScript object keeps its keys in insertion order and a repeated key keeps its
  first position: \<open>AList.update\<close>.\<close>

lemma update_set_subset: "set (AList.update k v al) \<subseteq> insert (k, v) (set al)"
  by (induction al) auto

lemma update_fresh: "k \<notin> fst ` set al \<Longrightarrow> AList.update k v al = al @ [(k, v)]"
  by (induction al) auto

subsection \<open>\<^verbatim>\<open>trim\<close> and \<^verbatim>\<open>lastIndexOf\<close>\<close>

lemma js_trim_idem_ends:
  assumes "s \<noteq> []" and "\<not> js_ws (hd s)" and "\<not> js_ws (last s)"
  shows "js_trim s = s"
proof -
  have "dropWhile js_ws s = s" using assms by (cases s) auto
  moreover have "dropWhile js_ws (rev s) = rev s" using assms by (cases s rule: rev_cases) auto
  ultimately show ?thesis by (simp add: js_trim_def)
qed

lemma js_last_index_of_found:
  assumes "c \<in> set s"
  shows "0 \<le> js_last_index_of s c" and "s ! nat (js_last_index_of s c) = c"
    and "c \<notin> set (drop (Suc (nat (js_last_index_of s c))) s)"
proof -
  obtain a b where split: "rev s = a @ c # b" and "c \<notin> set a"
    using assms by (metis in_set_conv_decomp_first set_rev)
  then have tw: "takeWhile (\<lambda>x. x \<noteq> c) (rev s) = a"
    by (auto simp: takeWhile_tail)
  have s_eq: "s = rev b @ c # rev a"
    using split by (metis rev_append rev_rev_ident rev.simps(2) append_assoc append_Cons append_Nil)
  have len: "length s = length a + length b + 1"
    using split by (metis length_rev length_append length_Cons add.commute add_Suc_right Suc_eq_plus1)
  have idx: "js_last_index_of s c = int (length b)"
    using assms tw len by (simp add: js_last_index_of_def)
  show "0 \<le> js_last_index_of s c" by (simp add: idx)
  have "s ! length b = c" by (simp add: s_eq nth_append)
  then show "s ! nat (js_last_index_of s c) = c" by (simp add: idx)
  have "drop (Suc (length b)) s = rev a" by (simp add: s_eq)
  then show "c \<notin> set (drop (Suc (nat (js_last_index_of s c))) s)"
    using \<open>c \<notin> set a\<close> by (simp add: idx)
qed

lemma js_last_index_of_last:
  "s \<noteq> [] \<Longrightarrow> last s = c \<Longrightarrow> js_last_index_of s c = int (length s - 1)"
  by (cases s rule: rev_cases) (auto simp: js_last_index_of_def)

lemma js_last_index_of_absent: "c \<notin> set s \<Longrightarrow> js_last_index_of s c = -1"
  by (simp add: js_last_index_of_def)

lemma count_list_take_notin:
  "c \<notin> set (drop n s) \<Longrightarrow> count_list (take n s) c = count_list s c"
  by (metis add.right_neutral append_take_drop_id count_list_append count_notin)

end
