(* ===== verification/Js_Value.thy ===== *)
theory Js_Value
  imports Triage_Prelude
begin

text \<open>
  The JavaScript values the triage code handles: the result of \<^verbatim>\<open>JSON.parse\<close> on a
  model's reply, the numbers the priority calculator computes, and the property reads
  and writes the parser performs on them. Numbers are integers (\<open>JNum\<close>) or
  \<open>JNaN\<close>; \<open>JHost\<close> stands for a function or host object, such as the methods an
  object inherits from \<^verbatim>\<open>Object.prototype\<close>. A property that is absent reads as
  \<^verbatim>\<open>undefined\<close>, which is \<open>None\<close> of \<open>jsval option\<close>.
\<close>

datatype jsval =
    JNull
  | JBool bool
  | JNum int
  | JNaN
  | JStr string
  | JArr "jsval list"
  | JObj "(string \<times> jsval) list"
  | JHost

datatype js_error = TypeError | SyntaxError

subsection \<open>Truthiness and \<^verbatim>\<open>||\<close>\<close>

fun js_truthy :: "jsval \<Rightarrow> bool" where
  "js_truthy JNull = False"
| "js_truthy (JBool b) = b"
| "js_truthy (JNum n) = (n \<noteq> 0)"
| "js_truthy JNaN = False"
| "js_truthy (JStr s) = (s \<noteq> [])"
| "js_truthy (JArr xs) = True"
| "js_truthy (JObj kvs) = True"
| "js_truthy JHost = True"

definition truthy :: "jsval option \<Rightarrow> bool" where
  "truthy x = (case x of None \<Rightarrow> False | Some v \<Rightarrow> js_truthy v)"

text \<open>\<^verbatim>\<open>a || b\<close> yields \<^verbatim>\<open>a\<close> itself when it is truthy, else \<^verbatim>\<open>b\<close>.\<close>

definition js_or :: "jsval option \<Rightarrow> jsval option \<Rightarrow> jsval option" where
  "js_or a b = (if truthy a then a else b)"

text \<open>The same when the right operand is a value, as in \<^verbatim>\<open>x || 0\<close>.\<close>

definition js_or_d :: "jsval option \<Rightarrow> jsval \<Rightarrow> jsval" where
  "js_or_d a d = (case a of Some v \<Rightarrow> if js_truthy v then v else d | None \<Rightarrow> d)"

subsection \<open>Numbers as strings and strings as numbers\<close>

definition digit_chars :: string where
  "digit_chars = ''0123456789''"

fun nat_to_str :: "nat \<Rightarrow> string" where
  "nat_to_str n =
     (if n < 10 then [digit_chars ! n] else nat_to_str (n div 10) @ [digit_chars ! (n mod 10)])"

declare nat_to_str.simps [simp del]

definition int_to_str :: "int \<Rightarrow> string" where
  "int_to_str i = (if i < 0 then CHR ''-'' # nat_to_str (nat (- i)) else nat_to_str (nat i))"

definition is_digit :: "char \<Rightarrow> bool" where
  "is_digit c \<longleftrightarrow> (48::nat) \<le> of_char c \<and> (of_char c :: nat) \<le> 57"

definition digit_val :: "char \<Rightarrow> nat" where
  "digit_val c = of_char c - 48"

definition digits_val :: "string \<Rightarrow> nat" where
  "digits_val s = foldl (\<lambda>n c. 10 * n + digit_val c) 0 s"

text \<open>
  \<^verbatim>\<open>Number(s)\<close> on a string, for the decimal integer literals of the model: the empty
  (or blank) string is 0, an optional sign and digits give their value, anything else
  is \<^verbatim>\<open>NaN\<close>. Fractions, exponents, hexadecimal and \<^verbatim>\<open>Infinity\<close> fall outside the
  integer model and read as \<open>None\<close> too.
\<close>

definition str_to_number :: "string \<Rightarrow> int option" where
  "str_to_number s0 =
     (let s = js_trim s0 in
      if s = [] then Some 0
      else if hd s = CHR ''-'' \<and> tl s \<noteq> [] \<and> list_all is_digit (tl s) then Some (- int (digits_val (tl s)))
      else if hd s = CHR ''+'' \<and> tl s \<noteq> [] \<and> list_all is_digit (tl s) then Some (int (digits_val (tl s)))
      else if list_all is_digit s then Some (int (digits_val s))
      else None)"

declare digit_chars_def [js_eval] nat_to_str.simps [js_eval] int_to_str_def [js_eval]
  is_digit_def [js_eval] digit_val_def [js_eval] digits_val_def [js_eval] str_to_number_def [js_eval]

text \<open>\<^verbatim>\<open>ToString\<close>: arrays join their elements with commas, \<^verbatim>\<open>null\<close> elements as the empty string.\<close>

fun to_str :: "jsval \<Rightarrow> string" where
  "to_str JNull = ''null''"
| "to_str (JBool b) = (if b then ''true'' else ''false'')"
| "to_str (JNum n) = int_to_str n"
| "to_str JNaN = ''NaN''"
| "to_str (JStr s) = s"
| "to_str (JArr xs) = js_join '','' (map (\<lambda>x. if x = JNull then [] else to_str x) xs)"
| "to_str (JObj kvs) = ''[object Object]''"
| "to_str JHost = ''function''"

text \<open>\<^verbatim>\<open>ToNumber\<close>, with \<open>None\<close> for \<^verbatim>\<open>NaN\<close>; objects and functions convert to \<^verbatim>\<open>NaN\<close>.\<close>

fun to_number :: "jsval \<Rightarrow> int option" where
  "to_number JNull = Some 0"
| "to_number (JBool b) = Some (if b then 1 else 0)"
| "to_number (JNum n) = Some n"
| "to_number JNaN = None"
| "to_number (JStr s) = str_to_number s"
| "to_number (JArr xs) = str_to_number (to_str (JArr xs))"
| "to_number (JObj kvs) = None"
| "to_number JHost = None"

text \<open>A number computed by the code, stored back as a value (\<open>None\<close> is \<^verbatim>\<open>NaN\<close>).\<close>

definition num_val :: "int option \<Rightarrow> jsval" where
  "num_val n = (case n of None \<Rightarrow> JNaN | Some k \<Rightarrow> JNum k)"

subsection \<open>Property reads and writes\<close>

text \<open>
  The names of \<^verbatim>\<open>Object.prototype\<close>: every object inherits them, so a lookup of such a
  key in an object literal finds a function (or, for \<^verbatim>\<open>__proto__\<close>, the prototype
  object).
\<close>

definition object_proto_keys :: "string list" where
  "object_proto_keys =
     [''constructor'', ''hasOwnProperty'', ''isPrototypeOf'', ''propertyIsEnumerable'',
      ''toLocaleString'', ''toString'', ''valueOf'', ''__proto__'', ''__defineGetter__'',
      ''__defineSetter__'', ''__lookupGetter__'', ''__lookupSetter__'']"

definition array_index :: "string \<Rightarrow> nat option" where
  "array_index k =
     (if k \<noteq> [] \<and> list_all is_digit k \<and> (k = ''0'' \<or> hd k \<noteq> CHR ''0'') then Some (digits_val k) else None)"

definition inherited :: "string \<Rightarrow> jsval option" where
  "inherited k = (if k \<in> set object_proto_keys then Some JHost else None)"

declare object_proto_keys_def [js_eval] array_index_def [js_eval] inherited_def [js_eval]

text \<open>
  \<open>get_prop v k\<close> is \<^verbatim>\<open>v[k]\<close> for a \<open>v\<close> that is not \<^verbatim>\<open>null\<close> (reading from
  \<^verbatim>\<open>null\<close> throws; the callers check it). Arrays and strings have their indices and
  \<^verbatim>\<open>length\<close>; the methods of \<^verbatim>\<open>Array.prototype\<close> and \<^verbatim>\<open>String.prototype\<close> are
  not modelled, and no property the code reads is one of them.
\<close>

fun get_prop :: "jsval \<Rightarrow> string \<Rightarrow> jsval option" where
  "get_prop (JObj kvs) k = (case map_of kvs k of Some v \<Rightarrow> Some v | None \<Rightarrow> inherited k)"
| "get_prop (JArr xs) k =
     (if k = ''length'' then Some (JNum (int (length xs)))
      else (case array_index k of
              Some i \<Rightarrow> if i < length xs then Some (xs ! i) else None
            | None \<Rightarrow> inherited k))"
| "get_prop (JStr s) k =
     (if k = ''length'' then Some (JNum (int (length s)))
      else (case array_index k of
              Some i \<Rightarrow> if i < length s then Some (JStr [s ! i]) else None
            | None \<Rightarrow> inherited k))"
| "get_prop JNull k = None"
| "get_prop JHost k = None"
| "get_prop v k = inherited k"

declare get_prop.simps(1) [simp del] get_prop.simps(1) [js_eval]

text \<open>Optional chaining \<^verbatim>\<open>v?.k\<close>: \<^verbatim>\<open>undefined\<close> when \<^verbatim>\<open>v\<close> is
  \<^verbatim>\<open>undefined\<close> or \<^verbatim>\<open>null\<close> (for which \<open>get_prop\<close> answers \<open>None\<close>).\<close>

definition opt_get :: "jsval option \<Rightarrow> string \<Rightarrow> jsval option" where
  "opt_get v k = (case v of None \<Rightarrow> None | Some x \<Rightarrow> get_prop x k)"

declare opt_get_def [js_eval]

text \<open>
  \<^verbatim>\<open>v[k] = x\<close> in strict mode code (the handler is an ES module): writing to
  \<^verbatim>\<open>null\<close> or to a primitive throws a \<^verbatim>\<open>TypeError\<close>. An array takes the property
  as an object does; the model then keeps the array's object view (indices, length and
  the new key), which answers every property read as the array would.
\<close>

definition array_entries :: "jsval list \<Rightarrow> (string \<times> jsval) list" where
  "array_entries xs = zip (map nat_to_str [0..<length xs]) xs @ [(''length'', JNum (int (length xs)))]"

declare array_entries_def [js_eval] num_val_def [js_eval]

fun set_prop :: "jsval \<Rightarrow> string \<Rightarrow> jsval \<Rightarrow> js_error + jsval" where
  "set_prop (JObj kvs) k x = Inr (JObj (AList.update k x kvs))"
| "set_prop (JArr xs) k x = Inr (JObj (AList.update k x (array_entries xs)))"
| "set_prop JHost k x = Inr JHost"
| "set_prop v k x = Inl TypeError"

text \<open>Keys that only an object's own entries can answer: not inherited, no array index,
  not \<^verbatim>\<open>length\<close>. Every key the response parser reads is one.\<close>

definition plain_key :: "string \<Rightarrow> bool" where
  "plain_key k \<longleftrightarrow> k \<notin> set object_proto_keys \<and> array_index k = None \<and> k \<noteq> ''length''"

subsection \<open>Evaluation rules\<close>

lemma truthy_simps [simp]:
  "\<not> truthy None" "truthy (Some v) = js_truthy v"
  by (simp_all add: truthy_def)

lemma js_or_simps [simp]:
  "js_or None b = b"
  "js_or (Some v) b = (if js_truthy v then Some v else b)"
  by (simp_all add: js_or_def)

lemma js_or_d_simps [simp]:
  "js_or_d None d = d"
  "js_or_d (Some v) d = (if js_truthy v then v else d)"
  by (simp_all add: js_or_d_def)

lemma inherited_plain [simp]: "plain_key k \<Longrightarrow> inherited k = None"
  by (simp add: plain_key_def inherited_def)

lemma get_prop_obj_plain [simp]: "plain_key k \<Longrightarrow> get_prop (JObj kvs) k = map_of kvs k"
  by (simp add: get_prop.simps(1) split: option.splits)

lemma get_prop_plain:
  "plain_key k \<Longrightarrow> get_prop v k = (case v of JObj kvs \<Rightarrow> map_of kvs k | _ \<Rightarrow> None)"
  by (cases v) (auto simp: plain_key_def inherited_def get_prop.simps(1) split: option.splits)

lemma get_set_prop_same:
  "set_prop v k x = Inr v' \<Longrightarrow> v \<noteq> JHost \<Longrightarrow> get_prop v' k = Some x"
  by (cases v) (auto simp: update_conv' get_prop.simps(1))

lemma get_set_prop_other:
  "set_prop v k x = Inr v' \<Longrightarrow> v = JObj kvs \<Longrightarrow> k' \<noteq> k \<Longrightarrow> get_prop v' k' = get_prop v k'"
  by (auto simp: update_conv' get_prop.simps(1))

lemma set_prop_obj_result: "set_prop v k x = Inr v' \<Longrightarrow> v \<noteq> JHost \<Longrightarrow> \<exists>kvs. v' = JObj kvs"
  by (cases v) auto

lemma set_prop_primitive:
  "v \<in> {JNull, JBool b, JNum n, JNaN, JStr s} \<Longrightarrow> set_prop v k x = Inl TypeError"
  by auto

end
