(* ===== verification/Binary64.thy ===== *)
theory Binary64
  imports Complex_Main "HOL-Library.Log_Nat"
begin

text \<open>
  JavaScript numbers as IEEE 754 binary64 values, as far as the priority calculator
  needs them: a finite double is a pair \<open>(m, e)\<close> of integers standing for
  \<open>m \<cdot> 2^e\<close>; \<open>round64\<close> rounds such a pair to a 53-bit significand,
  to nearest with ties to even; addition and multiplication compute the exact
  result and round it once, as IEEE 754 prescribes. The exponent is unbounded:
  overflow to \<^verbatim>\<open>Infinity\<close> (magnitudes from \<open>2^1024\<close> on) is not modelled, and no
  subnormal arises in the computations modelled (every value in them is zero or at least
  \<open>2^-55\<close> in magnitude). \<^verbatim>\<open>Math.round\<close> is \<open>floor (x + 1/2)\<close> of the exact
  value.
\<close>

type_synonym binary64 = "int \<times> int"

definition dval :: "binary64 \<Rightarrow> real" where
  "dval d = of_int (fst d) * 2 powr of_int (snd d)"

text \<open>\<open>m / 2^k\<close> rounded to the nearest integer, ties to even (\<open>k > 0\<close>).\<close>

definition rne_shift :: "int \<Rightarrow> nat \<Rightarrow> int" where
  "rne_shift m k =
     (let q = m div 2 ^ k; r = m mod 2 ^ k; h = 2 ^ k div 2
      in if r < h then q else if h < r then q + 1 else if even q then q else q + 1)"

definition round64 :: "binary64 \<Rightarrow> binary64" where
  "round64 d =
     (let k = bitlen \<bar>fst d\<bar> - 53
      in if k \<le> 0 then d else (rne_shift (fst d) (nat k), snd d + k))"

text \<open>The Number value of an integer (\<^verbatim>\<open>ToNumber\<close> of a JSON integer).\<close>

definition of_int64 :: "int \<Rightarrow> binary64" where
  "of_int64 n = round64 (n, 0)"

definition mul64 :: "binary64 \<Rightarrow> binary64 \<Rightarrow> binary64" where
  "mul64 x y = round64 (fst x * fst y, snd x + snd y)"

definition add64 :: "binary64 \<Rightarrow> binary64 \<Rightarrow> binary64" where
  "add64 x y =
     (let e = min (snd x) (snd y)
      in round64 (fst x * 2 ^ nat (snd x - e) + fst y * 2 ^ nat (snd y - e), e))"

text \<open>\<^verbatim>\<open>Math.round\<close>: the integer nearest to the value, ties towards \<open>+\<infinity>\<close>.\<close>

definition math_round :: "binary64 \<Rightarrow> int" where
  "math_round d =
     (if 0 \<le> snd d then fst d * 2 ^ nat (snd d)
      else (fst d + 2 ^ (nat (- snd d) - 1)) div 2 ^ nat (- snd d))"

subsection \<open>Evaluation\<close>

lemma bitlen_numeral [simp]:
  "bitlen 1 = 1"
  "bitlen (numeral (Num.Bit0 n)) = bitlen (numeral n) + 1"
  "bitlen (numeral (Num.Bit1 n)) = bitlen (numeral n) + 1"
  by (subst compute_bitlen; simp)+

subsection \<open>Values\<close>

lemma dval_int: "dval (n, 0) = of_int n"
  by (simp add: dval_def)

lemma dval_shift:
  "dval (m * 2 ^ k, e) = dval (m, e + int k)"
  by (simp add: dval_def powr_add powr_realpow)

lemma mul64_exact: "dval (fst x * fst y, snd x + snd y) = dval x * dval y"
  by (simp add: dval_def powr_add)

lemma add64_exact:
  "dval (fst x * 2 ^ nat (snd x - e) + fst y * 2 ^ nat (snd y - e), e) = dval x + dval y"
  if "e \<le> snd x" "e \<le> snd y"
proof -
  have "dval (fst x * 2 ^ nat (snd x - e), e) = dval x" "dval (fst y * 2 ^ nat (snd y - e), e) = dval y"
    using that by (simp_all add: dval_shift)
  moreover have "dval (a + b, e) = dval (a, e) + dval (b, e)" for a b
    by (simp add: dval_def distrib_right)
  ultimately show ?thesis by simp
qed

subsection \<open>Rounding error\<close>

lemma rne_shift_err:
  assumes "0 < k"
  shows "\<bar>of_int (rne_shift m k) - of_int m / 2 ^ k\<bar> \<le> (1 / 2 :: real)"
proof -
  define P :: int where "P = 2 ^ k"
  define q r h where "q = m div P" and "r = m mod P" and "h = P div 2"
  have P2: "P = 2 * h" using assms unfolding P_def h_def by (cases k) simp_all
  have r: "0 \<le> r" "r < P" unfolding r_def P_def by simp_all
  have "m = q * P + r" by (simp add: q_def r_def)
  then have "(of_int m :: real) = of_int q * of_int P + of_int r" by (metis of_int_add of_int_mult)
  then have "of_int m / of_int P = (of_int q + of_int r / of_int P :: real)"
    using P2 r by (simp add: field_simps)
  then have mq: "of_int m / 2 ^ k = (of_int q + of_int r / of_int P :: real)" by (simp add: P_def)
  have R: "rne_shift m k = (if r < h then q else if h < r then q + 1 else if even q then q else q + 1)"
    by (simp add: rne_shift_def Let_def q_def r_def h_def P_def)
  have Pr: "(0::real) < of_int P" using P2 r by simp
  consider "r < h" | "h < r" | "r = h" by linarith
  then show ?thesis
  proof cases
    case 1
    then have "of_int r / of_int P \<le> (1 / 2 :: real)" using P2 r by (simp add: field_simps)
    then show ?thesis using 1 r Pr by (simp add: R mq)
  next
    case 2
    then have "(1 / 2 :: real) \<le> of_int r / of_int P" "of_int r / of_int P < (1 :: real)"
      using P2 r by (simp_all add: field_simps)
    then show ?thesis using 2 by (simp add: R mq)
  next
    case 3
    then have "of_int r / of_int P = (1 / 2 :: real)" using P2 Pr by (simp add: field_simps)
    then show ?thesis using 3 by (simp add: R mq)
  qed
qed

text \<open>One rounding step changes a value by at most half a unit in the 53rd place,
  that is by a relative error of \<open>2^-53\<close>.\<close>

lemma round64_err: "\<bar>dval (round64 d) - dval d\<bar> \<le> \<bar>dval d\<bar> / 2 ^ 53"
proof (cases d)
  case (Pair m e)
  define k where "k = bitlen \<bar>m\<bar> - 53"
  show ?thesis
  proof (cases "k \<le> 0")
    case True
    then show ?thesis using Pair by (simp add: round64_def k_def)
  next
    case False
    let ?n = "rne_shift m (nat k)"
    have R: "round64 d = (?n, e + k)" using Pair False by (simp add: round64_def k_def Let_def)
    have pe: "2 powr (of_int e + of_int k) = 2 powr of_int e * (2 ^ nat k :: real)"
      using False by (simp add: powr_add powr_realpow flip: powr_realpow[of 2 "nat k"])
    have "dval (round64 d) - dval d = (of_int ?n - of_int m / 2 ^ nat k) * (2 powr of_int e * 2 ^ nat k)"
      unfolding R by (simp add: Pair dval_def pe field_simps)
    then have "\<bar>dval (round64 d) - dval d\<bar> \<le> 1 / 2 * (2 powr of_int e * 2 ^ nat k)"
      using rne_shift_err[of "nat k" m] False by (simp add: abs_mult mult_right_mono)
    also have "\<dots> = 2 ^ (nat k + 52) * 2 powr of_int e / 2 ^ 53" by (simp add: power_add)
    also have "\<dots> \<le> \<bar>dval d\<bar> / 2 ^ 53"
    proof -
      have m0: "0 < \<bar>m\<bar>" using False by (auto simp: k_def)
      have "nat (bitlen \<bar>m\<bar> - 1) = nat k + 52" using False by (simp add: k_def)
      then have "(2::int) ^ (nat k + 52) \<le> \<bar>m\<bar>" using bitlen_bounds[OF m0] by simp
      then have "(2::real) ^ (nat k + 52) \<le> \<bar>of_int m\<bar>"
        by (metis of_int_abs of_int_le_iff of_int_numeral of_int_power)
      then show ?thesis using Pair by (simp add: dval_def abs_mult divide_right_mono mult_right_mono)
    qed
    finally show ?thesis .
  qed
qed

lemma mul64_err: "\<bar>dval (mul64 x y) - dval x * dval y\<bar> \<le> \<bar>dval x * dval y\<bar> / 2 ^ 53"
  using round64_err[of "(fst x * fst y, snd x + snd y)"] by (simp add: mul64_def mul64_exact)

lemma add64_err: "\<bar>dval (add64 x y) - (dval x + dval y)\<bar> \<le> \<bar>dval x + dval y\<bar> / 2 ^ 53"
  using round64_err[of "(fst x * 2 ^ nat (snd x - min (snd x) (snd y)) + fst y * 2 ^ nat (snd y - min (snd x) (snd y)),
                         min (snd x) (snd y))"]
  by (simp add: add64_def add64_exact Let_def)

text \<open>Integers below \<open>2^53\<close> in magnitude are doubles.\<close>

lemma of_int64_exact: "\<bar>n\<bar> < 2 ^ 53 \<Longrightarrow> dval (of_int64 n) = of_int n"
  using bitlen_le_iff_power[of "\<bar>n\<bar>" 53] by (simp add: of_int64_def round64_def dval_int)

lemma math_round_floor: "math_round d = \<lfloor>dval d + 1 / 2\<rfloor>"
proof (cases "0 \<le> snd d")
  case True
  define z where "z = fst d * 2 ^ nat (snd d)"
  have "dval d = of_int z"
    using True by (simp add: dval_def z_def powr_realpow flip: powr_realpow[of 2 "nat (snd d)"])
  moreover have "\<lfloor>(of_int z :: real) + 1 / 2\<rfloor> = z" by (subst floor_eq_iff) simp
  ultimately show ?thesis using True by (simp add: math_round_def z_def)
next
  case False
  define k where "k = nat (- snd d)"
  have k: "0 < k" "snd d = - int k" using False by (simp_all add: k_def)
  have eq: "dval d + 1 / 2 = of_int (fst d + 2 ^ (k - 1)) / of_int (2 ^ k)"
  proof -
    have "(2::real) ^ k = 2 * 2 ^ (k - 1)" using k(1) by (cases k) simp_all
    moreover have "dval d = of_int (fst d) / 2 ^ k" using k by (simp add: dval_def powr_minus powr_realpow divide_inverse)
    ultimately show ?thesis by (simp add: field_simps)
  qed
  have M: "math_round d = (fst d + 2 ^ (k - 1)) div 2 ^ k" using False by (simp add: math_round_def k_def)
  show ?thesis unfolding M eq by (rule floor_divide_of_int_eq[symmetric])
qed

end
