(* ===== verification/Priority_Calculator.thy ===== *)
theory Priority_Calculator
  imports Complex_Main Js_Value Binary64
begin

text \<open>
  The priority calculator, \<^verbatim>\<open>calculateOverallPriority(scores)\<close>
  (\<^verbatim>\<open>api/triage.js\<close> and its newer revision): the weighted average
  \<open>0.35 \<cdot> business + 0.25 \<cdot> strategic + 0.25 \<cdot> cross-client + 0.15 \<cdot> effort\<close>,
  rounded half up by \<^verbatim>\<open>Math.round\<close>. Each score is read from the parsed
  \<^verbatim>\<open>scores\<close> object with the code's \<^verbatim>\<open>|| 0\<close> defaults; the effort score falls back
  to the size table and then to 50. The sum is computed as the code computes it, in
  binary64 (\<open>Binary64\<close>): each weight is the double nearest to its decimal literal,
  each product and each of the three additions (left to right) is rounded, and
  \<^verbatim>\<open>Math.round\<close> rounds the double.
\<close>

definition effort_scores :: "(string \<times> int) list" where
  "effort_scores = [(''XS'', 100), (''S'', 80), (''M'', 60), (''L'', 40), (''XL'', 20)]"

text \<open>\<^verbatim>\<open>effortScores[scores.effort_size]\<close>: the key is \<^verbatim>\<open>ToString\<close> of the value,
  \<^verbatim>\<open>"undefined"\<close> when the field is absent; the object literal inherits
  \<^verbatim>\<open>Object.prototype\<close>.\<close>

definition prop_key :: "jsval option \<Rightarrow> string" where
  "prop_key v = (case v of None \<Rightarrow> ''undefined'' | Some x \<Rightarrow> to_str x)"

definition effort_lookup :: "jsval option \<Rightarrow> jsval option" where
  "effort_lookup sz = get_prop (JObj (map (\<lambda>(k, n). (k, JNum n)) effort_scores)) (prop_key sz)"

declare effort_scores_def [js_eval] prop_key_def [js_eval] effort_lookup_def [js_eval]

text \<open>The weights of lines 610--613 (and 450--453 of the older revision): the
  doubles nearest to \<open>0.35\<close>, \<open>0.25\<close> and \<open>0.15\<close>.\<close>

definition business_weight :: binary64 where
  "business_weight = (3152519739159347, -53)"

definition strategic_weight :: binary64 where
  "strategic_weight = (1, -2)"

definition cross_client_weight :: binary64 where
  "cross_client_weight = (1, -2)"

definition effort_weight :: binary64 where
  "effort_weight = (5404319552844595, -55)"

text \<open>\<^verbatim>\<open>overall\<close> (lines 626--630) for the four scores the code has converted to
  numbers, and \<^verbatim>\<open>Math.round(overall)\<close> (line 632).\<close>

definition overall_sum :: "int \<Rightarrow> int \<Rightarrow> int \<Rightarrow> int \<Rightarrow> binary64" where
  "overall_sum b s c e =
     add64 (add64 (add64 (mul64 (of_int64 b) business_weight) (mul64 (of_int64 s) strategic_weight))
                  (mul64 (of_int64 c) cross_client_weight))
           (mul64 (of_int64 e) effort_weight)"

definition weighted_round :: "int \<Rightarrow> int \<Rightarrow> int \<Rightarrow> int \<Rightarrow> int" where
  "weighted_round b s c e = math_round (overall_sum b s c e)"

declare business_weight_def [js_eval] strategic_weight_def [js_eval] cross_client_weight_def [js_eval]
  effort_weight_def [js_eval] overall_sum_def [js_eval] weighted_round_def [js_eval]
  add64_def [js_eval] mul64_def [js_eval] of_int64_def [js_eval] round64_def [js_eval] rne_shift_def [js_eval]
  math_round_def [js_eval]

text \<open>The weighted score of a \<^verbatim>\<open>scores\<close> value that is not \<^verbatim>\<open>null\<close>
  (\<open>None\<close> when the result is \<^verbatim>\<open>NaN\<close>).\<close>

definition overall_score :: "jsval \<Rightarrow> int option" where
  "overall_score scores =
     (let effort = js_or_d (js_or (get_prop scores ''effort_score'')
                                  (effort_lookup (get_prop scores ''effort_size''))) (JNum 50);
          b = to_number (js_or_d (get_prop scores ''business_impact'') (JNum 0));
          s = to_number (js_or_d (get_prop scores ''strategic_fit'') (JNum 0));
          c = to_number (js_or_d (get_prop scores ''cross_client_value'') (JNum 0));
          e = to_number effort
      in case (b, s, c, e) of
           (Some b', Some s', Some c', Some e') \<Rightarrow> Some (weighted_round b' s' c' e')
         | _ \<Rightarrow> None)"

text \<open>\<^verbatim>\<open>calculateOverallPriority(scores)\<close>: reading a field of \<^verbatim>\<open>null\<close> throws.\<close>

definition calculate_overall_priority :: "jsval \<Rightarrow> js_error + int option" where
  "calculate_overall_priority scores =
     (if scores = JNull then Inl TypeError else Inr (overall_score scores))"

text \<open>The recommendation bands of the prompt and of the local test script.\<close>

definition recommendation_band :: "int \<Rightarrow> string" where
  "recommendation_band p =
     (if p \<ge> 80 then ''Fast Track''
      else if p \<ge> 50 then ''Standard''
      else if p \<ge> 25 then ''On Hold''
      else ''Low'')"

declare overall_score_def [js_eval] calculate_overall_priority_def [js_eval]
  recommendation_band_def [js_eval]

text \<open>A score field the calculator reads in range: absent, falsy (it then counts as 0),
  or a number from 0 to 100.\<close>

fun score_val_ok :: "jsval \<Rightarrow> bool" where
  "score_val_ok (JNum n) = (0 \<le> n \<and> n \<le> 100)"
| "score_val_ok v = (\<not> js_truthy v)"

definition score_ok :: "jsval option \<Rightarrow> bool" where
  "score_ok x = (case x of None \<Rightarrow> True | Some v \<Rightarrow> score_val_ok v)"

definition score_fields :: "string list" where
  "score_fields = [''business_impact'', ''strategic_fit'', ''cross_client_value'', ''effort_score'']"

declare score_ok_def [js_eval] score_fields_def [js_eval]

subsection \<open>Arithmetic of the weighted average\<close>

lemma weights_nearest:
  "\<bar>dval business_weight - 35 / 100\<bar> < 1 / 2 ^ 55"
  "dval strategic_weight = 25 / 100" "dval cross_client_weight = 25 / 100"
  "\<bar>dval effort_weight - 15 / 100\<bar> < 1 / 2 ^ 56"
  by (simp_all add: dval_def business_weight_def strategic_weight_def cross_client_weight_def
                    effort_weight_def powr_minus_divide powr_realpow)

text \<open>The error of each term and of each addition, for scores up to \<open>10^9\<close> in
  magnitude.\<close>

lemma abs_int_real: "\<bar>n\<bar> \<le> 10 ^ 9 \<Longrightarrow> \<bar>of_int n :: real\<bar> \<le> 10 ^ 9"
  by (metis of_int_abs of_int_le_numeral_power_cancel_iff)

lemma mul64_near:
  assumes "\<bar>n\<bar> \<le> 10 ^ 9" "\<bar>dval w - a\<bar> \<le> 1 / 2 ^ 55" "\<bar>a\<bar> \<le> 1"
  shows "\<bar>dval (mul64 (of_int64 n) w) - a * of_int n\<bar> \<le> 10 ^ 9 / 2 ^ 50"
proof -
  have n: "\<bar>of_int n :: real\<bar> \<le> 10 ^ 9" using assms(1) by (rule abs_int_real)
  have dn: "dval (of_int64 n) = of_int n" using assms(1) by (intro of_int64_exact) simp
  have "(1 :: real) / 2 ^ 55 \<le> 1" by simp
  then have w: "\<bar>dval w\<bar> \<le> 2" using assms(2,3) by linarith
  have "\<bar>of_int n * dval w\<bar> \<le> 10 ^ 9 * 2"
    unfolding abs_mult using n w by (intro mult_mono) simp_all
  then have r: "\<bar>dval (mul64 (of_int64 n) w) - of_int n * dval w\<bar> \<le> 10 ^ 9 * 2 / 2 ^ 53"
    using mul64_err[of "of_int64 n" w] dn by simp
  have "\<bar>of_int n * dval w - a * of_int n\<bar> = \<bar>of_int n\<bar> * \<bar>dval w - a\<bar>"
    by (simp add: abs_mult[symmetric] algebra_simps)
  also have "\<dots> \<le> 10 ^ 9 * (1 / 2 ^ 55)" using n assms(2) by (intro mult_mono) simp_all
  finally have t: "\<bar>of_int n * dval w - a * of_int n\<bar> \<le> 10 ^ 9 * (1 / 2 ^ 55)" .
  have "\<bar>dval (mul64 (of_int64 n) w) - a * of_int n\<bar>
        \<le> \<bar>dval (mul64 (of_int64 n) w) - of_int n * dval w\<bar> + \<bar>of_int n * dval w - a * of_int n\<bar>"
    using abs_triangle_ineq[of "dval (mul64 (of_int64 n) w) - of_int n * dval w" "of_int n * dval w - a * of_int n"]
    by simp
  then show ?thesis using r t by simp
qed

lemma add64_near:
  assumes "\<bar>dval x - X\<bar> \<le> ex" "\<bar>dval y - Y\<bar> \<le> ey" "\<bar>X\<bar> + \<bar>Y\<bar> + ex + ey \<le> 8 * 10 ^ 9"
  shows "\<bar>dval (add64 x y) - (X + Y)\<bar> \<le> ex + ey + 10 ^ 9 / 2 ^ 50"
proof -
  have "\<bar>dval x + dval y\<bar> \<le> 8 * 10 ^ 9" using assms by linarith
  then have "\<bar>dval (add64 x y) - (dval x + dval y)\<bar> \<le> 10 ^ 9 / 2 ^ 50"
    using add64_err[of x y] by simp
  then show ?thesis using assms(1,2) by linarith
qed

text \<open>The double \<^verbatim>\<open>overall\<close> stays within \<open>7 \<cdot> 10^9 / 2^50\<close> (about
  \<open>6 \<cdot> 10^-6\<close>) of the exact weighted average.\<close>

lemma overall_sum_err:
  assumes "\<bar>b\<bar> \<le> 10 ^ 9" "\<bar>s\<bar> \<le> 10 ^ 9" "\<bar>c\<bar> \<le> 10 ^ 9" "\<bar>e\<bar> \<le> 10 ^ 9"
  shows "\<bar>dval (overall_sum b s c e) - of_int (35 * b + 25 * s + 25 * c + 15 * e) / 100\<bar> \<le> 7 * (10 ^ 9 / 2 ^ 50)"
proof -
  define \<epsilon> :: real where "\<epsilon> = 10 ^ 9 / 2 ^ 50"
  have w: "\<bar>dval business_weight - 35 / 100\<bar> \<le> 1 / 2 ^ 55" "\<bar>dval strategic_weight - 25 / 100\<bar> \<le> 1 / 2 ^ 55"
    "\<bar>dval cross_client_weight - 25 / 100\<bar> \<le> 1 / 2 ^ 55" "\<bar>dval effort_weight - 15 / 100\<bar> \<le> 1 / 2 ^ 55"
    using weights_nearest by simp_all
  have B: "\<bar>of_int b :: real\<bar> \<le> 10 ^ 9" "\<bar>of_int s :: real\<bar> \<le> 10 ^ 9"
    "\<bar>of_int c :: real\<bar> \<le> 10 ^ 9" "\<bar>of_int e :: real\<bar> \<le> 10 ^ 9" using assms by (simp_all add: abs_int_real)
  have p1: "\<bar>dval (mul64 (of_int64 b) business_weight) - 35 / 100 * of_int b\<bar> \<le> \<epsilon>"
    using mul64_near[OF assms(1) w(1)] by (simp add: \<epsilon>_def)
  have p2: "\<bar>dval (mul64 (of_int64 s) strategic_weight) - 25 / 100 * of_int s\<bar> \<le> \<epsilon>"
    using mul64_near[OF assms(2) w(2)] by (simp add: \<epsilon>_def)
  have p3: "\<bar>dval (mul64 (of_int64 c) cross_client_weight) - 25 / 100 * of_int c\<bar> \<le> \<epsilon>"
    using mul64_near[OF assms(3) w(3)] by (simp add: \<epsilon>_def)
  have p4: "\<bar>dval (mul64 (of_int64 e) effort_weight) - 15 / 100 * of_int e\<bar> \<le> \<epsilon>"
    using mul64_near[OF assms(4) w(4)] by (simp add: \<epsilon>_def)
  have e0: "0 \<le> \<epsilon>" "\<epsilon> \<le> 1" by (simp_all add: \<epsilon>_def)
  have a1: "\<bar>dval (add64 (mul64 (of_int64 b) business_weight) (mul64 (of_int64 s) strategic_weight))
              - (35 / 100 * of_int b + 25 / 100 * of_int s)\<bar> \<le> 3 * \<epsilon>"
    using add64_near[OF p1 p2] B e0 unfolding \<epsilon>_def by (simp add: abs_mult)
  have a2: "\<bar>dval (add64 (add64 (mul64 (of_int64 b) business_weight) (mul64 (of_int64 s) strategic_weight))
                          (mul64 (of_int64 c) cross_client_weight))
              - (35 / 100 * of_int b + 25 / 100 * of_int s + 25 / 100 * of_int c)\<bar> \<le> 5 * \<epsilon>"
    using add64_near[OF a1 p3] B e0 unfolding \<epsilon>_def by (simp add: abs_mult)
  have S: "\<bar>dval (overall_sum b s c e)
              - (35 / 100 * of_int b + 25 / 100 * of_int s + 25 / 100 * of_int c + 15 / 100 * of_int e)\<bar> \<le> 7 * \<epsilon>"
    using add64_near[OF a2 p4] B e0 unfolding \<epsilon>_def overall_sum_def by (simp add: abs_mult)
  have eq: "of_int (35 * b + 25 * s + 25 * c + 15 * e) / (100 :: real) =
            35 / 100 * of_int b + 25 / 100 * of_int s + 25 / 100 * of_int c + 15 / 100 * of_int e"
    by simp
  show ?thesis unfolding eq \<epsilon>_def[symmetric] by (rule S)
qed

text \<open>\<^verbatim>\<open>Math.round\<close> of a value within \<open>1/20\<close> of a multiple \<open>N / 100\<close>
  of \<open>1/20\<close>: the nearest integer to \<open>N / 100\<close> (ties up), except at a tie, where
  it may be one less.\<close>

lemma hundredths_round:
  fixes x :: real
  assumes "\<bar>x - of_int N / 100\<bar> < 1 / 20" "5 dvd N"
  shows "\<lfloor>x + 1 / 2\<rfloor> = (N + 50) div 100 \<or> N mod 100 = 50 \<and> \<lfloor>x + 1 / 2\<rfloor> = (N + 50) div 100 - 1"
proof -
  define q r where "q = (N + 50) div 100" and "r = (N + 50) mod 100"
  have qr: "N + 50 = 100 * q + r" "0 \<le> r" "r < 100" by (simp_all add: q_def r_def)
  have "r = (N + 50) - 100 * q" using qr(1) by simp
  moreover have "5 dvd (N + 50) - 100 * q" using assms(2) by (intro dvd_diff dvd_add) simp_all
  ultimately obtain j where j: "r = 5 * j" by (auto elim: dvdE)
  have x: "x + 1 / 2 = of_int q + of_int r / 100 + (x - of_int N / 100)"
  proof -
    have "(of_int N :: real) + 50 = 100 * of_int q + of_int r" using qr(1) by (metis of_int_add of_int_mult of_int_numeral)
    then show ?thesis by (simp add: field_simps)
  qed
  have y: "- (1 / 20) < x - of_int N / 100" "x - of_int N / 100 < 1 / 20" using assms(1) by linarith+
  show ?thesis
  proof (cases "r = 0")
    case True
    define k where "k = q - 1"
    then have "N = 100 * k + 50" using qr(1) True by simp
    then have "N mod 100 = 50" by simp
    moreover have "of_int q - 1 \<le> x + 1 / 2" "x + 1 / 2 < of_int q + 1" using x y True by simp_all
    then have "\<lfloor>x + 1 / 2\<rfloor> = q \<or> \<lfloor>x + 1 / 2\<rfloor> = q - 1" by (cases "of_int q \<le> x + 1 / 2") (simp_all add: floor_eq_iff)
    ultimately show ?thesis by (auto simp: q_def)
  next
    case False
    then have "5 \<le> r" "r \<le> 95" using j qr(2,3) by simp_all
    then have "(5 :: real) \<le> of_int r" "of_int r \<le> (95 :: real)" by simp_all
    then have "of_int q \<le> x + 1 / 2" "x + 1 / 2 < of_int q + 1" using x y by simp_all
    then have "\<lfloor>x + 1 / 2\<rfloor> = q" by (simp add: floor_eq_iff)
    then show ?thesis by (simp add: q_def)
  qed
qed

lemma weighted_sum_mult5: "5 dvd (35 * b + 25 * s + 25 * c + 15 * e :: int)"
  unfolding dvd_def by (rule exI[of _ "7 * b + 5 * s + 5 * c + 3 * e"]) simp

lemma weighted_round_near:
  assumes "\<bar>b\<bar> \<le> 10 ^ 9" "\<bar>s\<bar> \<le> 10 ^ 9" "\<bar>c\<bar> \<le> 10 ^ 9" "\<bar>e\<bar> \<le> 10 ^ 9"
  defines "N \<equiv> 35 * b + 25 * s + 25 * c + 15 * e"
  shows "weighted_round b s c e = (N + 50) div 100 \<or>
         N mod 100 = 50 \<and> weighted_round b s c e = (N + 50) div 100 - 1"
proof -
  have "\<bar>dval (overall_sum b s c e) - of_int N / 100\<bar> < 1 / 20"
    using overall_sum_err[OF assms(1-4)] unfolding N_def by simp
  from hundredths_round[OF this] show ?thesis
    unfolding N_def weighted_round_def math_round_floor using weighted_sum_mult5 by simp
qed

lemma weighted_round_bounds:
  assumes "0 \<le> b" "b \<le> 100" "0 \<le> s" "s \<le> 100" "0 \<le> c" "c \<le> 100" "0 \<le> e" "e \<le> 100"
  shows "0 \<le> weighted_round b s c e \<and> weighted_round b s c e \<le> 100"
proof -
  define N where "N = 35 * b + 25 * s + 25 * c + 15 * e"
  have "0 \<le> N" "N \<le> 10000" using assms by (simp_all add: N_def)
  moreover have "0 < (N + 50) div 100" if "N mod 100 = 50"
  proof -
    have "N = N div 100 * 100 + 50" using that div_mult_mod_eq[of N 100] by simp
    moreover have "0 \<le> N div 100" using \<open>0 \<le> N\<close> by simp
    ultimately have "100 \<le> N + 50" by linarith
    then have "100 div 100 \<le> (N + 50) div 100" by (rule zdiv_mono1) simp
    then show ?thesis by simp
  qed
  ultimately show ?thesis using weighted_round_near[of b s c e] assms unfolding N_def[symmetric] by auto
qed

subsection \<open>Each term of the sum\<close>

lemma calculator_keys_plain [simp]:
  "plain_key ''business_impact''" "plain_key ''strategic_fit''" "plain_key ''cross_client_value''"
  "plain_key ''effort_score''" "plain_key ''effort_size''"
  by (simp_all add: plain_key_def js_eval)

lemma score_term_range:
  "score_ok x \<Longrightarrow> \<exists>n. to_number (js_or_d x (JNum 0)) = Some n \<and> 0 \<le> n \<and> n \<le> 100"
proof (cases x)
  case (Some v)
  then show "score_ok x \<Longrightarrow> ?thesis" by (cases v) (auto simp: score_ok_def)
qed (simp add: score_ok_def)

text \<open>The size table answers a key with a table score, or not at all unless the key names
  a property of \<^verbatim>\<open>Object.prototype\<close>.\<close>

lemma effort_lookup_range:
  assumes "prop_key sz \<notin> set object_proto_keys"
  shows "effort_lookup sz = None \<or> (\<exists>n. effort_lookup sz = Some (JNum n) \<and> 20 \<le> n \<and> n \<le> 100)"
  using assms unfolding effort_lookup_def
  by (auto simp: get_prop.simps(1) inherited_def effort_scores_def split: option.splits if_splits)

lemma effort_term_range:
  assumes "score_ok es" and "prop_key sz \<notin> set object_proto_keys"
  shows "\<exists>n. to_number (js_or_d (js_or es (effort_lookup sz)) (JNum 50)) = Some n \<and> 0 \<le> n \<and> n \<le> 100"
proof (cases "truthy es")
  case True
  then obtain v where "es = Some v" "js_truthy v" by (cases es) auto
  with assms(1) show ?thesis by (cases v) (auto simp: score_ok_def)
next
  case False
  then have "js_or es (effort_lookup sz) = effort_lookup sz" by (simp add: js_or_def)
  with effort_lookup_range[OF assms(2)] show ?thesis by auto
qed

subsection \<open>Properties of the calculator\<close>

text \<open>C1: with every score field absent, falsy or in \<open>[0, 100]\<close>, and an
  \<^verbatim>\<open>effort_size\<close> that names no property of \<^verbatim>\<open>Object.prototype\<close>, the calculator
  returns a number (never \<^verbatim>\<open>NaN\<close>) in \<open>[0, 100]\<close>.\<close>

theorem overall_score_bounds:
  assumes "\<forall>k \<in> set score_fields. score_ok (map_of kvs k)"
    and "prop_key (map_of kvs ''effort_size'') \<notin> set object_proto_keys"
  shows "\<exists>n. calculate_overall_priority (JObj kvs) = Inr (Some n) \<and> 0 \<le> n \<and> n \<le> 100"
proof -
  have ok: "score_ok (get_prop (JObj kvs) k)" if "k \<in> set score_fields" for k
    using assms(1) that by (auto simp: score_fields_def)
  have sz: "prop_key (get_prop (JObj kvs) ''effort_size'') \<notin> set object_proto_keys"
    using assms(2) by simp
  obtain b where b: "to_number (js_or_d (get_prop (JObj kvs) ''business_impact'') (JNum 0)) = Some b" "0 \<le> b" "b \<le> 100"
    using score_term_range ok[of "''business_impact''"] by (auto simp: score_fields_def)
  obtain s where s: "to_number (js_or_d (get_prop (JObj kvs) ''strategic_fit'') (JNum 0)) = Some s" "0 \<le> s" "s \<le> 100"
    using score_term_range ok[of "''strategic_fit''"] by (auto simp: score_fields_def)
  obtain c where c: "to_number (js_or_d (get_prop (JObj kvs) ''cross_client_value'') (JNum 0)) = Some c" "0 \<le> c" "c \<le> 100"
    using score_term_range ok[of "''cross_client_value''"] by (auto simp: score_fields_def)
  obtain e where e: "to_number (js_or_d (js_or (get_prop (JObj kvs) ''effort_score'')
                        (effort_lookup (get_prop (JObj kvs) ''effort_size''))) (JNum 50)) = Some e" "0 \<le> e" "e \<le> 100"
    using effort_term_range[OF ok[of "''effort_score''"] sz] by (auto simp: score_fields_def)
  have "calculate_overall_priority (JObj kvs) = Inr (Some (weighted_round b s c e))"
    using b(1) s(1) c(1) e(1) by (simp add: calculate_overall_priority_def overall_score_def Let_def)
  with weighted_round_bounds[OF b(2,3) s(2,3) c(2,3) e(2,3)] show ?thesis by blast
qed

theorem overall_score_bounds_witness:
  "score_ok (map_of [(''business_impact'', JNum 90), (''strategic_fit'', JNum 85),
      (''cross_client_value'', JNum 80), (''effort_size'', JStr ''S'')] ''business_impact'') \<and>
   prop_key (map_of [(''business_impact'', JNum 90), (''strategic_fit'', JNum 85),
      (''cross_client_value'', JNum 80), (''effort_size'', JStr ''S'')] ''effort_size'') \<notin> set object_proto_keys \<and>
   (\<exists>n. calculate_overall_priority (JObj [(''business_impact'', JNum 90), (''strategic_fit'', JNum 85),
      (''cross_client_value'', JNum 80), (''effort_size'', JStr ''S'')]) = Inr (Some n) \<and> 0 \<le> n \<and> n \<le> 100)"
proof -
  let ?kvs = "[(''business_impact'', JNum 90), (''strategic_fit'', JNum 85),
      (''cross_client_value'', JNum 80), (''effort_size'', JStr ''S'')]"
  have h1: "\<forall>k \<in> set score_fields. score_ok (map_of ?kvs k)" by (simp add: js_eval)
  have h2: "prop_key (map_of ?kvs ''effort_size'') \<notin> set object_proto_keys" by (simp add: js_eval)
  show ?thesis using h2 overall_score_bounds[OF h1 h2] by (simp add: js_eval)
qed

text \<open>The two worked examples of the specification: scores 90, 85, 80 with effort
  \<^verbatim>\<open>S\<close> give 85, and 30, 40, 35 with effort \<^verbatim>\<open>L\<close> give 35.\<close>

theorem calculate_overall_priority_examples:
  "calculate_overall_priority (JObj [(''business_impact'', JNum 90), (''strategic_fit'', JNum 85),
      (''cross_client_value'', JNum 80), (''effort_size'', JStr ''S'')]) = Inr (Some 85) \<and>
   calculate_overall_priority (JObj [(''business_impact'', JNum 30), (''strategic_fit'', JNum 40),
      (''cross_client_value'', JNum 35), (''effort_size'', JStr ''L'')]) = Inr (Some 35)"
  by (simp add: js_eval)

text \<open>C23: for scores up to \<open>10^9\<close> in magnitude, the code's \<^verbatim>\<open>Math.round\<close> of
  the binary64 sum is the integer nearest to the exact weighted average
  \<open>(35 b + 25 s + 25 c + 15 e) / 100\<close>, ties rounded up, except when that average is
  exactly halfway between two integers, where the rounding errors of the double
  arithmetic may make it one less; they do for business impact 1 and effort score 41
  (average 6.5, result 6).\<close>

theorem weighted_round_ties:
  assumes "\<bar>b\<bar> \<le> 10 ^ 9" "\<bar>s\<bar> \<le> 10 ^ 9" "\<bar>c\<bar> \<le> 10 ^ 9" "\<bar>e\<bar> \<le> 10 ^ 9"
  shows "(weighted_round b s c e = (35 * b + 25 * s + 25 * c + 15 * e + 50) div 100 \<or>
          (35 * b + 25 * s + 25 * c + 15 * e) mod 100 = 50 \<and>
          weighted_round b s c e = (35 * b + 25 * s + 25 * c + 15 * e + 50) div 100 - 1) \<and>
         weighted_round 1 0 0 41 = 6 \<and> (35 * 1 + 15 * 41 + 50) div 100 = (7 :: int)"
proof -
  have "weighted_round 1 0 0 41 = 6"
    by (simp add: weighted_round_def overall_sum_def business_weight_def strategic_weight_def
                  cross_client_weight_def effort_weight_def add64_def mul64_def of_int64_def round64_def
                  rne_shift_def math_round_def Let_def)
  then show ?thesis using weighted_round_near[OF assms] by simp
qed

theorem weighted_round_ties_witness:
  "weighted_round 1 0 0 41 = (35 * 1 + 25 * 0 + 25 * 0 + 15 * 41 + 50) div 100 - 1 \<and>
   (35 * 1 + 25 * 0 + 25 * 0 + 15 * 41) mod 100 = (50 :: int)"
  using weighted_round_ties[of 1 0 0 41] by simp

text \<open>The result is \<^verbatim>\<open>NaN\<close>, not a number in \<open>[0, 100]\<close>, when a reply
  gives a score as a word, or an \<^verbatim>\<open>effort_size\<close> that names an inherited property
  (the table lookup then finds a function).\<close>

theorem calculate_overall_priority_nan:
  "calculate_overall_priority (JObj [(''business_impact'', JStr ''high'')]) = Inr None \<and>
   calculate_overall_priority (JObj [(''effort_size'', JStr ''constructor'')]) = Inr None"
  by (simp add: js_eval)

text \<open>An explicit \<^verbatim>\<open>effort_score\<close> of 0 counts as missing: \<^verbatim>\<open>||\<close>
  replaces it with the table score of \<^verbatim>\<open>effort_size\<close> (or 50).\<close>

theorem zero_effort_score_ignored:
  assumes "map_of kvs ''effort_score'' = Some (JNum 0)"
  shows "overall_score (JObj kvs) = overall_score (JObj (AList.delete ''effort_score'' kvs))"
  using assms by (simp add: overall_score_def delete_conv')

theorem zero_effort_score_ignored_witness:
  "map_of [(''effort_score'', JNum 0), (''effort_size'', JStr ''L''), (''business_impact'', JNum 50)]
     ''effort_score'' = Some (JNum 0) \<and>
   overall_score (JObj [(''effort_score'', JNum 0), (''effort_size'', JStr ''L''), (''business_impact'', JNum 50)])
     = overall_score (JObj [(''effort_size'', JStr ''L''), (''business_impact'', JNum 50)]) \<and>
   overall_score (JObj [(''effort_size'', JStr ''L''), (''business_impact'', JNum 50)]) = Some 24"
proof -
  let ?kvs = "[(''effort_score'', JNum 0), (''effort_size'', JStr ''L''), (''business_impact'', JNum 50)]"
  have h: "map_of ?kvs ''effort_score'' = Some (JNum 0)" by simp
  have "overall_score (JObj ?kvs) = overall_score (JObj (AList.delete ''effort_score'' ?kvs))"
    by (rule zero_effort_score_ignored[OF h])
  moreover have "AList.delete ''effort_score'' ?kvs = [(''effort_size'', JStr ''L''), (''business_impact'', JNum 50)]"
    by simp
  moreover have "overall_score (JObj [(''effort_size'', JStr ''L''), (''business_impact'', JNum 50)]) = Some 24"
    by (simp add: js_eval)
  ultimately show ?thesis using h by simp
qed

end
