(* ===== verification/Json_Text.thy ===== *)
theory Json_Text
  imports Js_Value
begin

text \<open>
  \<^verbatim>\<open>JSON.parse\<close> and \<^verbatim>\<open>JSON.stringify\<close>, the ECMAScript built-ins the response
  parser relies on. They are not code of the repository; the model follows the JSON
  grammar (RFC 8259) as the built-ins implement it: a recursive-descent parser over the
  characters, with whitespace (space, tab, LF, CR) between tokens, objects whose
  duplicate keys keep the first position and the last value, and a compact printer.
  Numbers are integer literals: a fraction or an exponent is outside the model and the
  parser rejects it. A \<^verbatim>\<open>\\u\<close> escape denotes a byte (code below 256).
  The parser runs on fuel; \<open>json_parse\<close> gives it \<open>2 * length s + 2\<close> units.
\<close>

type_synonym 'a parser = "string \<Rightarrow> ('a \<times> string) option"

definition json_ws :: "char \<Rightarrow> bool" where
  "json_ws c \<longleftrightarrow> c \<in> {CHR 0x20, CHR 0x09, CHR 0x0A, CHR 0x0D}"

definition skip_ws :: "string \<Rightarrow> string" where
  "skip_ws s = dropWhile json_ws s"

declare json_ws_def [js_eval] skip_ws_def [js_eval]

subsection \<open>Strings\<close>

definition hex_val :: "char \<Rightarrow> nat option" where
  "hex_val c =
     (let n = (of_char c :: nat) in
      if 48 \<le> n \<and> n \<le> 57 then Some (n - 48)
      else if 97 \<le> n \<and> n \<le> 102 then Some (n - 87)
      else if 65 \<le> n \<and> n \<le> 70 then Some (n - 55)
      else None)"

definition unescape :: "char \<Rightarrow> char option" where
  "unescape e =
     (if e = CHR 0x22 then Some (CHR 0x22)
      else if e = CHR 0x5C then Some (CHR 0x5C)
      else if e = CHR ''/'' then Some (CHR ''/'')
      else if e = CHR ''b'' then Some (CHR 0x08)
      else if e = CHR ''f'' then Some (CHR 0x0C)
      else if e = CHR ''n'' then Some (CHR 0x0A)
      else if e = CHR ''r'' then Some (CHR 0x0D)
      else if e = CHR ''t'' then Some (CHR 0x09)
      else None)"

definition unicode_escape :: "string \<Rightarrow> char option" where
  "unicode_escape h =
     (case those (map hex_val h) of
        Some [a, b, c, d] \<Rightarrow>
          (let v = ((a * 16 + b) * 16 + c) * 16 + d in if v < 256 then Some (char_of v) else None)
      | _ \<Rightarrow> None)"

declare hex_val_def [js_eval] unescape_def [js_eval] unicode_escape_def [js_eval]

text \<open>The body of a string literal after its opening quote; \<open>acc\<close> holds the characters
  read so far, reversed. A raw control character ends the parse with an error.\<close>

fun parse_str_body :: "string \<Rightarrow> string parser" where
  "parse_str_body acc [] = None"
| "parse_str_body acc (c # cs) =
     (if c = CHR 0x22 then Some (rev acc, cs)
      else if c = CHR 0x5C then
        (case cs of
           [] \<Rightarrow> None
         | e # cs' \<Rightarrow>
             if e = CHR ''u'' then
               (case unicode_escape (take 4 cs') of
                  Some d \<Rightarrow> parse_str_body (d # acc) (drop 4 cs')
                | None \<Rightarrow> None)
             else
               (case unescape e of
                  Some d \<Rightarrow> parse_str_body (d # acc) cs'
                | None \<Rightarrow> None))
      else if (of_char c :: nat) < 32 then None
      else parse_str_body (c # acc) cs)"

subsection \<open>Numbers\<close>

definition parse_num :: "jsval parser" where
  "parse_num s =
     (let neg = (s \<noteq> [] \<and> hd s = CHR ''-'');
          s1 = (if neg then tl s else s);
          ds = takeWhile is_digit s1;
          rest = dropWhile is_digit s1
      in if ds = [] then None
         else if hd ds = CHR ''0'' \<and> tl ds \<noteq> [] then None
         else if rest \<noteq> [] \<and> hd rest \<in> {CHR ''.'', CHR ''e'', CHR ''E''} then None
         else Some (JNum ((if neg then -1 else 1) * int (digits_val ds)), rest))"

declare parse_num_def [js_eval]

subsection \<open>Values, members and elements\<close>

fun pvalue :: "nat \<Rightarrow> jsval parser"
and pmembers :: "nat \<Rightarrow> (string \<times> jsval) list \<Rightarrow> (string \<times> jsval) list parser"
and pelems :: "nat \<Rightarrow> jsval list \<Rightarrow> jsval list parser" where
  "pvalue 0 s = None"
| "pvalue (Suc n) s =
     (case skip_ws s of
        [] \<Rightarrow> None
      | c # cs \<Rightarrow>
          if c = CHR ''{'' then
            (case skip_ws cs of
               [] \<Rightarrow> None
             | d # ds \<Rightarrow>
                 if d = CHR ''}'' then Some (JObj [], ds)
                 else map_option (\<lambda>(kvs, r). (JObj kvs, r)) (pmembers n [] cs))
          else if c = CHR ''['' then
            (case skip_ws cs of
               [] \<Rightarrow> None
             | d # ds \<Rightarrow>
                 if d = CHR '']'' then Some (JArr [], ds)
                 else map_option (\<lambda>(xs, r). (JArr xs, r)) (pelems n [] cs))
          else if c = CHR 0x22 then map_option (\<lambda>(str, r). (JStr str, r)) (parse_str_body [] cs)
          else if prefix ''true'' (c # cs) then Some (JBool True, drop 4 (c # cs))
          else if prefix ''false'' (c # cs) then Some (JBool False, drop 5 (c # cs))
          else if prefix ''null'' (c # cs) then Some (JNull, drop 4 (c # cs))
          else parse_num (c # cs))"
| "pmembers 0 acc s = None"
| "pmembers (Suc n) acc s =
     (case skip_ws s of
        [] \<Rightarrow> None
      | c # cs \<Rightarrow>
          if c \<noteq> CHR 0x22 then None
          else
            (case parse_str_body [] cs of
               None \<Rightarrow> None
             | Some (k, r) \<Rightarrow>
                 (case skip_ws r of
                    [] \<Rightarrow> None
                  | d # r2 \<Rightarrow>
                      if d \<noteq> CHR '':'' then None
                      else
                        (case pvalue n r2 of
                           None \<Rightarrow> None
                         | Some (v, r3) \<Rightarrow>
                             (case skip_ws r3 of
                                [] \<Rightarrow> None
                              | e # r4 \<Rightarrow>
                                  if e = CHR '','' then pmembers n (AList.update k v acc) r4
                                  else if e = CHR ''}'' then Some (AList.update k v acc, r4)
                                  else None)))))"
| "pelems 0 acc s = None"
| "pelems (Suc n) acc s =
     (case pvalue n s of
        None \<Rightarrow> None
      | Some (v, r) \<Rightarrow>
          (case skip_ws r of
             [] \<Rightarrow> None
           | e # r2 \<Rightarrow>
               if e = CHR '','' then pelems n (acc @ [v]) r2
               else if e = CHR '']'' then Some (acc @ [v], r2)
               else None))"

text \<open>\<^verbatim>\<open>JSON.parse(s)\<close>: one value, then only whitespace; \<open>None\<close> is the
  \<^verbatim>\<open>SyntaxError\<close> it throws.\<close>

definition json_parse :: "string \<Rightarrow> jsval option" where
  "json_parse s =
     (case pvalue (2 * length s + 2) s of
        None \<Rightarrow> None
      | Some (v, r) \<Rightarrow> if skip_ws r = [] then Some v else None)"

subsection \<open>What the parser produces\<close>

text \<open>\<^verbatim>\<open>JSON.parse\<close> yields JSON values only: no \<^verbatim>\<open>NaN\<close> and no functions.
  Facts about the parser go by induction on the fuel, through one elimination rule per
  function.\<close>

fun json_value :: "jsval \<Rightarrow> bool" where
  "json_value JNaN = False"
| "json_value JHost = False"
| "json_value (JArr xs) = (\<forall>x \<in> set xs. json_value x)"
| "json_value (JObj kvs) = (\<forall>kv \<in> set kvs. json_value (snd kv))"
| "json_value v = True"

subsection \<open>The printer\<close>

definition hex_digit :: "nat \<Rightarrow> char" where
  "hex_digit d = ''0123456789abcdef'' ! d"

definition escape_char :: "char \<Rightarrow> string" where
  "escape_char c =
     (if c = CHR 0x22 then [CHR 0x5C, CHR 0x22]
      else if c = CHR 0x5C then [CHR 0x5C, CHR 0x5C]
      else if c = CHR 0x08 then [CHR 0x5C, CHR ''b'']
      else if c = CHR 0x0C then [CHR 0x5C, CHR ''f'']
      else if c = CHR 0x0A then [CHR 0x5C, CHR ''n'']
      else if c = CHR 0x0D then [CHR 0x5C, CHR ''r'']
      else if c = CHR 0x09 then [CHR 0x5C, CHR ''t'']
      else if (of_char c :: nat) < 32 then
        [CHR 0x5C, CHR ''u'', CHR ''0'', CHR ''0'', hex_digit (of_char c div 16), hex_digit (of_char c mod 16)]
      else [c])"

definition quote_str :: "string \<Rightarrow> string" where
  "quote_str s = CHR 0x22 # concat (map escape_char s) @ [CHR 0x22]"

declare hex_digit_def [js_eval] escape_char_def [js_eval] quote_str_def [js_eval]

text \<open>\<^verbatim>\<open>JSON.stringify(v)\<close> without indentation; \<^verbatim>\<open>NaN\<close> prints as \<^verbatim>\<open>null\<close>.\<close>

fun json_print :: "jsval \<Rightarrow> string" where
  "json_print JNull = ''null''"
| "json_print (JBool b) = (if b then ''true'' else ''false'')"
| "json_print (JNum n) = int_to_str n"
| "json_print JNaN = ''null''"
| "json_print (JStr s) = quote_str s"
| "json_print (JArr xs) = CHR ''['' # js_join '','' (map json_print xs) @ '']''"
| "json_print (JObj kvs) =
     CHR ''{'' # js_join '','' (map (\<lambda>(k, v). quote_str k @ CHR '':'' # json_print v) kvs) @ ''}''"
| "json_print JHost = ''null''"

subsection \<open>The parser yields JSON values\<close>

lemma parse_num_value: "parse_num s = Some (v, r) \<Longrightarrow> json_value v"
  by (auto simp: parse_num_def Let_def split: if_splits)

lemma update_json_values:
  "\<forall>kv \<in> set acc. json_value (snd kv) \<Longrightarrow> json_value v \<Longrightarrow>
     \<forall>kv \<in> set (AList.update k v acc). json_value (snd kv)"
  using update_set_subset[of k v acc] by auto

lemma pelems_SucE:
  "pelems (Suc n) acc s = Some (xs, r) \<Longrightarrow>
   \<exists>v r1 e r2. pvalue n s = Some (v, r1) \<and> skip_ws r1 = e # r2 \<and>
     ((e = CHR '','' \<and> pelems n (acc @ [v]) r2 = Some (xs, r)) \<or> (e = CHR '']'' \<and> xs = acc @ [v] \<and> r = r2))"
  by (simp split: option.splits list.splits if_splits prod.splits)

lemma pmembers_SucE:
  "pmembers (Suc n) acc s = Some (kvs, r) \<Longrightarrow>
   \<exists>k v r2 r3 e r4. pvalue n r2 = Some (v, r3) \<and> skip_ws r3 = e # r4 \<and>
     ((e = CHR '','' \<and> pmembers n (AList.update k v acc) r4 = Some (kvs, r)) \<or>
      (e = CHR ''}'' \<and> kvs = AList.update k v acc \<and> r = r4))"
  by (simp split: option.splits list.splits if_splits prod.splits; blast)

lemma pvalue_SucE:
  "pvalue (Suc n) s = Some (v, r) \<Longrightarrow>
     v = JObj [] \<or> (\<exists>cs kvs. v = JObj kvs \<and> pmembers n [] cs = Some (kvs, r))
   \<or> v = JArr [] \<or> (\<exists>cs xs. v = JArr xs \<and> pelems n [] cs = Some (xs, r))
   \<or> (\<exists>str. v = JStr str) \<or> (\<exists>b. v = JBool b) \<or> v = JNull
   \<or> (\<exists>t. parse_num t = Some (v, r))"
  by (simp split: option.splits list.splits if_splits prod.splits; blast)

lemma parser_json_values_n:
  "(\<forall>s v r. pvalue n s = Some (v, r) \<longrightarrow> json_value v) \<and>
   (\<forall>acc s kvs r. pmembers n acc s = Some (kvs, r) \<longrightarrow> (\<forall>kv \<in> set acc. json_value (snd kv)) \<longrightarrow>
      (\<forall>kv \<in> set kvs. json_value (snd kv))) \<and>
   (\<forall>acc s xs r. pelems n acc s = Some (xs, r) \<longrightarrow> (\<forall>x \<in> set acc. json_value x) \<longrightarrow>
      (\<forall>x \<in> set xs. json_value x))"
proof (induction n)
  case 0
  then show ?case by simp
next
  case (Suc n)
  have IHv: "json_value v" if "pvalue n s = Some (v, r)" for s v r
    using Suc.IH that by blast
  have IHm: "\<forall>kv \<in> set kvs. json_value (snd kv)"
    if "pmembers n acc s = Some (kvs, r)" "\<forall>kv \<in> set acc. json_value (snd kv)" for acc s kvs r
    using Suc.IH that by blast
  have IHe: "\<forall>x \<in> set xs. json_value x"
    if "pelems n acc s = Some (xs, r)" "\<forall>x \<in> set acc. json_value x" for acc s xs r
    using Suc.IH that by blast
  have v: "json_value v" if "pvalue (Suc n) s = Some (v, r)" for s v r
    using pvalue_SucE[OF that]
  proof (elim disjE exE conjE)
    fix cs kvs assume "v = JObj kvs" "pmembers n [] cs = Some (kvs, r)"
    then show ?thesis using IHm[of "[]" cs kvs r] by simp
  next
    fix cs xs assume "v = JArr xs" "pelems n [] cs = Some (xs, r)"
    then show ?thesis using IHe[of "[]" cs xs r] by simp
  next
    fix t assume "parse_num t = Some (v, r)"
    then show ?thesis by (rule parse_num_value)
  qed auto
  have m: "\<forall>kv \<in> set kvs. json_value (snd kv)"
    if pm: "pmembers (Suc n) acc s = Some (kvs, r)" and acc_ok: "\<forall>kv \<in> set acc. json_value (snd kv)"
    for acc s kvs r
  proof -
    obtain k v r2 r3 e r4 where pv: "pvalue n r2 = Some (v, r3)"
      and rest: "(e = CHR '','' \<and> pmembers n (AList.update k v acc) r4 = Some (kvs, r)) \<or>
                 (e = CHR ''}'' \<and> kvs = AList.update k v acc \<and> r = r4)"
      using pmembers_SucE[OF pm] by blast
    have upd: "\<forall>kv \<in> set (AList.update k v acc). json_value (snd kv)"
      using update_json_values[OF acc_ok IHv[OF pv]] .
    from rest show ?thesis
    proof
      assume "e = CHR '','' \<and> pmembers n (AList.update k v acc) r4 = Some (kvs, r)"
      then show ?thesis using IHm upd by blast
    next
      assume "e = CHR ''}'' \<and> kvs = AList.update k v acc \<and> r = r4"
      then show ?thesis using upd by simp
    qed
  qed
  have e: "\<forall>x \<in> set xs. json_value x"
    if pe: "pelems (Suc n) acc s = Some (xs, r)" and acc_ok: "\<forall>x \<in> set acc. json_value x"
    for acc s xs r
  proof -
    obtain v r1 e r2 where pv: "pvalue n s = Some (v, r1)"
      and rest: "(e = CHR '','' \<and> pelems n (acc @ [v]) r2 = Some (xs, r)) \<or> (e = CHR '']'' \<and> xs = acc @ [v] \<and> r = r2)"
      using pelems_SucE[OF pe] by blast
    have app: "\<forall>x \<in> set (acc @ [v]). json_value x"
      using acc_ok IHv[OF pv] by simp
    from rest show ?thesis
    proof
      assume "e = CHR '','' \<and> pelems n (acc @ [v]) r2 = Some (xs, r)"
      then show ?thesis using IHe app by blast
    next
      assume "e = CHR '']'' \<and> xs = acc @ [v] \<and> r = r2"
      then show ?thesis using app by simp
    qed
  qed
  from v m e show ?case by blast
qed

lemma json_parse_value:
  assumes "json_parse s = Some v"
  shows "json_value v"
proof -
  obtain r where "pvalue (2 * length s + 2) s = Some (v, r)"
    using assms by (auto simp: json_parse_def simp del: pvalue.simps split: option.splits if_splits)
  then show ?thesis using parser_json_values_n by blast
qed
end
