(* ===== verification/Response_Parser.thy ===== *)
theory Response_Parser
  imports Priority_Calculator Json_Text
begin

text \<open>
  \<^verbatim>\<open>parseAIResponse(text)\<close>: the text of a model's reply becomes an analysis object or
  \<^verbatim>\<open>null\<close>. Four steps, as in the code: take the body of the first
  \<^verbatim>\<open>```json\<close> fence (else of the first \<^verbatim>\<open>```\<close> fence, else the whole text) and
  trim it; if it has more opening than closing braces, cut it after the last
  \<^verbatim>\<open>}\<close> provided a backward scan from there finds its opening brace; run
  \<^verbatim>\<open>JSON.parse\<close>; keep the result only if it has a truthy \<^verbatim>\<open>scores\<close> and a truthy
  \<^verbatim>\<open>priority_recommendation\<close>, and compute \<^verbatim>\<open>scores.overall_priority\<close> when it is
  falsy. Every exception inside the \<^verbatim>\<open>try\<close> block yields \<^verbatim>\<open>null\<close>, which is
  \<open>None\<close> here. The older revision in \<^verbatim>\<open>src/api/triage.js\<close> has no brace repair.
\<close>

definition fence_json :: string where
  "fence_json = ''```json''"

definition fence :: string where
  "fence = ''```''"

declare fence_json_def [js_eval] fence_def [js_eval]

text \<open>\<^verbatim>\<open>text.split(sep)[1].split('```')[0]\<close>, taken only when \<^verbatim>\<open>text.includes(sep)\<close>,
  where index 1 exists (\<open>js_split_length_found\<close>).\<close>

definition extract_json :: "string \<Rightarrow> string" where
  "extract_json text =
     (if js_includes text fence_json then js_split (js_split text fence_json ! 1) fence ! 0
      else if js_includes text fence then js_split (js_split text fence ! 1) fence ! 0
      else text)"

text \<open>The backward scan from just before the last \<^verbatim>\<open>}\<close>: the characters come in
  the order the loop visits them (index \<open>i\<close> down to 0), \<open>k\<close> is \<^verbatim>\<open>braceCount\<close>,
  and the result says whether the loop reached \<^verbatim>\<open>braceCount === 0\<close> and broke.\<close>

fun brace_scan :: "int \<Rightarrow> string \<Rightarrow> bool" where
  "brace_scan k [] = False"
| "brace_scan k (c # cs) =
     (let k1 = (if c = CHR ''}'' then k + 1 else k);
          k2 = (if c = CHR ''{'' then k1 - 1 else k1)
      in if k2 = 0 then True else brace_scan k2 cs)"

definition repair_braces :: "string \<Rightarrow> string" where
  "repair_braces s =
     (if count_list s (CHR ''{'') > count_list s (CHR ''}'') then
        (let li = js_last_index_of s (CHR ''}'')
         in if li > 0 \<and> brace_scan 1 (rev (take (nat li) s)) then take (nat li + 1) s else s)
      else s)"

text \<open>Validation and completion of a parsed value, the part after \<^verbatim>\<open>JSON.parse\<close>.
  Reading \<^verbatim>\<open>parsed.scores\<close> of \<^verbatim>\<open>null\<close> throws; writing
  \<^verbatim>\<open>overall_priority\<close> into a primitive \<^verbatim>\<open>scores\<close> throws in strict mode.\<close>

definition validate_analysis :: "jsval \<Rightarrow> jsval option" where
  "validate_analysis parsed =
     (if parsed = JNull then None
      else if \<not> truthy (get_prop parsed ''scores'') \<or> \<not> truthy (get_prop parsed ''priority_recommendation'')
      then None
      else
        (case get_prop parsed ''scores'' of
           None \<Rightarrow> None
         | Some sc \<Rightarrow>
             if truthy (get_prop sc ''overall_priority'') then Some parsed
             else
               (case calculate_overall_priority sc of
                  Inl _ \<Rightarrow> None
                | Inr p \<Rightarrow>
                    (case set_prop sc ''overall_priority'' (num_val p) of
                       Inl _ \<Rightarrow> None
                     | Inr sc' \<Rightarrow>
                         (case set_prop parsed ''scores'' sc' of
                            Inl _ \<Rightarrow> None
                          | Inr parsed' \<Rightarrow> Some parsed')))))"

definition parse_AI_response :: "string \<Rightarrow> jsval option" where
  "parse_AI_response text =
     (case json_parse (repair_braces (js_trim (extract_json text))) of
        None \<Rightarrow> None
      | Some parsed \<Rightarrow> validate_analysis parsed)"

text \<open>The revision in \<^verbatim>\<open>src/api/triage.js\<close>: the same without the repair step.\<close>

definition parse_AI_response_v1 :: "string \<Rightarrow> jsval option" where
  "parse_AI_response_v1 text =
     (case json_parse (js_trim (extract_json text)) of
        None \<Rightarrow> None
      | Some parsed \<Rightarrow> validate_analysis parsed)"

declare extract_json_def [js_eval] repair_braces_def [js_eval] validate_analysis_def [js_eval]
  parse_AI_response_def [js_eval] parse_AI_response_v1_def [js_eval] json_parse_def [js_eval]

subsection \<open>Validation\<close>

lemma parser_keys_plain [simp]:
  "plain_key ''scores''" "plain_key ''priority_recommendation''" "plain_key ''overall_priority''"
  by (simp_all add: plain_key_def js_eval)

lemma json_value_member: "json_value (JObj kvs) \<Longrightarrow> map_of kvs k = Some v \<Longrightarrow> json_value v"
  by (fastforce dest: map_of_SomeD)

text \<open>The two ways \<open>validate_analysis\<close> accepts a value: unchanged, when the reply
  carries a truthy \<^verbatim>\<open>overall_priority\<close>, or completed with the computed score.\<close>

lemma validate_analysis_cases:
  assumes "validate_analysis parsed = Some r"
  obtains (kept) sc where "r = parsed" "get_prop parsed ''scores'' = Some sc" "js_truthy sc"
      "truthy (get_prop sc ''overall_priority'')" "truthy (get_prop parsed ''priority_recommendation'')"
  | (completed) kvs sc sc' where "parsed = JObj kvs" "map_of kvs ''scores'' = Some sc" "js_truthy sc"
      "\<not> truthy (get_prop sc ''overall_priority'')"
      "set_prop sc ''overall_priority'' (num_val (overall_score sc)) = Inr sc'"
      "r = JObj (AList.update ''scores'' sc' kvs)"
      "truthy (map_of kvs ''priority_recommendation'')"
proof (cases "truthy (get_prop (the (get_prop parsed ''scores'')) ''overall_priority'')")
  case True
  with assms show ?thesis
    by (auto simp: validate_analysis_def intro: kept split: if_splits option.splits)
next
  case False
  obtain kvs where p: "parsed = JObj kvs"
    using assms by (auto simp: validate_analysis_def get_prop_plain split: if_splits option.splits jsval.splits)
  show ?thesis
    using assms False
    by (auto simp: validate_analysis_def p calculate_overall_priority_def get_prop_plain
             intro: completed split: if_splits option.splits sum.splits)
qed

lemma validate_analysis_valid:
  assumes "validate_analysis parsed = Some r" and "json_value parsed"
  shows "\<exists>sc. get_prop r ''scores'' = Some sc \<and> js_truthy sc \<and>
           truthy (get_prop r ''priority_recommendation'') \<and> get_prop sc ''overall_priority'' \<noteq> None"
  using assms(1)
proof (cases rule: validate_analysis_cases)
  case (kept sc)
  then show ?thesis by (cases "get_prop sc ''overall_priority''") auto
next
  case (completed kvs sc sc')
  have "json_value sc" using assms(2) completed(1,2) json_value_member by blast
  then have "sc \<noteq> JHost" by auto
  then have "get_prop sc' ''overall_priority'' = Some (num_val (overall_score sc))"
    and "\<exists>kvs'. sc' = JObj kvs'"
    using completed(5) get_set_prop_same set_prop_obj_result by blast+
  then show ?thesis using completed(6,7) by (auto simp: update_conv' truthy_def split: option.splits)
qed

lemma parse_AI_response_parsed:
  "parse_AI_response text = Some r \<Longrightarrow>
     \<exists>parsed. json_parse (repair_braces (js_trim (extract_json text))) = Some parsed \<and>
       json_value parsed \<and> validate_analysis parsed = Some r"
  by (auto simp: parse_AI_response_def split: option.splits dest: json_parse_value)

subsection \<open>Properties of the parser\<close>

text \<open>C2: a reply the parser accepts always has a truthy \<^verbatim>\<open>scores\<close> and a truthy
  \<^verbatim>\<open>priority_recommendation\<close>, and its \<^verbatim>\<open>scores.overall_priority\<close> is present:
  no partially populated object is returned.\<close>

theorem parse_AI_response_valid:
  assumes "parse_AI_response text = Some r"
  shows "\<exists>sc. get_prop r ''scores'' = Some sc \<and> js_truthy sc \<and>
           truthy (get_prop r ''priority_recommendation'') \<and> get_prop sc ''overall_priority'' \<noteq> None"
  using parse_AI_response_parsed[OF assms] validate_analysis_valid by blast

lemma parse_AI_response_from:
  "json_parse (repair_braces (js_trim (extract_json text))) = Some parsed \<Longrightarrow>
     parse_AI_response text = validate_analysis parsed"
  by (simp add: parse_AI_response_def)

text \<open>C3: when the reply leaves \<^verbatim>\<open>overall_priority\<close> out (or falsy), the parser
  fills it in with the calculator's value and changes nothing else.\<close>

theorem parse_AI_response_completes:
  assumes "json_parse (repair_braces (js_trim (extract_json text))) = Some (JObj kvs)"
    and "map_of kvs ''scores'' = Some (JObj skvs)"
    and "truthy (map_of kvs ''priority_recommendation'')"
    and "\<not> truthy (map_of skvs ''overall_priority'')"
  shows "parse_AI_response text =
           Some (JObj (AList.update ''scores''
             (JObj (AList.update ''overall_priority'' (num_val (overall_score (JObj skvs))) skvs)) kvs))"
  using assms by (simp add: parse_AI_response_from validate_analysis_def calculate_overall_priority_def)

text \<open>C24: a priority the reply does supply is kept as it is, whatever its value: the
  parser neither range-checks it nor converts it to a number.\<close>

theorem parse_AI_response_keeps_backend_priority:
  assumes "json_parse (repair_braces (js_trim (extract_json text))) = Some (JObj kvs)"
    and "map_of kvs ''scores'' = Some sc" and "js_truthy sc"
    and "truthy (get_prop sc ''overall_priority'')"
    and "truthy (map_of kvs ''priority_recommendation'')"
  shows "parse_AI_response text = Some (JObj kvs)"
  using assms by (simp add: parse_AI_response_from validate_analysis_def)

subsection \<open>The brace repair\<close>

lemma repair_braces_cases:
  "repair_braces s = s \<or>
   (count_list s (CHR ''}'') < count_list s (CHR ''{'') \<and>
    repair_braces s = take (nat (js_last_index_of s (CHR ''}'')) + 1) s)"
  by (auto simp: repair_braces_def Let_def)

lemma repair_braces_prefix: "prefix (repair_braces s) s"
  using repair_braces_cases[of s] by (metis prefix_order.refl take_is_prefix)

lemma repair_braces_last_close: "s \<noteq> [] \<Longrightarrow> last s = CHR ''}'' \<Longrightarrow> repair_braces s = s"
  using repair_braces_cases[of s] by (auto simp: js_last_index_of_last)

text \<open>C25: the two revisions of the parser agree on every reply whose extracted body has
  no more opening than closing braces, or ends with a closing brace; only there can the
  repair step change anything.\<close>

theorem parse_revisions_agree:
  assumes "count_list (js_trim (extract_json text)) (CHR ''{'') \<le> count_list (js_trim (extract_json text)) (CHR ''}'')
           \<or> (js_trim (extract_json text) \<noteq> [] \<and> last (js_trim (extract_json text)) = CHR ''}'')"
  shows "parse_AI_response text = parse_AI_response_v1 text"
proof -
  have "repair_braces (js_trim (extract_json text)) = js_trim (extract_json text)"
  proof (cases "count_list (js_trim (extract_json text)) (CHR ''{'')
                \<le> count_list (js_trim (extract_json text)) (CHR ''}'')")
    case True
    then show ?thesis by (simp add: repair_braces_def)
  next
    case False
    with assms show ?thesis by (intro repair_braces_last_close) auto
  qed
  then show ?thesis by (simp add: parse_AI_response_def parse_AI_response_v1_def)
qed

text \<open>C4: the repair cannot balance a truncated reply. When no opening brace follows the
  last closing one (a reply cut off inside its outer object), the cut removes no brace, so
  the body handed to \<^verbatim>\<open>JSON.parse\<close> has as many unmatched opening braces as before.\<close>

theorem repair_braces_keeps_imbalance:
  assumes "count_list s (CHR ''}'') < count_list s (CHR ''{'')"
    and "CHR ''{'' \<notin> set (drop (nat (js_last_index_of s (CHR ''}'')) + 1) s)"
  shows "int (count_list (repair_braces s) (CHR ''{'')) - int (count_list (repair_braces s) (CHR ''}''))
         = int (count_list s (CHR ''{'')) - int (count_list s (CHR ''}''))"
proof (cases "CHR ''}'' \<in> set s")
  case True
  have "CHR ''}'' \<notin> set (drop (nat (js_last_index_of s (CHR ''}'')) + 1) s)"
    using js_last_index_of_found(3)[OF True] by simp
  with assms(2) show ?thesis
    using repair_braces_cases[of s] by (auto simp: count_list_take_notin)
next
  case False
  then show ?thesis by (simp add: repair_braces_def js_last_index_of_absent)
qed

subsection \<open>Witnesses\<close>

theorem parse_AI_response_valid_witness:
  "parse_AI_response
      ''```json\<newline>{\"scores\":{\"business_impact\":90,\"strategic_fit\":85,\"cross_client_value\":80,\"effort_size\":\"S\"},\"priority_recommendation\":\"Fast Track\"}\<newline>```''
     = Some (JObj [(''scores'', JObj [(''business_impact'', JNum 90), (''strategic_fit'', JNum 85),
         (''cross_client_value'', JNum 80), (''effort_size'', JStr ''S''), (''overall_priority'', JNum 85)]),
         (''priority_recommendation'', JStr ''Fast Track'')]) \<and>
   (\<exists>sc. get_prop (JObj [(''scores'', JObj [(''business_impact'', JNum 90), (''strategic_fit'', JNum 85),
         (''cross_client_value'', JNum 80), (''effort_size'', JStr ''S''), (''overall_priority'', JNum 85)]),
         (''priority_recommendation'', JStr ''Fast Track'')]) ''scores'' = Some sc \<and> js_truthy sc \<and>
      truthy (get_prop (JObj [(''scores'', JObj [(''business_impact'', JNum 90), (''strategic_fit'', JNum 85),
         (''cross_client_value'', JNum 80), (''effort_size'', JStr ''S''), (''overall_priority'', JNum 85)]),
         (''priority_recommendation'', JStr ''Fast Track'')]) ''priority_recommendation'') \<and>
      get_prop sc ''overall_priority'' \<noteq> None)"
proof -
  have h: "parse_AI_response
      ''```json\<newline>{\"scores\":{\"business_impact\":90,\"strategic_fit\":85,\"cross_client_value\":80,\"effort_size\":\"S\"},\"priority_recommendation\":\"Fast Track\"}\<newline>```''
     = Some (JObj [(''scores'', JObj [(''business_impact'', JNum 90), (''strategic_fit'', JNum 85),
         (''cross_client_value'', JNum 80), (''effort_size'', JStr ''S''), (''overall_priority'', JNum 85)]),
         (''priority_recommendation'', JStr ''Fast Track'')])"
    by code_simp
  show ?thesis using h parse_AI_response_valid[OF h] by blast
qed

theorem parse_AI_response_keeps_backend_priority_witness:
  "json_parse (repair_braces (js_trim (extract_json
      ''{\"scores\": {\"overall_priority\": \"high\"}, \"priority_recommendation\": \"Low\"}'')))
     = Some (JObj [(''scores'', JObj [(''overall_priority'', JStr ''high'')]),
                   (''priority_recommendation'', JStr ''Low'')]) \<and>
   parse_AI_response ''{\"scores\": {\"overall_priority\": \"high\"}, \"priority_recommendation\": \"Low\"}''
     = Some (JObj [(''scores'', JObj [(''overall_priority'', JStr ''high'')]),
                   (''priority_recommendation'', JStr ''Low'')])"
proof -
  let ?sc = "JObj [(''overall_priority'', JStr ''high'')]"
  let ?kvs = "[(''scores'', ?sc), (''priority_recommendation'', JStr ''Low'')]"
  have h1: "json_parse (repair_braces (js_trim (extract_json
      ''{\"scores\": {\"overall_priority\": \"high\"}, \"priority_recommendation\": \"Low\"}''))) = Some (JObj ?kvs)"
    by code_simp
  have h2: "map_of ?kvs ''scores'' = Some ?sc" by simp
  have h3: "js_truthy ?sc" by simp
  have h4: "truthy (get_prop ?sc ''overall_priority'')" by simp
  have h5: "truthy (map_of ?kvs ''priority_recommendation'')" by simp
  show ?thesis using h1 parse_AI_response_keeps_backend_priority[OF h1 h2 h3 h4 h5] by simp
qed

theorem parse_AI_response_completes_witness:
  "json_parse (repair_braces (js_trim (extract_json ''```json\<newline>{\"scores\":{\"business_impact\":30,\"strategic_fit\":40,\"cross_client_value\":35,\"effort_size\":\"L\"},\"priority_recommendation\":\"On Hold\"}\<newline>```'')))
     = Some (JObj [(''scores'', JObj [(''business_impact'', JNum 30), (''strategic_fit'', JNum 40),
         (''cross_client_value'', JNum 35), (''effort_size'', JStr ''L'')]),
         (''priority_recommendation'', JStr ''On Hold'')]) \<and>
   parse_AI_response ''```json\<newline>{\"scores\":{\"business_impact\":30,\"strategic_fit\":40,\"cross_client_value\":35,\"effort_size\":\"L\"},\"priority_recommendation\":\"On Hold\"}\<newline>```''
     = Some (JObj [(''scores'', JObj [(''business_impact'', JNum 30), (''strategic_fit'', JNum 40),
         (''cross_client_value'', JNum 35), (''effort_size'', JStr ''L''), (''overall_priority'', JNum 35)]),
         (''priority_recommendation'', JStr ''On Hold'')])"
proof -
  let ?skvs = "[(''business_impact'', JNum 30), (''strategic_fit'', JNum 40),
         (''cross_client_value'', JNum 35), (''effort_size'', JStr ''L'')]"
  let ?kvs = "[(''scores'', JObj ?skvs), (''priority_recommendation'', JStr ''On Hold'')]"
  have h1: "json_parse (repair_braces (js_trim (extract_json ''```json\<newline>{\"scores\":{\"business_impact\":30,\"strategic_fit\":40,\"cross_client_value\":35,\"effort_size\":\"L\"},\"priority_recommendation\":\"On Hold\"}\<newline>```''))) = Some (JObj ?kvs)"
    by code_simp
  have h2: "map_of ?kvs ''scores'' = Some (JObj ?skvs)" by simp
  have h3: "truthy (map_of ?kvs ''priority_recommendation'')" by simp
  have h4: "\<not> truthy (map_of ?skvs ''overall_priority'')" by simp
  have "overall_score (JObj ?skvs) = Some 35" by (simp add: js_eval)
  then show ?thesis
    using h1 parse_AI_response_completes[OF h1 h2 h3 h4] by (simp add: num_val_def)
qed

theorem parse_revisions_agree_witness:
  "(count_list (js_trim (extract_json ''```json\<newline>{\"scores\":{\"business_impact\":30,\"strategic_fit\":40,\"cross_client_value\":35,\"effort_size\":\"L\"},\"priority_recommendation\":\"On Hold\"}\<newline>```'')) (CHR ''{'') \<le> count_list (js_trim (extract_json ''```json\<newline>{\"scores\":{\"business_impact\":30,\"strategic_fit\":40,\"cross_client_value\":35,\"effort_size\":\"L\"},\"priority_recommendation\":\"On Hold\"}\<newline>```'')) (CHR ''}'')
    \<or> (js_trim (extract_json ''```json\<newline>{\"scores\":{\"business_impact\":30,\"strategic_fit\":40,\"cross_client_value\":35,\"effort_size\":\"L\"},\"priority_recommendation\":\"On Hold\"}\<newline>```'') \<noteq> [] \<and> last (js_trim (extract_json ''```json\<newline>{\"scores\":{\"business_impact\":30,\"strategic_fit\":40,\"cross_client_value\":35,\"effort_size\":\"L\"},\"priority_recommendation\":\"On Hold\"}\<newline>```'')) = CHR ''}'')) \<and>
   parse_AI_response ''```json\<newline>{\"scores\":{\"business_impact\":30,\"strategic_fit\":40,\"cross_client_value\":35,\"effort_size\":\"L\"},\"priority_recommendation\":\"On Hold\"}\<newline>```'' = parse_AI_response_v1 ''```json\<newline>{\"scores\":{\"business_impact\":30,\"strategic_fit\":40,\"cross_client_value\":35,\"effort_size\":\"L\"},\"priority_recommendation\":\"On Hold\"}\<newline>```''"
proof -
  have h: "count_list (js_trim (extract_json ''```json\<newline>{\"scores\":{\"business_impact\":30,\"strategic_fit\":40,\"cross_client_value\":35,\"effort_size\":\"L\"},\"priority_recommendation\":\"On Hold\"}\<newline>```'')) (CHR ''{'') \<le> count_list (js_trim (extract_json ''```json\<newline>{\"scores\":{\"business_impact\":30,\"strategic_fit\":40,\"cross_client_value\":35,\"effort_size\":\"L\"},\"priority_recommendation\":\"On Hold\"}\<newline>```'')) (CHR ''}'')
    \<or> (js_trim (extract_json ''```json\<newline>{\"scores\":{\"business_impact\":30,\"strategic_fit\":40,\"cross_client_value\":35,\"effort_size\":\"L\"},\"priority_recommendation\":\"On Hold\"}\<newline>```'') \<noteq> [] \<and> last (js_trim (extract_json ''```json\<newline>{\"scores\":{\"business_impact\":30,\"strategic_fit\":40,\"cross_client_value\":35,\"effort_size\":\"L\"},\"priority_recommendation\":\"On Hold\"}\<newline>```'')) = CHR ''}'')"
    by code_simp
  show ?thesis using h parse_revisions_agree[OF h] by blast
qed

theorem repair_braces_keeps_imbalance_witness:
  "count_list ''{\"scores\": {\"business_impact\": 90, \"effort_size\": \"S\"}, \"priority_recommendation\": \"Standard\", \"key_insights\": [\"a\", \"b'' (CHR ''}'') < count_list ''{\"scores\": {\"business_impact\": 90, \"effort_size\": \"S\"}, \"priority_recommendation\": \"Standard\", \"key_insights\": [\"a\", \"b'' (CHR ''{'') \<and>
   CHR ''{'' \<notin> set (drop (nat (js_last_index_of ''{\"scores\": {\"business_impact\": 90, \"effort_size\": \"S\"}, \"priority_recommendation\": \"Standard\", \"key_insights\": [\"a\", \"b'' (CHR ''}'')) + 1) ''{\"scores\": {\"business_impact\": 90, \"effort_size\": \"S\"}, \"priority_recommendation\": \"Standard\", \"key_insights\": [\"a\", \"b'') \<and>
   int (count_list (repair_braces ''{\"scores\": {\"business_impact\": 90, \"effort_size\": \"S\"}, \"priority_recommendation\": \"Standard\", \"key_insights\": [\"a\", \"b'') (CHR ''{'')) - int (count_list (repair_braces ''{\"scores\": {\"business_impact\": 90, \"effort_size\": \"S\"}, \"priority_recommendation\": \"Standard\", \"key_insights\": [\"a\", \"b'') (CHR ''}''))
     = int (count_list ''{\"scores\": {\"business_impact\": 90, \"effort_size\": \"S\"}, \"priority_recommendation\": \"Standard\", \"key_insights\": [\"a\", \"b'' (CHR ''{'')) - int (count_list ''{\"scores\": {\"business_impact\": 90, \"effort_size\": \"S\"}, \"priority_recommendation\": \"Standard\", \"key_insights\": [\"a\", \"b'' (CHR ''}'')) \<and>
   int (count_list ''{\"scores\": {\"business_impact\": 90, \"effort_size\": \"S\"}, \"priority_recommendation\": \"Standard\", \"key_insights\": [\"a\", \"b'' (CHR ''{'')) - int (count_list ''{\"scores\": {\"business_impact\": 90, \"effort_size\": \"S\"}, \"priority_recommendation\": \"Standard\", \"key_insights\": [\"a\", \"b'' (CHR ''}'')) = 1 \<and>
   parse_AI_response ''{\"scores\": {\"business_impact\": 90, \"effort_size\": \"S\"}, \"priority_recommendation\": \"Standard\", \"key_insights\": [\"a\", \"b'' = None"
proof -
  have h1: "count_list ''{\"scores\": {\"business_impact\": 90, \"effort_size\": \"S\"}, \"priority_recommendation\": \"Standard\", \"key_insights\": [\"a\", \"b'' (CHR ''}'') < count_list ''{\"scores\": {\"business_impact\": 90, \"effort_size\": \"S\"}, \"priority_recommendation\": \"Standard\", \"key_insights\": [\"a\", \"b'' (CHR ''{'')" by code_simp
  have h2: "CHR ''{'' \<notin> set (drop (nat (js_last_index_of ''{\"scores\": {\"business_impact\": 90, \"effort_size\": \"S\"}, \"priority_recommendation\": \"Standard\", \"key_insights\": [\"a\", \"b'' (CHR ''}'')) + 1) ''{\"scores\": {\"business_impact\": 90, \"effort_size\": \"S\"}, \"priority_recommendation\": \"Standard\", \"key_insights\": [\"a\", \"b'')" by code_simp
  have h3: "int (count_list ''{\"scores\": {\"business_impact\": 90, \"effort_size\": \"S\"}, \"priority_recommendation\": \"Standard\", \"key_insights\": [\"a\", \"b'' (CHR ''{'')) - int (count_list ''{\"scores\": {\"business_impact\": 90, \"effort_size\": \"S\"}, \"priority_recommendation\": \"Standard\", \"key_insights\": [\"a\", \"b'' (CHR ''}'')) = 1" by code_simp
  have h4: "parse_AI_response ''{\"scores\": {\"business_impact\": 90, \"effort_size\": \"S\"}, \"priority_recommendation\": \"Standard\", \"key_insights\": [\"a\", \"b'' = None" by code_simp
  show ?thesis using h1 h2 h3 h4 repair_braces_keeps_imbalance[OF h1 h2] by simp
qed

end
