(* ===== verification/Backend_Dispatcher.thy ===== *)
theory Backend_Dispatcher
  imports Response_Parser
begin

text \<open>
  The two-model fallback of the handler. Each model vendor is a \<^emph>\<open>provider\<close>: a
  function from the prompt to the vendor's reply, which is the reply text or a failure
  (a network error, an SDK exception, a reply with no text: every exception the inner
  \<^verbatim>\<open>try\<close> blocks catch). A provider is absent (\<open>None\<close>) when its client was not
  built because the API key is missing (\<^verbatim>\<open>genAI\<close>, \<^verbatim>\<open>anthropic\<close> of
  \<^verbatim>\<open>part_001\<close>, lines 5--27). Every operation returns, besides its result, the list
  of vendors it called, in order, so that the fallback order is part of the model.

  \<open>first_success\<close> is the abstract contract of the specification (try A, then B, return
  the first usable result); \<open>priority_dispatch\<close> (\<^verbatim>\<open>analyzePriority\<close>),
  \<open>classify_theme\<close> (\<^verbatim>\<open>classifyTheme\<close>) and \<open>triage_dispatch_v1\<close> (the older
  \<^verbatim>\<open>processTicketWithFullTriage\<close>) are shown to be instances of it.
\<close>

datatype backend = Gemini | Claude

datatype reply = Reply string | Failure

type_synonym provider = "string \<Rightarrow> reply"

record clients =
  gemini_client :: "provider option"
  claude_client :: "provider option"

subsection \<open>The abstract contract\<close>

text \<open>Try the candidates in order; the result is the first candidate with a result,
  and the second component lists the candidates tried.\<close>

fun first_success :: "('b \<Rightarrow> 'a option) \<Rightarrow> 'b list \<Rightarrow> ('a \<times> 'b) option \<times> 'b list" where
  "first_success f [] = (None, [])"
| "first_success f (b # bs) =
     (case f b of
        Some a \<Rightarrow> (Some (a, b), [b])
      | None \<Rightarrow> (let (r, cs) = first_success f bs in (r, b # cs)))"

definition backend_label :: "backend \<Rightarrow> string" where
  "backend_label b = (case b of Gemini \<Rightarrow> ''Gemini Flash 2.0'' | Claude \<Rightarrow> ''Claude Sonnet 3.5'')"

definition both_failed :: string where
  "both_failed = ''None - Both models failed''"

text \<open>The providers \<^verbatim>\<open>analyzePriority\<close> and \<^verbatim>\<open>classifyTheme\<close> try, in order:
  Gemini if its client exists, then Claude if its client exists.\<close>

definition configured :: "clients \<Rightarrow> (backend \<times> provider) list" where
  "configured cs =
     (case gemini_client cs of None \<Rightarrow> [] | Some g \<Rightarrow> [(Gemini, g)]) @
     (case claude_client cs of None \<Rightarrow> [] | Some c \<Rightarrow> [(Claude, c)])"

text \<open>The contract of a dispatcher over the configured providers: \<open>attempt\<close> turns a
  provider into its usable result, \<open>fail\<close> is the value when none has one.\<close>

definition dispatch_spec :: "(provider \<Rightarrow> 'a option) \<Rightarrow> 'a \<times> string \<Rightarrow> clients \<Rightarrow> ('a \<times> string) \<times> backend list" where
  "dispatch_spec attempt fail cs =
     (case first_success (\<lambda>(b, p). attempt p) (configured cs) of
        (r, tried) \<Rightarrow> ((case r of None \<Rightarrow> fail | Some (a, (b, _)) \<Rightarrow> (a, backend_label b)), map fst tried))"

subsection \<open>\<^verbatim>\<open>analyzePriority\<close>\<close>

text \<open>One attempt (\<^verbatim>\<open>part_001\<close>, lines 1347--1360 for Gemini and 1366--1403 for
  Claude): ask the vendor, parse the reply, and accept it when \<^verbatim>\<open>parsed &&
  parsed.scores\<close>.\<close>

definition priority_attempt :: "provider \<Rightarrow> string \<Rightarrow> jsval option" where
  "priority_attempt p prompt =
     (case p prompt of
        Failure \<Rightarrow> None
      | Reply text \<Rightarrow>
          (case parse_AI_response text of
             None \<Rightarrow> None
           | Some parsed \<Rightarrow> if truthy (get_prop parsed ''scores'') then Some parsed else None))"

text \<open>The Claude stage, entered with the vendors called so far.\<close>

definition priority_claude ::
  "clients \<Rightarrow> string \<Rightarrow> backend list \<Rightarrow> (jsval option \<times> string) \<times> backend list" where
  "priority_claude cs prompt calls =
     (case claude_client cs of
        None \<Rightarrow> ((None, both_failed), calls)
      | Some c \<Rightarrow>
          (case priority_attempt c prompt of
             Some a \<Rightarrow> ((Some a, ''Claude Sonnet 3.5''), calls @ [Claude])
           | None \<Rightarrow> ((None, both_failed), calls @ [Claude])))"

definition priority_dispatch :: "clients \<Rightarrow> string \<Rightarrow> (jsval option \<times> string) \<times> backend list" where
  "priority_dispatch cs prompt =
     (case gemini_client cs of
        None \<Rightarrow> priority_claude cs prompt []
      | Some g \<Rightarrow>
          (case priority_attempt g prompt of
             Some a \<Rightarrow> ((Some a, ''Gemini Flash 2.0''), [Gemini])
           | None \<Rightarrow> priority_claude cs prompt [Gemini]))"

text \<open>The whole function. What it computes before the dispatch (the effort estimate,
  the product context and the prompt) is its input \<open>prep\<close>: \<open>Inl\<close> when that code
  threw (caught by the outer \<^verbatim>\<open>catch\<close>, label \<^verbatim>\<open>Error occurred\<close>), \<open>Inr None\<close>
  when the product context is missing, \<open>Inr (Some prompt)\<close> otherwise.\<close>

definition analyze_priority ::
  "clients \<Rightarrow> js_error + string option \<Rightarrow> (jsval option \<times> string) \<times> backend list" where
  "analyze_priority cs prep =
     (case prep of
        Inl _ \<Rightarrow> ((None, ''Error occurred''), [])
      | Inr None \<Rightarrow> ((None, ''Error - Product context missing''), [])
      | Inr (Some prompt) \<Rightarrow> priority_dispatch cs prompt)"

subsection \<open>\<^verbatim>\<open>classifyTheme\<close>\<close>

text \<open>The theme is the trimmed reply text, accepted as it is (\<^verbatim>\<open>part_001\<close>, lines
  1160--1198).\<close>

definition theme_not_identified :: string where
  "theme_not_identified = ''THEME NOT IDENTIFIED''"

definition theme_claude :: "clients \<Rightarrow> string \<Rightarrow> backend list \<Rightarrow> (string \<times> string) \<times> backend list" where
  "theme_claude cs prompt calls =
     (case claude_client cs of
        None \<Rightarrow> ((theme_not_identified, both_failed), calls)
      | Some c \<Rightarrow>
          (case c prompt of
             Reply t \<Rightarrow> ((js_trim t, ''Claude Sonnet 3.5''), calls @ [Claude])
           | Failure \<Rightarrow> ((theme_not_identified, both_failed), calls @ [Claude])))"

definition classify_theme :: "clients \<Rightarrow> string \<Rightarrow> (string \<times> string) \<times> backend list" where
  "classify_theme cs prompt =
     (case gemini_client cs of
        None \<Rightarrow> theme_claude cs prompt []
      | Some g \<Rightarrow>
          (case g prompt of
             Reply t \<Rightarrow> ((js_trim t, ''Gemini Flash 2.0''), [Gemini])
           | Failure \<Rightarrow> theme_claude cs prompt [Gemini]))"

subsection \<open>The older dispatcher of \<^verbatim>\<open>src/api/triage.js\<close>\<close>

text \<open>\<^verbatim>\<open>callGeminiWithTriage\<close> and \<^verbatim>\<open>callClaudeWithTriage\<close> (lines 312--397):
  both clients always exist (a missing key makes the call fail); the parser is the
  revision without the brace repair; Claude's reply is parsed only when its text is
  truthy.\<close>

definition gemini_call_v1 :: "provider \<Rightarrow> string \<Rightarrow> jsval option" where
  "gemini_call_v1 p prompt =
     (case p prompt of
        Failure \<Rightarrow> None
      | Reply text \<Rightarrow>
          (case parse_AI_response_v1 text of
             None \<Rightarrow> None
           | Some parsed \<Rightarrow> if truthy (get_prop parsed ''scores'') then Some parsed else None))"

definition claude_call_v1 :: "provider \<Rightarrow> string \<Rightarrow> jsval option" where
  "claude_call_v1 p prompt =
     (case p prompt of
        Failure \<Rightarrow> None
      | Reply text \<Rightarrow>
          if text = [] then None
          else (case parse_AI_response_v1 text of
                  None \<Rightarrow> None
                | Some parsed \<Rightarrow> if truthy (get_prop parsed ''scores'') then Some parsed else None))"

text \<open>Steps 4 and 5 of \<^verbatim>\<open>processTicketWithFullTriage\<close> (lines 145--165): the
  analysis and \<^verbatim>\<open>result.modelUsed\<close> (\<open>None\<close> for \<^verbatim>\<open>null\<close>).\<close>

definition triage_dispatch_v1 ::
  "provider \<Rightarrow> provider \<Rightarrow> string \<Rightarrow> (jsval option \<times> string option) \<times> backend list" where
  "triage_dispatch_v1 g c prompt =
     (case gemini_call_v1 g prompt of
        Some a \<Rightarrow> ((Some a, Some ''Gemini Flash 2.0''), [Gemini])
      | None \<Rightarrow>
          (case claude_call_v1 c prompt of
             Some a \<Rightarrow> ((Some a, Some ''Claude Sonnet''), [Gemini, Claude])
           | None \<Rightarrow> ((None, None), [Gemini, Claude])))"

declare backend_label_def [js_eval] both_failed_def [js_eval] configured_def [js_eval]
  priority_attempt_def [js_eval] priority_claude_def [js_eval] priority_dispatch_def [js_eval]
  analyze_priority_def [js_eval] theme_not_identified_def [js_eval] theme_claude_def [js_eval]
  classify_theme_def [js_eval] gemini_call_v1_def [js_eval] claude_call_v1_def [js_eval] triage_dispatch_v1_def [js_eval]

subsection \<open>The contract and its instances\<close>

lemma first_success_tried_prefix: "prefix (snd (first_success f xs)) xs"
  by (induction xs) (auto split: option.splits prod.splits)

lemma first_success_SomeD:
  "first_success f xs = (Some (a, b), tried) \<Longrightarrow>
     f b = Some a \<and> tried \<noteq> [] \<and> last tried = b \<and> (\<forall>x \<in> set (butlast tried). f x = None)"
  by (induction xs arbitrary: tried) (auto split: option.splits prod.splits if_splits)

lemma first_success_None:
  "(\<forall>x \<in> set xs. f x = None) \<Longrightarrow> first_success f xs = (None, xs)"
  by (induction xs) auto

lemma first_success_None_iff:
  "fst (first_success f xs) = None \<longleftrightarrow> (\<forall>x \<in> set xs. f x = None)"
  by (induction xs) (auto split: option.splits prod.splits)

lemma priority_dispatch_spec:
  "priority_dispatch cs prompt =
     dispatch_spec (\<lambda>p. map_option Some (priority_attempt p prompt)) (None, both_failed) cs"
  by (auto simp: priority_dispatch_def priority_claude_def dispatch_spec_def configured_def backend_label_def
           split: option.splits)

text \<open>C26: \<^verbatim>\<open>analyzePriority\<close>'s dispatch implements the contract: the result is
  the analysis of the first configured vendor (Gemini, then Claude) whose reply parses
  with truthy \<^verbatim>\<open>scores\<close>, labelled with that vendor, and the vendors called are
  exactly those tried up to it.\<close>

theorem priority_dispatch_refines:
  "priority_dispatch cs prompt =
     dispatch_spec (\<lambda>p. map_option Some (priority_attempt p prompt)) (None, both_failed) cs"
  by (rule priority_dispatch_spec)

text \<open>C28: \<^verbatim>\<open>classifyTheme\<close> implements the same contract, where any reply
  text at all is a usable result.\<close>

theorem classify_theme_refines:
  "classify_theme cs prompt =
     dispatch_spec (\<lambda>p. case p prompt of Reply t \<Rightarrow> Some (js_trim t) | Failure \<Rightarrow> None)
       (theme_not_identified, both_failed) cs"
  by (auto simp: classify_theme_def theme_claude_def dispatch_spec_def configured_def backend_label_def
           split: option.splits reply.splits)

lemma configured_backends: "map fst (configured cs) \<in> {[], [Gemini], [Claude], [Gemini, Claude]}"
  by (simp add: configured_def split: option.splits)

lemma dispatch_spec_tried: "prefix (snd (dispatch_spec att fl cs)) (map fst (configured cs))"
  using first_success_tried_prefix[of "\<lambda>(b, p). att p" "configured cs"]
  by (auto simp: dispatch_spec_def split: prod.splits intro: map_mono_prefix)

lemma dispatch_spec_fail:
  "(\<forall>(b, p) \<in> set (configured cs). att p = None) \<Longrightarrow> dispatch_spec att fl cs = (fl, map fst (configured cs))"
  by (simp add: dispatch_spec_def first_success_None case_prod_unfold)

text \<open>When no configured vendor gives a usable reply, every configured vendor has
  been called once and the result is no analysis, labelled
  \<^verbatim>\<open>None - Both models failed\<close>.\<close>

theorem priority_dispatch_both_fail:
  assumes "\<forall>(b, p) \<in> set (configured cs). priority_attempt p prompt = None"
  shows "priority_dispatch cs prompt = ((None, both_failed), map fst (configured cs))"
  using assms by (simp add: priority_dispatch_spec dispatch_spec_fail)

text \<open>C27: no retry and a fixed order: the vendors called form a prefix of the
  configured ones (each called at most once, Gemini before Claude), and Claude is not
  called when Gemini's reply is usable.\<close>

theorem priority_dispatch_calls:
  "prefix (snd (priority_dispatch cs prompt)) (map fst (configured cs)) \<and>
   (\<forall>g. gemini_client cs = Some g \<and> priority_attempt g prompt \<noteq> None \<longrightarrow>
        snd (priority_dispatch cs prompt) = [Gemini])"
proof
  show "prefix (snd (priority_dispatch cs prompt)) (map fst (configured cs))"
    unfolding priority_dispatch_spec by (rule dispatch_spec_tried)
  show "\<forall>g. gemini_client cs = Some g \<and> priority_attempt g prompt \<noteq> None \<longrightarrow>
        snd (priority_dispatch cs prompt) = [Gemini]"
    by (auto simp: priority_dispatch_def)
qed

lemma parse_AI_response_v1_Nil: "parse_AI_response_v1 [] = None"
  by code_simp

lemma priority_attempt_v1:
  assumes "\<forall>t. p prompt = Reply t \<longrightarrow> parse_AI_response t = parse_AI_response_v1 t"
  shows "priority_attempt p prompt = gemini_call_v1 p prompt"
    and "priority_attempt p prompt = claude_call_v1 p prompt"
  using assms parse_AI_response_v1_Nil
  by (auto simp: priority_attempt_def gemini_call_v1_def claude_call_v1_def split: reply.splits)

text \<open>With both vendors configured, the older dispatcher of
  \<^verbatim>\<open>src/api/triage.js\<close> and the current one return the same analysis and call
  the same vendors, whenever the two parser revisions agree on the replies.\<close>

theorem dispatch_revisions_agree:
  assumes "gemini_client cs = Some g" and "claude_client cs = Some c"
    and "\<forall>t. g prompt = Reply t \<longrightarrow> parse_AI_response t = parse_AI_response_v1 t"
    and "\<forall>t. c prompt = Reply t \<longrightarrow> parse_AI_response t = parse_AI_response_v1 t"
  shows "fst (fst (priority_dispatch cs prompt)) = fst (fst (triage_dispatch_v1 g c prompt)) \<and>
         snd (priority_dispatch cs prompt) = snd (triage_dispatch_v1 g c prompt)"
proof -
  have "priority_attempt g prompt = gemini_call_v1 g prompt"
    using assms(3) by (rule priority_attempt_v1(1)[of g prompt])
  moreover have "priority_attempt c prompt = claude_call_v1 c prompt"
    using assms(4) by (rule priority_attempt_v1(2)[of c prompt])
  ultimately show ?thesis
    using assms(1,2) by (simp add: priority_dispatch_def priority_claude_def triage_dispatch_v1_def split: option.splits)
qed

theorem priority_dispatch_calls_witness:
  "snd (priority_dispatch \<lparr>gemini_client = Some (\<lambda>_. Reply ''```json\<newline>{\"scores\":{\"business_impact\":90,\"strategic_fit\":85,\"cross_client_value\":80,\"effort_size\":\"S\"},\"priority_recommendation\":\"Fast Track\"}\<newline>```''), claude_client = Some (\<lambda>_. Failure)\<rparr> ''p'')
     = [Gemini]"
proof -
  have "priority_attempt (\<lambda>_. Reply ''```json\<newline>{\"scores\":{\"business_impact\":90,\"strategic_fit\":85,\"cross_client_value\":80,\"effort_size\":\"S\"},\"priority_recommendation\":\"Fast Track\"}\<newline>```'') ''p'' \<noteq> None" by code_simp
  then show ?thesis
    using priority_dispatch_calls[of "\<lparr>gemini_client = Some (\<lambda>_. Reply ''```json\<newline>{\"scores\":{\"business_impact\":90,\"strategic_fit\":85,\"cross_client_value\":80,\"effort_size\":\"S\"},\"priority_recommendation\":\"Fast Track\"}\<newline>```''), claude_client = Some (\<lambda>_. Failure)\<rparr>" "''p''"]
    by simp
qed

theorem priority_dispatch_both_fail_witness:
  "priority_dispatch \<lparr>gemini_client = Some (\<lambda>_. Failure), claude_client = Some (\<lambda>_. Reply ''Sorry.'')\<rparr> ''p''
     = ((None, both_failed), [Gemini, Claude])"
proof -
  have h: "\<forall>(b, p) \<in> set (configured \<lparr>gemini_client = Some (\<lambda>_. Failure), claude_client = Some (\<lambda>_. Reply ''Sorry.'')\<rparr>).
             priority_attempt p ''p'' = None"
    by code_simp
  show ?thesis using priority_dispatch_both_fail[OF h] by (simp add: configured_def)
qed

theorem dispatch_revisions_agree_witness:
  "fst (fst (priority_dispatch \<lparr>gemini_client = Some (\<lambda>_. Failure), claude_client = Some (\<lambda>_. Reply ''```json\<newline>{\"scores\":{\"business_impact\":90,\"strategic_fit\":85,\"cross_client_value\":80,\"effort_size\":\"S\"},\"priority_recommendation\":\"Fast Track\"}\<newline>```'')\<rparr> ''p''))
     = fst (fst (triage_dispatch_v1 (\<lambda>_. Failure) (\<lambda>_. Reply ''```json\<newline>{\"scores\":{\"business_impact\":90,\"strategic_fit\":85,\"cross_client_value\":80,\"effort_size\":\"S\"},\"priority_recommendation\":\"Fast Track\"}\<newline>```'') ''p'')) \<and>
   snd (priority_dispatch \<lparr>gemini_client = Some (\<lambda>_. Failure), claude_client = Some (\<lambda>_. Reply ''```json\<newline>{\"scores\":{\"business_impact\":90,\"strategic_fit\":85,\"cross_client_value\":80,\"effort_size\":\"S\"},\"priority_recommendation\":\"Fast Track\"}\<newline>```'')\<rparr> ''p'')
     = [Gemini, Claude]"
proof -
  let ?g = "\<lambda>_::string. Failure"
  let ?c = "\<lambda>_::string. Reply ''```json\<newline>{\"scores\":{\"business_impact\":90,\"strategic_fit\":85,\"cross_client_value\":80,\"effort_size\":\"S\"},\"priority_recommendation\":\"Fast Track\"}\<newline>```''"
  let ?cs = "\<lparr>gemini_client = Some ?g, claude_client = Some ?c\<rparr>"
  have "parse_AI_response ''```json\<newline>{\"scores\":{\"business_impact\":90,\"strategic_fit\":85,\"cross_client_value\":80,\"effort_size\":\"S\"},\"priority_recommendation\":\"Fast Track\"}\<newline>```'' = parse_AI_response_v1 ''```json\<newline>{\"scores\":{\"business_impact\":90,\"strategic_fit\":85,\"cross_client_value\":80,\"effort_size\":\"S\"},\"priority_recommendation\":\"Fast Track\"}\<newline>```''" by code_simp
  then have h: "\<forall>t. ?c ''p'' = Reply t \<longrightarrow> parse_AI_response t = parse_AI_response_v1 t"
    by simp
  have g: "\<forall>t. ?g ''p'' = Reply t \<longrightarrow> parse_AI_response t = parse_AI_response_v1 t"
    by simp
  have "snd (triage_dispatch_v1 ?g ?c ''p'') = [Gemini, Claude]"
    by code_simp
  then show ?thesis using dispatch_revisions_agree[of ?cs ?g ?c "''p''"] g h by simp
qed

text \<open>The theme is whatever the first answering vendor wrote, trimmed: an
  empty reply or a sentence outside the controlled vocabulary becomes the theme, and
  the fallback to Claude is not taken.\<close>

theorem classify_theme_accepts_any_text:
  "classify_theme \<lparr>gemini_client = Some (\<lambda>_. Reply '' \<newline> ''), claude_client = Some (\<lambda>_. Reply ''X'')\<rparr> ''p''
     = (([], ''Gemini Flash 2.0''), [Gemini]) \<and>
   classify_theme \<lparr>gemini_client = None, claude_client = Some (\<lambda>_. Reply ''I cannot tell.'')\<rparr> ''p''
     = ((''I cannot tell.'', ''Claude Sonnet 3.5''), [Claude])"
  by (simp add: js_eval)

end
