(* ===== verification/Similarity_Group.thy ===== *)
theory Similarity_Group
  imports Js_Value
begin

text \<open>
  \<^verbatim>\<open>generateSimilarityGroup(analysis, theme)\<close> (\<^verbatim>\<open>part_001\<close>, lines 1479--1491):
  a group identifier \<^verbatim>\<open>SIM-\<close> followed by the decimal absolute value of a 32-bit
  string hash of the theme and the first 20 characters of
  \<^verbatim>\<open>analysis.similar_features\<close>. The hash step is written twice: as the code
  computes it on JavaScript numbers (\<open>sim_step_js\<close>, with \<^verbatim>\<open>ToInt32\<close> wherever
  \<^verbatim>\<open><<\<close> and \<^verbatim>\<open>&\<close> apply it) and as a step on \<^typ>\<open>32 word\<close>
  (\<open>sim_step\<close>: \<open>32 a - a + c\<close> with wrap-around); \<open>sim_hash_eq\<close> shows
  that they agree, so the identifier is determined by 32-bit arithmetic.
\<close>

unbundle bit_operations_syntax

text \<open>\<^verbatim>\<open>ToInt32\<close> of ECMAScript on integers.\<close>

definition to_int32 :: "int \<Rightarrow> int" where
  "to_int32 x = (let m = x mod 2 ^ 32 in if 2 ^ 31 \<le> m then m - 2 ^ 32 else m)"

text \<open>\<^verbatim>\<open>a = ((a << 5) - a + b.charCodeAt(0)) & 0xFFFFFFFF\<close>: the shift converts
  \<open>a\<close> with \<^verbatim>\<open>ToInt32\<close> and its result is a 32-bit integer; the subtraction and
  the addition are exact; \<^verbatim>\<open>&\<close> converts both operands with \<^verbatim>\<open>ToInt32\<close>.\<close>

definition sim_step_js :: "int \<Rightarrow> char \<Rightarrow> int" where
  "sim_step_js a c = to_int32 (to_int32 (to_int32 a * 32) - a + int (of_char c)) AND to_int32 4294967295"

definition sim_hash_js :: "string \<Rightarrow> int" where
  "sim_hash_js s = foldl sim_step_js 0 s"

definition sim_step :: "32 word \<Rightarrow> char \<Rightarrow> 32 word" where
  "sim_step a c = push_bit 5 a - a + of_nat (of_char c)"

definition sim_hash :: "string \<Rightarrow> 32 word" where
  "sim_hash s = foldl sim_step 0 s"

text \<open>\<^verbatim>\<open>String.prototype.padStart(n, c)\<close> with a one-character pad.\<close>

definition pad_start :: "nat \<Rightarrow> char \<Rightarrow> string \<Rightarrow> string" where
  "pad_start n c s = replicate (n - length s) c @ s"

text \<open>The function. \<open>analysis\<close> is \<^verbatim>\<open>null\<close> (\<open>None\<close>) or the parsed analysis;
  \<open>theme\<close> is the theme string or \<^verbatim>\<open>null\<close>. A truthy \<^verbatim>\<open>similar_features\<close> that is
  not a string has no \<^verbatim>\<open>substring\<close> method: the call throws a \<open>TypeError\<close>.\<close>

definition generate_similarity_group :: "jsval option \<Rightarrow> string option \<Rightarrow> js_error + string option" where
  "generate_similarity_group analysis theme =
     (let sf = opt_get analysis ''similar_features''
      in if \<not> truthy sf then Inr None
         else (case sf of
                 Some (JStr s) \<Rightarrow>
                   (let base = (case theme of None \<Rightarrow> ''unknown''
                                 | Some t \<Rightarrow> if t = [] then ''unknown'' else t);
                        h = sim_hash (base @ take 20 s)
                    in Inr (Some (''SIM-'' @ pad_start 3 (CHR ''0'') (nat_to_str (nat \<bar>sint h\<bar>)))))
               | _ \<Rightarrow> Inl TypeError))"

declare to_int32_def [js_eval] sim_step_js_def [js_eval] sim_hash_js_def [js_eval] sim_step_def [js_eval]
  sim_hash_def [js_eval] pad_start_def [js_eval] generate_similarity_group_def [js_eval]

subsection \<open>The hash on 32-bit words\<close>

lemma to_int32_signed_take_bit: "to_int32 x = signed_take_bit 31 x"
proof -
  obtain m :: int where m: "m = x mod 2 ^ 32" by blast
  have r: "0 \<le> m" "m < 2 ^ 32" using m by simp_all
  have l: "to_int32 x = (if 2 ^ 31 \<le> m then m - 2 ^ 32 else m)"
    by (simp add: to_int32_def m)
  have "signed_take_bit 31 x = (x + 2 ^ 31) mod 2 ^ 32 - 2 ^ 31"
    by (simp add: signed_take_bit_eq_take_bit_shift take_bit_eq_mod)
  also have "(x + 2 ^ 31) mod 2 ^ 32 = (m + 2 ^ 31) mod (2 ^ 32 :: int)"
    by (simp add: m mod_add_left_eq)
  finally have s: "signed_take_bit 31 x = (m + 2 ^ 31) mod 2 ^ 32 - 2 ^ 31" .
  show ?thesis
  proof (cases "2 ^ 31 \<le> m")
    case True
    have "(m + 2 ^ 31) mod (2 ^ 32 :: int) = ((m - 2 ^ 31) + 2 ^ 32) mod 2 ^ 32" by (simp add: add.commute)
    also have "\<dots> = m - 2 ^ 31"
      unfolding mod_add_self2 using True r by (intro mod_pos_pos_trivial) simp_all
    finally show ?thesis using True l s by simp
  next
    case False
    have "(m + 2 ^ 31) mod (2 ^ 32 :: int) = m + 2 ^ 31"
      using False r by (intro mod_pos_pos_trivial) simp_all
    then show ?thesis using False l s by simp
  qed
qed

lemma signed_take_bit_add_left: "signed_take_bit n (signed_take_bit n x + y) = signed_take_bit n (x + (y :: int))"
proof -
  have 1: "signed_take_bit n (signed_take_bit n (signed_take_bit n x) + signed_take_bit n y) =
           signed_take_bit n (signed_take_bit n x + y)"
    by (rule signed_take_bit_add)
  have 2: "signed_take_bit n (signed_take_bit n x) = signed_take_bit n x"
    by (simp add: signed_take_bit_signed_take_bit)
  from 1 2 have "signed_take_bit n (signed_take_bit n x + y) =
                 signed_take_bit n (signed_take_bit n x + signed_take_bit n y)" by simp
  also have "\<dots> = signed_take_bit n (x + y)" by (rule signed_take_bit_add)
  finally show ?thesis .
qed

lemma sim_step_word_of_int: "sim_step a c = word_of_int (sint a * 32 - sint a + int (of_char c))"
  by (simp add: sim_step_def push_bit_eq_mult)

lemma sint_signed_take_bit: "signed_take_bit 31 (sint (a :: 32 word)) = sint a"
  using sint_sbintrunc'[of "sint a", where 'a = 32] by simp

lemma to_int32_sint: "to_int32 (sint (a :: 32 word)) = sint a"
  by (simp add: to_int32_signed_take_bit sint_signed_take_bit)

lemma sim_step_sint: "sint (sim_step a c) = sim_step_js (sint a) c"
proof -
  have "sint (sim_step a c) = signed_take_bit 31 (sint a * 32 - sint a + int (of_char c))"
    unfolding sim_step_word_of_int sint_sbintrunc' by simp
  also have "\<dots> = signed_take_bit 31 (signed_take_bit 31 (sint a * 32) - sint a + int (of_char c))"
    using signed_take_bit_add_left[of 31 "sint a * 32" "int (of_char c) - sint a"]
    by (simp add: algebra_simps)
  finally show ?thesis
    by (simp add: sim_step_js_def to_int32_signed_take_bit sint_signed_take_bit)
qed

lemma sim_hash_foldl: "sint (foldl sim_step a s) = foldl sim_step_js (sint a) s"
  by (induction s arbitrary: a) (simp_all add: sim_step_sint)

text \<open>C29: the hash the code computes on JavaScript numbers is the signed reading of
  the 32-bit word hash \<open>h := 31 h + c\<close> with wrap-around.\<close>

theorem sim_hash_eq: "sint (sim_hash s) = sim_hash_js s"
  using sim_hash_foldl[of 0 s] by (simp add: sim_hash_def sim_hash_js_def)

subsection \<open>The identifier\<close>

lemma digit_chars_nth: "n < 10 \<Longrightarrow> digit_chars ! n \<in> set digit_chars"
  by (rule nth_mem) (simp add: digit_chars_def)

lemma nat_to_str_digits: "set (nat_to_str n) \<subseteq> set digit_chars"
proof (induction n rule: nat_to_str.induct)
  case (1 n)
  then show ?case by (subst nat_to_str.simps) (simp add: digit_chars_nth)
qed

lemma nat_to_str_length: "n < 10 ^ k \<Longrightarrow> 0 < k \<Longrightarrow> length (nat_to_str n) \<le> k"
proof (induction n arbitrary: k rule: nat_to_str.induct)
  case (1 n)
  show ?case
  proof (cases "n < 10")
    case True
    then show ?thesis using "1.prems" by (subst nat_to_str.simps) simp
  next
    case False
    have k: "2 \<le> k"
    proof (rule ccontr)
      assume "\<not> 2 \<le> k"
      then have "k = 1" using "1.prems"(2) by simp
      then show False using "1.prems"(1) False by simp
    qed
    have "(10::nat) ^ k = 10 ^ (k - 1) * 10"
      using k by (cases k) simp_all
    then have "n div 10 < 10 ^ (k - 1)"
      using "1.prems"(1) by (simp add: less_mult_imp_div_less)
    then have "length (nat_to_str (n div 10)) \<le> k - 1"
      using "1.IH" False k by simp
    then show ?thesis using False k by (subst nat_to_str.simps) simp
  qed
qed

lemma sint_abs_bound: "nat \<bar>sint (h :: 32 word)\<bar> < 10 ^ 10"
proof -
  have "- (2 ^ 31) \<le> sint h" "sint h < 2 ^ 31"
    using sint_ge[of h] sint_lt[of h] by simp_all
  then show ?thesis by simp
qed

lemma pad_start_digits:
  "set s \<subseteq> set digit_chars \<Longrightarrow> set (pad_start n (CHR ''0'') s) \<subseteq> set digit_chars"
  by (auto simp: pad_start_def digit_chars_def)

lemma pad_start_length: "length (pad_start n c s) = max n (length s)"
  by (simp add: pad_start_def)

lemma plain_similar_features [simp]: "plain_key ''similar_features''"
  by (simp add: plain_key_def js_eval)

text \<open>C30: every identifier the function returns is \<^verbatim>\<open>SIM-\<close> followed by 3 to 10
  decimal digits: the absolute value of a 32-bit integer has at most 10 digits, and
  \<^verbatim>\<open>padStart\<close> brings shorter ones to 3.\<close>

theorem similarity_group_format:
  assumes "generate_similarity_group a t = Inr (Some g)"
  shows "\<exists>d. g = ''SIM-'' @ d \<and> 3 \<le> length d \<and> length d \<le> 10 \<and> set d \<subseteq> set digit_chars"
proof -
  obtain h where g: "g = ''SIM-'' @ pad_start 3 (CHR ''0'') (nat_to_str (nat \<bar>sint (h :: 32 word)\<bar>))"
    using assms by (auto simp: generate_similarity_group_def Let_def split: if_splits option.splits jsval.splits)
  have "length (nat_to_str (nat \<bar>sint h\<bar>)) \<le> 10"
    using sint_abs_bound[of h] by (intro nat_to_str_length) simp_all
  then show ?thesis
    using g pad_start_length nat_to_str_digits pad_start_digits by fastforce
qed

text \<open>A truthy \<^verbatim>\<open>similar_features\<close> that is not a string (a list or a number
  in the model's reply) makes the function throw a \<open>TypeError\<close>.\<close>

theorem similarity_group_type_error:
  assumes "map_of kvs ''similar_features'' = Some v" and "js_truthy v" and "\<forall>s. v \<noteq> JStr s"
  shows "generate_similarity_group (Some (JObj kvs)) t = Inl TypeError"
  using assms by (cases v) (auto simp: generate_similarity_group_def opt_get_def)

theorem similarity_group_format_witness:
  "generate_similarity_group (Some (JObj [(''similar_features'', JStr ''x'')])) None = Inr (Some ''SIM-240132754'') \<and>
   (\<exists>d. ''SIM-240132754'' = ''SIM-'' @ d \<and> 3 \<le> length d \<and> length d \<le> 10 \<and> set d \<subseteq> set digit_chars)"
proof -
  have e: "sint (sim_hash ''unknownx'') = -240132754"
    using sim_hash_foldl[of 0 "''unknownx''"] by (simp add: sim_hash_def js_eval)
  have h: "generate_similarity_group (Some (JObj [(''similar_features'', JStr ''x'')])) None = Inr (Some ''SIM-240132754'')"
    by (simp add: generate_similarity_group_def opt_get_def e pad_start_def nat_to_str.simps digit_chars_def)
  show ?thesis using h similarity_group_format[OF h] by blast
qed

theorem similarity_group_type_error_witness:
  "generate_similarity_group (Some (JObj [(''similar_features'', JArr [JStr ''Dashboards''])])) (Some ''T'') = Inl TypeError"
  by (rule similarity_group_type_error[where v = "JArr [JStr ''Dashboards'']"]) simp_all

end
