(* ===== verification/Issue_Classifier.thy ===== *)
theory Issue_Classifier
  imports Js_Value
begin

text \<open>
  \<^verbatim>\<open>classifyBugOrFeature(issueData)\<close> (\<^verbatim>\<open>part_001\<close>, lines 1428--1476): the
  \<^verbatim>\<open>Bug\<close>/\<^verbatim>\<open>Feature\<close> class of the handler's answer. Keyword hits weigh 2,
  regular-expression hits 1 and label hits 3; the larger score wins and a tie is a
  feature. The inputs are read as the code reads them, so a field of the wrong type
  makes the call throw a \<open>TypeError\<close> (the \<open>Inl\<close> of the result).

  The patterns are words joined by \<^verbatim>\<open>.*\<close>, tested with the flag \<^verbatim>\<open>i\<close>:
  \<open>regex_test\<close> looks for the words in order inside one line, since \<^verbatim>\<open>.\<close> matches
  every character but a line terminator.
\<close>

definition bug_keywords :: "string list" where
  "bug_keywords = [''bug'', ''fix'', ''error'', ''broken'', ''issue'', ''problem'', ''crash'', ''fail'',
     ''not working'', ''broken'']"

definition bug_patterns :: "string list" where
  "bug_patterns = [''fix.*'', ''broken.*'', ''not.*working'', ''error.*'', ''bug.*'']"

definition feature_keywords :: "string list" where
  "feature_keywords = [''add'', ''new'', ''implement'', ''create'', ''build'', ''enhance'', ''improve'',
     ''upgrade'', ''feature'']"

definition feature_patterns :: "string list" where
  "feature_patterns = [''add.*'', ''new.*'', ''implement.*'', ''create.*'', ''build.*'']"

subsection \<open>Regular expressions of the form \<open>w\<^sub>1.*w\<^sub>2\<close>\<close>

definition line_terminator :: "char \<Rightarrow> bool" where
  "line_terminator c \<longleftrightarrow> c = CHR 0x0A \<or> c = CHR 0x0D"

text \<open>The lines of a string; \<open>cur\<close> holds the current line reversed.\<close>

fun split_lines :: "string \<Rightarrow> string \<Rightarrow> string list" where
  "split_lines cur [] = [rev cur]"
| "split_lines cur (c # cs) =
     (if line_terminator c then rev cur # split_lines [] cs else split_lines (c # cur) cs)"

text \<open>The words in order, each after the end of the one before; the leftmost
  occurrence of a word leaves the longest rest, so the greedy search is complete.\<close>

fun seq_match :: "string list \<Rightarrow> string \<Rightarrow> bool" where
  "seq_match [] s = True"
| "seq_match (p # ps) s = (case split_first p s of None \<Rightarrow> False | Some (_, rest) \<Rightarrow> seq_match ps rest)"

definition regex_test :: "string \<Rightarrow> string \<Rightarrow> bool" where
  "regex_test pat s = list_ex (seq_match (js_split pat ''.*'')) (split_lines [] (js_to_lower s))"

subsection \<open>The classifier\<close>

text \<open>\<^verbatim>\<open>(x || '').toLowerCase()\<close>: a truthy value that is not a string has no
  \<^verbatim>\<open>toLowerCase\<close>.\<close>

definition lower_field :: "jsval option \<Rightarrow> js_error + string" where
  "lower_field v = (case js_or_d v (JStr []) of JStr s \<Rightarrow> Inr (js_to_lower s) | _ \<Rightarrow> Inl TypeError)"

text \<open>\<^verbatim>\<open>(labels || []).map(l => l.toLowerCase())\<close>.\<close>

definition lower_labels :: "jsval option \<Rightarrow> js_error + string list" where
  "lower_labels v =
     (case js_or_d v (JArr []) of
        JArr xs \<Rightarrow> map_sum (\<lambda>l. case l of JStr s \<Rightarrow> Inr (js_to_lower s) | _ \<Rightarrow> Inl TypeError) xs
      | _ \<Rightarrow> Inl TypeError)"

definition keyword_score :: "string list \<Rightarrow> string \<Rightarrow> string \<Rightarrow> int" where
  "keyword_score kws summary description =
     sum_list (map (\<lambda>k. if js_includes summary k \<or> js_includes description k then 2 else 0) kws)"

definition pattern_score :: "string list \<Rightarrow> string \<Rightarrow> string \<Rightarrow> int" where
  "pattern_score pats summary description =
     sum_list (map (\<lambda>p. if regex_test p summary \<or> regex_test p description then 1 else 0) pats)"

definition bug_score :: "string \<Rightarrow> string \<Rightarrow> string list \<Rightarrow> int" where
  "bug_score summary description labels =
     keyword_score bug_keywords summary description + pattern_score bug_patterns summary description
     + (if ''bug'' \<in> set labels \<or> ''defect'' \<in> set labels then 3 else 0)"

definition feature_score :: "string \<Rightarrow> string \<Rightarrow> string list \<Rightarrow> int" where
  "feature_score summary description labels =
     keyword_score feature_keywords summary description + pattern_score feature_patterns summary description
     + (if ''enhancement'' \<in> set labels \<or> ''feature'' \<in> set labels then 3 else 0)"

definition classify_bug_or_feature :: "jsval option \<Rightarrow> js_error + string" where
  "classify_bug_or_feature issue =
     (let fields = opt_get issue ''fields'' in
      case lower_field (opt_get fields ''summary'') of
        Inl e \<Rightarrow> Inl e
      | Inr summary \<Rightarrow>
          (case lower_field (opt_get fields ''description'') of
             Inl e \<Rightarrow> Inl e
           | Inr description \<Rightarrow>
               (case lower_labels (opt_get fields ''labels'') of
                  Inl e \<Rightarrow> Inl e
                | Inr labels \<Rightarrow>
                    (let b = bug_score summary description labels;
                         f = feature_score summary description labels
                     in Inr (if b > f then ''Bug'' else if f > b then ''Feature'' else ''Feature'')))))"

declare bug_keywords_def [js_eval] bug_patterns_def [js_eval] feature_keywords_def [js_eval]
  feature_patterns_def [js_eval] line_terminator_def [js_eval] regex_test_def [js_eval]
  lower_field_def [js_eval] lower_labels_def [js_eval] keyword_score_def [js_eval]
  pattern_score_def [js_eval] bug_score_def [js_eval] feature_score_def [js_eval]
  classify_bug_or_feature_def [js_eval]

subsection \<open>Patterns of one word\<close>

lemma sublist_append_sep:
  assumes "c \<notin> set w"
  shows "sublist w (a @ c # b) \<longleftrightarrow> sublist w a \<or> sublist w b"
proof
  assume "sublist w (a @ c # b)"
  then consider "sublist w a" | "sublist w (c # b)"
    | xs1 xs2 where "w = xs1 @ xs2" "suffix xs1 a" "prefix xs2 (c # b)"
    by (auto simp: sublist_append)
  then show "sublist w a \<or> sublist w b"
  proof cases
    case 2
    then show ?thesis using assms by (cases w) (auto simp: sublist_Cons_right)
  next
    case 3
    then show ?thesis using assms by (cases xs2) (auto intro: suffix_imp_sublist)
  qed simp
next
  assume "sublist w a \<or> sublist w b"
  then show "sublist w (a @ c # b)"
    unfolding sublist_def by (metis append.assoc append_Cons)
qed

lemma split_lines_sublist:
  assumes "\<forall>c \<in> set w. \<not> line_terminator c"
  shows "list_ex (sublist w) (split_lines cur s) \<longleftrightarrow> sublist w (rev cur @ s)"
  using assms
proof (induction cur s rule: split_lines.induct)
  case (2 cur c cs)
  show ?case
  proof (cases "line_terminator c")
    case True
    then have "c \<notin> set w" using "2.prems" by blast
    then show ?thesis using True "2.IH"(1) "2.prems" by (simp add: sublist_append_sep)
  next
    case False
    then show ?thesis using "2.IH"(2) "2.prems" by simp
  qed
qed simp

lemma js_split_word_dotstar:
  assumes "\<not> sublist ''.*'' (w @ ''.'')"
  shows "js_split (w @ ''.*'') ''.*'' = [w, []]"
proof -
  have "split_first ''.*'' (w @ ''.*'' @ []) = Some (w, [])"
    using assms by (intro split_first_append) simp_all
  then have "js_split (w @ ''.*'') ''.*'' = w # js_split [] ''.*''"
    using js_split_found[of "''.*''" "w @ ''.*''" w "[]"] by simp
  then show ?thesis by (simp add: js_split_def)
qed

lemma split_first_Nil: "split_first [] s = Some ([], s)"
  by (cases s) simp_all

lemma seq_match_word: "seq_match [w, []] = sublist w"
proof
  fix s
  show "seq_match [w, []] s = sublist w s"
    using split_first_None[of w s] by (auto simp: split_first_Nil js_includes_sublist split: option.splits)
qed

lemma js_lower_char_idem: "js_lower_char (js_lower_char c) = js_lower_char c"
  by (simp add: js_lower_char_def Let_def)

lemma js_to_lower_idem: "js_to_lower (js_to_lower s) = js_to_lower s"
  by (simp add: js_to_lower_def comp_def js_lower_char_idem)

text \<open>A pattern \<open>w.*\<close> of one word (no line terminator, no \<^verbatim>\<open>.*\<close> inside)
  fires exactly when the lower-cased text contains \<open>w\<close>: the four single-word bug
  patterns and five feature patterns repeat keyword tests, so each such word weighs 3.\<close>

theorem regex_word_is_includes:
  assumes "\<forall>c \<in> set w. \<not> line_terminator c" and "\<not> sublist ''.*'' (w @ ''.'')"
  shows "regex_test (w @ ''.*'') s \<longleftrightarrow> js_includes (js_to_lower s) w"
  using split_lines_sublist[OF assms(1), of "[]" "js_to_lower s"]
  by (simp add: regex_test_def js_split_word_dotstar[OF assms(2)] seq_match_word js_includes_sublist)
theorem regex_word_is_includes_witness:
  "regex_test ''fix.*'' ''Prefixed value''"
proof -
  have h1: "\<forall>c \<in> set ''fix''. \<not> line_terminator c" by (simp add: line_terminator_def)
  have h2: "\<not> sublist ''.*'' (''fix'' @ ''.'')" by (simp add: sublist_Cons_right)
  have "js_includes (js_to_lower ''Prefixed value'') ''fix''" by code_simp
  then show ?thesis using regex_word_is_includes[OF h1 h2, of "''Prefixed value''"] by simp
qed

lemma plain_fields_keys [simp]:
  "plain_key ''fields''" "plain_key ''summary''" "plain_key ''description''" "plain_key ''labels''"
  by (simp_all add: plain_key_def js_eval)

text \<open>\<^verbatim>\<open>broken\<close> is listed twice among the bug keywords, so it weighs 4 and
  decides cases the specification's weights (each keyword once) would call a feature:
  \<^verbatim>\<open>Broken add button\<close> scores 5 to 3 as a bug, and 3 to 3, a feature, with
  \<^verbatim>\<open>broken\<close> counted once.\<close>

theorem classify_broken_counted_twice:
  "classify_bug_or_feature (Some (JObj [(''fields'', JObj [(''summary'', JStr ''Broken add button'')])]))
     = Inr ''Bug'' \<and>
   bug_score ''broken add button'' [] [] = 5 \<and> feature_score ''broken add button'' [] [] = 3 \<and>
   keyword_score (remdups bug_keywords) ''broken add button'' [] + pattern_score bug_patterns ''broken add button'' []
     = feature_score ''broken add button'' [] []"
  by code_simp

text \<open>Labels that are not an array (a single string, say) make the classifier throw
  a \<open>TypeError\<close> once summary and description have been read, instead of being
  ignored or treated as one label.\<close>

theorem classify_labels_type_error:
  assumes "lower_field (opt_get (opt_get i ''fields'') ''summary'') = Inr s"
    and "lower_field (opt_get (opt_get i ''fields'') ''description'') = Inr d"
    and "opt_get (opt_get i ''fields'') ''labels'' = Some v" and "js_truthy v" and "\<forall>xs. v \<noteq> JArr xs"
  shows "classify_bug_or_feature i = Inl TypeError"
  using assms by (cases v) (auto simp: classify_bug_or_feature_def lower_labels_def)

theorem classify_labels_type_error_witness:
  "classify_bug_or_feature (Some (JObj [(''fields'', JObj [(''summary'', JStr ''Crash''), (''labels'', JStr ''bug'')])]))
     = Inl TypeError"
proof -
  let ?i = "Some (JObj [(''fields'', JObj [(''summary'', JStr ''Crash''), (''labels'', JStr ''bug'')])])"
  have h1: "lower_field (opt_get (opt_get ?i ''fields'') ''summary'') = Inr ''crash''"
    by code_simp
  have h2: "lower_field (opt_get (opt_get ?i ''fields'') ''description'') = Inr []"
    by (simp add: js_eval)
  have h3: "opt_get (opt_get ?i ''fields'') ''labels'' = Some (JStr ''bug'')"
    by (simp add: opt_get_def)
  show ?thesis by (rule classify_labels_type_error[OF h1 h2 h3]) simp_all
qed

end
