(* ===== verification/Ticket_Inference.thy ===== *)
theory Ticket_Inference
  imports Issue_Classifier
begin

text \<open>
  The deterministic helpers that feed the scoring prompt (\<^verbatim>\<open>part_001\<close>, lines
  636--972): \<^verbatim>\<open>estimateEffort\<close> scores the five effort sizes by keyword (10),
  pattern (15) and component (5) hits, keeps the first size with the highest score
  (\<^verbatim>\<open>M\<close> when all are 0) and applies two override rules;
  \<^verbatim>\<open>getProductContext\<close> detects the product by substring tests in a fixed order,
  and \<^verbatim>\<open>getProductDetails\<close> with the three \<^verbatim>\<open>getRelevant*Features\<close> functions
  returns the static knowledge block of that product. Fields are read as in
  \<open>Issue_Classifier\<close>; a component without a string \<^verbatim>\<open>name\<close> makes the call throw.
\<close>

text \<open>\<^verbatim>\<open>(issue.fields?.components || []).map(c => c.name.toLowerCase())\<close>.\<close>

definition lower_components :: "jsval option \<Rightarrow> js_error + string list" where
  "lower_components v =
     (case js_or_d v (JArr []) of
        JArr xs \<Rightarrow>
          map_sum (\<lambda>c. if c = JNull then Inl TypeError
                       else (case get_prop c ''name'' of Some (JStr s) \<Rightarrow> Inr (js_to_lower s) | _ \<Rightarrow> Inl TypeError)) xs
      | _ \<Rightarrow> Inl TypeError)"

text \<open>\<^verbatim>\<open>issue.fields?.k\<close> for an issue object.\<close>

definition issue_field :: "jsval \<Rightarrow> string \<Rightarrow> jsval option" where
  "issue_field issue k = opt_get (get_prop issue ''fields'') k"

text \<open>The four lower-cased inputs every helper starts from, read in the code's order.\<close>

definition read_issue :: "jsval \<Rightarrow> js_error + string \<times> string \<times> string list \<times> string list" where
  "read_issue issue =
     (case lower_field (issue_field issue ''summary'') of
        Inl e \<Rightarrow> Inl e
      | Inr summary \<Rightarrow>
          (case lower_field (issue_field issue ''description'') of
             Inl e \<Rightarrow> Inl e
           | Inr description \<Rightarrow>
               (case lower_components (issue_field issue ''components'') of
                  Inl e \<Rightarrow> Inl e
                | Inr components \<Rightarrow>
                    (case lower_labels (issue_field issue ''labels'') of
                       Inl e \<Rightarrow> Inl e
                     | Inr labels \<Rightarrow> Inr (summary, description, components, labels)))))"

subsection \<open>\<^verbatim>\<open>estimateEffort\<close>\<close>

record effort_indicator =
  ind_keywords :: "string list"
  ind_patterns :: "string list"
  ind_score :: int
  ind_description :: string

definition effort_indicators :: "(string \<times> effort_indicator) list" where
  "effort_indicators =
     [(''XS'', \<lparr>ind_keywords = [''config'', ''setting'', ''toggle'', ''button'', ''styling'', ''color'', ''text'', ''minor'', ''small'', ''simple''],
        ind_patterns = [''fix.*button'', ''change.*color'', ''update.*text'', ''add.*toggle''],
        ind_score = 100, ind_description = ''1-2 weeks: Simple config/UI changes, minor bug fixes''\<rparr>),
      (''S'', \<lparr>ind_keywords = [''widget'', ''component'', ''api'', ''endpoint'', ''integration'', ''moderate'', ''medium''],
        ind_patterns = [''add.*widget'', ''new.*api'', ''create.*component'', ''integrate.*service''],
        ind_score = 80, ind_description = ''2-4 weeks: Single service changes, new components, moderate features''\<rparr>),
      (''M'', \<lparr>ind_keywords = [''dashboard'', ''report'', ''workflow'', ''complex'', ''multiple'', ''major''],
        ind_patterns = [''new.*dashboard'', ''create.*workflow'', ''build.*report'', ''multiple.*services''],
        ind_score = 60, ind_description = ''1-2 months: Multiple service integration, complex features, major UI changes''\<rparr>),
      (''L'', \<lparr>ind_keywords = [''architecture'', ''migration'', ''platform'', ''infrastructure'', ''large''],
        ind_patterns = [''architectural.*change'', ''platform.*migration'', ''infrastructure.*update''],
        ind_score = 40, ind_description = ''2-4 months: Architectural changes, platform migrations, complex integrations''\<rparr>),
      (''XL'', \<lparr>ind_keywords = [''rewrite'', ''overhaul'', ''new product'', ''major platform'', ''enterprise''],
        ind_patterns = [''rewrite.*system'', ''new.*product'', ''major.*overhaul'', ''enterprise.*feature''],
        ind_score = 20, ind_description = ''4+ months: Platform rewrites, major infrastructure, new product lines''\<rparr>)]"

text \<open>The reasons kept: \<^verbatim>\<open>.filter(r => !r.includes('undefined') && !r.includes('matched: '))\<close>.\<close>

definition keep_reasons :: "string list \<Rightarrow> string list" where
  "keep_reasons rs = filter (\<lambda>r. \<not> js_includes r ''undefined'' \<and> \<not> js_includes r ''matched: '') rs"

text \<open>The loop over \<^verbatim>\<open>Object.entries(effortIndicators)\<close>, in insertion order, with the
  state \<open>(maxScore, estimatedEffort, reasoning)\<close>.\<close>

fun effort_loop ::
  "string \<Rightarrow> string \<Rightarrow> string list \<Rightarrow> (string \<times> effort_indicator) list \<Rightarrow>
   int \<times> string \<times> string list \<Rightarrow> int \<times> string \<times> string list" where
  "effort_loop summary description components [] st = st"
| "effort_loop summary description components ((effort, ind) # rest) (max_score, est, reasoning) =
     (let km = filter (\<lambda>k. js_includes summary k \<or> js_includes description k) (ind_keywords ind);
          pm = filter (\<lambda>p. regex_test p summary \<or> regex_test p description) (ind_patterns ind);
          cm = filter (\<lambda>c. list_ex (\<lambda>k. js_includes c k) (ind_keywords ind)) components;
          score = int (length km) * 10 + int (length pm) * 15 + int (length cm) * 5
      in effort_loop summary description components rest
           (if score > max_score
            then (score, effort,
                  keep_reasons [''Keywords matched: '' @ js_join '', '' km,
                                ''Patterns matched: '' @ js_join '', '' pm,
                                ''Components: '' @ js_join '', '' cm])
            else (max_score, est, reasoning)))"

text \<open>The two override rules, in order.\<close>

definition effort_overrides :: "string \<Rightarrow> string \<times> string list \<Rightarrow> string \<times> string list" where
  "effort_overrides summary er =
     (let (est, rs) = er;
          (est1, rs1) =
            (if js_includes summary ''bug'' \<or> js_includes summary ''fix'' then
               (if js_includes summary ''minor'' \<or> js_includes summary ''small''
                then (''XS'', rs @ [''Minor bug fix identified''])
                else if js_includes summary ''critical'' \<or> js_includes summary ''major''
                then (''M'', rs @ [''Critical bug fix - moderate effort''])
                else (est, rs))
             else (est, rs))
      in if js_includes summary ''security'' \<or> js_includes summary ''compliance''
         then (''S'', rs1 @ [''Security/compliance items typically S effort''])
         else (est1, rs1))"

record effort_estimate =
  effort_size :: string
  effort_score :: int
  reasoning :: string
  effort_description :: string

definition estimate_effort :: "jsval \<Rightarrow> js_error + effort_estimate" where
  "estimate_effort issue =
     (case read_issue issue of
        Inl e \<Rightarrow> Inl e
      | Inr (summary, description, components, labels) \<Rightarrow>
          (let (max_score, est, rs) = effort_loop summary description components effort_indicators (0, ''M'', []);
               (est', rs') = effort_overrides summary (est, rs);
               ind = the (map_of effort_indicators est')
           in Inr \<lparr>effort_size = est', effort_score = ind_score ind, reasoning = js_join ''; '' rs',
                  effort_description = ind_description ind\<rparr>))"

subsection \<open>\<^verbatim>\<open>getProductDetails\<close> and the feature lookups\<close>

text \<open>\<^verbatim>\<open>getRelevant*Features(summary, description)\<close>: the features whose keyword
  occurs, in order, or the product's default line.\<close>

definition relevant_features :: "(string \<times> string) list \<Rightarrow> string \<Rightarrow> string \<Rightarrow> string \<Rightarrow> string list" where
  "relevant_features rules dflt summary description =
     (let fs = map snd (filter (\<lambda>(k, _). js_includes summary k \<or> js_includes description k) rules)
      in if fs \<noteq> [] then fs else [dflt])"

definition aurora_feature_rules :: "(string \<times> string) list" where
  "aurora_feature_rules =
     [(''moderation'', ''AI-powered contextual moderation with automated flagging and escalation queues''),
      (''search'', ''Smart search with intent-aware results and content discovery''),
      (''knowledge'', ''Knowledge base integration with AI-powered routing and recommendations''),
      (''gamification'', ''Over 80 out-of-the-box triggers for badges, ranks, and rewards''),
      (''theme'', ''Multi-theme support with Theme Studio for low-code customization''),
      (''api'', ''Open APIs and webhooks for integration with external systems''),
      (''sdk'', ''Developer SDK for building custom components and extensions''),
      (''workflow'', ''Content Workflow (CWA) for approval and governance flows''),
      (''sso'', ''Multi-auth SSO options including OpenID Connect/OAuth2 and JWT'')]"

definition aurora_default_feature :: string where
  "aurora_default_feature = ''Core community engagement and knowledge management features''"

definition care_feature_rules :: "(string \<times> string) list" where
  "care_feature_rules =
     [(''routing'', ''Smart routing with AI-powered ticket assignment''),
      (''workflow'', ''Workflow automation for process optimization''),
      (''ai'', ''AI assistance for intelligent responses and automation''),
      (''integration'', ''Multi-channel integration for unified customer experience'')]"

definition care_default_feature :: string where
  "care_default_feature = ''Core customer care and support features''"

definition social_feature_rules :: "(string \<times> string) list" where
  "social_feature_rules =
     [(''publishing'', ''Multi-platform social media publishing and scheduling''),
      (''campaign'', ''Campaign management and execution tools''),
      (''analytics'', ''Comprehensive social media analytics and reporting''),
      (''listening'', ''Social listening and brand monitoring'')]"

definition social_default_feature :: string where
  "social_default_feature = ''Core social media management features''"

record product_details =
  overview :: string
  core_pillars :: "string list"
  key_capabilities :: "string list"
  relevant_feats :: "string list"
  business_context :: string
  technical_context :: string

text \<open>The function reads summary and description again from the issue; they cannot throw
  here, since \<^verbatim>\<open>getProductContext\<close> read them first.\<close>

definition product_details_of :: "string \<Rightarrow> string \<Rightarrow> string \<Rightarrow> product_details" where
  "product_details_of product_name summary description =
     (if product_name = ''Khoros Aurora Community'' then
        \<lparr>overview = ''Khoros Aurora is a unified platform for digital engagement, focusing on Community & Knowledge Management (CKM) for enterprise buyers. It represents a strategic shift from siloed tools to an integrated engagement ecosystem.'',
         core_pillars = [''Community Engagement: Peer-to-peer support, product feedback, gamification, loyalty programs'',
           ''Digital Care: Unified agent workspace with smart routing and AI assistance'',
           ''Social Media Management: Publishing, moderation, campaign execution, analytics''],
         key_capabilities = [''Unified Platform: Integrates community content, curated knowledge, and agent workflows'',
           ''Enterprise Architecture: Multi-brand management, role-based access, compliance (SOC 2, GDPR, CCPA)'',
           ''Aurora AI: Contextual moderation, smart search, knowledge routing, intelligent content surfacing'',
           ''Community Features: Advanced moderation, structured ideation, gamification, reputation systems'',
           ''Knowledge Integration: Peer-to-agent escalation, CRM integration, case deflection'',
           ''Customization: Flexible theming, developer SDK, open APIs, embeddable widgets''],
         relevant_feats = relevant_features aurora_feature_rules aurora_default_feature summary description,
         business_context = ''Enterprise B2B SaaS platform serving Fortune 500 companies, government agencies, and major brands. Focuses on reducing support costs through community-driven self-service and knowledge management.'',
         technical_context = ''Built on modern architecture with AI integration, multi-tenant support, and extensive customization options through SDK and APIs.''\<rparr>
      else if product_name = ''Khoros Care'' then
        \<lparr>overview = ''Khoros Care provides unified customer care across messaging, social, and owned channels with AI-powered assistance and workflow automation.'',
         core_pillars = [''Agent Productivity: Unified workspace, smart routing, workflow automation'',
           ''AI Assistance: Intelligent responses, automated workflows, predictive analytics'',
           ''Multi-Channel Support: Messaging, social media, email, chat integration''],
         key_capabilities = [''Unified Agent Workspace: Single interface for all customer interactions'',
           ''Smart Routing: AI-powered ticket assignment and escalation'',
           ''Workflow Automation: Automated responses and process optimization'',
           ''AI Assistance: Intelligent suggestions and automated workflows''],
         relevant_feats = relevant_features care_feature_rules care_default_feature summary description,
         business_context = ''Enterprise customer care platform focused on reducing response times and improving customer satisfaction through AI and automation.'',
         technical_context = ''Modern cloud platform with AI integration, extensive API support, and enterprise-grade security.''\<rparr>
      else if product_name = ''Khoros Social Media & Marketing'' then
        \<lparr>overview = ''Khoros Social Media & Marketing platform provides comprehensive social media management, campaign execution, and analytics across global social footprints.'',
         core_pillars = [''Social Publishing: Multi-platform content creation and scheduling'',
           ''Campaign Management: Campaign execution, monitoring, and optimization'',
           ''Analytics & Reporting: Performance metrics and ROI measurement''],
         key_capabilities = [''Multi-Platform Publishing: Support for major social media platforms'',
           ''Campaign Execution: End-to-end campaign management and optimization'',
           ''Social Listening: Brand monitoring and crisis response'',
           ''Analytics: Comprehensive reporting and performance metrics''],
         relevant_feats = relevant_features social_feature_rules social_default_feature summary description,
         business_context = ''Enterprise social media management platform for brands and agencies managing global social presence.'',
         technical_context = ''Cloud-based platform with real-time monitoring, extensive API integration, and enterprise security.''\<rparr>
      else
        \<lparr>overview = ''Khoros is a B2B SaaS platform serving enterprise customers in social media management, community engagement, and customer care.'',
         core_pillars = [''Community & Knowledge Management'',
           ''Customer Care & Support'',
           ''Social Media Management''],
         key_capabilities = [''Enterprise-grade platform with AI integration'',
           ''Multi-product ecosystem with unified data'',
           ''Extensive customization and integration options''],
         relevant_feats = [''Core platform features and capabilities''],
         business_context = ''Enterprise B2B SaaS platform serving Fortune 500 companies and major brands.'',
         technical_context = ''Modern cloud architecture with AI capabilities and enterprise security.''\<rparr>)"

definition get_product_details :: "string \<Rightarrow> jsval \<Rightarrow> js_error + product_details" where
  "get_product_details product_name issue =
     (case lower_field (issue_field issue ''summary'') of
        Inl e \<Rightarrow> Inl e
      | Inr summary \<Rightarrow>
          (case lower_field (issue_field issue ''description'') of
             Inl e \<Rightarrow> Inl e
           | Inr description \<Rightarrow> Inr (product_details_of product_name summary description)))"

subsection \<open>\<^verbatim>\<open>getProductContext\<close>\<close>

definition mentions :: "string \<Rightarrow> string \<Rightarrow> string list \<Rightarrow> string list \<Rightarrow> string \<Rightarrow> bool" where
  "mentions summary description components labels w \<longleftrightarrow>
     js_includes summary w \<or> js_includes description w \<or>
     list_ex (\<lambda>c. js_includes c w) components \<or> list_ex (\<lambda>l. js_includes l w) labels"

definition detect_product :: "string \<Rightarrow> string \<Rightarrow> string list \<Rightarrow> string list \<Rightarrow> string \<times> string" where
  "detect_product summary description components labels =
     (let m = mentions summary description components labels in
      if m ''community'' then
        (if m ''aurora'' then (''Khoros Aurora Community'', ''High'')
         else if m ''classic'' then (''Khoros Classic Community'', ''High'')
         else (''Khoros Community Platform'', ''Medium''))
      else if m ''care'' then (''Khoros Care'', ''High'')
      else if js_includes summary ''social'' \<or> js_includes description ''social'' \<or>
              js_includes summary ''marketing'' \<or> js_includes description ''marketing'' \<or>
              list_ex (\<lambda>c. js_includes c ''social'' \<or> js_includes c ''marketing'') components \<or>
              list_ex (\<lambda>l. js_includes l ''social'' \<or> js_includes l ''marketing'') labels
      then (''Khoros Social Media & Marketing'', ''High'')
      else (''Unknown'', ''Low''))"

record product_context =
  product :: string
  confidence :: string
  ind_summary :: string
  ind_components :: "string list"
  ind_labels :: "string list"
  details :: "product_details option"

definition get_product_context :: "jsval \<Rightarrow> js_error + product_context" where
  "get_product_context issue =
     (case read_issue issue of
        Inl e \<Rightarrow> Inl e
      | Inr (summary, description, components, labels) \<Rightarrow>
          (let (prod, conf) = detect_product summary description components labels
           in case get_product_details prod issue of
                Inl e \<Rightarrow> Inl e
              | Inr d \<Rightarrow> Inr \<lparr>product = prod, confidence = conf, ind_summary = take 100 summary,
                             ind_components = components, ind_labels = labels, details = Some d\<rparr>))"

declare lower_components_def [js_eval] issue_field_def [js_eval] read_issue_def [js_eval]
  effort_indicators_def [js_eval] keep_reasons_def [js_eval] effort_overrides_def [js_eval]
  estimate_effort_def [js_eval] relevant_features_def [js_eval] aurora_feature_rules_def [js_eval]
  aurora_default_feature_def [js_eval] care_feature_rules_def [js_eval] care_default_feature_def [js_eval]
  social_feature_rules_def [js_eval] social_default_feature_def [js_eval] product_details_of_def [js_eval]
  get_product_details_def [js_eval] mentions_def [js_eval] detect_product_def [js_eval]
  get_product_context_def [js_eval]

subsection \<open>What \<^verbatim>\<open>estimateEffort\<close> returns\<close>

lemma effort_loop_key:
  "fst (snd (effort_loop s d cs inds (m, e, rs))) \<in> insert e (set (map fst inds))"
  by (induction s d cs inds "(m, e, rs)" arbitrary: m e rs rule: effort_loop.induct)
     (auto simp: Let_def split: if_splits, (metis insert_iff)+)

lemma effort_overrides_key:
  "est \<in> set (map fst effort_indicators) \<Longrightarrow> fst (effort_overrides s (est, rs)) \<in> set (map fst effort_indicators)"
  by (simp add: effort_overrides_def effort_indicators_def Let_def split: prod.splits)

lemma keep_reasons_components:
  "r \<in> set (keep_reasons [''Keywords matched: '' @ a, ''Patterns matched: '' @ b, ''Components: '' @ c]) \<Longrightarrow>
   r = ''Components: '' @ c"
proof -
  have m: "js_includes ''matched: '' ''matched: ''" by simp
  have "js_includes (''Keywords '' @ ''matched: '' @ a) ''matched: ''"
    and "js_includes (''Patterns '' @ ''matched: '' @ b) ''matched: ''"
    using js_includes_mono[OF m] by simp_all
  then show "r \<in> set (keep_reasons [''Keywords matched: '' @ a, ''Patterns matched: '' @ b, ''Components: '' @ c]) \<Longrightarrow>
             r = ''Components: '' @ c"
    by (auto simp: keep_reasons_def split: if_splits)
qed

lemma keep_reasons_prefix:
  "\<forall>r \<in> set (keep_reasons [''Keywords matched: '' @ a, ''Patterns matched: '' @ b, ''Components: '' @ c]).
     prefix ''Components: '' r"
proof
  fix r
  assume "r \<in> set (keep_reasons [''Keywords matched: '' @ a, ''Patterns matched: '' @ b, ''Components: '' @ c])"
  then have "r = ''Components: '' @ c" by (rule keep_reasons_components)
  then show "prefix ''Components: '' r" by (simp only: prefix_def) blast
qed

lemma effort_loop_reasons:
  "\<forall>r \<in> set rs. prefix ''Components: '' r \<Longrightarrow>
   \<forall>r \<in> set (snd (snd (effort_loop s d cs inds (m, e, rs)))). prefix ''Components: '' r"
proof (induction inds arbitrary: m e rs)
  case (Cons x rest)
  obtain a ind where x: "x = (a, ind)" by fastforce
  show ?case
    unfolding x effort_loop.simps Let_def
    by (split if_split, intro conjI impI Cons.IH keep_reasons_prefix Cons.prems)
qed simp

lemma effort_overrides_fst_S: "js_includes s ''security'' \<Longrightarrow> fst (effort_overrides s er) = ''S''"
  by (simp add: effort_overrides_def Let_def split: prod.splits)

lemma effort_overrides_reasons:
  "\<exists>xs. snd (effort_overrides s (est, rs)) = rs @ xs \<and>
     set xs \<subseteq> {''Minor bug fix identified'', ''Critical bug fix - moderate effort'',
                 ''Security/compliance items typically S effort''}"
  by (auto simp: effort_overrides_def Let_def)

lemma effort_indicators_lookup:
  "k \<in> set (map fst effort_indicators) \<Longrightarrow>
   (k, ind_score (the (map_of effort_indicators k))) \<in> set (map (\<lambda>(k, ind). (k, ind_score ind)) effort_indicators)"
  by (auto simp: effort_indicators_def)

lemma estimate_effort_result:
  assumes "estimate_effort i = Inr e"
  obtains s d cs ls m est rs where "read_issue i = Inr (s, d, cs, ls)"
    "effort_loop s d cs effort_indicators (0, ''M'', []) = (m, est, rs)"
    "effort_size e = fst (effort_overrides s (est, rs))"
    "effort_score e = ind_score (the (map_of effort_indicators (fst (effort_overrides s (est, rs)))))"
    "reasoning e = js_join ''; '' (snd (effort_overrides s (est, rs)))"
  using assms by (auto simp: estimate_effort_def Let_def split: sum.splits prod.splits)

text \<open>C33: \<^verbatim>\<open>estimateEffort\<close> always returns one of the five sizes of its table with
  that size's score: \<^verbatim>\<open>XS\<close> 100, \<^verbatim>\<open>S\<close> 80, \<^verbatim>\<open>M\<close> 60, \<^verbatim>\<open>L\<close> 40,
  \<^verbatim>\<open>XL\<close> 20.\<close>

theorem estimate_effort_type:
  assumes "estimate_effort i = Inr e"
  shows "(effort_size e, effort_score e) \<in> set (map (\<lambda>(k, ind). (k, ind_score ind)) effort_indicators)"
proof -
  obtain s d cs ls m est rs where r: "effort_loop s d cs effort_indicators (0, ''M'', []) = (m, est, rs)"
    "effort_size e = fst (effort_overrides s (est, rs))"
    "effort_score e = ind_score (the (map_of effort_indicators (fst (effort_overrides s (est, rs)))))"
    using estimate_effort_result[OF assms] by metis
  have M: "''M'' \<in> set (map fst effort_indicators)" by (simp add: effort_indicators_def)
  have "est \<in> set (map fst effort_indicators)"
    using effort_loop_key[of s d cs effort_indicators 0 "''M''" "[]"] r(1) M by auto
  then have "fst (effort_overrides s (est, rs)) \<in> set (map fst effort_indicators)"
    by (rule effort_overrides_key)
  then show ?thesis using r(2,3) effort_indicators_lookup by simp
qed

text \<open>The reasons \<^verbatim>\<open>estimateEffort\<close> reports never name the matched keywords or
  patterns: each such line contains \<^verbatim>\<open>matched: \<close>, which the code's own filter
  removes, so only the components line and the override reasons remain.\<close>

theorem estimate_effort_reasons:
  assumes "estimate_effort i = Inr e"
  shows "\<exists>rs. reasoning e = js_join ''; '' rs \<and>
           (\<forall>r \<in> set rs. prefix ''Components: '' r \<or>
              r \<in> {''Minor bug fix identified'', ''Critical bug fix - moderate effort'',
                    ''Security/compliance items typically S effort''})"
proof -
  obtain s d cs ls m est rs where r: "effort_loop s d cs effort_indicators (0, ''M'', []) = (m, est, rs)"
    "reasoning e = js_join ''; '' (snd (effort_overrides s (est, rs)))"
    using estimate_effort_result[OF assms] by metis
  have "\<forall>x \<in> set rs. prefix ''Components: '' x"
    using effort_loop_reasons[of "[]" s d cs effort_indicators 0 "''M''"] r(1) by simp
  then show ?thesis using r(2) effort_overrides_reasons[of s est rs] by fastforce
qed

text \<open>With no signal at all the size is \<^verbatim>\<open>M\<close> (score 60), and a tie between
  sizes goes to the first in table order: \<^verbatim>\<open>button\<close> (an \<^verbatim>\<open>XS\<close> keyword) and
  \<^verbatim>\<open>widget\<close> (an \<^verbatim>\<open>S\<close> keyword) give \<^verbatim>\<open>XS\<close>.\<close>

theorem estimate_effort_default_and_tie:
  "estimate_effort (JObj []) =
     Inr \<lparr>effort_size = ''M'', effort_score = 60, reasoning = [],
          effort_description = ''1-2 months: Multiple service integration, complex features, major UI changes''\<rparr> \<and>
   (case estimate_effort (JObj [(''fields'', JObj [(''summary'', JStr ''Button in widget'')])]) of
      Inr e \<Rightarrow> effort_size e = ''XS'' | Inl _ \<Rightarrow> False)"
  by code_simp

text \<open>A summary that mentions \<^verbatim>\<open>security\<close> always gives size \<^verbatim>\<open>S\<close>
  (score 80): the security rule is applied last and overrides both the scores and the
  bug-fix rule.\<close>

theorem estimate_effort_security:
  assumes "read_issue i = Inr (s, d, cs, ls)" and "js_includes s ''security''"
  shows "\<exists>e. estimate_effort i = Inr e \<and> effort_size e = ''S'' \<and> effort_score e = 80"
proof -
  obtain m est rs where l: "effort_loop s d cs effort_indicators (0, ''M'', []) = (m, est, rs)"
    by (cases "effort_loop s d cs effort_indicators (0, ''M'', [])") auto
  obtain rs' where o: "effort_overrides s (est, rs) = (''S'', rs')"
    using effort_overrides_fst_S[OF assms(2), of "(est, rs)"] by (metis prod.collapse)
  have "ind_score (the (map_of effort_indicators ''S'')) = 80" by (simp add: effort_indicators_def)
  then show ?thesis using assms(1) l o by (simp add: estimate_effort_def)
qed

theorem estimate_effort_security_witness:
  "\<exists>e. estimate_effort (JObj [(''fields'', JObj [(''summary'', JStr ''Minor security bug'')])]) = Inr e \<and>
       effort_size e = ''S'' \<and> effort_score e = 80"
proof -
  let ?i = "JObj [(''fields'', JObj [(''summary'', JStr ''Minor security bug'')])]"
  have r: "read_issue ?i = Inr (''minor security bug'', [], [], [])" by code_simp
  have "js_includes ''minor security bug'' ''security''" by simp
  from estimate_effort_security[OF r this] show ?thesis .
qed

theorem estimate_effort_type_witness:
  "estimate_effort (JObj [(''fields'', JObj [(''summary'', JStr ''Add new dashboard'')])]) =
     Inr \<lparr>effort_size = ''M'', effort_score = 60, reasoning = ''Components: '',
          effort_description = ''1-2 months: Multiple service integration, complex features, major UI changes''\<rparr> \<and>
   (''M'', 60) \<in> set (map (\<lambda>(k, ind). (k, ind_score ind)) effort_indicators)"
proof -
  have h: "estimate_effort (JObj [(''fields'', JObj [(''summary'', JStr ''Add new dashboard'')])]) =
     Inr \<lparr>effort_size = ''M'', effort_score = 60, reasoning = ''Components: '',
          effort_description = ''1-2 months: Multiple service integration, complex features, major UI changes''\<rparr>"
    by code_simp
  show ?thesis using h estimate_effort_type[OF h] by simp
qed

theorem estimate_effort_reasons_witness:
  "\<exists>rs. js_join ''; '' [''Components: '', ''Security/compliance items typically S effort''] = js_join ''; '' rs \<and>
     (\<forall>r \<in> set rs. prefix ''Components: '' r \<or>
        r \<in> {''Minor bug fix identified'', ''Critical bug fix - moderate effort'',
              ''Security/compliance items typically S effort''})"
proof -
  have h: "estimate_effort (JObj [(''fields'', JObj [(''summary'', JStr ''New security dashboard'')])]) =
     Inr \<lparr>effort_size = ''S'', effort_score = 80,
          reasoning = js_join ''; '' [''Components: '', ''Security/compliance items typically S effort''],
          effort_description = ''2-4 weeks: Single service changes, new components, moderate features''\<rparr>"
    by code_simp
  show ?thesis using estimate_effort_reasons[OF h] by simp
qed

text \<open>Product detection tests substrings: a \<^verbatim>\<open>career\<close> page is a
  \<^verbatim>\<open>Khoros Care\<close> ticket, and the \<^verbatim>\<open>ai\<close> in \<^verbatim>\<open>email\<close> adds the AI-assistance
  feature to its knowledge block.\<close>

theorem product_context_substring_match:
  "(case get_product_context (JObj [(''fields'', JObj [(''summary'', JStr ''Career page email form'')])]) of
      Inr pc \<Rightarrow> product pc = ''Khoros Care'' \<and>
                 map_option relevant_feats (details pc) =
                   Some [''AI assistance for intelligent responses and automation'']
    | Inl _ \<Rightarrow> False)"
  by code_simp

end
