(* ===== verification/Prompt_Builder.thy ===== *)
theory Prompt_Builder
  imports Ticket_Inference
begin

text \<open>
  The prompt texts the handler sends to the model vendors: the theme prompt of
  \<^verbatim>\<open>classifyTheme\<close> and the priority prompt of \<^verbatim>\<open>analyzePriority\<close>
  (\<^verbatim>\<open>part_001\<close>), and \<^verbatim>\<open>buildComprehensiveTriagePrompt\<close> of the older revision
  (\<^verbatim>\<open>src/api/triage.js\<close>; \<^verbatim>\<open>part_001\<close> keeps an identical copy, lines 304--420,
  that nothing calls). Each template literal is the list of its lines joined by
  line feeds, one element per source line; an interpolation that spans lines is one
  element. Interpolations follow the language: \<^verbatim>\<open>${v}\<close> is \<^verbatim>\<open>ToString\<close>
  (\<^verbatim>\<open>undefined\<close> for a missing value), \<^verbatim>\<open>x?.map(...)\<close> and
  \<^verbatim>\<open>x?.join(...)\<close> throw a \<open>TypeError\<close> when \<open>x\<close> is present but not an array,
  and reading a property of \<^verbatim>\<open>null\<close> throws. The arrow of the theme examples is
  written as its UTF-8 bytes.
\<close>

subsection \<open>Template values\<close>

definition arrow :: string where
  "arrow = [CHR 0xE2, CHR 0x86, CHR 0x92]"

text \<open>\<^verbatim>\<open>${v}\<close> and \<^verbatim>\<open>${v || 'd'}\<close>.\<close>

definition template_val :: "jsval option \<Rightarrow> string" where
  "template_val v = (case v of None \<Rightarrow> ''undefined'' | Some x \<Rightarrow> to_str x)"

definition template_or :: "jsval option \<Rightarrow> string \<Rightarrow> string" where
  "template_or v d = to_str (js_or_d v (JStr d))"

text \<open>\<^verbatim>\<open>s || 'd'\<close> for a string \<open>s\<close>.\<close>

definition str_or :: "string \<Rightarrow> string \<Rightarrow> string" where
  "str_or s d = (if s = [] then d else s)"

text \<open>\<^verbatim>\<open>Array.prototype.join\<close> over values read from the elements:
  \<^verbatim>\<open>undefined\<close> and \<^verbatim>\<open>null\<close> join as the empty string.\<close>

definition join_opt :: "string \<Rightarrow> jsval option list \<Rightarrow> string" where
  "join_opt sep vs = js_join sep (map (\<lambda>v. case v of None \<Rightarrow> [] | Some x \<Rightarrow> if x = JNull then [] else to_str x) vs)"

text \<open>\<^verbatim>\<open>v.k\<close>, which throws on \<^verbatim>\<open>undefined\<close> and \<^verbatim>\<open>null\<close>.\<close>

definition js_get :: "jsval option \<Rightarrow> string \<Rightarrow> js_error + jsval option" where
  "js_get v k = (case v of None \<Rightarrow> Inl TypeError | Some x \<Rightarrow> if x = JNull then Inl TypeError else Inr (get_prop x k))"

text \<open>\<^verbatim>\<open>${issue.fields?.components?.map(c => c.name).join(', ') || 'None'}\<close>.\<close>

definition components_line :: "jsval \<Rightarrow> js_error + string" where
  "components_line issue =
     (case issue_field issue ''components'' of
        None \<Rightarrow> Inr ''None''
      | Some v \<Rightarrow>
          if v = JNull then Inr ''None''
          else (case v of
                  JArr cs \<Rightarrow>
                    (case map_sum (\<lambda>c. js_get (Some c) ''name'') cs of
                       Inl e \<Rightarrow> Inl e
                     | Inr names \<Rightarrow> Inr (str_or (join_opt '', '' names) ''None''))
                | _ \<Rightarrow> Inl TypeError))"

text \<open>\<^verbatim>\<open>${issue.fields?.labels?.join(', ') || 'None'}\<close>.\<close>

definition labels_line :: "jsval \<Rightarrow> js_error + string" where
  "labels_line issue =
     (case issue_field issue ''labels'' of
        None \<Rightarrow> Inr ''None''
      | Some v \<Rightarrow>
          if v = JNull then Inr ''None''
          else (case v of
                  JArr ls \<Rightarrow> Inr (str_or (join_opt '', '' (map Some ls)) ''None'')
                | _ \<Rightarrow> Inl TypeError))"

subsection \<open>The theme prompt (\<^verbatim>\<open>part_001\<close>, lines 1033--1154)\<close>

text \<open>The controlled vocabularies spelled in the prompt (lines 1049--1124).\<close>

definition aurora_themes :: "string list" where
  "aurora_themes =
    [''ANALYTICS & REPORTING - AI-Powered Analytics'',
     ''ANALYTICS & REPORTING - Core Analytics  '',
     ''ANALYTICS & REPORTING - REVIEW'',
     ''ANALYTICS & REPORTING - Reporting Enhancements'',
     ''COMMUNITY FEATURES & ENGAGEMENT - '',
     ''COMMUNITY FEATURES & ENGAGEMENT - ACCEPTED'',
     ''CONTENT MANAGEMENT & MODERATION - Content Controls'',
     ''CONTENT MANAGEMENT & MODERATION - Moderation Features'',
     ''CONTENT MANAGEMENT & MODERATION - REVIEW'',
     ''CONTENT MANAGEMENT & MODERATION - Spam & Security Controls'',
     ''INTEGRATION & PUBLISHING - Calendar - IN REVIEW'',
     ''INTEGRATION & PUBLISHING - Events & Calendar'',
     ''INTEGRATION & PUBLISHING - Other Integrations'',
     ''INTEGRATION & PUBLISHING - Social Media Integration'',
     ''PLATFORM ADMINISTRATION - - ACCEPTED'',
     ''PLATFORM ADMINISTRATION - Admin Tools'',
     ''PLATFORM ADMINISTRATION - Infrastructure & Security'',
     ''SEARCH & DISCOVERY - Content Discovery'',
     ''SEARCH & DISCOVERY - REVIEW'',
     ''SEARCH & DISCOVERY - Search Functionality'',
     ''USER EXPERIENCE & INTERFACE - - IN REVIEW'',
     ''USER EXPERIENCE & INTERFACE - Communication Customization'',
     ''USER EXPERIENCE & INTERFACE - Navigation & Layout'',
     ''USER EXPERIENCE & INTERFACE - TRANSFERRED'',
     ''USER EXPERIENCE & INTERFACE - UI Components & Widgets'',
     ''USER EXPERIENCE & INTERFACE - Visual Design'',
     ''USER EXPERIENCE & INTERFACE - category nodes - ACCEPTED'',
     ''USER EXPERIENCE & INTERFACE - marketplace - IN REVIEW'']"

definition care_themes :: "string list" where
  "care_themes =
    [''AGENT PRODUCTIVITY & USER EXPERIENCE - '',
     ''AGENT PRODUCTIVITY & USER EXPERIENCE - - UNDER REVIEW'',
     ''AGENT PRODUCTIVITY & USER EXPERIENCE - Platform Stability (ONE Items)'',
     ''AGENT PRODUCTIVITY & USER EXPERIENCE - REVIEW'',
     ''AGENT PRODUCTIVITY & USER EXPERIENCE - UNDER REVIEW'',
     ''AGENT PRODUCTIVITY & USER EXPERIENCE - items - NEW'',
     ''AGENT PRODUCTIVITY & USER EXPERIENCE - panel - UNDER REVIEW'',
     ''AI, AUTOMATION & INTELLIGENT FEATURES - '',
     ''AI, AUTOMATION & INTELLIGENT FEATURES - ROADMAP REVIEW'',
     ''AI, AUTOMATION & INTELLIGENT FEATURES - UNDER REVIEW'',
     ''ANALYTICS & REPORTING - '',
     ''ANALYTICS & REPORTING - Permissions - LIKELY CARE - UNDER REVIEW'',
     ''ANALYTICS & REPORTING - UNDER REVIEW'',
     ''ANALYTICS & REPORTING - Widget - UNDER REVIEW'',
     ''CHANNEL INTEGRATION & EXPANSION - App Store Integrations'',
     ''CHANNEL INTEGRATION & EXPANSION - Bluesky (Twitter Replacement)'',
     ''CHANNEL INTEGRATION & EXPANSION - CARE - UNDER REVIEW'',
     ''CHANNEL INTEGRATION & EXPANSION - Facebook Updates'',
     ''CHANNEL INTEGRATION & EXPANSION - LinkedIn Enhancements'',
     ''CHANNEL INTEGRATION & EXPANSION - REVIEW'',
     ''CHANNEL INTEGRATION & EXPANSION - SMS & Messaging Platforms'',
     ''CHANNEL INTEGRATION & EXPANSION - Third-Party Integrations'',
     ''CHANNEL INTEGRATION & EXPANSION - TikTok Suite'',
     ''COMPLIANCE, SECURITY & AUTHENTICATION - '',
     ''CONFIGURATION & SYSTEM MANAGEMENT - '',
     ''CONFIGURATION & SYSTEM MANAGEMENT - - LIKELY CARE - UNDER REVIEW'',
     ''CONFIGURATION & SYSTEM MANAGEMENT - CARE - UNDER REVIEW'',
     ''CONFIGURATION & SYSTEM MANAGEMENT - REVIEW'',
     ''PLATFORM & COMMUNITY FEATURES - '',
     ''PLATFORM & COMMUNITY FEATURES - REVIEW'',
     ''PLATFORM & COMMUNITY FEATURES - UNDER REVIEW'']"

definition social_themes :: "string list" where
  "social_themes =
    [''AI & AUTOMATION - '',
     ''ANALYTICS & REPORTING - '',
     ''ANALYTICS & REPORTING - ROADMAP REVIEW'',
     ''CHANNEL-SPECIFIC ENHANCEMENTS - LinkedIn Suite'',
     ''CHANNEL-SPECIFIC ENHANCEMENTS - REVIEW'',
     ''CHANNEL-SPECIFIC ENHANCEMENTS - YouTube Features'',
     ''COMPLIANCE (DEPRECATED) - '',
     ''PUBLISHING & CONTENT MANAGEMENT - Channel-Specific Publishing'',
     ''PUBLISHING & CONTENT MANAGEMENT - Core Publishing Capabilities'',
     ''USER EXPERIENCE & WORKFLOW -'']"

definition theme_block :: "string \<Rightarrow> string" where
  "theme_block product_name =
     (if product_name = ''Khoros Aurora Community'' then
        js_join [CHR 0x0A] ([] # ''Khoros Aurora Community:'' # map (\<lambda>t. ''- '' @ t) aurora_themes)
      else if product_name = ''Khoros Care'' then
        js_join [CHR 0x0A] ([] # ''Khoros Care:'' # map (\<lambda>t. ''- '' @ t) care_themes)
      else if product_name = ''Khoros Social Media & Marketing'' then
        js_join [CHR 0x0A] ([] # ''Khoros Social Media & Marketing:'' # map (\<lambda>t. ''- '' @ t) social_themes)
      else ''Available themes vary by product. Please classify based on the functional area this request addresses.'')"

text \<open>The lines of the template; \<open>d\<close> is \<^verbatim>\<open>productContext.context\<close>,
  \<open>comps\<close> and \<open>labs\<close> the values of the components and labels interpolations.\<close>

definition theme_lines :: "jsval \<Rightarrow> product_context \<Rightarrow> product_details \<Rightarrow> string \<Rightarrow> string \<Rightarrow> string list" where
  "theme_lines issue pc d comps labs =
          [''You are a Khoros Product Theme Specialist. Your job is to classify feature requests and bugs into the appropriate product theme based on the request content and product context.'',
           [],
           ''ABOUT KHOROS PRODUCTS:'',
           ''======================'',
           overview d,
           [],
           ''WHAT \"THEME\" MEANS:'',
           ''==================='',
           ''A \"theme\" in Khoros represents a functional area or capability within a product. For example:'',
           ''- \"ANALYTICS & REPORTING\" covers dashboards, metrics, and data insights'',
           ''- \"COMMUNITY FEATURES & ENGAGEMENT\" covers user interaction, gamification, and community tools'',
           ''- \"CONTENT MANAGEMENT & MODERATION\" covers content creation, editing, and moderation workflows'',
           ''- \"INTEGRATION & PUBLISHING\" covers external system connections and content publishing'',
           [],
           ''AVAILABLE THEMES BY PRODUCT:'',
           ''============================'',
           theme_block (product pc),
           [],
           ''TICKET DETAILS:'',
           ''==============='',
           ''Key: '' @ template_val (get_prop issue ''key''),
           ''Summary: '' @ template_or (issue_field issue ''summary'') ''No summary'',
           ''Description: '' @ template_or (issue_field issue ''description'') ''No description'',
           ''Components: '' @ comps,
           ''Labels: '' @ labs,
           [],
           ''CLASSIFICATION RULES:'',
           ''===================='',
           ''1. Read the summary and description carefully'',
           ''2. Identify the primary functional area being addressed'',
           ''3. Match it to the most specific theme from the list above'',
           ''4. If the request spans multiple themes, choose the primary one'',
           ''5. If no clear match exists, use \"THEME NOT IDENTIFIED\"'',
           [],
           ''EXAMPLES:'',
           ''========='',
           ''- \"Add new analytics dashboard\" '' @ arrow @ '' \"ANALYTICS & REPORTING - Core Analytics\"'',
           ''- \"Improve community moderation\" '' @ arrow @ '' \"CONTENT MANAGEMENT & MODERATION - Moderation Features\"'',
           ''- \"Fix search functionality\" '' @ arrow @ '' \"SEARCH & DISCOVERY - Search Functionality\"'',
           ''- \"Add new API endpoint\" '' @ arrow @ '' \"INTEGRATION & PUBLISHING - Other Integrations\"'',
           ''- \"Update button styling\" '' @ arrow @ '' \"USER EXPERIENCE & INTERFACE - UI Components & Widgets\"'',
           [],
           ''REQUIRED OUTPUT FORMAT:'',
           ''======================'',
           ''Return ONLY the exact theme name from the list above, or \"THEME NOT IDENTIFIED\" if no clear match exists.'',
           [],
           ''Do not include any other text, explanations, or formatting. Just the theme name.'']"

text \<open>The prompt reads \<^verbatim>\<open>productContext.context.overview\<close> first: a missing
  context throws.\<close>

definition theme_prompt :: "jsval \<Rightarrow> product_context \<Rightarrow> js_error + string" where
  "theme_prompt issue pc =
     (case details pc of
        None \<Rightarrow> Inl TypeError
      | Some d \<Rightarrow>
          (case components_line issue of
             Inl e \<Rightarrow> Inl e
           | Inr comps \<Rightarrow>
               (case labels_line issue of
                  Inl e \<Rightarrow> Inl e
                | Inr labs \<Rightarrow> Inr (js_join [CHR 0x0A] (theme_lines issue pc d comps labs)))))"

subsection \<open>The priority prompt (\<^verbatim>\<open>part_001\<close>, lines 1220--1337)\<close>

definition priority_lines ::
  "jsval \<Rightarrow> product_context \<Rightarrow> product_details \<Rightarrow> effort_estimate \<Rightarrow> string \<Rightarrow> string \<Rightarrow> string list" where
  "priority_lines issue pc d eff comps labs =
          [''You are a Khoros Product Priority Specialist. Your job is to analyze feature requests and bugs to determine their development priority based on business impact and implementation effort.'',
           [],
           ''PRODUCT CONTEXT:'',
           ''==============='',
           ''Detected Product: '' @ product pc @ '' (Confidence: '' @ confidence pc @ '')'',
           [],
           str_or (overview d) ''Product overview not available'',
           [],
           ''Core Product Pillars:'',
           js_join [CHR 0x0A] (map (\<lambda>p. ''- '' @ p) (core_pillars d)),
           [],
           ''Key Capabilities:'',
           js_join [CHR 0x0A] (map (\<lambda>p. ''- '' @ p) (key_capabilities d)),
           [],
           ''Relevant Features for This Request:'',
           js_join [CHR 0x0A] (map (\<lambda>p. ''- '' @ p) (relevant_feats d)),
           [],
           ''Business Context: '' @ str_or (business_context d) ''Business context not available'',
           ''Technical Context: '' @ str_or (technical_context d) ''Technical context not available'',
           [],
           ''TICKET DETAILS:'',
           ''==============='',
           ''Key: '' @ template_val (get_prop issue ''key''),
           ''Summary: '' @ template_or (issue_field issue ''summary'') ''No summary'',
           ''Description: '' @ template_or (issue_field issue ''description'') ''No description'',
           ''Priority: '' @ template_or (opt_get (issue_field issue ''priority'') ''name'') ''Not set'',
           ''Reporter: '' @ template_or (opt_get (issue_field issue ''reporter'') ''displayName'') ''Unknown'',
           ''Created: '' @ template_or (issue_field issue ''created'') ''Unknown'',
           ''Components: '' @ comps,
           ''Labels: '' @ labs,
           [],
           ''STRUCTURED EFFORT ESTIMATION:'',
           ''============================'',
           ''Effort Size: '' @ effort_size eff,
           ''Effort Score: '' @ int_to_str (effort_score eff) @ ''/100'',
           ''Description: '' @ effort_description eff,
           ''Reasoning: '' @ reasoning eff,
           [],
           ''ANALYSIS FRAMEWORK:'',
           ''=================='',
           ''1. BUSINESS IMPACT ASSESSMENT (Score 0-100)'',
           ''   - Customer Impact: How many customers will benefit? (Enterprise = High, Niche = Low)'',
           ''   - Revenue Impact: Retention risk, expansion opportunity, competitive advantage'',
           ''   - Strategic Value: Alignment with product roadmap, market positioning'',
           ''   - Urgency: Security, compliance, critical bugs vs nice-to-have features'',
           [],
           ''2. PRIORITY DECISION MATRIX:'',
           ''   =========================='',
           ''   '',
           ''   FAST TRACK (80-100):'',
           ''   - High business impact (70+) + Low effort (XS/S)'',
           ''   - Critical security/compliance issues'',
           ''   - High-value features for enterprise customers'',
           ''   - Competitive differentiators'',
           ''   '',
           ''   STANDARD (50-79):'',
           ''   - Moderate business impact (40-70) + Reasonable effort (S/M)'',
           ''   - Regular feature requests from multiple customers'',
           ''   - Platform improvements with clear value'',
           ''   - Moderate bug fixes affecting user experience'',
           ''   '',
           ''   ON HOLD (25-49):'',
           ''   - Low business impact (20-40) OR High effort (L/XL)'',
           ''   - Nice-to-have features for few customers'',
           ''   - Complex requests with unclear ROI'',
           ''   - Features that can wait without business impact'',
           ''   '',
           ''   LOW (0-24):'',
           ''   - Very low business impact (0-20) OR Very high effort (XL)'',
           ''   - Edge cases affecting very few users'',
           ''   - Architectural changes with minimal benefit'',
           ''   - Features that don\\'t align with product strategy'',
           [],
           ''CRITICAL FACTORS FOR ON HOLD/LOW:'',
           ''================================'',
           ''- Customer Count: <5 customers = likely On Hold/Low'',
           ''- Request Age: >6 months old = consider On Hold'',
           ''- Effort vs Value: High effort + Low value = Low priority'',
           ''- Strategic Fit: Doesn\\'t align with roadmap = On Hold'',
           ''- Competitive Pressure: No competitive disadvantage = Lower priority'',
           [],
           ''REQUIRED OUTPUT FORMAT (JSON):'',
           ''============================='',
           ''{'',
           ''  \"scores\": {'',
           ''    \"business_impact\": <0-100>,'',
           ''    \"effort_size\": \"'' @ effort_size eff @ ''\",'',
           ''    \"effort_score\": '' @ int_to_str (effort_score eff) @ '','',
           ''    \"overall_priority\": <calculated weighted average>'',
           ''  },'',
           ''  \"priority_recommendation\": \"<Fast Track|Standard|On Hold|Low>\",'',
           ''  \"key_insights\": ['',
           ''    \"<specific insight about business value>\",'',
           ''    \"<specific insight about implementation effort>\",'',
           ''    \"<specific insight about strategic fit>\"'',
           ''  ],'',
           ''  \"risks\": ['',
           ''    \"<primary risk if we build this>\",'',
           ''    \"<primary risk if we don\\'t build this>\"'',
           ''  ],'',
           ''  \"opportunities\": ['',
           ''    \"<primary opportunity this enables>\",'',
           ''    \"<secondary opportunity or benefit>\"'',
           ''  ],'',
           ''  \"similar_features\": \"<brief description of related existing features>\",'',
           ''  \"recommended_next_steps\": ['',
           ''    \"<immediate next step for PM>\",'',
           ''    \"<validation or research needed>\",'',
           ''    \"<stakeholder alignment required>\"'',
           ''  ],'',
           ''  \"executive_summary\": \"<2-3 sentence summary with clear recommendation and reasoning>\",'',
           ''  \"on_hold_reasoning\": \"<if On Hold/Low, explain why based on the criteria above>\",'',
           ''  \"effort_analysis\": {'',
           ''    \"estimated_effort\": \"'' @ effort_size eff @ ''\",'',
           ''    \"reasoning\": \"'' @ reasoning eff @ ''\",'',
           ''    \"confidence\": \"High (Structured Analysis)\"'',
           ''  }'',
           ''}'']"

definition priority_prompt :: "jsval \<Rightarrow> product_context \<Rightarrow> effort_estimate \<Rightarrow> js_error + string" where
  "priority_prompt issue pc eff =
     (case details pc of
        None \<Rightarrow> Inl TypeError
      | Some d \<Rightarrow>
          (case components_line issue of
             Inl e \<Rightarrow> Inl e
           | Inr comps \<Rightarrow>
               (case labels_line issue of
                  Inl e \<Rightarrow> Inl e
                | Inr labs \<Rightarrow> Inr (js_join [CHR 0x0A] (priority_lines issue pc d eff comps labs)))))"

subsection \<open>\<^verbatim>\<open>buildComprehensiveTriagePrompt\<close> (\<^verbatim>\<open>src/api/triage.js\<close>, lines 194--309)\<close>

text \<open>The list of similar tickets (lines 195--199); every caller passes \<^verbatim>\<open>[]\<close>.\<close>

definition similar_line :: "jsval \<Rightarrow> js_error + string" where
  "similar_line t =
     (case js_get (Some t) ''key'' of
        Inl e \<Rightarrow> Inl e
      | Inr key \<Rightarrow>
          (case js_get (Some t) ''fields'' of
             Inl e \<Rightarrow> Inl e
           | Inr flds \<Rightarrow>
               (case js_get flds ''summary'' of
                  Inl e \<Rightarrow> Inl e
                | Inr summary \<Rightarrow>
                    (case js_get flds ''status'' of
                       Inl e \<Rightarrow> Inl e
                     | Inr status \<Rightarrow>
                         (case js_get status ''name'' of
                            Inl e \<Rightarrow> Inl e
                          | Inr name \<Rightarrow>
                              Inr (''- '' @ template_val key @ '': '' @ template_val summary @
                                   '' (Status: '' @ template_val name @ '')''))))))"

definition similar_text :: "jsval list \<Rightarrow> js_error + string" where
  "similar_text ts =
     (if ts = [] then Inr ''No similar tickets found''
      else (case map_sum similar_line ts of Inl e \<Rightarrow> Inl e | Inr ls \<Rightarrow> Inr (js_join [CHR 0x0A] ls)))"

definition triage_lines :: "jsval \<Rightarrow> string \<Rightarrow> string \<Rightarrow> string \<Rightarrow> string list" where
  "triage_lines issue similar comps labs =
          [''You are a Product Triage Specialist analyzing feature requests for prioritization.'',
           ''Your goal is to provide actionable recommendations for Product Managers.'',
           [],
           ''TICKET DETAILS:'',
           ''==============='',
           ''Ticket Key: '' @ template_val (get_prop issue ''key''),
           ''Title: '' @ template_or (issue_field issue ''summary'') ''No title provided'',
           ''Description: '' @ template_or (issue_field issue ''description'') ''No description provided'',
           ''Reporter: '' @ template_or (opt_get (issue_field issue ''reporter'') ''displayName'') ''Unknown'',
           ''Created: '' @ template_or (issue_field issue ''created'') ''Unknown'',
           ''Priority: '' @ template_or (opt_get (issue_field issue ''priority'') ''name'') ''Not set'',
           ''Components: '' @ comps,
           ''Labels: '' @ labs,
           [],
           ''SIMILAR TICKETS FOUND:'',
           ''====================='',
           similar,
           [],
           ''ANALYSIS FRAMEWORK:'',
           ''=================='',
           [],
           ''1. BUSINESS IMPACT ASSESSMENT (Score 0-100)'',
           ''   Evaluate:'',
           ''   - Number of clients affected (consider reporter\\'s organization)'',
           ''   - Revenue impact (retention risk, expansion opportunity)'',
           ''   - Urgency indicators in description'',
           ''   - Competitive disadvantage if not addressed'',
           ''   - Strategic client importance'',
           [],
           ''2. EFFORT ESTIMATION'',
           ''   Classify as:'',
           ''   - XS: 1-2 weeks (simple config/UI change)'',
           ''   - S: 2-4 weeks (single service change)'',
           ''   - M: 1-2 months (multiple services, moderate complexity)'',
           ''   - L: 2-4 months (architectural changes, complex logic)'',
           ''   - XL: 4+ months (platform changes, major overhaul)'',
           ''   '',
           ''   Consider:'',
           ''   - Technical complexity described'',
           ''   - Integration requirements'',
           ''   - Testing complexity'',
           ''   - Rollout complexity'',
           [],
           ''3. STRATEGIC ALIGNMENT (Score 0-100)'',
           ''   Assess:'',
           ''   - Alignment with product direction'',
           ''   - Technical debt implications'',
           ''   - Platform capability enhancement'',
           ''   - Market positioning improvement'',
           ''   - Innovation vs optimization'',
           [],
           ''4. CROSS-CLIENT VALUE (Score 0-100)'',
           ''   Determine:'',
           ''   - Client-specific vs broadly applicable'',
           ''   - Potential adoption across customer base'',
           ''   - Industry vertical applicability'',
           ''   - Universal platform improvement'',
           [],
           ''5. OVERALL PRIORITY CALCULATION'',
           ''   Weighted average:'',
           ''   - Business Impact: 35%'',
           ''   - Strategic Alignment: 25%'',
           ''   - Cross-Client Value: 25%'',
           ''   - Effort (inverse): 15%'',
           [],
           ''PRIORITY RECOMMENDATION RULES:'',
           ''=============================='',
           ''- Overall Priority 80-100: \"Fast Track\" (Critical priority, immediate action)'',
           ''- Overall Priority 50-79: \"Standard\" (Normal triage queue)'',
           ''- Overall Priority 25-49: \"On Hold\" (Low priority, revisit quarterly)'',
           ''- Overall Priority 0-24: \"Low\" (Decline or defer indefinitely)'',
           [],
           ''REQUIRED OUTPUT FORMAT (JSON):'',
           ''============================='',
           ''Provide your analysis in this EXACT JSON structure:'',
           ''{'',
           ''  \"scores\": {'',
           ''    \"business_impact\": <0-100>,'',
           ''    \"effort_size\": \"<XS|S|M|L|XL>\",'',
           ''    \"effort_score\": <0-100, where XS=100, S=80, M=60, L=40, XL=20>,'',
           ''    \"strategic_fit\": <0-100>,'',
           ''    \"cross_client_value\": <0-100>,'',
           ''    \"overall_priority\": <calculated weighted average>'',
           ''  },'',
           ''  \"priority_recommendation\": \"<Fast Track|Standard|On Hold|Low>\",'',
           ''  \"key_insights\": ['',
           ''    \"<specific insight about business value>\",'',
           ''    \"<specific insight about implementation>\",'',
           ''    \"<specific insight about strategic fit>\"'',
           ''  ],'',
           ''  \"risks\": ['',
           ''    \"<primary risk if we build this>\",'',
           ''    \"<primary risk if we don\\'t build this>\"'',
           ''  ],'',
           ''  \"opportunities\": ['',
           ''    \"<primary opportunity this enables>\",'',
           ''    \"<secondary opportunity or benefit>\"'',
           ''  ],'',
           ''  \"similar_features\": \"<brief description of related existing features or similar tickets>\",'',
           ''  \"recommended_next_steps\": ['',
           ''    \"<immediate next step for PM>\",'',
           ''    \"<validation or research needed>\",'',
           ''    \"<stakeholder alignment required>\"'',
           ''  ],'',
           ''  \"executive_summary\": \"<2-3 sentence summary capturing the essence of this request and your recommendation>\"'',
           ''}'',
           [],
           ''Ensure all JSON fields are populated. Be specific and actionable in your insights and recommendations.'']"

definition build_comprehensive_triage_prompt :: "jsval \<Rightarrow> jsval list \<Rightarrow> js_error + string" where
  "build_comprehensive_triage_prompt issue similar_tickets =
     (case similar_text similar_tickets of
        Inl e \<Rightarrow> Inl e
      | Inr similar \<Rightarrow>
          (case components_line issue of
             Inl e \<Rightarrow> Inl e
           | Inr comps \<Rightarrow>
               (case labels_line issue of
                  Inl e \<Rightarrow> Inl e
                | Inr labs \<Rightarrow> Inr (js_join [CHR 0x0A] (triage_lines issue similar comps labs)))))"

declare arrow_def [js_eval] template_val_def [js_eval] template_or_def [js_eval] str_or_def [js_eval]
  join_opt_def [js_eval] js_get_def [js_eval] components_line_def [js_eval] labels_line_def [js_eval]
  aurora_themes_def [js_eval] care_themes_def [js_eval] social_themes_def [js_eval] theme_block_def [js_eval] theme_lines_def [js_eval] priority_lines_def [js_eval] triage_lines_def [js_eval]
  theme_prompt_def [js_eval] priority_prompt_def [js_eval] similar_line_def [js_eval] similar_text_def [js_eval]
  build_comprehensive_triage_prompt_def [js_eval]

subsection \<open>What the prompts contain\<close>

lemma js_join_includes_member: "x \<in> set xs \<Longrightarrow> js_includes (js_join sep xs) x"
proof (induction sep xs rule: js_join.induct)
  case (3 sep x y ys)
  then show ?case
    using js_includes_mono[of "js_join sep (y # ys)" _ "x @ sep" "[]"]
    by (auto simp: js_includes_sublist)
qed (auto simp: js_includes_sublist)

lemma js_includes_trans: "js_includes a b \<Longrightarrow> js_includes b c \<Longrightarrow> js_includes a c"
  by (auto simp: js_includes_sublist intro: sublist_order.order.trans)

lemma theme_block_lists:
  "product_name = ''Khoros Care'' \<Longrightarrow> t \<in> set care_themes \<Longrightarrow> js_includes (theme_block product_name) (''- '' @ t)"
  by (auto simp: theme_block_def intro!: js_join_includes_member)

text \<open>The theme prompt of a \<^verbatim>\<open>Khoros Care\<close> ticket spells the whole Care
  vocabulary.\<close>

lemma theme_prompt_care_vocabulary:
  assumes "theme_prompt issue pc = Inr p" and "product pc = ''Khoros Care''" and "t \<in> set care_themes"
  shows "js_includes p (''- '' @ t)"
proof -
  obtain d comps labs where p: "p = js_join [CHR 0x0A] (theme_lines issue pc d comps labs)"
    using assms(1) by (auto simp: theme_prompt_def split: option.splits sum.splits)
  have "js_includes p (theme_block (product pc))"
    unfolding p by (rule js_join_includes_member) (simp add: theme_lines_def)
  then show ?thesis using theme_block_lists[OF assms(2,3)] assms(2) by (blast intro: js_includes_trans)
qed

text \<open>The builders are not total: a \<^verbatim>\<open>labels\<close> field that is a string, not an
  array, makes \<^verbatim>\<open>labels?.join\<close> throw, and so do components that are not an array.\<close>

lemma priority_prompt_labels_type_error:
  assumes "details pc = Some d" and "components_line issue = Inr comps"
    and "issue_field issue ''labels'' = Some (JStr s)"
  shows "priority_prompt issue pc eff = Inl TypeError"
  using assms by (simp add: priority_prompt_def labels_line_def)

lemma components_line_type_error:
  "issue_field issue ''components'' = Some (JStr s) \<Longrightarrow> components_line issue = Inl TypeError"
  by (simp add: components_line_def)

text \<open>C11: the priority prompt makes the substitutions the specification asks for: a
  ticket without priority, reporter, creation date, components and labels is shown
  with \<^verbatim>\<open>Not set\<close>, \<^verbatim>\<open>Unknown\<close> and \<^verbatim>\<open>None\<close>, and the effort estimate
  is embedded.\<close>

theorem priority_prompt_substitutions:
  assumes "details pc = Some d"
    and "issue_field issue ''priority'' = None" and "issue_field issue ''reporter'' = None"
    and "issue_field issue ''created'' = None" and "issue_field issue ''components'' = None"
    and "issue_field issue ''labels'' = None"
  shows "\<exists>p. priority_prompt issue pc eff = Inr p \<and>
           js_includes p ''Priority: Not set'' \<and> js_includes p ''Reporter: Unknown'' \<and>
           js_includes p ''Created: Unknown'' \<and> js_includes p ''Components: None'' \<and>
           js_includes p ''Labels: None'' \<and> js_includes p (''Effort Size: '' @ effort_size eff)"
proof -
  let ?p = "js_join [CHR 0x0A] (priority_lines issue pc d eff ''None'' ''None'')"
  have eq: "priority_prompt issue pc eff = Inr ?p"
    using assms by (simp add: priority_prompt_def components_line_def labels_line_def)
  have "js_includes ?p ''Priority: Not set''" "js_includes ?p ''Reporter: Unknown''"
    "js_includes ?p ''Created: Unknown''" "js_includes ?p ''Components: None''"
    "js_includes ?p ''Labels: None''" "js_includes ?p (''Effort Size: '' @ effort_size eff)"
    by (rule js_join_includes_member; simp add: priority_lines_def template_or_def js_or_d_def opt_get_def assms)+
  then show ?thesis using eq by blast
qed

theorem priority_prompt_substitutions_witness:
  "\<exists>p. priority_prompt (JObj [(''key'', JStr ''FR-1''), (''fields'', JObj [(''summary'', JStr ''Add export'')])])
         \<lparr>product = ''Unknown'', confidence = ''Low'', ind_summary = ''add export'', ind_components = [], ind_labels = [],
          details = Some (product_details_of ''Unknown'' ''add export'' [])\<rparr>
         \<lparr>effort_size = ''M'', effort_score = 60, reasoning = [], effort_description = ''Medium effort''\<rparr> = Inr p \<and>
       js_includes p ''Priority: Not set'' \<and> js_includes p ''Reporter: Unknown'' \<and>
       js_includes p ''Created: Unknown'' \<and> js_includes p ''Components: None'' \<and>
       js_includes p ''Labels: None'' \<and> js_includes p ''Effort Size: M''"
  using priority_prompt_substitutions[of
      "\<lparr>product = ''Unknown'', confidence = ''Low'', ind_summary = ''add export'', ind_components = [], ind_labels = [],
        details = Some (product_details_of ''Unknown'' ''add export'' [])\<rparr>"
      "product_details_of ''Unknown'' ''add export'' []"
      "JObj [(''key'', JStr ''FR-1''), (''fields'', JObj [(''summary'', JStr ''Add export'')])]"
      "\<lparr>effort_size = ''M'', effort_score = 60, reasoning = [], effort_description = ''Medium effort''\<rparr>"]
  by (simp add: issue_field_def opt_get_def get_prop.simps(1) inherited_def object_proto_keys_def)

end
