(* ===== verification/Rate_Limiter.thy ===== *)
theory Rate_Limiter
  imports Triage_Prelude
begin

text \<open>
  \<^verbatim>\<open>checkRateLimit(ip)\<close> (\<^verbatim>\<open>part_001\<close>, lines 30--53): an in-memory map
  \<^verbatim>\<open>requestCounts\<close> from a client address to the times of its recent allowed
  requests. A request at time \<open>now\<close> (\<^verbatim>\<open>Date.now()\<close>, milliseconds) is allowed when
  fewer than \<^verbatim>\<open>RATE_LIMIT\<close> of the stored times are later than
  \<open>now - RATE_WINDOW\<close>; then the stored list becomes those times and \<open>now\<close>.

  The abstract contract is a sliding-window limiter over the history of allowed
  requests (\<open>spec_allows\<close>). \<open>rl_reach\<close> is the set of states the process can reach
  with its history, for a clock that does not go backwards; on it the implementation
  decides exactly as the contract (\<open>check_rate_limit_refines\<close>), so no client has
  more than ten requests allowed in any window of a minute.
\<close>

definition RATE_LIMIT :: nat where
  "RATE_LIMIT = 10"

definition RATE_WINDOW :: int where
  "RATE_WINDOW = 60000"

type_synonym rl_state = "string \<Rightarrow> int list option"

definition check_rate_limit :: "rl_state \<Rightarrow> string \<Rightarrow> int \<Rightarrow> bool \<times> rl_state" where
  "check_rate_limit counts ip now =
     (let window_start = now - RATE_WINDOW;
          counts1 = (if counts ip = None then counts(ip \<mapsto> []) else counts);
          requests = the (counts1 ip);
          recent = filter (\<lambda>t. t > window_start) requests
      in if length recent \<ge> RATE_LIMIT then (False, counts1)
         else (True, counts1(ip \<mapsto> recent @ [now])))"

subsection \<open>The contract\<close>

text \<open>The history is the list of allowed requests, client and time, in order.\<close>

type_synonym rl_hist = "(string \<times> int) list"

definition times_of :: "rl_hist \<Rightarrow> string \<Rightarrow> int list" where
  "times_of h ip = map snd (filter (\<lambda>(i, _). i = ip) h)"

definition spec_allows :: "rl_hist \<Rightarrow> string \<Rightarrow> int \<Rightarrow> bool" where
  "spec_allows h ip now = (length (filter (\<lambda>t. now - RATE_WINDOW < t) (times_of h ip)) < RATE_LIMIT)"

text \<open>Reachable states, with the history that led to them and the time of the last
  request; requests arrive with non-decreasing times.\<close>

inductive rl_reach :: "rl_state \<Rightarrow> rl_hist \<Rightarrow> int \<Rightarrow> bool" where
  init: "rl_reach Map.empty [] t"
| step: "rl_reach m h t \<Longrightarrow> t \<le> now \<Longrightarrow> check_rate_limit m ip now = (ok, m') \<Longrightarrow>
         rl_reach m' (if ok then h @ [(ip, now)] else h) now"

text \<open>The requests allowed from one client within the window of a minute that ends at
  \<open>a\<close>.\<close>

definition in_window :: "rl_hist \<Rightarrow> string \<Rightarrow> int \<Rightarrow> nat" where
  "in_window h ip a = length (filter (\<lambda>t. a - RATE_WINDOW < t \<and> t \<le> a) (times_of h ip))"

text \<open>A run of the implementation and of the contract over a trace of requests.\<close>

fun rl_run :: "rl_state \<Rightarrow> (string \<times> int) list \<Rightarrow> bool list \<times> rl_state" where
  "rl_run m [] = ([], m)"
| "rl_run m ((ip, now) # rs) =
     (let (ok, m') = check_rate_limit m ip now; (oks, m'') = rl_run m' rs in (ok # oks, m''))"

definition spec_step :: "rl_hist \<Rightarrow> string \<Rightarrow> int \<Rightarrow> bool \<times> rl_hist" where
  "spec_step h ip now = (let ok = spec_allows h ip now in (ok, if ok then h @ [(ip, now)] else h))"

fun spec_run :: "rl_hist \<Rightarrow> (string \<times> int) list \<Rightarrow> bool list \<times> rl_hist" where
  "spec_run h [] = ([], h)"
| "spec_run h ((ip, now) # rs) =
     (let (ok, h') = spec_step h ip now; (oks, h'') = spec_run h' rs in (ok # oks, h''))"

text \<open>The times stored for a client, \<open>[]\<close> when it has no entry.\<close>

definition stored :: "rl_state \<Rightarrow> string \<Rightarrow> int list" where
  "stored m ip = (case m ip of None \<Rightarrow> [] | Some xs \<Rightarrow> xs)"

declare RATE_LIMIT_def [js_eval] RATE_WINDOW_def [js_eval] check_rate_limit_def [js_eval]
  times_of_def [js_eval] spec_allows_def [js_eval] in_window_def [js_eval] spec_step_def [js_eval]

subsection \<open>The implementation keeps the recent part of the history\<close>

lemma check_rate_limit_eq:
  "check_rate_limit m ip now =
     (if length (filter (\<lambda>x. now - RATE_WINDOW < x) (stored m ip)) < RATE_LIMIT
      then (True, m(ip \<mapsto> filter (\<lambda>x. now - RATE_WINDOW < x) (stored m ip) @ [now]))
      else (False, if m ip = None then m(ip \<mapsto> []) else m))"
  by (auto simp: check_rate_limit_def stored_def Let_def fun_upd_idem split: option.splits)

lemma stored_upd: "stored (m(ip \<mapsto> xs)) j = (if j = ip then xs else stored m j)"
  by (simp add: stored_def)

lemma stored_upd_Nil: "m ip = None \<Longrightarrow> stored (m(ip \<mapsto> [])) = stored m"
  by (auto simp: stored_def)

lemma times_of_snoc: "times_of (h @ [(i, x)]) ip = (if i = ip then times_of h ip @ [x] else times_of h ip)"
  by (simp add: times_of_def)

lemma filter_filter_weaker:
  "w \<le> (v :: int) \<Longrightarrow> filter (\<lambda>x. w < x \<and> v < x) xs = filter (\<lambda>x. v < x) xs"
  by (rule filter_cong) auto

lemma length_filter_mono: "(\<And>x. x \<in> set xs \<Longrightarrow> P x \<Longrightarrow> Q x) \<Longrightarrow> length (filter P xs) \<le> length (filter Q xs)"
  by (induction xs) (auto simp: le_SucI)

lemma RATE_WINDOW_pos: "0 < RATE_WINDOW"
  by (simp add: RATE_WINDOW_def)

text \<open>The invariant: every allowed request is no later than the last request, and the
  list stored for a client is the client's allowed times after some bound that is at
  least a window behind the last request.\<close>

lemma rl_reach_inv:
  "rl_reach m h t \<Longrightarrow>
     (\<forall>(i, x) \<in> set h. x \<le> t) \<and>
     (\<forall>ip. \<exists>w \<le> t - RATE_WINDOW. stored m ip = filter (\<lambda>x. w < x) (times_of h ip))"
proof (induction rule: rl_reach.induct)
  case (init t)
  show ?case by (auto simp: stored_def times_of_def)
next
  case (step m h t now ip ok m')
  let ?r = "filter (\<lambda>x. now - RATE_WINDOW < x) (stored m ip)"
  have times: "\<forall>(i, x) \<in> set h. x \<le> now" using step.IH step.hyps(2) by auto
  obtain w where w: "w \<le> t - RATE_WINDOW" "stored m ip = filter (\<lambda>x. w < x) (times_of h ip)"
    using step.IH by blast
  have r: "?r = filter (\<lambda>x. now - RATE_WINDOW < x) (times_of h ip)"
    using w step.hyps(2) by (simp add: filter_filter_weaker[of w "now - RATE_WINDOW"])
  have others: "\<exists>v \<le> now - RATE_WINDOW. stored m j = filter (\<lambda>x. v < x) (times_of h j)" for j
    using step.IH step.hyps(2) by (meson order_trans diff_right_mono)
  show ?case
  proof (cases "length ?r < RATE_LIMIT")
    case True
    then have m': "m' = m(ip \<mapsto> ?r @ [now])" and ok: ok
      using step.hyps(3) by (simp_all add: check_rate_limit_eq)
    have "\<exists>v \<le> now - RATE_WINDOW. stored m' j = filter (\<lambda>x. v < x) (times_of (h @ [(ip, now)]) j)" for j
    proof (cases "j = ip")
      case True
      then show ?thesis using r RATE_WINDOW_pos
        by (intro exI[of _ "now - RATE_WINDOW"]) (simp add: m' stored_upd times_of_snoc)
    next
      case False
      then show ?thesis using others[of j] by (simp add: m' stored_upd times_of_snoc)
    qed
    then show ?thesis using times ok by auto
  next
    case False
    then have m': "stored m' = stored m" and ok: "\<not> ok"
      using step.hyps(3) by (auto simp: check_rate_limit_eq stored_upd_Nil split: if_splits)
    then show ?thesis using times others by simp
  qed
qed

lemma check_rate_limit_fst:
  assumes "rl_reach m h t" and "t \<le> now"
  shows "fst (check_rate_limit m ip now) = spec_allows h ip now"
proof -
  obtain w where "w \<le> t - RATE_WINDOW" "stored m ip = filter (\<lambda>x. w < x) (times_of h ip)"
    using rl_reach_inv[OF assms(1)] by blast
  then have "filter (\<lambda>x. now - RATE_WINDOW < x) (stored m ip) = filter (\<lambda>x. now - RATE_WINDOW < x) (times_of h ip)"
    using assms(2) by (simp add: filter_filter_weaker[of w "now - RATE_WINDOW"])
  then show ?thesis by (simp add: check_rate_limit_eq spec_allows_def)
qed

lemma rl_run_reach:
  "rl_reach m h t \<Longrightarrow> sorted (t # map snd rs) \<Longrightarrow>
     fst (rl_run m rs) = fst (spec_run h rs) \<and> rl_reach (snd (rl_run m rs)) (snd (spec_run h rs)) (last (t # map snd rs))"
proof (induction rs arbitrary: m h t)
  case (Cons r rs)
  obtain ip now where r: "r = (ip, now)" by fastforce
  obtain ok m' where c: "check_rate_limit m ip now = (ok, m')" by fastforce
  have le: "t \<le> now" using Cons.prems(2) r by simp
  have ok: "ok = spec_allows h ip now" using check_rate_limit_fst[OF Cons.prems(1) le, of ip] c by simp
  have reach: "rl_reach m' (if ok then h @ [(ip, now)] else h) now"
    using rl_reach.step[OF Cons.prems(1) le c] .
  have "sorted (now # map snd rs)" using Cons.prems(2) r by simp
  from Cons.IH[OF reach this] show ?case
    using r c ok by (auto simp: spec_step_def Let_def split: prod.splits)
qed simp

subsection \<open>Properties\<close>

text \<open>C31: on every trace of requests with non-decreasing times, starting from the empty
  map, the limiter answers exactly as the sliding-window contract: a request is allowed
  iff fewer than ten earlier allowed requests of the same client lie within the
  minute before it.\<close>

theorem rl_run_refines:
  assumes "sorted (map snd rs)"
  shows "fst (rl_run Map.empty rs) = fst (spec_run [] rs)"
proof -
  let ?t = "case rs of [] \<Rightarrow> 0 | r # _ \<Rightarrow> snd r"
  have "sorted (?t # map snd rs)" using assms by (cases rs) auto
  then show ?thesis using rl_run_reach[OF rl_reach.init] by blast
qed

lemma rl_reach_in_window:
  assumes "rl_reach m h t"
  shows "in_window h ip a \<le> RATE_LIMIT"
  using assms
proof (induction arbitrary: a rule: rl_reach.induct)
  case (init t)
  then show ?case by (simp add: in_window_def times_of_def)
next
  case (step m h t now ip0 ok m')
  show ?case
  proof (cases "ok \<and> ip = ip0 \<and> a - RATE_WINDOW < now \<and> now \<le> a")
    case True
    have allow: "spec_allows h ip now"
      using check_rate_limit_fst[OF step.hyps(1,2), of ip0] step.hyps(3) True by simp
    have le: "\<forall>x \<in> set (times_of h ip). x \<le> now"
      using rl_reach_inv[OF step.hyps(1)] step.hyps(2) by (force simp: times_of_def)
    have "length (filter (\<lambda>x. a - RATE_WINDOW < x \<and> x \<le> a) (times_of h ip))
          \<le> length (filter (\<lambda>x. now - RATE_WINDOW < x) (times_of h ip))"
      using le True by (intro length_filter_mono) auto
    then show ?thesis
      using allow True by (simp add: in_window_def spec_allows_def times_of_snoc)
  next
    case False
    then have "in_window (if ok then h @ [(ip0, now)] else h) ip a = in_window h ip a"
      by (auto simp: in_window_def times_of_snoc)
    then show ?thesis using step.IH by simp
  qed
qed

text \<open>C32: a client whose allowed requests all lie a full window in the past is served
  again, whatever it did before.\<close>

theorem rate_limit_recovers:
  assumes "rl_reach m h t" and "t \<le> now"
    and "\<forall>x \<in> set (times_of h ip). x \<le> now - RATE_WINDOW"
  shows "fst (check_rate_limit m ip now)"
proof -
  have "filter (\<lambda>x. now - RATE_WINDOW < x) (times_of h ip) = []"
    using assms(3) by (auto simp: filter_empty_conv)
  then show ?thesis
    using check_rate_limit_fst[OF assms(1,2), of ip] by (simp add: spec_allows_def RATE_LIMIT_def)
qed

theorem rl_run_refines_witness:
  "fst (rl_run Map.empty ([(''1.2.3.4'', 0), (''1.2.3.4'', 1000), (''1.2.3.4'', 2000), (''1.2.3.4'', 3000), (''1.2.3.4'', 4000), (''1.2.3.4'', 5000), (''1.2.3.4'', 6000), (''1.2.3.4'', 7000), (''1.2.3.4'', 8000), (''1.2.3.4'', 9000), (''1.2.3.4'', 10000)] @ [(''1.2.3.4'', 70001)])) = fst (spec_run [] ([(''1.2.3.4'', 0), (''1.2.3.4'', 1000), (''1.2.3.4'', 2000), (''1.2.3.4'', 3000), (''1.2.3.4'', 4000), (''1.2.3.4'', 5000), (''1.2.3.4'', 6000), (''1.2.3.4'', 7000), (''1.2.3.4'', 8000), (''1.2.3.4'', 9000), (''1.2.3.4'', 10000)] @ [(''1.2.3.4'', 70001)])) \<and>
   fst (rl_run Map.empty ([(''1.2.3.4'', 0), (''1.2.3.4'', 1000), (''1.2.3.4'', 2000), (''1.2.3.4'', 3000), (''1.2.3.4'', 4000), (''1.2.3.4'', 5000), (''1.2.3.4'', 6000), (''1.2.3.4'', 7000), (''1.2.3.4'', 8000), (''1.2.3.4'', 9000), (''1.2.3.4'', 10000)] @ [(''1.2.3.4'', 70001)])) = [True, True, True, True, True, True, True, True, True, True, False, True]"
proof -
  have s: "sorted (map snd ([(''1.2.3.4'', 0::int), (''1.2.3.4'', 1000), (''1.2.3.4'', 2000), (''1.2.3.4'', 3000), (''1.2.3.4'', 4000), (''1.2.3.4'', 5000), (''1.2.3.4'', 6000), (''1.2.3.4'', 7000), (''1.2.3.4'', 8000), (''1.2.3.4'', 9000), (''1.2.3.4'', 10000)] @ [(''1.2.3.4'', 70001)]))" by (simp add: sorted_append)
  have "fst (rl_run Map.empty ([(''1.2.3.4'', 0), (''1.2.3.4'', 1000), (''1.2.3.4'', 2000), (''1.2.3.4'', 3000), (''1.2.3.4'', 4000), (''1.2.3.4'', 5000), (''1.2.3.4'', 6000), (''1.2.3.4'', 7000), (''1.2.3.4'', 8000), (''1.2.3.4'', 9000), (''1.2.3.4'', 10000)] @ [(''1.2.3.4'', 70001)])) = [True, True, True, True, True, True, True, True, True, True, False, True]"
    by (simp add: js_eval)
  then show ?thesis using rl_run_refines[OF s] by simp
qed

lemma eleven_requests_reach:
  "rl_reach (snd (rl_run Map.empty ([(''1.2.3.4'', 0), (''1.2.3.4'', 1000), (''1.2.3.4'', 2000), (''1.2.3.4'', 3000), (''1.2.3.4'', 4000), (''1.2.3.4'', 5000), (''1.2.3.4'', 6000), (''1.2.3.4'', 7000), (''1.2.3.4'', 8000), (''1.2.3.4'', 9000), (''1.2.3.4'', 10000)]))) (snd (spec_run [] ([(''1.2.3.4'', 0), (''1.2.3.4'', 1000), (''1.2.3.4'', 2000), (''1.2.3.4'', 3000), (''1.2.3.4'', 4000), (''1.2.3.4'', 5000), (''1.2.3.4'', 6000), (''1.2.3.4'', 7000), (''1.2.3.4'', 8000), (''1.2.3.4'', 9000), (''1.2.3.4'', 10000)]))) 10000"
proof -
  have "sorted ((0::int) # map snd ([(''1.2.3.4'', 0), (''1.2.3.4'', 1000), (''1.2.3.4'', 2000), (''1.2.3.4'', 3000), (''1.2.3.4'', 4000), (''1.2.3.4'', 5000), (''1.2.3.4'', 6000), (''1.2.3.4'', 7000), (''1.2.3.4'', 8000), (''1.2.3.4'', 9000), (''1.2.3.4'', 10000)]))" by simp
  from rl_run_reach[OF rl_reach.init this] show ?thesis by simp
qed

theorem rate_limit_recovers_witness:
  "fst (check_rate_limit (snd (rl_run Map.empty ([(''1.2.3.4'', 0), (''1.2.3.4'', 1000), (''1.2.3.4'', 2000), (''1.2.3.4'', 3000), (''1.2.3.4'', 4000), (''1.2.3.4'', 5000), (''1.2.3.4'', 6000), (''1.2.3.4'', 7000), (''1.2.3.4'', 8000), (''1.2.3.4'', 9000), (''1.2.3.4'', 10000)]))) ''1.2.3.4'' 70001)"
proof -
  have "\<forall>x \<in> set (times_of (snd (spec_run [] ([(''1.2.3.4'', 0), (''1.2.3.4'', 1000), (''1.2.3.4'', 2000), (''1.2.3.4'', 3000), (''1.2.3.4'', 4000), (''1.2.3.4'', 5000), (''1.2.3.4'', 6000), (''1.2.3.4'', 7000), (''1.2.3.4'', 8000), (''1.2.3.4'', 9000), (''1.2.3.4'', 10000)]))) ''1.2.3.4''). x \<le> 70001 - RATE_WINDOW"
    by (simp add: js_eval)
  from rate_limit_recovers[OF eleven_requests_reach _ this] show ?thesis by simp
qed

end
