(* ===== verification/Orchestrator.thy ===== *)
theory Orchestrator
  imports Complex_Main Backend_Dispatcher Similarity_Group Prompt_Builder Rate_Limiter
begin

text \<open>
  The request orchestrator: the HTTP \<^verbatim>\<open>handler\<close> and
  \<^verbatim>\<open>processTicketWithFullTriage\<close> of both revisions. A request is its method,
  its headers and its parsed body; a response is one of the shapes the handler sends.
  The handler of \<^verbatim>\<open>part_001\<close> threads the rate limiter's map through calls (state
  passing) and returns, besides the response, the vendors it called, in order.
  The prompt texts are an interface: the record \<open>prompt_builders\<close> holds the two
  builders the current revision calls, each of which may throw, and
  \<open>khoros_prompts\<close> instantiates it with the templates of \<open>Prompt_Builder\<close>. The
  logger is left out here; \<open>Request_Log\<close> models it and the entries of
  \<^verbatim>\<open>processTicketWithFullTriage\<close>. Timestamps and the timings of
  \<^verbatim>\<open>result.responseTime\<close>, \<^verbatim>\<open>processingTime\<close> and \<^verbatim>\<open>result.actions\<close> are
  not modelled.
\<close>

subsection \<open>Requests and responses\<close>

record request =
  req_method :: string
  req_headers :: "string \<Rightarrow> string option"
  req_body :: "jsval option"

text \<open>What the \<^verbatim>\<open>catch\<close> of the handler receives: the \<^verbatim>\<open>Error\<close> thrown for a
  missing issue key, or an exception of the language.\<close>

datatype handler_error = NoIssueKey | JsError js_error

text \<open>The 200 body of the current revision (\<^verbatim>\<open>part_001\<close>, lines 169--213).
  \<^verbatim>\<open>duplicate_keys\<close> is always \<^verbatim>\<open>[]\<close> and \<^verbatim>\<open>status\<close> always
  \<^verbatim>\<open>'success'\<close>; \<^verbatim>\<open>modelSummary.themeClassification\<close> and
  \<^verbatim>\<open>modelSummary.priorityAnalysis\<close> repeat \<open>tb_theme_model\<close> and
  \<open>tb_priority_model\<close>.\<close>

record triage_body =
  tb_recommendation :: jsval
  tb_classification :: string
  tb_themes :: "string list"
  tb_similarity_group :: "string option"
  tb_importance :: jsval
  tb_confidence :: real
  tb_notes :: jsval
  tb_issue_key :: jsval
  tb_model_used :: string
  tb_analysis :: "jsval option"
  tb_theme :: "string option"
  tb_theme_model :: "string option"
  tb_priority_model :: "jsval option"
  tb_fallback_used :: bool
  tb_scores :: jsval
  tb_priority_recommendation :: jsval
  tb_key_insights :: jsval
  tb_risks :: jsval
  tb_opportunities :: jsval
  tb_similar_features :: jsval
  tb_next_steps :: jsval
  tb_executive_summary :: jsval
  tb_on_hold_reasoning :: jsval

text \<open>\<open>Preflight\<close> is \<^verbatim>\<open>res.status(200).end()\<close>; \<open>Rejected\<close> a status with a
  JSON body (405, 429); \<open>Failed\<close> the 500 envelope of the \<^verbatim>\<open>catch\<close>;
  \<open>Triaged\<close> the 200 body of the current revision, \<open>Processed\<close> that of the older
  one (issue key, \<^verbatim>\<open>result.analysis\<close>, \<^verbatim>\<open>result.modelUsed\<close>).\<close>

datatype response =
    Preflight
  | Rejected nat jsval
  | Failed handler_error
  | Triaged triage_body
  | Processed jsval "jsval option" "string option"

record prompt_builders =
  build_theme :: "jsval \<Rightarrow> product_context \<Rightarrow> js_error + string"
  build_priority :: "jsval \<Rightarrow> product_context \<Rightarrow> effort_estimate \<Rightarrow> js_error + string"

definition khoros_prompts :: prompt_builders where
  "khoros_prompts = \<lparr>build_theme = theme_prompt, build_priority = priority_prompt\<rparr>"

subsection \<open>\<^verbatim>\<open>processTicketWithFullTriage\<close> (current revision)\<close>

text \<open>The \<^verbatim>\<open>result\<close> object (lines 228--235), without its timings and log
  lines; \<open>None\<close> is \<^verbatim>\<open>null\<close>, and \<^verbatim>\<open>undefined\<close> for \<open>tr_priority_model\<close>,
  which the initial object lacks.\<close>

record ticket_result =
  tr_model_used :: "string option"
  tr_analysis :: "jsval option"
  tr_theme :: "string option"
  tr_theme_model :: "string option"
  tr_priority_model :: "string option"

definition ticket_init :: ticket_result where
  "ticket_init = \<lparr>tr_model_used = None, tr_analysis = None, tr_theme = None, tr_theme_model = None,
                   tr_priority_model = None\<rparr>"

text \<open>The issue used when the webhook carries none (lines 244--250).\<close>

definition default_issue :: "jsval \<Rightarrow> jsval" where
  "default_issue key =
     JObj [(''key'', key),
           (''fields'', JObj [(''summary'', JStr ''Test ticket''), (''description'', JStr ''Test description'')])]"

text \<open>\<^verbatim>\<open>classifyTheme\<close> up to its dispatch (lines 1029--1033): the product
  context and the prompt are computed outside any \<^verbatim>\<open>try\<close>; an exception there
  rejects the promise.\<close>

definition theme_step :: "clients \<Rightarrow> prompt_builders \<Rightarrow> jsval \<Rightarrow> js_error + (string \<times> string) \<times> backend list" where
  "theme_step cs pb issue =
     (case get_product_context issue of
        Inl e \<Rightarrow> Inl e
      | Inr pc \<Rightarrow>
          (case build_theme pb issue pc of
             Inl e \<Rightarrow> Inl e
           | Inr prompt \<Rightarrow> Inr (classify_theme cs prompt)))"

text \<open>\<^verbatim>\<open>analyzePriority\<close> up to its dispatch (lines 1202--1226): the input
  \<open>prep\<close> of \<open>analyze_priority\<close>.\<close>

definition priority_prep :: "prompt_builders \<Rightarrow> jsval \<Rightarrow> js_error + string option" where
  "priority_prep pb issue =
     (case estimate_effort issue of
        Inl e \<Rightarrow> Inl e
      | Inr eff \<Rightarrow>
          (case get_product_context issue of
             Inl e \<Rightarrow> Inl e
           | Inr pc \<Rightarrow>
               (case details pc of
                  None \<Rightarrow> Inr None
                | Some _ \<Rightarrow>
                    (case build_priority pb issue pc eff of
                       Inl e \<Rightarrow> Inl e
                     | Inr prompt \<Rightarrow> Inr (Some prompt)))))"

text \<open>Lines 227--301. An exception of \<^verbatim>\<open>classifyTheme\<close> is caught at line 296 and
  the initial result returned; \<^verbatim>\<open>analyzePriority\<close> catches its own.\<close>

definition process_ticket ::
  "clients \<Rightarrow> prompt_builders \<Rightarrow> jsval \<Rightarrow> jsval option \<Rightarrow> ticket_result \<times> backend list" where
  "process_ticket cs pb key issue_data =
     (let issue = js_or_d issue_data (default_issue key) in
      case theme_step cs pb issue of
        Inl _ \<Rightarrow> (ticket_init, [])
      | Inr ((theme, tm), c1) \<Rightarrow>
          (let r = ticket_init\<lparr>tr_model_used := Some tm, tr_theme := Some theme, tr_theme_model := Some tm\<rparr>;
               ((analysis, pm), c2) = analyze_priority cs (priority_prep pb issue)
           in if truthy analysis \<and> truthy (opt_get analysis ''scores'')
              then (r\<lparr>tr_priority_model := Some pm, tr_analysis := analysis\<rparr>, c1 @ c2)
              else (r\<lparr>tr_priority_model := Some ''Failed''\<rparr>, c1 @ c2)))"

subsection \<open>The handler (current revision)\<close>

text \<open>\<^verbatim>\<open>a ?? d\<close>.\<close>

definition nullish_or :: "jsval option \<Rightarrow> jsval \<Rightarrow> jsval" where
  "nullish_or v d = (case v of None \<Rightarrow> d | Some x \<Rightarrow> if x = JNull then d else x)"

text \<open>\<^verbatim>\<open>s || 'Unknown'\<close> for a string or \<^verbatim>\<open>null\<close>.\<close>

definition or_unknown :: "string option \<Rightarrow> string" where
  "or_unknown v = (case v of None \<Rightarrow> ''Unknown'' | Some s \<Rightarrow> if s = [] then ''Unknown'' else s)"

text \<open>The Jira-friendly body (lines 161--211): the classifier and the similarity group
  may throw, which the handler's \<^verbatim>\<open>catch\<close> turns into a 500.\<close>

definition triage_body_of :: "jsval \<Rightarrow> jsval option \<Rightarrow> ticket_result \<Rightarrow> js_error + triage_body" where
  "triage_body_of key issue r =
     (let a = tr_analysis r in
      case classify_bug_or_feature issue of
        Inl e \<Rightarrow> Inl e
      | Inr classification \<Rightarrow>
          (case generate_similarity_group a (tr_theme r) of
             Inl e \<Rightarrow> Inl e
           | Inr sg \<Rightarrow>
               Inr \<lparr>tb_recommendation = js_or_d (opt_get a ''priority_recommendation'') (JStr ''On Hold''),
                    tb_classification = classification,
                    tb_themes = (case tr_theme r of None \<Rightarrow> [] | Some t \<Rightarrow> if t = [] then [] else [t]),
                    tb_similarity_group = sg,
                    tb_importance = nullish_or (opt_get (opt_get a ''scores'') ''overall_priority'') (JNum 0),
                    tb_confidence = (if truthy a then 0.75 else 0),
                    tb_notes = js_or_d (opt_get a ''executive_summary'') (JStr []),
                    tb_issue_key = key,
                    tb_model_used = or_unknown (tr_theme_model r) @ '' (Theme) + '' @
                                    or_unknown (tr_priority_model r) @ '' (Priority)'',
                    tb_analysis = a,
                    tb_theme = tr_theme r,
                    tb_theme_model = tr_theme_model r,
                    tb_priority_model = opt_get a ''modelUsed'',
                    tb_fallback_used =
                      ((case tr_theme_model r of None \<Rightarrow> Some JNull | Some s \<Rightarrow> Some (JStr s))
                         \<noteq> opt_get a ''modelUsed''),
                    tb_scores = js_or_d (opt_get a ''scores'') (JObj []),
                    tb_priority_recommendation = js_or_d (opt_get a ''priority_recommendation'') (JStr ''Not analyzed''),
                    tb_key_insights = js_or_d (opt_get a ''key_insights'') (JArr []),
                    tb_risks = js_or_d (opt_get a ''risks'') (JArr []),
                    tb_opportunities = js_or_d (opt_get a ''opportunities'') (JArr []),
                    tb_similar_features = js_or_d (opt_get a ''similar_features'') (JStr ''Not analyzed''),
                    tb_next_steps = js_or_d (opt_get a ''recommended_next_steps'') (JArr []),
                    tb_executive_summary = js_or_d (opt_get a ''executive_summary'') (JStr ''Not analyzed''),
                    tb_on_hold_reasoning = js_or_d (opt_get a ''on_hold_reasoning'') (JStr ''Not applicable'')\<rparr>))"

text \<open>The webhook's issue and its key (lines 128--145 here, 68--78 in the older
  revision). \<^verbatim>\<open>JSON.stringify(req.body).length\<close> throws when the body is
  \<^verbatim>\<open>undefined\<close> or has no JSON form (a function); \<^verbatim>\<open>data.issue\<close> throws on
  \<^verbatim>\<open>null\<close>; a key that is not truthy throws the handler's own \<^verbatim>\<open>Error\<close>.\<close>

definition webhook_issue :: "jsval option \<Rightarrow> handler_error + jsval \<times> jsval option" where
  "webhook_issue body =
     (case body of
        None \<Rightarrow> Inl (JsError TypeError)
      | Some data \<Rightarrow>
          if data = JNull \<or> data = JHost then Inl (JsError TypeError)
          else (let issue = get_prop data ''issue'' in
                case opt_get issue ''key'' of
                  None \<Rightarrow> Inl NoIssueKey
                | Some key \<Rightarrow> if js_truthy key then Inr (key, issue) else Inl NoIssueKey))"

text \<open>The \<^verbatim>\<open>try\<close> block of the handler (lines 124--223).\<close>

definition triage_request :: "clients \<Rightarrow> prompt_builders \<Rightarrow> jsval option \<Rightarrow> response \<times> backend list" where
  "triage_request cs pb body =
     (case webhook_issue body of
        Inl e \<Rightarrow> (Failed e, [])
      | Inr (key, issue) \<Rightarrow>
          (let (r, calls) = process_ticket cs pb key issue in
           case triage_body_of key issue r of
             Inl e \<Rightarrow> (Failed (JsError e), calls)
           | Inr b \<Rightarrow> (Triaged b, calls)))"

text \<open>\<^verbatim>\<open>req.headers['x-forwarded-for'] || req.headers['x-real-ip'] || 'unknown'\<close>.\<close>

definition header_or :: "string option \<Rightarrow> string \<Rightarrow> string" where
  "header_or v d = (case v of None \<Rightarrow> d | Some s \<Rightarrow> if s = [] then d else s)"

definition client_ip :: "(string \<Rightarrow> string option) \<Rightarrow> string" where
  "client_ip h = header_or (h ''x-forwarded-for'') (header_or (h ''x-real-ip'') ''unknown'')"

definition method_not_allowed :: jsval where
  "method_not_allowed = JObj [(''error'', JStr ''Method not allowed'')]"

definition rate_limited :: jsval where
  "rate_limited = JObj [(''error'', JStr ''Rate limit exceeded. Please try again later.''), (''retryAfter'', JNum 60)]"

text \<open>The handler (lines 97--224): the limiter's map \<open>st\<close> and the clock \<open>now\<close>
  in, the response, the vendors called and the new map out.\<close>

definition handler ::
  "clients \<Rightarrow> prompt_builders \<Rightarrow> rl_state \<Rightarrow> int \<Rightarrow> request \<Rightarrow> (response \<times> backend list) \<times> rl_state" where
  "handler cs pb st now req =
     (if req_method req = ''OPTIONS'' then ((Preflight, []), st)
      else if req_method req \<noteq> ''POST'' then ((Rejected 405 method_not_allowed, []), st)
      else (let (ok, st') = check_rate_limit st (client_ip (req_headers req)) now in
            if ok then (triage_request cs pb (req_body req), st')
            else ((Rejected 429 rate_limited, []), st')))"

text \<open>Successive invocations of one instance: the map \<^verbatim>\<open>requestCounts\<close> lives as
  long as the module.\<close>

fun handler_run ::
  "clients \<Rightarrow> prompt_builders \<Rightarrow> rl_state \<Rightarrow> (int \<times> request) list \<Rightarrow> (response \<times> backend list) list \<times> rl_state" where
  "handler_run cs pb st [] = ([], st)"
| "handler_run cs pb st ((now, req) # rs) =
     (let (out, st') = handler cs pb st now req; (outs, st'') = handler_run cs pb st' rs in (out # outs, st''))"

subsection \<open>The older revision (\<^verbatim>\<open>src/api/triage.js\<close>)\<close>

text \<open>\<^verbatim>\<open>processTicketWithFullTriage\<close> (lines 113--191): build the prompt with no
  similar tickets, which may throw, then the two-vendor dispatch; an exception is
  rethrown.\<close>

definition process_ticket_v1 ::
  "provider \<Rightarrow> provider \<Rightarrow> jsval \<Rightarrow> jsval option \<Rightarrow> js_error + (jsval option \<times> string option) \<times> backend list" where
  "process_ticket_v1 g c key issue_data =
     (case build_comprehensive_triage_prompt (js_or_d issue_data (default_issue key)) [] of
        Inl e \<Rightarrow> Inl e
      | Inr prompt \<Rightarrow> Inr (triage_dispatch_v1 g c prompt))"

text \<open>The handler (lines 50--111): no rate limit, and the body is the key with the
  result of the triage.\<close>

definition handler_v1 :: "provider \<Rightarrow> provider \<Rightarrow> request \<Rightarrow> response \<times> backend list" where
  "handler_v1 g c req =
     (if req_method req = ''OPTIONS'' then (Preflight, [])
      else if req_method req \<noteq> ''POST'' then (Rejected 405 method_not_allowed, [])
      else (case webhook_issue (req_body req) of
              Inl e \<Rightarrow> (Failed e, [])
            | Inr (key, issue) \<Rightarrow>
                (case process_ticket_v1 g c key issue of
                   Inl e \<Rightarrow> (Failed (JsError e), [])
                 | Inr ((analysis, model), calls) \<Rightarrow> (Processed key analysis model, calls))))"

declare khoros_prompts_def [js_eval] ticket_init_def [js_eval] default_issue_def [js_eval] theme_step_def [js_eval] priority_prep_def [js_eval]
  process_ticket_def [js_eval] nullish_or_def [js_eval] or_unknown_def [js_eval] triage_body_of_def [js_eval]
  webhook_issue_def [js_eval] triage_request_def [js_eval] header_or_def [js_eval] client_ip_def [js_eval]
  method_not_allowed_def [js_eval] rate_limited_def [js_eval] handler_def [js_eval]
  process_ticket_v1_def [js_eval] handler_v1_def [js_eval]

text \<open>The POST requests of a run as the limiter sees them, and those the handler
  admitted (answered with anything but the 429).\<close>

definition posts :: "(int \<times> request) list \<Rightarrow> (string \<times> int) list" where
  "posts rs = map (\<lambda>tq. (client_ip (req_headers (snd tq)), fst tq)) (filter (\<lambda>tq. req_method (snd tq) = ''POST'') rs)"

definition admitted :: "(int \<times> request) list \<Rightarrow> (response \<times> backend list) list \<Rightarrow> (string \<times> int) list" where
  "admitted rs outs =
     map (\<lambda>(tq, _). (client_ip (req_headers (snd tq)), fst tq))
       (filter (\<lambda>(tq, out). req_method (snd tq) = ''POST'' \<and> fst out \<noteq> Rejected 429 rate_limited) (zip rs outs))"

subsection \<open>The handler's paths\<close>

lemma triage_request_not_rejected: "fst (triage_request cs pb body) \<noteq> Rejected n v"
  by (auto simp: triage_request_def split: sum.splits prod.splits)

lemma handler_post:
  "req_method req = ''POST'' \<Longrightarrow>
     handler cs pb st now req =
       (if fst (check_rate_limit st (client_ip (req_headers req)) now)
        then (triage_request cs pb (req_body req), snd (check_rate_limit st (client_ip (req_headers req)) now))
        else ((Rejected 429 rate_limited, []), snd (check_rate_limit st (client_ip (req_headers req)) now)))"
  by (simp add: handler_def split: prod.splits)

lemma handler_not_post:
  "req_method req \<noteq> ''POST'' \<Longrightarrow> snd (handler cs pb st now req) = st \<and> fst (fst (handler cs pb st now req)) \<noteq> Rejected 429 v"
  by (simp add: handler_def)

lemma spec_run_hist: "snd (spec_run h rs) = h @ map fst (filter snd (zip rs (fst (spec_run h rs))))"
  by (induction rs arbitrary: h) (auto simp: spec_step_def Let_def case_prod_unfold)

lemma handler_run_limiter:
  "snd (handler_run cs pb st rs) = snd (rl_run st (posts rs)) \<and>
   admitted rs (fst (handler_run cs pb st rs)) = map fst (filter snd (zip (posts rs) (fst (rl_run st (posts rs)))))"
proof (induction rs arbitrary: st)
  case Nil
  then show ?case by (simp add: posts_def admitted_def)
next
  case (Cons r rs)
  obtain now req where r: "r = (now, req)" by (cases r)
  show ?case
  proof (cases "req_method req = ''POST''")
    case True
    then show ?thesis
      using Cons.IH[of "snd (check_rate_limit st (client_ip (req_headers req)) now)"] triage_request_not_rejected
      by (auto simp: r handler_post posts_def admitted_def split: prod.splits)
  next
    case False
    then show ?thesis
      using Cons.IH[of st] by (auto simp: r handler_def posts_def admitted_def split: prod.splits)
  qed
qed

text \<open>C7: a POST that the limiter refuses is answered 429 with
  \<^verbatim>\<open>retryAfter: 60\<close> before the body is read, and no vendor is called.\<close>

theorem handler_rate_limited:
  assumes "req_method req = ''POST''"
    and "\<not> fst (check_rate_limit st (client_ip (req_headers req)) now)"
  shows "handler cs pb st now req = ((Rejected 429 rate_limited, []), snd (check_rate_limit st (client_ip (req_headers req)) now))"
  using assms by (simp add: handler_post)

text \<open>C8: an admitted POST whose body has no truthy \<^verbatim>\<open>issue.key\<close> is answered
  with the 500 envelope of \<^verbatim>\<open>Error: No issue key provided in webhook\<close>, no vendor
  is called, and the request still counts against the client's limit.\<close>

theorem handler_missing_issue_key:
  assumes "req_method req = ''POST''"
    and "fst (check_rate_limit st (client_ip (req_headers req)) now)"
    and "req_body req = Some data" and "data \<noteq> JNull" and "data \<noteq> JHost"
    and "\<not> truthy (opt_get (get_prop data ''issue'') ''key'')"
  shows "handler cs pb st now req = ((Failed NoIssueKey, []), snd (check_rate_limit st (client_ip (req_headers req)) now))"
  using assms by (auto simp: handler_post triage_request_def webhook_issue_def truthy_def split: option.splits)

text \<open>C6: over any run of the handler with non-decreasing times, from the empty map,
  no client address gets more than ten requests past the limiter within any minute.\<close>

theorem handler_window_bound:
  assumes "sorted (map fst rs)"
  shows "in_window (admitted rs (fst (handler_run cs pb Map.empty rs))) ip a \<le> RATE_LIMIT"
proof -
  let ?ps = "posts rs"
  let ?t = "case ?ps of [] \<Rightarrow> 0 | p # _ \<Rightarrow> snd p"
  have "sorted (map snd ?ps)"
    using sorted_filter[OF assms, of "\<lambda>(t, q). req_method q = ''POST''"]
    by (simp add: posts_def case_prod_unfold comp_def)
  then have "sorted (?t # map snd ?ps)" by (cases ?ps) auto
  from rl_run_reach[OF rl_reach.init this]
  have eq: "fst (rl_run Map.empty ?ps) = fst (spec_run [] ?ps)"
    and reach: "rl_reach (snd (rl_run Map.empty ?ps)) (snd (spec_run [] ?ps)) (last (?t # map snd ?ps))"
    by auto
  have "admitted rs (fst (handler_run cs pb Map.empty rs)) = snd (spec_run [] ?ps)"
    using handler_run_limiter[of cs pb Map.empty rs] spec_run_hist[of "[]" ?ps] eq by simp
  then show ?thesis using rl_reach_in_window[OF reach] by simp
qed

lemma handler_TriagedD:
  assumes "fst (fst (handler cs pb st now req)) = Triaged b"
  shows "\<exists>key issue r calls. process_ticket cs pb key issue = (r, calls) \<and> triage_body_of key issue r = Inr b"
  using assms by (auto simp: handler_def triage_request_def split: if_splits prod.splits sum.splits)

lemma triage_body_of_models:
  "triage_body_of key issue r = Inr b \<Longrightarrow>
     tb_analysis b = tr_analysis r \<and> tb_priority_model b = opt_get (tr_analysis r) ''modelUsed'' \<and>
     tb_fallback_used b =
       ((case tr_theme_model r of None \<Rightarrow> Some JNull | Some s \<Rightarrow> Some (JStr s)) \<noteq> opt_get (tr_analysis r) ''modelUsed'')"
  by (auto simp: triage_body_of_def Let_def split: sum.splits)

lemma analyze_priority_all_fail:
  assumes "\<forall>(b, p) \<in> set (configured cs). \<forall>x. p x = Failure"
  shows "fst (fst (analyze_priority cs prep)) = None"
proof (cases prep)
  case (Inr po)
  show ?thesis
  proof (cases po)
    case (Some prompt)
    have "\<forall>(b, p) \<in> set (configured cs). map_option Some (priority_attempt p prompt) = None"
      using assms by (auto simp: priority_attempt_def)
    then show ?thesis
      using Inr Some by (simp add: analyze_priority_def priority_dispatch_spec dispatch_spec_fail)
  qed (simp add: Inr analyze_priority_def)
qed (simp add: analyze_priority_def)

lemma process_ticket_no_analysis:
  "fst (fst (analyze_priority cs (priority_prep pb (js_or_d issue (default_issue key))))) = None \<Longrightarrow>
     tr_analysis (fst (process_ticket cs pb key issue)) = None"
  by (auto simp: process_ticket_def ticket_init_def Let_def truthy_def split: sum.splits prod.splits)

text \<open>C9: the response flags a fallback whenever the analysis has no
  \<^verbatim>\<open>modelUsed\<close> key, which the prompt's JSON shape does not ask for:
  \<^verbatim>\<open>fallbackUsed\<close> is true and \<^verbatim>\<open>priorityModel\<close> undefined even when one vendor
  served both calls.\<close>

theorem handler_fallback_always_flagged:
  assumes "fst (fst (handler cs pb st now req)) = Triaged b"
    and "opt_get (tb_analysis b) ''modelUsed'' = None"
  shows "tb_fallback_used b \<and> tb_priority_model b = None"
proof -
  obtain key issue r calls where "triage_body_of key issue r = Inr b"
    using handler_TriagedD[OF assms(1)] by blast
  then show ?thesis using triage_body_of_models[of key issue r b] assms(2) by (simp split: option.splits)
qed

lemma handler_degraded:
  assumes "req_method req = ''POST''"
    and "fst (check_rate_limit st (client_ip (req_headers req)) now)"
    and "webhook_issue (req_body req) = Inr (key, issue)"
    and "classify_bug_or_feature issue = Inr cl"
    and "\<forall>(b, p) \<in> set (configured cs). \<forall>x. p x = Failure"
  shows "\<exists>b. fst (fst (handler cs pb st now req)) = Triaged b \<and> tb_recommendation b = JStr ''On Hold'' \<and>
             tb_importance b = JNum 0 \<and> tb_confidence b = 0 \<and> tb_notes b = JStr [] \<and>
             tb_analysis b = None \<and> tb_similarity_group b = None \<and> tb_classification b = cl"
proof -
  obtain r calls where pt: "process_ticket cs pb key issue = (r, calls)" by fastforce
  have "tr_analysis r = None"
    using process_ticket_no_analysis[where pb = pb and key = key and issue = issue, OF analyze_priority_all_fail[OF assms(5)]] pt by simp
  then show ?thesis
    using assms(1-4) pt
    by (simp add: handler_post triage_request_def triage_body_of_def generate_similarity_group_def
                  opt_get_def truthy_def js_or_d_def nullish_or_def)
qed

text \<open>C10: when every configured vendor fails, an admitted request with a key and a
  classifiable issue still gets a 200: the degraded outcome with recommendation
  \<^verbatim>\<open>On Hold\<close>, importance 0, confidence 0.0, empty notes and no analysis.\<close>

theorem handler_degraded_outcome:
  assumes "req_method req = ''POST''"
    and "fst (check_rate_limit st (client_ip (req_headers req)) now)"
    and "webhook_issue (req_body req) = Inr (key, issue)"
    and "classify_bug_or_feature issue = Inr cl"
    and "\<forall>(b, p) \<in> set (configured cs). \<forall>x. p x = Failure"
  shows "\<exists>b. fst (fst (handler cs pb st now req)) = Triaged b \<and> tb_recommendation b = JStr ''On Hold'' \<and>
             tb_importance b = JNum 0 \<and> tb_confidence b = 0 \<and> tb_notes b = JStr [] \<and>
             tb_analysis b = None \<and> tb_similarity_group b = None \<and> tb_classification b = cl"
  using assms by (rule handler_degraded)

subsection \<open>Whole requests\<close>

text \<open>Bad ticket data is not a request-level error: a component given as
  \<^verbatim>\<open>null\<close> makes \<^verbatim>\<open>getProductContext\<close> throw inside \<^verbatim>\<open>classifyTheme\<close>,
  \<^verbatim>\<open>processTicketWithFullTriage\<close> swallows it, no vendor is called, and the
  answer is the same 200 as when both vendors fail.\<close>

theorem handler_bad_ticket_degraded:
  "(case handler \<lparr>gemini_client = Some (\<lambda>_. Reply ''```json\<newline>{\"scores\":{\"business_impact\":90,\"strategic_fit\":85,\"cross_client_value\":80,\"effort_size\":\"S\"},\"priority_recommendation\":\"Fast Track\"}\<newline>```''), claude_client = None\<rparr>
      \<lparr>build_theme = \<lambda>_ _. Inr ''theme'', build_priority = \<lambda>_ _ _. Inr ''priority''\<rparr> Map.empty 0
      \<lparr>req_method = ''POST'', req_headers = Map.empty,
       req_body = Some (JObj [(''issue'', JObj [(''key'', JStr ''FR-7''),
         (''fields'', JObj [(''summary'', JStr ''Add export to dashboard''), (''components'', JArr [JNull])])])])\<rparr> of
     ((Triaged b, calls), _) \<Rightarrow>
        tb_analysis b = None \<and> tb_recommendation b = JStr ''On Hold'' \<and> tb_confidence b = 0 \<and>
        tb_themes b = [] \<and> tb_classification b = ''Feature'' \<and> calls = []
   | _ \<Rightarrow> False)"
  by code_simp

lemma handler_run_fresh_keys:
  assumes "list_all (\<lambda>(_, q). req_method q = ''POST'' \<longrightarrow> stored st (client_ip (req_headers q)) = []) rs"
    and "distinct (map (\<lambda>(_, q). client_ip (req_headers q)) (filter (\<lambda>(_, q). req_method q = ''POST'') rs))"
  shows "list_all (\<lambda>out. fst out \<noteq> Rejected 429 rate_limited) (fst (handler_run cs pb st rs))"
  using assms
proof (induction rs arbitrary: st)
  case (Cons r rs)
  obtain now req where r: "r = (now, req)" by (cases r)
  show ?case
  proof (cases "req_method req = ''POST''")
    case True
    let ?ip = "client_ip (req_headers req)"
    have "stored st ?ip = []" using Cons.prems(1) r True by simp
    then have chk: "check_rate_limit st ?ip now = (True, st(?ip \<mapsto> [now]))"
      by (simp add: check_rate_limit_eq RATE_LIMIT_def)
    have "list_all (\<lambda>(_, q). req_method q = ''POST'' \<longrightarrow> stored (st(?ip \<mapsto> [now])) (client_ip (req_headers q)) = []) rs"
      using Cons.prems r True by (fastforce simp: stored_upd list_all_iff image_iff)
    then have "list_all (\<lambda>out. fst out \<noteq> Rejected 429 rate_limited) (fst (handler_run cs pb (st(?ip \<mapsto> [now])) rs))"
      using Cons.IH Cons.prems(2) r True by simp
    then show ?thesis
      using r True chk triage_request_not_rejected[of cs pb "req_body req"]
      by (simp add: handler_post case_prod_unfold Let_def)
  next
    case False
    have "handler cs pb st now req = (if req_method req = ''OPTIONS'' then (Preflight, []) else (Rejected 405 method_not_allowed, []), st)"
      using False by (simp add: handler_def)
    then show ?thesis using Cons r False by (simp add: case_prod_unfold Let_def)
  qed
qed simp

text \<open>C34: the limiter's key is the client-supplied \<^verbatim>\<open>X-Forwarded-For\<close> header, so
  a client that sends each request with a fresh value of the header is never rate
  limited, however many requests it sends and however fast.\<close>

theorem handler_forwarded_for_spoofing:
  assumes "list_all (\<lambda>(_, q). req_method q = ''POST'' \<longrightarrow> (\<exists>ip. req_headers q ''x-forwarded-for'' = Some ip \<and> ip \<noteq> [])) rs"
    and "distinct (map (\<lambda>(_, q). req_headers q ''x-forwarded-for'') (filter (\<lambda>(_, q). req_method q = ''POST'') rs))"
  shows "list_all (\<lambda>out. fst out \<noteq> Rejected 429 rate_limited) (fst (handler_run cs pb Map.empty rs))"
proof (rule handler_run_fresh_keys)
  show "list_all (\<lambda>(_, q). req_method q = ''POST'' \<longrightarrow> stored Map.empty (client_ip (req_headers q)) = []) rs"
    by (simp add: stored_def list_all_iff)
  have eq: "map (\<lambda>(_, q). req_headers q ''x-forwarded-for'') (filter (\<lambda>(_, q). req_method q = ''POST'') rs) =
        map Some (map (\<lambda>(_, q). client_ip (req_headers q)) (filter (\<lambda>(_, q). req_method q = ''POST'') rs))"
    using assms(1) by (induction rs) (auto simp: client_ip_def header_or_def)
  show "distinct (map (\<lambda>(_, q). client_ip (req_headers q)) (filter (\<lambda>(_, q). req_method q = ''POST'') rs))"
  proof -
    have "distinct (map Some (map (\<lambda>(_, q). client_ip (req_headers q)) (filter (\<lambda>(_, q). req_method q = ''POST'') rs)))"
      using assms(2) unfolding eq .
    then show ?thesis by (rule distinct_map[THEN iffD1, THEN conjunct1])
  qed
qed

text \<open>C35: an analysis whose \<^verbatim>\<open>similar_features\<close> is truthy but not a string (a
  list, as a model may well reply) passes the parser, and the handler then answers an
  admitted, classifiable request with a 500 after all its vendor calls.\<close>

theorem handler_similarity_type_error:
  assumes "req_method req = ''POST''"
    and "fst (check_rate_limit st (client_ip (req_headers req)) now)"
    and "webhook_issue (req_body req) = Inr (key, issue)"
    and "classify_bug_or_feature issue = Inr cl"
    and "process_ticket cs pb key issue = (r, calls)"
    and "tr_analysis r = Some (JObj kvs)" and "map_of kvs ''similar_features'' = Some v"
    and "js_truthy v" and "\<forall>s. v \<noteq> JStr s"
  shows "fst (handler cs pb st now req) = (Failed (JsError TypeError), calls)"
  using assms similarity_group_type_error[OF assms(7-9), of "tr_theme r"]
  by (simp add: handler_post triage_request_def triage_body_of_def)

subsection \<open>Witnesses\<close>

theorem handler_rate_limited_witness:
  "fst (handler \<lparr>gemini_client = None, claude_client = None\<rparr> \<lparr>build_theme = \<lambda>_ _. Inr [], build_priority = \<lambda>_ _ _. Inr []\<rparr> [''unknown'' \<mapsto> [1, 2, 3, 4, 5, 6, 7, 8, 9, 10]] 11
          \<lparr>req_method = ''POST'', req_headers = Map.empty, req_body = None\<rparr>)
     = (Rejected 429 rate_limited, [])"
  using handler_rate_limited[of "\<lparr>req_method = ''POST'', req_headers = Map.empty, req_body = None\<rparr>"
      "[''unknown'' \<mapsto> [1, 2, 3, 4, 5, 6, 7, 8, 9, 10]]" 11 "\<lparr>gemini_client = None, claude_client = None\<rparr>" "\<lparr>build_theme = \<lambda>_ _. Inr [], build_priority = \<lambda>_ _ _. Inr []\<rparr>"]
  by (simp add: js_eval)

theorem handler_missing_issue_key_witness:
  "handler \<lparr>gemini_client = None, claude_client = None\<rparr> \<lparr>build_theme = \<lambda>_ _. Inr [], build_priority = \<lambda>_ _ _. Inr []\<rparr> Map.empty 0
     \<lparr>req_method = ''POST'', req_headers = Map.empty, req_body = Some (JObj [(''issue'', JObj [(''key'', JStr [])])])\<rparr>
     = ((Failed NoIssueKey, []), snd (check_rate_limit Map.empty ''unknown'' 0))"
proof -
  have k: "\<not> truthy (opt_get (get_prop (JObj [(''issue'', JObj [(''key'', JStr [])])]) ''issue'') ''key'')"
    by code_simp
  show ?thesis
    using handler_missing_issue_key[of "\<lparr>req_method = ''POST'', req_headers = Map.empty,
        req_body = Some (JObj [(''issue'', JObj [(''key'', JStr [])])])\<rparr>" Map.empty 0
        "JObj [(''issue'', JObj [(''key'', JStr [])])]" "\<lparr>gemini_client = None, claude_client = None\<rparr>" "\<lparr>build_theme = \<lambda>_ _. Inr [], build_priority = \<lambda>_ _ _. Inr []\<rparr>"] k
    by (simp add: js_eval)
qed

theorem handler_window_bound_witness:
  "in_window (admitted (map (\<lambda>t. (t, \<lparr>req_method = ''POST'', req_headers = Map.empty, req_body = None\<rparr>)) [0, 1, 2, 3, 4, 5, 6, 7, 8, 9, 10])
       (fst (handler_run \<lparr>gemini_client = None, claude_client = None\<rparr> \<lparr>build_theme = \<lambda>_ _. Inr [], build_priority = \<lambda>_ _ _. Inr []\<rparr> Map.empty
          (map (\<lambda>t. (t, \<lparr>req_method = ''POST'', req_headers = Map.empty, req_body = None\<rparr>)) [0, 1, 2, 3, 4, 5, 6, 7, 8, 9, 10]))))
     ''unknown'' 10 \<le> RATE_LIMIT"
  using handler_window_bound[of "map (\<lambda>t. (t, \<lparr>req_method = ''POST'', req_headers = Map.empty, req_body = None\<rparr>)) [0, 1, 2, 3, 4, 5, 6, 7, 8, 9, 10]" "\<lparr>gemini_client = None, claude_client = None\<rparr>" "\<lparr>build_theme = \<lambda>_ _. Inr [], build_priority = \<lambda>_ _ _. Inr []\<rparr>" "''unknown''" 10]
  by simp

theorem handler_fallback_always_flagged_witness:
  "\<exists>b. fst (fst (handler \<lparr>gemini_client = Some (\<lambda>p. if p = ''theme'' then Reply ''ANALYTICS & REPORTING - Core Analytics''
        else Reply ''```json\<newline>{\"scores\":{\"business_impact\":90,\"strategic_fit\":85,\"cross_client_value\":80,\"effort_size\":\"S\"},\"priority_recommendation\":\"Fast Track\"}\<newline>```''),
      claude_client = None\<rparr> \<lparr>build_theme = \<lambda>_ _. Inr ''theme'', build_priority = \<lambda>_ _ _. Inr ''priority''\<rparr> Map.empty 0 (\<lparr>req_method = ''POST'', req_headers = Map.empty, req_body = Some (JObj [(''issue'', JObj [(''key'', JStr ''FR-1''), (''fields'', JObj [(''summary'', JStr ''Add export to dashboard'')])])])\<rparr>))) = Triaged b \<and>
       tb_theme_model b = Some ''Gemini Flash 2.0'' \<and> tb_fallback_used b \<and> tb_priority_model b = None"
proof -
  have "case fst (fst (handler \<lparr>gemini_client = Some (\<lambda>p. if p = ''theme'' then Reply ''ANALYTICS & REPORTING - Core Analytics''
        else Reply ''```json\<newline>{\"scores\":{\"business_impact\":90,\"strategic_fit\":85,\"cross_client_value\":80,\"effort_size\":\"S\"},\"priority_recommendation\":\"Fast Track\"}\<newline>```''),
      claude_client = None\<rparr> \<lparr>build_theme = \<lambda>_ _. Inr ''theme'', build_priority = \<lambda>_ _ _. Inr ''priority''\<rparr> Map.empty 0 (\<lparr>req_method = ''POST'', req_headers = Map.empty, req_body = Some (JObj [(''issue'', JObj [(''key'', JStr ''FR-1''), (''fields'', JObj [(''summary'', JStr ''Add export to dashboard'')])])])\<rparr>))) of
          Triaged b \<Rightarrow> opt_get (tb_analysis b) ''modelUsed'' = None \<and> tb_theme_model b = Some ''Gemini Flash 2.0''
        | _ \<Rightarrow> False"
    by code_simp
  then obtain b where b: "fst (fst (handler \<lparr>gemini_client = Some (\<lambda>p. if p = ''theme'' then Reply ''ANALYTICS & REPORTING - Core Analytics''
        else Reply ''```json\<newline>{\"scores\":{\"business_impact\":90,\"strategic_fit\":85,\"cross_client_value\":80,\"effort_size\":\"S\"},\"priority_recommendation\":\"Fast Track\"}\<newline>```''),
      claude_client = None\<rparr> \<lparr>build_theme = \<lambda>_ _. Inr ''theme'', build_priority = \<lambda>_ _ _. Inr ''priority''\<rparr> Map.empty 0 (\<lparr>req_method = ''POST'', req_headers = Map.empty, req_body = Some (JObj [(''issue'', JObj [(''key'', JStr ''FR-1''), (''fields'', JObj [(''summary'', JStr ''Add export to dashboard'')])])])\<rparr>))) = Triaged b"
    and m: "opt_get (tb_analysis b) ''modelUsed'' = None" and t: "tb_theme_model b = Some ''Gemini Flash 2.0''"
    by (auto split: response.splits)
  show ?thesis using handler_fallback_always_flagged[OF b m] b t by blast
qed

theorem handler_degraded_outcome_witness:
  "\<exists>b. fst (fst (handler \<lparr>gemini_client = Some (\<lambda>_. Failure), claude_client = None\<rparr> \<lparr>build_theme = \<lambda>_ _. Inr ''theme'', build_priority = \<lambda>_ _ _. Inr ''priority''\<rparr> Map.empty 0 (\<lparr>req_method = ''POST'', req_headers = Map.empty, req_body = Some (JObj [(''issue'', JObj [(''key'', JStr ''FR-1''), (''fields'', JObj [(''summary'', JStr ''Add export to dashboard'')])])])\<rparr>))) = Triaged b \<and>
       tb_recommendation b = JStr ''On Hold'' \<and> tb_importance b = JNum 0 \<and> tb_confidence b = 0 \<and>
       tb_notes b = JStr [] \<and> tb_analysis b = None \<and> tb_similarity_group b = None \<and> tb_classification b = ''Feature''"
proof -
  have w: "webhook_issue (req_body (\<lparr>req_method = ''POST'', req_headers = Map.empty, req_body = Some (JObj [(''issue'', JObj [(''key'', JStr ''FR-1''), (''fields'', JObj [(''summary'', JStr ''Add export to dashboard'')])])])\<rparr>)) = Inr (JStr ''FR-1'', Some (JObj [(''key'', JStr ''FR-1''), (''fields'', JObj [(''summary'', JStr ''Add export to dashboard'')])]))" by code_simp
  have c: "classify_bug_or_feature (Some (JObj [(''key'', JStr ''FR-1''), (''fields'', JObj [(''summary'', JStr ''Add export to dashboard'')])])) = Inr ''Feature''" by code_simp
  have f: "\<forall>(b, p) \<in> set (configured \<lparr>gemini_client = Some (\<lambda>_. Failure), claude_client = None\<rparr>). \<forall>x. p x = Failure"
    by (simp add: configured_def)
  show ?thesis
    using handler_degraded_outcome[of "(\<lparr>req_method = ''POST'', req_headers = Map.empty, req_body = Some (JObj [(''issue'', JObj [(''key'', JStr ''FR-1''), (''fields'', JObj [(''summary'', JStr ''Add export to dashboard'')])])])\<rparr>)" Map.empty 0 "JStr ''FR-1''" "Some (JObj [(''key'', JStr ''FR-1''), (''fields'', JObj [(''summary'', JStr ''Add export to dashboard'')])])" "''Feature''"
        "\<lparr>gemini_client = Some (\<lambda>_. Failure), claude_client = None\<rparr>" "\<lparr>build_theme = \<lambda>_ _. Inr ''theme'', build_priority = \<lambda>_ _ _. Inr ''priority''\<rparr>", OF _ _ w c f]
    by (simp add: js_eval)
qed

theorem handler_forwarded_for_spoofing_witness:
  "list_all (\<lambda>out. fst out \<noteq> Rejected 429 rate_limited)
     (fst (handler_run \<lparr>gemini_client = None, claude_client = None\<rparr>
        \<lparr>build_theme = \<lambda>_ _. Inr [], build_priority = \<lambda>_ _ _. Inr []\<rparr> Map.empty
        (map (\<lambda>ip. (0, \<lparr>req_method = ''POST'', req_headers = [''x-forwarded-for'' \<mapsto> ip], req_body = None\<rparr>))
           [''10.0.0.1'', ''10.0.0.2'', ''10.0.0.3'', ''10.0.0.4'', ''10.0.0.5'', ''10.0.0.6'',
            ''10.0.0.7'', ''10.0.0.8'', ''10.0.0.9'', ''10.0.0.10'', ''10.0.0.11''])))"
  by (rule handler_forwarded_for_spoofing) simp_all

theorem handler_similarity_type_error_witness:
  "fst (handler \<lparr>gemini_client = Some (\<lambda>p. if p = ''theme'' then Reply ''ANALYTICS & REPORTING - Core Analytics''
        else Reply ''{\"scores\":{\"business_impact\":90,\"strategic_fit\":85,\"cross_client_value\":80,\"effort_size\":\"S\"},\"priority_recommendation\":\"Fast Track\",\"similar_features\":[\"SSO\"]}''),
      claude_client = None\<rparr>
     \<lparr>build_theme = \<lambda>_ _. Inr ''theme'', build_priority = \<lambda>_ _ _. Inr ''priority''\<rparr> Map.empty 0
     \<lparr>req_method = ''POST'', req_headers = Map.empty,
      req_body = Some (JObj [(''issue'', JObj [(''key'', JStr ''FR-1''), (''fields'', JObj [(''summary'', JStr ''Add export to dashboard'')])])])\<rparr>)
   = (Failed (JsError TypeError), [Gemini, Gemini])"
proof -
  let ?cs = "\<lparr>gemini_client = Some (\<lambda>p. if p = ''theme'' then Reply ''ANALYTICS & REPORTING - Core Analytics''
        else Reply ''{\"scores\":{\"business_impact\":90,\"strategic_fit\":85,\"cross_client_value\":80,\"effort_size\":\"S\"},\"priority_recommendation\":\"Fast Track\",\"similar_features\":[\"SSO\"]}''),
      claude_client = None\<rparr>"
  let ?pb = "\<lparr>build_theme = \<lambda>_ _. Inr ''theme'', build_priority = \<lambda>_ _ _. Inr ''priority''\<rparr>"
  let ?issue = "Some (JObj [(''key'', JStr ''FR-1''), (''fields'', JObj [(''summary'', JStr ''Add export to dashboard'')])])"
  let ?req = "\<lparr>req_method = ''POST'', req_headers = Map.empty,
      req_body = Some (JObj [(''issue'', JObj [(''key'', JStr ''FR-1''), (''fields'', JObj [(''summary'', JStr ''Add export to dashboard'')])])])\<rparr>"
  let ?kvs = "[(''scores'', JObj [(''business_impact'', JNum 90), (''strategic_fit'', JNum 85),
        (''cross_client_value'', JNum 80), (''effort_size'', JStr ''S''), (''overall_priority'', JNum 85)]),
     (''priority_recommendation'', JStr ''Fast Track''), (''similar_features'', JArr [JStr ''SSO''])]"
  have h2: "fst (check_rate_limit Map.empty (client_ip (req_headers ?req)) 0)" by code_simp
  have h3: "webhook_issue (req_body ?req) = Inr (JStr ''FR-1'', ?issue)" by code_simp
  have h4: "classify_bug_or_feature ?issue = Inr ''Feature''" by code_simp
  have h5: "process_ticket ?cs ?pb (JStr ''FR-1'') ?issue = (fst (process_ticket ?cs ?pb (JStr ''FR-1'') ?issue), [Gemini, Gemini])"
    by code_simp
  have h6: "tr_analysis (fst (process_ticket ?cs ?pb (JStr ''FR-1'') ?issue)) = Some (JObj ?kvs)" by code_simp
  show ?thesis
    by (rule handler_similarity_type_error[OF _ h2 h3 h4 h5 h6, of "JArr [JStr ''SSO'']"]) simp_all
qed

end
