(* ===== verification/Request_Log.thy ===== *)
theory Request_Log
  imports Orchestrator
begin

text \<open>
  The request log of both revisions (\<^verbatim>\<open>part_001\<close>, lines 62--94;
  \<^verbatim>\<open>src/api/triage.js\<close>, lines 15--46, the same code): the class
  \<^verbatim>\<open>TriageLogger\<close> as a record threaded through the calls that log, its request id
  from \<^verbatim>\<open>generateUUID\<close>, and the entries \<^verbatim>\<open>processTicketWithFullTriage\<close>
  writes. \<^verbatim>\<open>Math.random()\<close> is an input: the stream \<open>rnd\<close> of its successive
  values. \<^verbatim>\<open>new Date()\<close> is an input too, the clock value \<open>now\<close>.
\<close>

unbundle bit_operations_syntax

subsection \<open>\<^verbatim>\<open>generateUUID\<close>\<close>

text \<open>\<^verbatim>\<open>Math.random() * 16 | 0\<close>: \<^verbatim>\<open>| 0\<close> truncates towards zero and wraps to 32
  bits.\<close>

definition random_nibble :: "real \<Rightarrow> int" where
  "random_nibble r = to_int32 (if 0 \<le> r * 16 then \<lfloor>r * 16\<rfloor> else \<lceil>r * 16\<rceil>)"

text \<open>\<^verbatim>\<open>c == 'x' ? r : (r & 0x3 | 0x8)\<close> on 32-bit integers.\<close>

definition uuid_value :: "char \<Rightarrow> int \<Rightarrow> int" where
  "uuid_value c r = (if c = CHR ''x'' then r else sint ((word_of_int r AND 3) OR 8 :: 32 word))"

text \<open>\<^verbatim>\<open>v.toString(16)\<close> of an integer.\<close>

fun hex_str_nat :: "nat \<Rightarrow> string" where
  "hex_str_nat n = (if n < 16 then [hex_digit n] else hex_str_nat (n div 16) @ [hex_digit (n mod 16)])"

declare hex_str_nat.simps [simp del]

definition to_hex_str :: "int \<Rightarrow> string" where
  "to_hex_str i = (if i < 0 then CHR ''-'' # hex_str_nat (nat (- i)) else hex_str_nat (nat i))"

definition uuid_template :: string where
  "uuid_template = ''xxxxxxxx-xxxx-4xxx-yxxx-xxxxxxxxxxxx''"

text \<open>\<^verbatim>\<open>replace(/[xy]/g, ...)\<close>: the callback runs once per match, left to right,
  and draws the next random number; \<open>k\<close> counts the draws.\<close>

fun uuid_fill :: "(nat \<Rightarrow> real) \<Rightarrow> nat \<Rightarrow> string \<Rightarrow> string" where
  "uuid_fill rnd k [] = []"
| "uuid_fill rnd k (c # cs) =
     (if c = CHR ''x'' \<or> c = CHR ''y''
      then to_hex_str (uuid_value c (random_nibble (rnd k))) @ uuid_fill rnd (Suc k) cs
      else c # uuid_fill rnd k cs)"

definition generate_uuid :: "(nat \<Rightarrow> real) \<Rightarrow> string" where
  "generate_uuid rnd = uuid_fill rnd 0 uuid_template"

subsection \<open>\<^verbatim>\<open>TriageLogger\<close>\<close>

record log_entry =
  timestamp :: int
  entry_request_id :: string
  action :: string
  details :: jsval

record triage_logger =
  request_id :: string
  start_time :: int
  logs :: "log_entry list"

text \<open>The constructor (lines 64--68).\<close>

definition new_logger :: "(nat \<Rightarrow> real) \<Rightarrow> int \<Rightarrow> triage_logger" where
  "new_logger rnd now = \<lparr>request_id = generate_uuid rnd, start_time = now, logs = []\<rparr>"

text \<open>\<^verbatim>\<open>logAction\<close> (lines 70--79): the entry is pushed onto \<^verbatim>\<open>logs\<close>; its
  \<^verbatim>\<open>console.log\<close> line is output, not state. \<^verbatim>\<open>details = {}\<close> by default.\<close>

definition log_action :: "int \<Rightarrow> string \<Rightarrow> jsval \<Rightarrow> triage_logger \<Rightarrow> triage_logger" where
  "log_action now act det lg =
     lg\<lparr>logs := logs lg @ [\<lparr>timestamp = now, entry_request_id = request_id lg, action = act, details = det\<rparr>]\<rparr>"

text \<open>\<^verbatim>\<open>getProcessingTime\<close> (lines 81--84).\<close>

definition get_processing_time :: "triage_logger \<Rightarrow> int \<Rightarrow> int" where
  "get_processing_time lg now = now - start_time lg"

text \<open>The runs of one logger: any sequence of \<^verbatim>\<open>logAction\<close> calls.\<close>

inductive logger_run :: "triage_logger \<Rightarrow> triage_logger \<Rightarrow> bool" where
  start: "logger_run lg lg"
| step: "logger_run lg lg' \<Longrightarrow> logger_run lg (log_action now act det lg')"

subsection \<open>The entries of \<^verbatim>\<open>processTicketWithFullTriage\<close>\<close>

text \<open>A details object with the members whose value is \<^verbatim>\<open>undefined\<close> left out, as
  the entry's \<^verbatim>\<open>JSON.stringify\<close> prints it.\<close>

definition defined_members :: "(string \<times> jsval option) list \<Rightarrow> jsval" where
  "defined_members kvs = JObj (concat (map (\<lambda>kv. case snd kv of None \<Rightarrow> [] | Some v \<Rightarrow> [(fst kv, v)]) kvs))"

text \<open>\<^verbatim>\<open>error.toString()\<close>: the error's name; the engine's message text is not
  modelled.\<close>

definition error_text :: "js_error \<Rightarrow> string" where
  "error_text e = (case e of TypeError \<Rightarrow> ''TypeError'' | SyntaxError \<Rightarrow> ''SyntaxError'')"

text \<open>\<^verbatim>\<open>processTicketWithFullTriage\<close> (\<^verbatim>\<open>part_001\<close>, lines 227--301) with the
  entries it writes itself, in order; the entries that \<^verbatim>\<open>classifyTheme\<close>,
  \<^verbatim>\<open>estimateEffort\<close> and \<^verbatim>\<open>analyzePriority\<close> add in between, the
  \<^verbatim>\<open>time\<close> member of \<^verbatim>\<open>THEME_CLASSIFICATION_COMPLETE\<close> and the
  \<^verbatim>\<open>actions\<close> and timings of the result are not modelled. Every entry gets the
  clock value \<open>now\<close>.\<close>

definition process_ticket_logged ::
  "clients \<Rightarrow> prompt_builders \<Rightarrow> jsval \<Rightarrow> jsval option \<Rightarrow> int \<Rightarrow> triage_logger \<Rightarrow>
     (ticket_result \<times> backend list) \<times> triage_logger" where
  "process_ticket_logged cs pb key issue_data now lg =
     (let lg1 = log_action now ''PROCESSING_START'' (JObj [(''status'', JStr ''Starting'')]) lg;
          lg2 = log_action now ''USING_PROVIDED_DATA'' (JObj []) lg1;
          issue = js_or_d issue_data (default_issue key);
          lg3 = log_action now ''ISSUE_DATA_READY''
                  (defined_members [(''summary'', issue_field issue ''summary''),
                                    (''reporter'', opt_get (issue_field issue ''reporter'') ''displayName'')]) lg2;
          lg4 = log_action now ''THEME_CLASSIFICATION_START'' (JObj []) lg3
      in case theme_step cs pb issue of
           Inl e \<Rightarrow> ((ticket_init, []), log_action now ''ERROR'' (JObj [(''error'', JStr (error_text e))]) lg4)
         | Inr ((theme, tm), c1) \<Rightarrow>
             (let r = ticket_init\<lparr>tr_model_used := Some tm, tr_theme := Some theme, tr_theme_model := Some tm\<rparr>;
                  lg5 = log_action now ''THEME_CLASSIFICATION_COMPLETE'' (JObj [(''theme'', JStr theme)]) lg4;
                  lg6 = log_action now ''PRIORITY_ANALYSIS_START'' (JObj []) lg5;
                  ((analysis, pm), c2) = analyze_priority cs (priority_prep pb issue)
              in if truthy analysis \<and> truthy (opt_get analysis ''scores'')
                 then ((r\<lparr>tr_priority_model := Some pm, tr_analysis := analysis\<rparr>, c1 @ c2),
                       log_action now ''PRIORITY_ANALYSIS_SUCCESS''
                         (defined_members [(''recommendation'', opt_get analysis ''priority_recommendation''),
                                           (''score'', opt_get (opt_get analysis ''scores'') ''overall_priority''),
                                           (''model'', Some (JStr pm))]) lg6)
                 else ((r\<lparr>tr_priority_model := Some ''Failed''\<rparr>, c1 @ c2),
                       log_action now ''PRIORITY_ANALYSIS_FAILED'' (JObj []) lg6)))"

text \<open>What a UUID holds at a position of its template: a hex digit for \<^verbatim>\<open>x\<close>,
  one of \<^verbatim>\<open>8\<close>, \<^verbatim>\<open>9\<close>, \<^verbatim>\<open>a\<close>, \<^verbatim>\<open>b\<close> for \<^verbatim>\<open>y\<close>, the character itself elsewhere.\<close>

definition uuid_char_ok :: "char \<Rightarrow> char \<Rightarrow> bool" where
  "uuid_char_ok c d \<longleftrightarrow>
     (if c = CHR ''x'' then d \<in> set ''0123456789abcdef''
      else if c = CHR ''y'' then d \<in> set ''89ab'' else d = c)"

declare random_nibble_def [js_eval] uuid_value_def [js_eval] to_hex_str_def [js_eval] uuid_template_def [js_eval]
  generate_uuid_def [js_eval] defined_members_def [js_eval] error_text_def [js_eval] process_ticket_logged_def [js_eval] new_logger_def [js_eval] log_action_def [js_eval] get_processing_time_def [js_eval]

subsection \<open>Properties\<close>


lemma random_nibble_range: "0 \<le> r \<Longrightarrow> r < 1 \<Longrightarrow> 0 \<le> random_nibble r \<and> random_nibble r < 16"
proof -
  assume r: "0 \<le> r" "r < 1"
  then have f: "0 \<le> \<lfloor>r * 16\<rfloor>" "\<lfloor>r * 16\<rfloor> < 16" by (simp_all add: floor_less_iff)
  then have "to_int32 \<lfloor>r * 16\<rfloor> = \<lfloor>r * 16\<rfloor>" by (simp add: to_int32_def)
  with f r show ?thesis by (simp add: random_nibble_def)
qed

lemma variant_nibble: "uuid_value (CHR ''y'') r \<in> {8..11}"
proof -
  let ?w = "word_of_int r AND 3 :: 32 word"
  have "unat ?w \<le> 3"
    using word_and_le1[of "word_of_int r" "3 :: 32 word"] by (simp add: word_le_nat_alt)
  then have "unat ?w = 0 \<or> unat ?w = 1 \<or> unat ?w = 2 \<or> unat ?w = 3" by arith
  then have "?w = 0 \<or> ?w = 1 \<or> ?w = 2 \<or> ?w = 3" by (auto simp: word_unat_eq_iff)
  then show ?thesis by (auto simp: uuid_value_def)
qed

lemma hex_digit_set: "n < 16 \<Longrightarrow> hex_digit n \<in> set ''0123456789abcdef''"
  unfolding hex_digit_def by (rule nth_mem) simp

lemma to_hex_str_small: "0 \<le> i \<Longrightarrow> i < 16 \<Longrightarrow> to_hex_str i = [hex_digit (nat i)]"
  by (simp add: to_hex_str_def hex_str_nat.simps)

lemma hex_digit_variant: "n \<in> {8..11} \<Longrightarrow> to_hex_str n = [hex_digit (nat n)] \<and> hex_digit (nat n) \<in> set ''89ab''"
proof -
  assume n: "n \<in> {8..11}"
  then have "n = 8 \<or> n = 9 \<or> n = 10 \<or> n = 11" by auto
  then have "hex_digit (nat n) \<in> set ''89ab''" by (elim disjE) (simp_all add: hex_digit_def)
  with n show ?thesis using to_hex_str_small[of n] by simp
qed

lemma uuid_fill_ok:
  assumes "\<forall>k. 0 \<le> rnd k \<and> rnd k < 1"
  shows "list_all2 uuid_char_ok cs (uuid_fill rnd k cs)"
proof (induction cs arbitrary: k)
  case (Cons c cs)
  have r: "0 \<le> random_nibble (rnd k) \<and> random_nibble (rnd k) < 16"
    using assms random_nibble_range by blast
  show ?case
  proof (cases "c = CHR ''x''")
    case True
    have "hex_digit (nat (random_nibble (rnd k))) \<in> set ''0123456789abcdef''"
      using r by (intro hex_digit_set) (simp add: nat_less_iff)
    then show ?thesis
      using True r Cons.IH[of "Suc k"] to_hex_str_small
      by (simp add: uuid_value_def uuid_char_ok_def)
  next
    case x: False
    show ?thesis
    proof (cases "c = CHR ''y''")
      case True
      then show ?thesis
        using Cons.IH[of "Suc k"] hex_digit_variant[OF variant_nibble[of "random_nibble (rnd k)"]]
        by (simp add: uuid_char_ok_def)
    next
      case False
      then show ?thesis using x Cons.IH[of k] by (simp add: uuid_char_ok_def)
    qed
  qed
qed simp

text \<open>C14: with \<^verbatim>\<open>Math.random()\<close> in \<open>[0, 1)\<close>, \<^verbatim>\<open>generateUUID\<close> returns 36
  characters that match its template position by position: the version digit \<^verbatim>\<open>4\<close>,
  the variant digit one of \<^verbatim>\<open>8\<close>, \<^verbatim>\<open>9\<close>, \<^verbatim>\<open>a\<close>, \<^verbatim>\<open>b\<close>, hex digits elsewhere.\<close>

theorem generate_uuid_format:
  assumes "\<forall>k. 0 \<le> rnd k \<and> rnd k < 1"
  shows "length (generate_uuid rnd) = 36 \<and> list_all2 uuid_char_ok uuid_template (generate_uuid rnd)"
proof -
  have ok: "list_all2 uuid_char_ok uuid_template (generate_uuid rnd)"
    unfolding generate_uuid_def by (rule uuid_fill_ok[OF assms])
  have "length uuid_template = 36" by (simp add: uuid_template_def)
  with list_all2_lengthD[OF ok] ok show ?thesis by simp
qed

theorem generate_uuid_format_witness:
  "length (generate_uuid (\<lambda>_. 0)) = 36 \<and> list_all2 uuid_char_ok uuid_template (generate_uuid (\<lambda>_. 0))"
  by (rule generate_uuid_format) simp




lemma log_action_fields [simp]:
  "request_id (log_action now act det lg) = request_id lg"
  "start_time (log_action now act det lg) = start_time lg"
  "logs (log_action now act det lg) = logs lg @ [\<lparr>timestamp = now, entry_request_id = request_id lg, action = act, details = det\<rparr>]"
  by (simp_all add: log_action_def)

lemma logger_run_grows:
  "logger_run lg lg' \<Longrightarrow>
     request_id lg' = request_id lg \<and> start_time lg' = start_time lg \<and> prefix (logs lg) (logs lg') \<and>
     (\<forall>e \<in> set (logs lg'). e \<in> set (logs lg) \<or> entry_request_id e = request_id lg)"
  by (induction rule: logger_run.induct) (auto intro: prefix_order.trans)

text \<open>C15: over any sequence of \<^verbatim>\<open>logAction\<close> calls on a new logger, the request id
  and start time never change and every entry carries the logger's request id.\<close>

theorem logger_run_entries:
  assumes "logger_run (new_logger rnd now) lg"
  shows "request_id lg = generate_uuid rnd \<and> start_time lg = now \<and>
         (\<forall>e \<in> set (logs lg). entry_request_id e = generate_uuid rnd)"
  using logger_run_grows[OF assms] by (simp add: new_logger_def)

theorem logger_run_entries_witness:
  "request_id (log_action 2 ''PROCESSING_START'' (JObj []) (new_logger (\<lambda>_. 0) 1)) = generate_uuid (\<lambda>_. 0) \<and>
   start_time (log_action 2 ''PROCESSING_START'' (JObj []) (new_logger (\<lambda>_. 0) 1)) = 1 \<and>
   list_all (\<lambda>e. entry_request_id e = generate_uuid (\<lambda>_. 0))
     (logs (log_action 2 ''PROCESSING_START'' (JObj []) (new_logger (\<lambda>_. 0) 1)))"
proof -
  have "logger_run (new_logger (\<lambda>_. 0) 1) (log_action 2 ''PROCESSING_START'' (JObj []) (new_logger (\<lambda>_. 0) 1))"
    by (rule logger_run.step) (rule logger_run.start)
  from logger_run_entries[OF this] show ?thesis by (simp add: list_all_iff)
qed

lemma process_ticket_logged_result:
  "fst (process_ticket_logged cs pb key issue now lg) = process_ticket cs pb key issue"
  by (auto simp: process_ticket_logged_def process_ticket_def Let_def split: sum.splits prod.splits)

lemma process_ticket_logged_run:
  "logger_run lg (snd (process_ticket_logged cs pb key issue now lg))"
  by (auto simp: process_ticket_logged_def Let_def split: sum.splits prod.splits
           intro!: logger_run.step logger_run.start)

lemma process_ticket_logged_actions:
  "map action (drop (length (logs lg)) (logs (snd (process_ticket_logged cs pb key issue now lg)))) =
     [''PROCESSING_START'', ''USING_PROVIDED_DATA'', ''ISSUE_DATA_READY'', ''THEME_CLASSIFICATION_START''] @
     (case theme_step cs pb (js_or_d issue (default_issue key)) of
        Inl _ \<Rightarrow> [''ERROR'']
      | Inr _ \<Rightarrow> [''THEME_CLASSIFICATION_COMPLETE'', ''PRIORITY_ANALYSIS_START'',
                  if truthy (fst (fst (analyze_priority cs (priority_prep pb (js_or_d issue (default_issue key))))))
                     \<and> truthy (opt_get (fst (fst (analyze_priority cs (priority_prep pb (js_or_d issue (default_issue key)))))) ''scores'')
                  then ''PRIORITY_ANALYSIS_SUCCESS'' else ''PRIORITY_ANALYSIS_FAILED''])"
  by (auto simp: process_ticket_logged_def Let_def split: sum.splits prod.splits)

text \<open>C13: when every configured vendor fails, \<^verbatim>\<open>processTicketWithFullTriage\<close> ends its
  entries with \<^verbatim>\<open>PRIORITY_ANALYSIS_FAILED\<close> for a ticket that reaches the vendors and with
  \<^verbatim>\<open>ERROR\<close> for one whose data makes theme classification throw: the two cases,
  which get the same response, are told apart in the log.\<close>

theorem ticket_log_distinguishes:
  assumes "\<forall>(b, p) \<in> set (configured cs). \<forall>x. p x = Failure"
  shows "map action (drop (length (logs lg)) (logs (snd (process_ticket_logged cs pb key issue now lg)))) =
           [''PROCESSING_START'', ''USING_PROVIDED_DATA'', ''ISSUE_DATA_READY'', ''THEME_CLASSIFICATION_START''] @
           (case theme_step cs pb (js_or_d issue (default_issue key)) of
              Inl _ \<Rightarrow> [''ERROR'']
            | Inr _ \<Rightarrow> [''THEME_CLASSIFICATION_COMPLETE'', ''PRIORITY_ANALYSIS_START'', ''PRIORITY_ANALYSIS_FAILED''])"
  using process_ticket_logged_actions[of lg cs pb key issue now]
    analyze_priority_all_fail[OF assms, of "priority_prep pb (js_or_d issue (default_issue key))"]
  by (simp add: truthy_def split: sum.splits)

theorem ticket_log_distinguishes_witness:
  "map action (drop (length (logs (new_logger (\<lambda>_. 0) 0))) (logs (snd (process_ticket_logged
      \<lparr>gemini_client = Some (\<lambda>_. Failure), claude_client = None\<rparr>
      \<lparr>build_theme = \<lambda>_ _. Inr ''theme'', build_priority = \<lambda>_ _ _. Inr ''priority''\<rparr>
      (JStr ''FR-1'') (Some (JObj [(''key'', JStr ''FR-1''), (''fields'', JObj [(''summary'', JStr ''Add export'')])])) 0
      (new_logger (\<lambda>_. 0) 0))))) =
   [''PROCESSING_START'', ''USING_PROVIDED_DATA'', ''ISSUE_DATA_READY'', ''THEME_CLASSIFICATION_START''] @
   (case theme_step \<lparr>gemini_client = Some (\<lambda>_. Failure), claude_client = None\<rparr>
      \<lparr>build_theme = \<lambda>_ _. Inr ''theme'', build_priority = \<lambda>_ _ _. Inr ''priority''\<rparr>
      (js_or_d (Some (JObj [(''key'', JStr ''FR-1''), (''fields'', JObj [(''summary'', JStr ''Add export'')])])) (default_issue (JStr ''FR-1''))) of
      Inl _ \<Rightarrow> [''ERROR'']
    | Inr _ \<Rightarrow> [''THEME_CLASSIFICATION_COMPLETE'', ''PRIORITY_ANALYSIS_START'', ''PRIORITY_ANALYSIS_FAILED''])"
  by (rule ticket_log_distinguishes) (simp add: configured_def)

end
