(* ===== verification/Server.thy ===== *)
theory Server
  imports Orchestrator
begin

text \<open>
  The deployment around the handler: the process environment, from which both
  revisions build their vendor clients; the health check; and the local Express server
  of \<^verbatim>\<open>src/server.js\<close>, which routes to the older revision of
  \<^verbatim>\<open>src/api/triage.js\<close>. The server's body parsing (\<^verbatim>\<open>express.json()\<close>)
  is not modelled: a request arrives with its body parsed. Express matches paths without
  regard to case and with an optional trailing slash (its defaults), and answers an
  unmatched route with 404.
\<close>

record env =
  gemini_api_key :: "string option"
  claude_api_key :: "string option"
  port :: "string option"

text \<open>\<^verbatim>\<open>!!process.env.X\<close>: an unset or empty variable is false.\<close>

definition env_flag :: "string option \<Rightarrow> bool" where
  "env_flag v = (case v of None \<Rightarrow> False | Some s \<Rightarrow> s \<noteq> [])"

text \<open>The clients of the current revision (\<^verbatim>\<open>part_001\<close>, lines 5--28): a client
  exists only when its key is set. \<open>g\<close> and \<open>c\<close> are the vendors' services.\<close>

definition clients_of :: "env \<Rightarrow> provider \<Rightarrow> provider \<Rightarrow> clients" where
  "clients_of e g c =
     \<lparr>gemini_client = (if env_flag (gemini_api_key e) then Some g else None),
      claude_client = (if env_flag (claude_api_key e) then Some c else None)\<rparr>"

text \<open>The older revision builds both clients unconditionally (lines 5--6); a client
  without a key fails every call.\<close>

definition providers_v1 :: "env \<Rightarrow> provider \<Rightarrow> provider \<Rightarrow> provider \<times> provider" where
  "providers_v1 e g c =
     ((if env_flag (gemini_api_key e) then g else (\<lambda>_. Failure)),
      (if env_flag (claude_api_key e) then c else (\<lambda>_. Failure)))"

text \<open>\<^verbatim>\<open>healthCheck\<close> (\<^verbatim>\<open>src/api/triage.js\<close>, lines 476--485, which the
  server calls; \<^verbatim>\<open>part_001\<close> has the same code at lines 1494--1503), without its
  timestamp.\<close>

definition health_check :: "env \<Rightarrow> nat \<times> jsval" where
  "health_check e =
     (200, JObj [(''status'', JStr ''healthy''),
                 (''services'', JObj [(''gemini'', JBool (env_flag (gemini_api_key e))),
                                      (''claude'', JBool (env_flag (claude_api_key e)))])])"

text \<open>The health handler of the repository's README (\<^verbatim>\<open>src/README.md\<close>,
  lines 273--324), the handler the deployment guide and \<^verbatim>\<open>test-api.js\<close> expect
  at \<^verbatim>\<open>/api/health\<close>, for a request with method \<open>meth\<close>; \<open>node_env\<close> is
  \<^verbatim>\<open>process.env.NODE_ENV\<close>. The body is \<open>None\<close> for the empty answer to
  \<^verbatim>\<open>OPTIONS\<close>. The members \<^verbatim>\<open>timestamp\<close> and \<^verbatim>\<open>uptime\<close> (the clock and
  \<^verbatim>\<open>process.uptime()\<close>) are left out; the \<^verbatim>\<open>catch\<close> is unreachable.\<close>

definition service_status :: "string option \<Rightarrow> jsval" where
  "service_status key =
     JObj [(''available'', JBool (env_flag key)),
           (''keyLength'', JNum (case key of Some s \<Rightarrow> if s = [] then 0 else int (length s) | None \<Rightarrow> 0))]"

definition readme_health :: "env \<Rightarrow> string option \<Rightarrow> string \<Rightarrow> nat \<times> jsval option" where
  "readme_health e node_env meth =
     (if meth = ''OPTIONS'' then (200, None)
      else if meth \<noteq> ''GET'' then (405, Some method_not_allowed)
      else
        (let all_available = env_flag (gemini_api_key e) \<and> env_flag (claude_api_key e)
         in (if all_available then 200 else 503,
             Some (JObj [(''status'', JStr (if all_available then ''healthy'' else ''degraded'')),
                         (''environment'', JStr (header_or node_env ''development'')),
                         (''services'', JObj [(''gemini'', service_status (gemini_api_key e)),
                                              (''claude'', service_status (claude_api_key e))]),
                         (''version'', JStr ''1.0.0'')]))))"

subsection \<open>The local server (\<^verbatim>\<open>src/server.js\<close>)\<close>

datatype server_reply = Cors | Json nat jsval | Routed response | NotFound

text \<open>\<^verbatim>\<open>process.env.PORT || 3000\<close>, as the template literals print it.\<close>

definition server_port :: "env \<Rightarrow> string" where
  "server_port e = (case port e of None \<Rightarrow> ''3000'' | Some s \<Rightarrow> if s = [] then ''3000'' else s)"

text \<open>The help message of \<^verbatim>\<open>GET /\<close> (lines 44--73).\<close>

definition help_body :: "string \<Rightarrow> jsval" where
  "help_body p =
     JObj [(''message'', JStr ''Jira AI Triage API - Local Server''),
           (''endpoints'', JObj [(''GET /api/health'', JStr ''Health check and status''),
                                 (''POST /api/triage'', JStr ''AI triage analysis''),
                                 (''GET /'', JStr ''This help message'')]),
           (''testing'', JObj [(''Local URL'', JStr (''http://localhost:'' @ p)),
                               (''Health Check'', JStr (''http://localhost:'' @ p @ ''/api/health'')),
                               (''Triage Test'', JStr (''POST http://localhost:'' @ p @ ''/api/triage''))]),
           (''instructions'', JStr ''Use Postman to test the triage endpoint with the sample JSON from the README''),
           (''sampleRequest'',
              JObj [(''method'', JStr ''POST''),
                    (''url'', JStr ''/api/triage''),
                    (''headers'', JObj [(''Content-Type'', JStr ''application/json'')]),
                    (''body'',
                       JObj [(''issue'',
                         JObj [(''key'', JStr ''PROJ-123''),
                               (''fields'',
                                  JObj [(''summary'', JStr ''Add bulk import feature for customer data''),
                                        (''description'', JStr ''Enterprise clients need to import large CSV files...''),
                                        (''priority'', JObj [(''name'', JStr ''High'')]),
                                        (''reporter'', JObj [(''displayName'', JStr ''Sarah Johnson'')])])])])])]"

text \<open>Express's default route matching: case-insensitive, trailing slash optional.\<close>

definition route_match :: "string \<Rightarrow> string \<Rightarrow> bool" where
  "route_match path route \<longleftrightarrow> js_to_lower path = route \<or> (route \<noteq> ''/'' \<and> js_to_lower path = route @ ''/'')"

text \<open>The server (lines 13--73): the CORS middleware answers every \<^verbatim>\<open>OPTIONS\<close>
  before routing; the triage route calls the older handler with the clients built from
  the environment. The routes' \<^verbatim>\<open>catch\<close> blocks are unreachable: neither the health
  check nor the handler throws.\<close>

definition server_route :: "env \<Rightarrow> provider \<Rightarrow> provider \<Rightarrow> string \<Rightarrow> request \<Rightarrow> server_reply \<times> backend list" where
  "server_route e g c path req =
     (if req_method req = ''OPTIONS'' then (Cors, [])
      else if req_method req = ''GET'' \<and> route_match path ''/api/health'' then
        (Json (fst (health_check e)) (snd (health_check e)), [])
      else if req_method req = ''POST'' \<and> route_match path ''/api/triage'' then
        (let (g1, c1) = providers_v1 e g c; (r, calls) = handler_v1 g1 c1 req in (Routed r, calls))
      else if req_method req = ''GET'' \<and> route_match path ''/'' then (Json 200 (help_body (server_port e)), [])
      else (NotFound, []))"

declare env_flag_def [js_eval] clients_of_def [js_eval] providers_v1_def [js_eval] health_check_def [js_eval]
  service_status_def [js_eval] readme_health_def [js_eval]
  server_port_def [js_eval] help_body_def [js_eval] route_match_def [js_eval] server_route_def [js_eval]

subsection \<open>Properties\<close>

lemma configured_clients_of:
  "map fst (configured (clients_of e g c)) =
     (if env_flag (gemini_api_key e) then [Gemini] else []) @ (if env_flag (claude_api_key e) then [Claude] else [])"
  by (simp add: configured_def clients_of_def)

text \<open>The local server never rate-limits: it routes to the older handler, which has no
  limiter.\<close>

lemma server_never_rate_limits: "fst (server_route e g c path req) \<noteq> Routed (Rejected 429 v)"
  by (auto simp: server_route_def handler_v1_def split: prod.splits sum.splits)

end
