(* ===== verification/Reply_Roundtrip.thy ===== *)
theory Reply_Roundtrip
  imports Response_Parser
begin

text \<open>
  What the model's reply and \<^verbatim>\<open>JSON.parse\<close> guarantee together. The printer and the
  parser of \<open>Json_Text\<close> are inverse on canonical values (no \<^verbatim>\<open>NaN\<close>, no
  functions, no repeated key in an object), with the fuel \<^verbatim>\<open>JSON.parse\<close> is given;
  and the parser never runs out of that fuel: with \<open>2 * length s + 1\<close> units or more
  its answer no longer depends on the fuel. On top of both, a reply that is a complete
  analysis, printed bare or inside a \<^verbatim>\<open>```json\<close> fence, is read back by
  \<^verbatim>\<open>parseAIResponse\<close> unchanged.
\<close>

fun json_canon :: "jsval \<Rightarrow> bool" where
  "json_canon JNaN = False"
| "json_canon JHost = False"
| "json_canon (JArr xs) = (\<forall>x \<in> set xs. json_canon x)"
| "json_canon (JObj kvs) = (distinct (map fst kvs) \<and> (\<forall>kv \<in> set kvs. json_canon (snd kv)))"
| "json_canon v = True"

text \<open>What may follow a value inside a document: nothing, or the next separator.\<close>

definition rest_ok :: "string \<Rightarrow> bool" where
  "rest_ok r \<longleftrightarrow> r = [] \<or> hd r \<in> {CHR '','', CHR '']'', CHR ''}''}"

definition print_start :: "char \<Rightarrow> bool" where
  "print_start c \<longleftrightarrow> \<not> json_ws c \<and> c \<notin> {CHR '','', CHR '']'', CHR ''}''}"

definition member_text :: "string \<times> jsval \<Rightarrow> string" where
  "member_text kv = quote_str (fst kv) @ CHR '':'' # json_print (snd kv)"

subsection \<open>Numbers\<close>

lemma digit_cases: "(d::nat) < 10 \<Longrightarrow> d = 0 \<or> d = 1 \<or> d = 2 \<or> d = 3 \<or> d = 4 \<or> d = 5 \<or> d = 6 \<or> d = 7 \<or> d = 8 \<or> d = 9"
  by arith

lemma digit_char:
  assumes "d < 10"
  shows "is_digit (digit_chars ! d) \<and> digit_val (digit_chars ! d) = d \<and> (digit_chars ! d = CHR ''0'' \<longleftrightarrow> d = 0)"
  using digit_cases[OF assms] by (auto simp: digit_chars_def is_digit_def digit_val_def)

lemma nat_to_str_is_digit: "\<forall>c \<in> set (nat_to_str n). is_digit c"
  by (induction n rule: nat_to_str.induct) (subst nat_to_str.simps, simp add: digit_char)

lemma nat_to_str_ne: "nat_to_str n \<noteq> []"
  by (subst nat_to_str.simps) simp

lemma digits_val_snoc: "digits_val (xs @ [c]) = 10 * digits_val xs + digit_val c"
  by (simp add: digits_val_def)

lemma digits_val_nat_to_str: "digits_val (nat_to_str n) = n"
proof (induction n rule: nat_to_str.induct)
  case (1 n)
  show ?case
  proof (cases "n < 10")
    case True
    then show ?thesis by (subst nat_to_str.simps) (simp add: digits_val_def digit_char)
  next
    case False
    then have "digits_val (nat_to_str n) = 10 * (n div 10) + n mod 10"
      using 1 by (subst nat_to_str.simps) (simp add: digits_val_snoc digit_char)
    then show ?thesis by simp
  qed
qed

lemma nat_to_str_hd: "hd (nat_to_str n) = CHR ''0'' \<Longrightarrow> n = 0"
proof (induction n rule: nat_to_str.induct)
  case (1 n)
  show ?case
  proof (cases "n < 10")
    case True
    then show ?thesis using 1(2) by (subst (asm) nat_to_str.simps) (simp add: digit_char)
  next
    case False
    then have "hd (nat_to_str (n div 10)) = CHR ''0''"
      using 1(2) nat_to_str_ne[of "n div 10"] by (subst (asm) nat_to_str.simps) simp
    then show ?thesis using 1(1) False by simp
  qed
qed

lemma takeWhile_digits:
  "\<forall>c \<in> set ds. is_digit c \<Longrightarrow> (r = [] \<or> \<not> is_digit (hd r)) \<Longrightarrow>
     takeWhile is_digit (ds @ r) = ds \<and> dropWhile is_digit (ds @ r) = r"
  by (cases r) (simp_all add: takeWhile_append2 dropWhile_append2)

lemma rest_ok_not_digit: "rest_ok r \<Longrightarrow> (r = [] \<or> \<not> is_digit (hd r)) \<and> (r = [] \<or> hd r \<notin> {CHR ''.'', CHR ''e'', CHR ''E''})"
  by (auto simp: rest_ok_def is_digit_def)

lemma parse_num_nat:
  assumes "rest_ok r"
  shows "takeWhile is_digit (nat_to_str k @ r) = nat_to_str k \<and> dropWhile is_digit (nat_to_str k @ r) = r \<and>
         \<not> (hd (nat_to_str k) = CHR ''0'' \<and> tl (nat_to_str k) \<noteq> [])"
proof -
  have "\<not> (hd (nat_to_str k) = CHR ''0'' \<and> tl (nat_to_str k) \<noteq> [])"
    using nat_to_str_hd[of k] by (auto simp: nat_to_str.simps[of 0] digit_chars_def)
  then show ?thesis using takeWhile_digits[OF nat_to_str_is_digit] rest_ok_not_digit[OF assms] by blast
qed

lemma parse_num_print:
  assumes "rest_ok r"
  shows "parse_num (int_to_str i @ r) = Some (JNum i, r)"
proof (cases "i < 0")
  case True
  then show ?thesis using parse_num_nat[OF assms, of "nat (- i)"] rest_ok_not_digit[OF assms] nat_to_str_ne[of "nat (- i)"]
    by (simp add: parse_num_def int_to_str_def digits_val_nat_to_str Let_def)
next
  case False
  have "is_digit (hd (nat_to_str (nat i)))"
    using nat_to_str_is_digit[of "nat i"] hd_in_set[OF nat_to_str_ne[of "nat i"]] by blast
  then have "hd (nat_to_str (nat i)) \<noteq> CHR ''-''" by (auto simp: is_digit_def)
  then show ?thesis using False parse_num_nat[OF assms, of "nat i"] rest_ok_not_digit[OF assms] nat_to_str_ne[of "nat i"]
    by (simp add: parse_num_def int_to_str_def digits_val_nat_to_str Let_def)
qed

subsection \<open>Strings\<close>

lemma hex_val_hex_digit: "d < 16 \<Longrightarrow> hex_val (hex_digit d) = Some d"
proof -
  assume "d < 16"
  then have "d = 0 \<or> d = 1 \<or> d = 2 \<or> d = 3 \<or> d = 4 \<or> d = 5 \<or> d = 6 \<or> d = 7 \<or> d = 8 \<or> d = 9 \<or>
             d = 10 \<or> d = 11 \<or> d = 12 \<or> d = 13 \<or> d = 14 \<or> d = 15" by arith
  then show ?thesis by (auto simp: hex_val_def hex_digit_def)
qed

lemma parse_str_body_escape_char: "parse_str_body acc (escape_char c @ r) = parse_str_body (c # acc) r"
proof -
  consider (q) "c = CHR 0x22" | (b) "c = CHR 0x5C" | (bs) "c = CHR 0x08" | (ff) "c = CHR 0x0C"
    | (lf) "c = CHR 0x0A" | (cr) "c = CHR 0x0D" | (tab) "c = CHR 0x09"
    | (ctl) "c \<notin> {CHR 0x22, CHR 0x5C, CHR 0x08, CHR 0x0C, CHR 0x0A, CHR 0x0D, CHR 0x09}" "(of_char c :: nat) < 32"
    | (plain) "c \<notin> {CHR 0x22, CHR 0x5C, CHR 0x08, CHR 0x0C, CHR 0x0A, CHR 0x0D, CHR 0x09}" "\<not> (of_char c :: nat) < 32"
    by blast
  then show ?thesis
  proof cases
    case ctl
    have hi: "of_char c div 16 < (16::nat)" and lo: "of_char c mod 16 < (16::nat)" using ctl(2) by auto
    have h0: "hex_val (CHR ''0'') = Some 0" by (simp add: hex_val_def)
    have "unicode_escape [CHR ''0'', CHR ''0'', hex_digit (of_char c div 16), hex_digit (of_char c mod 16)] = Some c"
      using ctl(2) by (simp add: unicode_escape_def hex_val_hex_digit[OF hi] hex_val_hex_digit[OF lo] h0)
    then show ?thesis using ctl by (simp add: escape_char_def)
  next
    case plain
    then show ?thesis by (auto simp: escape_char_def)
  qed (simp_all add: escape_char_def unescape_def)
qed

lemma parse_str_body_quote: "parse_str_body acc (concat (map escape_char s) @ CHR 0x22 # r) = Some (rev acc @ s, r)"
  by (induction s arbitrary: acc) (simp_all add: parse_str_body_escape_char)

subsection \<open>Values\<close>

lemma skip_ws_start: "\<not> json_ws c \<Longrightarrow> skip_ws (c # s) = c # s"
  by (simp add: skip_ws_def)

lemma int_to_str_start: "\<exists>c cs. int_to_str i = c # cs \<and> (is_digit c \<or> c = CHR ''-'')"
proof (cases "i < 0")
  case False
  obtain c cs where "nat_to_str (nat i) = c # cs" using nat_to_str_ne[of "nat i"] by (cases "nat_to_str (nat i)") auto
  moreover have "is_digit c" using nat_to_str_is_digit[of "nat i"] calculation by simp
  ultimately show ?thesis using False by (simp add: int_to_str_def)
qed (simp add: int_to_str_def)

text \<open>Every printed value starts with a character that is neither white space nor a
  closing bracket or separator.\<close>

lemma json_print_start: "\<exists>c cs. json_print v = c # cs \<and> print_start c"
proof (cases v)
  case (JNum i)
  obtain c cs where "int_to_str i = c # cs" "is_digit c \<or> c = CHR ''-''" using int_to_str_start by blast
  then show ?thesis using JNum by (auto simp: print_start_def json_ws_def is_digit_def)
qed (auto simp: print_start_def json_ws_def quote_str_def)

lemma rest_okI: "rest_ok (CHR '','' # r)" "rest_ok (CHR '']'' # r)" "rest_ok (CHR ''}'' # r)" "rest_ok []"
  by (simp_all add: rest_ok_def)

lemma pelems_print:
  assumes "xs \<noteq> []"
    and "\<forall>x \<in> set xs. \<forall>n r. 2 * length (json_print x) < n \<longrightarrow> rest_ok r \<longrightarrow> pvalue n (json_print x @ r) = Some (x, r)"
    and "2 * length (js_join '','' (map json_print xs)) + 1 < m"
  shows "pelems m acc (js_join '','' (map json_print xs) @ CHR '']'' # r) = Some (acc @ xs, r)"
  using assms
proof (induction xs arbitrary: m acc)
  case (Cons x xs)
  obtain m' where m: "m = Suc m'" using Cons.prems(3) by (cases m) auto
  show ?case
  proof (cases xs)
    case Nil
    have "pvalue m' (json_print x @ CHR '']'' # r) = Some (x, CHR '']'' # r)"
      using Cons.prems(2,3) m Nil rest_okI by simp
    then show ?thesis using m Nil by (simp add: skip_ws_def json_ws_def)
  next
    case (Cons y ys)
    let ?t = "js_join '','' (map json_print xs) @ CHR '']'' # r"
    have "pvalue m' (json_print x @ CHR '','' # ?t) = Some (x, CHR '','' # ?t)"
      using Cons.prems(2,3) m rest_okI \<open>xs = y # ys\<close> by simp
    moreover have "pelems m' (acc @ [x]) ?t = Some (acc @ [x] @ xs, r)"
      using Cons.IH[of m' "acc @ [x]"] Cons.prems(2,3) m \<open>xs = y # ys\<close> by simp
    ultimately show ?thesis using m \<open>xs = y # ys\<close> by (simp add: skip_ws_def json_ws_def)
  qed
qed simp

lemma json_print_obj: "json_print (JObj kvs) = CHR ''{'' # js_join '','' (map member_text kvs) @ ''}''"
  unfolding member_text_def[abs_def] by (simp add: case_prod_unfold)

lemma pmembers_print:
  assumes "kvs \<noteq> []" and "distinct (map fst kvs)" and "fst ` set acc \<inter> fst ` set kvs = {}"
    and "\<forall>kv \<in> set kvs. \<forall>n r. 2 * length (json_print (snd kv)) < n \<longrightarrow> rest_ok r \<longrightarrow>
           pvalue n (json_print (snd kv) @ r) = Some (snd kv, r)"
    and "2 * length (js_join '','' (map member_text kvs)) + 1 < m"
  shows "pmembers m acc (js_join '','' (map member_text kvs) @ CHR ''}'' # r) = Some (acc @ kvs, r)"
  using assms
proof (induction kvs arbitrary: m acc)
  case (Cons kv kvs)
  obtain k v where kv: "kv = (k, v)" by (cases kv)
  obtain m' where m: "m = Suc m'" using Cons.prems(5) by (cases m) auto
  have fresh: "AList.update k v acc = acc @ [(k, v)]"
    using Cons.prems(3) kv by (intro update_fresh) auto
  have key: "parse_str_body [] (concat (map escape_char k) @ CHR 0x22 # t) = Some (k, t)" for t
    using parse_str_body_quote[of "[]" k t] by simp
  have mt: "member_text (k, v) = CHR 0x22 # concat (map escape_char k) @ CHR 0x22 # CHR '':'' # json_print v"
    by (simp add: member_text_def quote_str_def)
  show ?case
  proof (cases kvs)
    case Nil
    have "pvalue m' (json_print v @ CHR ''}'' # r) = Some (v, CHR ''}'' # r)"
      using Cons.prems(4,5) m Nil kv rest_okI by (simp add: mt)
    then show ?thesis using m Nil kv fresh key
      by (simp add: mt skip_ws_def json_ws_def)
  next
    case (Cons kv2 kvs2)
    let ?t = "js_join '','' (map member_text kvs) @ CHR ''}'' # r"
    have "pvalue m' (json_print v @ CHR '','' # ?t) = Some (v, CHR '','' # ?t)"
      using Cons.prems(4,5) m rest_okI \<open>kvs = kv2 # kvs2\<close> kv by (simp add: mt)
    moreover have "pmembers m' (acc @ [(k, v)]) ?t = Some (acc @ [(k, v)] @ kvs, r)"
      using Cons.IH[of "acc @ [(k, v)]" m'] Cons.prems m \<open>kvs = kv2 # kvs2\<close> kv by auto
    ultimately show ?thesis using m \<open>kvs = kv2 # kvs2\<close> kv fresh key
      by (simp add: mt skip_ws_def json_ws_def)
  qed
qed simp

lemma pvalue_print:
  "json_canon v \<Longrightarrow> 2 * length (json_print v) < n \<Longrightarrow> rest_ok r \<Longrightarrow> pvalue n (json_print v @ r) = Some (v, r)"
proof (induction v arbitrary: n r)
  case JNull
  obtain n' where "n = Suc n'" using JNull.prems(2) by (cases n) auto
  then show ?case by (simp add: skip_ws_def json_ws_def)
next
  case (JBool b)
  obtain n' where "n = Suc n'" using JBool.prems(2) by (cases n) auto
  then show ?case by (cases b) (simp_all add: skip_ws_def json_ws_def)
next
  case (JNum i)
  obtain n' where n: "n = Suc n'" using JNum.prems(2) by (cases n) auto
  obtain c cs where ic: "int_to_str i = c # cs" "is_digit c \<or> c = CHR ''-''" using int_to_str_start by blast
  have "c \<noteq> CHR ''{'' \<and> c \<noteq> CHR ''['' \<and> c \<noteq> CHR 0x22 \<and> c \<noteq> CHR ''t'' \<and> c \<noteq> CHR ''f'' \<and> c \<noteq> CHR ''n'' \<and> \<not> json_ws c"
    using ic(2) by (auto simp: is_digit_def json_ws_def)
  then show ?case using parse_num_print[OF JNum.prems(3), of i] n ic(1) by (auto simp: skip_ws_def)
next
  case (JStr str)
  obtain n' where n: "n = Suc n'" using JStr.prems(2) by (cases n) auto
  then show ?case using parse_str_body_quote[of "[]" str r] by (simp add: quote_str_def skip_ws_def json_ws_def)
next
  case (JArr xs)
  obtain n' where n: "n = Suc n'" using JArr.prems(2) by (cases n) auto
  show ?case
  proof (cases xs)
    case Nil
    then show ?thesis using n by (simp add: skip_ws_def json_ws_def)
  next
    case (Cons x xs')
    have pe: "pelems n' [] (js_join '','' (map json_print xs) @ CHR '']'' # r) = Some (xs, r)"
      using pelems_print[of xs n' "[]" r] JArr n Cons by auto
    obtain c cs where c: "json_print x = c # cs" "print_start c" using json_print_start by blast
    obtain t where t: "js_join '','' (map json_print xs) = c # t"
      using c Cons by (cases xs') auto
    show ?thesis using pe n t c(2) by (simp add: skip_ws_def print_start_def json_ws_def)
  qed
next
  case (JObj kvs)
  obtain n' where n: "n = Suc n'" using JObj.prems(2) by (cases n) auto
  show ?case
  proof (cases kvs)
    case Nil
    then show ?thesis using n by (simp add: skip_ws_def json_ws_def)
  next
    case (Cons kv kvs')
    have IH: "\<forall>kv \<in> set kvs. \<forall>n r. 2 * length (json_print (snd kv)) < n \<longrightarrow> rest_ok r \<longrightarrow>
                pvalue n (json_print (snd kv) @ r) = Some (snd kv, r)"
    proof (intro ballI allI impI)
      fix kv n r
      assume kv: "kv \<in> set kvs" and "2 * length (json_print (snd kv)) < n" and "rest_ok r"
      moreover have "json_canon (snd kv)" using JObj.prems(1) kv by simp
      moreover have "snd kv \<in> Basic_BNFs.snds kv" by (cases kv) simp
      ultimately show "pvalue n (json_print (snd kv) @ r) = Some (snd kv, r)"
        using JObj.IH[of kv "snd kv"] by blast
    qed
    have len: "2 * length (js_join '','' (map member_text kvs)) + 1 < n'"
      using JObj.prems(2) n by (simp del: json_print.simps add: json_print_obj)
    have pm: "pmembers n' [] (js_join '','' (map member_text kvs) @ CHR ''}'' # r) = Some (kvs, r)"
      using pmembers_print[OF _ _ _ IH len, of "[]" r] Cons JObj.prems(1) by simp
    obtain t where t: "js_join '','' (map member_text kvs) = CHR 0x22 # t"
      using Cons by (cases kvs') (auto simp: member_text_def quote_str_def)
    show ?thesis using pm n t by (simp del: json_print.simps add: json_print_obj skip_ws_def json_ws_def)
  qed
qed simp_all

lemma json_parse_print: "json_canon v \<Longrightarrow> json_parse (json_print v) = Some v"
  using pvalue_print[of v "2 * length (json_print v) + 2" "[]"] by (simp add: json_parse_def rest_ok_def skip_ws_def)

subsection \<open>The parser consumes input, and its fuel suffices\<close>

lemma skip_ws_Cons_length: "skip_ws s = c # cs \<Longrightarrow> length cs < length s"
  using length_dropWhile_le[of json_ws s] by (simp add: skip_ws_def)

lemma parse_str_body_step:
  assumes "parse_str_body acc (c # cs) = Some (k, r)"
  obtains "c = CHR 0x22" "r = cs"
    | cs' d where "c = CHR 0x5C" "cs = CHR ''u'' # cs'" "parse_str_body (d # acc) (drop 4 cs') = Some (k, r)"
    | e cs' d where "c = CHR 0x5C" "cs = e # cs'" "parse_str_body (d # acc) cs' = Some (k, r)"
    | "parse_str_body (c # acc) cs = Some (k, r)"
proof -
  consider "c = CHR 0x22" | "c \<noteq> CHR 0x22" "c = CHR 0x5C" | "c \<noteq> CHR 0x22" "c \<noteq> CHR 0x5C" by blast
  then show thesis
  proof cases
    case 1 then show ?thesis using assms that(1) by simp
  next
    case 2
    then obtain e cs' where cs: "cs = e # cs'" using assms by (cases cs) auto
    show ?thesis
    proof (cases "e = CHR ''u''")
      case True
      then show ?thesis using assms 2 cs that(2) by (auto split: option.splits)
    next
      case False
      then show ?thesis using assms 2 cs that(3) by (auto split: option.splits)
    qed
  next
    case 3
    then show ?thesis using assms that(4) by (auto split: if_splits)
  qed
qed
lemma parse_str_body_shorter: "parse_str_body acc s = Some (k, r) \<Longrightarrow> length r < length s"
proof (induction "length s" arbitrary: acc s rule: less_induct)
  case less
  obtain c cs where s: "s = c # cs" using less.prems by (cases s) auto
  from less.prems[unfolded s] show ?case
  proof (cases rule: parse_str_body_step)
    case 1 then show ?thesis using s by simp
  next
    case (2 cs' d) then show ?thesis using less.hyps[of "drop 4 cs'" "d # acc"] s by fastforce
  next
    case (3 e cs' d) then show ?thesis using less.hyps[of cs' "d # acc"] s by simp
  next
    case 4 then show ?thesis using less.hyps[of cs "c # acc"] s by simp
  qed
qed

lemma parse_num_shorter: "parse_num s = Some (v, r) \<Longrightarrow> length r < length s"
proof -
  assume a: "parse_num s = Some (v, r)"
  define s1 where "s1 = (if s \<noteq> [] \<and> hd s = CHR ''-'' then tl s else s)"
  have ne: "takeWhile is_digit s1 \<noteq> []" and r: "r = dropWhile is_digit s1"
    using a by (auto simp: parse_num_def Let_def s1_def split: if_splits)
  have "length (takeWhile is_digit s1) + length (dropWhile is_digit s1) = length s1"
    by (metis length_append takeWhile_dropWhile_id)
  moreover have "length s1 \<le> length s" by (simp add: s1_def)
  ultimately show ?thesis using ne r by (cases "takeWhile is_digit s1") auto
qed

lemma pvalue_step:
  assumes "pvalue (Suc n) s = Some (v, r)"
  obtains c cs where "skip_ws s = c # cs"
    "(\<exists>ds. skip_ws cs = CHR ''}'' # ds \<and> r = ds) \<or> (\<exists>kvs. pmembers n [] cs = Some (kvs, r)) \<or>
     (\<exists>ds. skip_ws cs = CHR '']'' # ds \<and> r = ds) \<or> (\<exists>xs. pelems n [] cs = Some (xs, r)) \<or>
     (\<exists>str. parse_str_body [] cs = Some (str, r)) \<or> r = drop 4 (c # cs) \<or> r = drop 5 (c # cs) \<or>
     parse_num (c # cs) = Some (v, r)"
proof -
  obtain c cs where sc: "skip_ws s = c # cs" using assms by (cases "skip_ws s") auto
  have "(\<exists>ds. skip_ws cs = CHR ''}'' # ds \<and> r = ds) \<or> (\<exists>kvs. pmembers n [] cs = Some (kvs, r)) \<or>
     (\<exists>ds. skip_ws cs = CHR '']'' # ds \<and> r = ds) \<or> (\<exists>xs. pelems n [] cs = Some (xs, r)) \<or>
     (\<exists>str. parse_str_body [] cs = Some (str, r)) \<or> r = drop 4 (c # cs) \<or> r = drop 5 (c # cs) \<or>
     parse_num (c # cs) = Some (v, r)"
    using assms sc by (simp split: if_splits list.splits option.splits prod.splits; blast)
  then show thesis using that sc by blast
qed

lemma pmembers_step:
  assumes "pmembers (Suc n) acc s = Some (kvs, r)"
  obtains cs k r1 r2 v r3 e r4 where "skip_ws s = CHR 0x22 # cs" "parse_str_body [] cs = Some (k, r1)"
    "skip_ws r1 = CHR '':'' # r2" "pvalue n r2 = Some (v, r3)" "skip_ws r3 = e # r4"
    "(e = CHR '','' \<and> pmembers n (AList.update k v acc) r4 = Some (kvs, r)) \<or> (e = CHR ''}'' \<and> r = r4)"
  using assms by (auto split: if_splits list.splits option.splits prod.splits)

lemma pelems_step:
  assumes "pelems (Suc n) acc s = Some (xs, r)"
  obtains v r1 e r2 where "pvalue n s = Some (v, r1)" "skip_ws r1 = e # r2"
    "(e = CHR '','' \<and> pelems n (acc @ [v]) r2 = Some (xs, r)) \<or> (e = CHR '']'' \<and> r = r2)"
  using assms by (auto split: if_splits list.splits option.splits prod.splits)

lemma skip_ws_le: "length (skip_ws s) \<le> length s"
  by (simp add: skip_ws_def length_dropWhile_le)

lemma parser_shorter_n:
  "(\<forall>s v r. pvalue n s = Some (v, r) \<longrightarrow> length r < length s) \<and>
   (\<forall>acc s kvs r. pmembers n acc s = Some (kvs, r) \<longrightarrow> length r < length s) \<and>
   (\<forall>acc s xs r. pelems n acc s = Some (xs, r) \<longrightarrow> length r < length s)"
proof (induction n)
  case (Suc n)
  have v: "length r < length s" if "pvalue n s = Some (v, r)" for s v r using Suc.IH that by blast
  have m: "length r < length s" if "pmembers n acc s = Some (kvs, r)" for acc s kvs r using Suc.IH that by blast
  have e: "length r < length s" if "pelems n acc s = Some (xs, r)" for acc s xs r using Suc.IH that by blast
  show ?case
  proof (intro conjI allI impI)
    fix s v r assume "pvalue (Suc n) s = Some (v, r)"
    then obtain c cs where sc: "skip_ws s = c # cs" and alt:
      "(\<exists>ds. skip_ws cs = CHR ''}'' # ds \<and> r = ds) \<or> (\<exists>kvs. pmembers n [] cs = Some (kvs, r)) \<or>
       (\<exists>ds. skip_ws cs = CHR '']'' # ds \<and> r = ds) \<or> (\<exists>xs. pelems n [] cs = Some (xs, r)) \<or>
       (\<exists>str. parse_str_body [] cs = Some (str, r)) \<or> r = drop 4 (c # cs) \<or> r = drop 5 (c # cs) \<or>
       parse_num (c # cs) = Some (v, r)"
      by (rule pvalue_step)
    have "length (c # cs) \<le> length s" using sc skip_ws_le[of s] by simp
    moreover have "length r < length (c # cs)"
      using alt by (auto dest: skip_ws_Cons_length m e parse_str_body_shorter parse_num_shorter)
    ultimately show "length r < length s" by simp
  next
    fix acc s kvs r assume "pmembers (Suc n) acc s = Some (kvs, r)"
    then show "length r < length s"
    proof (cases rule: pmembers_step)
      case (1 cs k r1 r2 v r3 e r4)
      have "length r4 < length s"
        using 1(1-5) skip_ws_Cons_length[OF 1(1)] parse_str_body_shorter[OF 1(2)] skip_ws_Cons_length[OF 1(3)]
          v[OF 1(4)] skip_ws_Cons_length[OF 1(5)] by simp
      then show ?thesis using 1(6) m by fastforce
    qed
  next
    fix acc s xs r assume "pelems (Suc n) acc s = Some (xs, r)"
    then show "length r < length s"
    proof (cases rule: pelems_step)
      case (1 v r1 e r2)
      have "length r2 < length s" using v[OF 1(1)] skip_ws_Cons_length[OF 1(2)] by simp
      then show ?thesis using 1(3) e by fastforce
    qed
  qed
qed simp

lemma pvalue_shorter: "pvalue n s = Some (v, r) \<Longrightarrow> length r < length s"
  using parser_shorter_n by blast

subsection \<open>Fuel\<close>

text \<open>One more unit of fuel changes nothing once a value has \<open>2 * length s + 1\<close>
  units and a member or element list \<open>2 * length s + 2\<close>: every call the parser makes
  is on a strictly shorter suffix, or (from the element list to its first value) on the
  same text with one unit less.\<close>

lemma fuel_step_n:
  "(\<forall>s. 2 * length s + 1 \<le> n \<longrightarrow> pvalue (Suc n) s = pvalue n s) \<and>
   (\<forall>acc s. 2 * length s + 2 \<le> n \<longrightarrow> pmembers (Suc n) acc s = pmembers n acc s) \<and>
   (\<forall>acc s. 2 * length s + 2 \<le> n \<longrightarrow> pelems (Suc n) acc s = pelems n acc s)"
proof (induction n)
  case (Suc n)
  have IHv: "pvalue (Suc n) s = pvalue n s" if "2 * length s + 1 \<le> n" for s using Suc.IH that by blast
  have IHm: "pmembers (Suc n) acc s = pmembers n acc s" if "2 * length s + 2 \<le> n" for acc s
    using Suc.IH that by blast
  have IHe: "pelems (Suc n) acc s = pelems n acc s" if "2 * length s + 2 \<le> n" for acc s
    using Suc.IH that by blast
  note cases = list.case option.case prod.case
  show ?case
  proof (intro conjI allI impI)
    fix s :: string assume A: "2 * length s + 1 \<le> Suc n"
    note U = pvalue.simps(2)[of "Suc n" s] pvalue.simps(2)[of n s]
    show "pvalue (Suc (Suc n)) s = pvalue (Suc n) s"
    proof (cases "skip_ws s")
      case (Cons c cs)
      have l: "2 * length cs + 2 \<le> n" using A skip_ws_Cons_length[OF Cons] by simp
      show ?thesis by (simp only: U Cons cases IHm[OF l] IHe[OF l])
    qed (simp only: U cases)
  next
    fix acc :: "(string \<times> jsval) list" and s :: string assume A: "2 * length s + 2 \<le> Suc n"
    note U = pmembers.simps(2)[of "Suc n" acc s] pmembers.simps(2)[of n acc s]
    show "pmembers (Suc (Suc n)) acc s = pmembers (Suc n) acc s"
    proof (cases "skip_ws s")
      case s: (Cons c cs)
      show ?thesis
      proof (cases "parse_str_body [] cs")
        case k: (Some kr)
        obtain k r1 where kr: "kr = (k, r1)" by (cases kr)
        show ?thesis
        proof (cases "skip_ws r1")
          case r1: (Cons d r2)
          have l2: "length r2 + 3 \<le> length s"
            using skip_ws_Cons_length[OF s] parse_str_body_shorter[of "[]" cs k r1] k kr
              skip_ws_Cons_length[OF r1] by simp
          then have pv: "pvalue (Suc n) r2 = pvalue n r2" using A IHv by simp
          show ?thesis
          proof (cases "pvalue n r2")
            case v: (Some vr)
            obtain v r3 where vr: "vr = (v, r3)" by (cases vr)
            show ?thesis
            proof (cases "skip_ws r3")
              case r3: (Cons e r4)
              have "length r4 + 4 \<le> length s"
                using l2 pvalue_shorter[of n r2 v r3] v vr skip_ws_Cons_length[OF r3] by simp
              then have l4: "2 * length r4 + 2 \<le> n" using A by simp
              show ?thesis by (simp only: U s k kr r1 pv v vr r3 cases IHm[OF l4])
            qed (simp only: U s k kr r1 pv v vr cases)
          qed (simp only: U s k kr r1 pv cases)
        qed (simp only: U s k kr cases)
      qed (simp only: U s cases)
    qed (simp only: U cases)
  next
    fix acc :: "jsval list" and s :: string assume A: "2 * length s + 2 \<le> Suc n"
    note U = pelems.simps(2)[of "Suc n" acc s] pelems.simps(2)[of n acc s]
    have pv: "pvalue (Suc n) s = pvalue n s" using A IHv by simp
    show "pelems (Suc (Suc n)) acc s = pelems (Suc n) acc s"
    proof (cases "pvalue n s")
      case v: (Some vr)
      obtain v r1 where vr: "vr = (v, r1)" by (cases vr)
      show ?thesis
      proof (cases "skip_ws r1")
        case r1: (Cons e r2)
        have "length r2 + 2 \<le> length s"
          using pvalue_shorter[of n s v r1] v vr skip_ws_Cons_length[OF r1] by simp
        then have l: "2 * length r2 + 2 \<le> n" using A by simp
        show ?thesis by (simp only: U pv v vr r1 cases IHe[OF l])
      qed (simp only: U pv v vr cases)
    qed (simp only: U pv cases)
  qed
qed simp

lemma pvalue_fuel: "2 * length s + 1 \<le> n \<Longrightarrow> pvalue n s = pvalue (2 * length s + 1) s"
proof (induction n)
  case (Suc m)
  show ?case
  proof (cases "2 * length s + 1 \<le> m")
    case True
    then show ?thesis using Suc.IH fuel_step_n[of m] by simp
  next
    case False
    then show ?thesis using Suc.prems by (simp add: le_Suc_eq)
  qed
qed simp

lemma json_parse_fuel:
  "2 * length s + 1 \<le> n \<Longrightarrow>
     json_parse s = (case pvalue n s of None \<Rightarrow> None | Some (v, r) \<Rightarrow> if skip_ws r = [] then Some v else None)"
  using pvalue_fuel[of s n] pvalue_fuel[of s "2 * length s + 2"] by (simp add: json_parse_def)

subsection \<open>Reading a printed reply back\<close>

lemma sublist_split_char:
  assumes "c \<notin> set sep" and "sublist sep (xs @ c # ys)"
  shows "sublist sep xs \<or> sublist sep ys"
proof -
  consider "sublist sep xs" | "sublist sep (c # ys)" | a b where "sep = a @ b" "suffix a xs" "prefix b (c # ys)"
    using assms(2) sublist_append by blast
  then show ?thesis
  proof cases
    case 2
    then show ?thesis using assms(1) by (cases sep) (auto simp: sublist_Cons_right)
  next
    case 3
    then show ?thesis using assms(1) by (cases b) (auto simp: suffix_imp_sublist)
  qed simp
qed

lemma no_fence_json_after:
  "\<not> sublist fence p \<Longrightarrow> \<not> sublist fence_json (CHR 0x0A # p @ CHR 0x0A # fence)"
proof
  assume np: "\<not> sublist fence p" and s: "sublist fence_json (CHR 0x0A # p @ CHR 0x0A # fence)"
  have nl: "CHR 0x0A \<notin> set fence_json" by (simp add: fence_json_def)
  have "\<not> sublist fence_json p"
    using np sublist_order.order_trans[of fence fence_json p] by (auto simp: fence_def fence_json_def)
  moreover have "\<not> sublist fence_json fence" "\<not> sublist fence_json []"
    by (auto dest: sublist_length_le simp: fence_def fence_json_def)
  ultimately show False
    using sublist_split_char[OF nl, of "[]" "p @ CHR 0x0A # fence"] sublist_split_char[OF nl, of p fence] s
    by auto
qed

lemma no_fence_before_close:
  "\<not> sublist fence p \<Longrightarrow> \<not> sublist fence ((CHR 0x0A # p @ [CHR 0x0A]) @ butlast fence)"
proof
  assume np: "\<not> sublist fence p" and s: "sublist fence ((CHR 0x0A # p @ [CHR 0x0A]) @ butlast fence)"
  have nl: "CHR 0x0A \<notin> set fence" by (simp add: fence_def)
  have "\<not> sublist fence (butlast fence)" "\<not> sublist fence []"
    by (auto dest: sublist_length_le simp: fence_def)
  then show False
    using sublist_split_char[OF nl, of "[]" "p @ CHR 0x0A # butlast fence"] sublist_split_char[OF nl, of p "butlast fence"] s np
    by auto
qed

lemma js_trim_lines:
  assumes "p \<noteq> []" and "\<not> js_ws (hd p)" and "\<not> js_ws (last p)"
  shows "js_trim (CHR 0x0A # p @ [CHR 0x0A]) = p"
proof -
  have "dropWhile js_ws (CHR 0x0A # p @ [CHR 0x0A]) = p @ [CHR 0x0A]"
    using assms by (cases p) (auto simp: js_ws_def)
  moreover have "dropWhile js_ws (rev (p @ [CHR 0x0A])) = rev p"
    using assms by (cases p rule: rev_cases) (auto simp: js_ws_def)
  ultimately show ?thesis by (simp add: js_trim_def)
qed

lemma extract_json_fenced:
  assumes "\<not> js_includes p fence"
  shows "extract_json (fence_json @ CHR 0x0A # p @ CHR 0x0A # fence) = CHR 0x0A # p @ [CHR 0x0A]"
proof -
  let ?rest = "CHR 0x0A # p @ CHR 0x0A # fence"
  have np: "\<not> sublist fence p" using assms by (simp add: js_includes_sublist)
  have f1: "split_first fence_json (fence_json @ ?rest) = Some ([], ?rest)"
    using split_first_append[of fence_json "[]" ?rest] by (auto dest: sublist_length_le simp: fence_json_def)
  have f2: "split_first fence_json ?rest = None"
    using no_fence_json_after[OF np] by (simp only: split_first_None js_includes_sublist not_False_eq_True)
  have f3: "split_first fence ?rest = Some (CHR 0x0A # p @ [CHR 0x0A], [])"
    using split_first_append[OF no_fence_before_close[OF np], of "[]"] by (simp add: fence_def)
  have inc: "js_includes (fence_json @ ?rest) fence_json"
    by (simp add: js_includes_sublist)
  show ?thesis
    using inc js_split_second[OF _ f1] f2 js_split_hd[of fence ?rest] f3
    by (simp add: extract_json_def fence_json_def fence_def)
qed


lemma json_print_obj_ends:
  "json_print (JObj kvs) \<noteq> [] \<and> hd (json_print (JObj kvs)) = CHR ''{'' \<and> last (json_print (JObj kvs)) = CHR ''}''"
  by (simp add: json_print_obj)

lemma extract_json_bare: "\<not> js_includes p fence \<Longrightarrow> extract_json p = p"
proof -
  assume a: "\<not> js_includes p fence"
  have "sublist fence fence_json" by (simp add: fence_def fence_json_def)
  then have "\<not> js_includes p fence_json"
    using a sublist_order.order_trans[of fence fence_json p] by (auto simp: js_includes_sublist)
  with a show ?thesis by (simp add: extract_json_def)
qed

text \<open>\<^verbatim>\<open>JSON.parse\<close> inside \<^verbatim>\<open>parseAIResponse\<close> never runs out of fuel:
  with any fuel from \<open>2 * length s + 1\<close> on, where \<open>s\<close> is the repaired body, the
  parser gives the same answer, so a \<open>None\<close> is always a syntax error of the reply and
  never the end of the recursion budget.\<close>

theorem parse_AI_response_fuel:
  assumes "2 * length (repair_braces (js_trim (extract_json text))) + 1 \<le> n"
  shows "parse_AI_response text =
           (case pvalue n (repair_braces (js_trim (extract_json text))) of
              None \<Rightarrow> None
            | Some (v, r) \<Rightarrow> if skip_ws r = [] then validate_analysis v else None)"
  using json_parse_fuel[OF assms] by (simp add: parse_AI_response_def split: option.splits)

lemma printed_analysis_reads_back:
  assumes "json_canon (JObj kvs)" and "validate_analysis (JObj kvs) = Some w"
    and "\<not> js_includes (json_print (JObj kvs)) fence"
  shows "parse_AI_response (json_print (JObj kvs)) = Some w \<and>
         parse_AI_response (fence_json @ CHR 0x0A # json_print (JObj kvs) @ CHR 0x0A # fence) = Some w"
proof -
  let ?p = "json_print (JObj kvs)"
  have e: "?p \<noteq> []" "\<not> js_ws (hd ?p)" "\<not> js_ws (last ?p)"
    using json_print_obj_ends[of kvs] by (simp_all add: js_ws_def)
  have t: "js_trim ?p = ?p" by (rule js_trim_idem_ends[OF e])
  have body: "json_parse (repair_braces ?p) = Some (JObj kvs)"
    using repair_braces_last_close[of ?p] json_print_obj_ends[of kvs] json_parse_print[OF assms(1)] by simp
  have "parse_AI_response ?p = Some w"
    using body t extract_json_bare[OF assms(3)] assms(2)
    by (simp del: json_print.simps add: parse_AI_response_def)
  moreover have "parse_AI_response (fence_json @ CHR 0x0A # ?p @ CHR 0x0A # fence) = Some w"
    using body extract_json_fenced[OF assms(3)] js_trim_lines[OF e] assms(2)
    by (simp del: json_print.simps add: parse_AI_response_def)
  ultimately show ?thesis ..
qed

text \<open>C5: a reply that is a printed analysis object reads back as the value the
  validator makes of it, whether the model sends it bare or inside a
  \<^verbatim>\<open>```json\<close> fence on lines of its own: extraction, trimming, brace repair and
  \<^verbatim>\<open>JSON.parse\<close> undo \<^verbatim>\<open>JSON.stringify\<close> and the fence.\<close>

theorem parse_AI_response_roundtrip:
  assumes "json_canon (JObj kvs)" and "validate_analysis (JObj kvs) = Some w"
    and "\<not> js_includes (json_print (JObj kvs)) fence"
  shows "parse_AI_response (json_print (JObj kvs)) = Some w \<and>
         parse_AI_response (fence_json @ CHR 0x0A # json_print (JObj kvs) @ CHR 0x0A # fence) = Some w"
  using assms by (rule printed_analysis_reads_back)

theorem parse_AI_response_fuel_witness:
  "parse_AI_response ''{}'' =
     (case pvalue 100 (repair_braces (js_trim (extract_json ''{}''))) of
        None \<Rightarrow> None
      | Some (v, r) \<Rightarrow> if skip_ws r = [] then validate_analysis v else None)"
proof -
  have "2 * length (repair_braces (js_trim (extract_json ''{}''))) + 1 \<le> (100::nat)" by code_simp
  then show ?thesis by (rule parse_AI_response_fuel)
qed

theorem parse_AI_response_roundtrip_witness:
  "parse_AI_response (json_print (JObj [(''scores'', JObj [(''overall_priority'', JNum 50)]), (''priority_recommendation'', JStr ''Medium'')]))
     = Some (JObj [(''scores'', JObj [(''overall_priority'', JNum 50)]), (''priority_recommendation'', JStr ''Medium'')]) \<and>
   parse_AI_response (fence_json @ CHR 0x0A # json_print (JObj [(''scores'', JObj [(''overall_priority'', JNum 50)]), (''priority_recommendation'', JStr ''Medium'')]) @ CHR 0x0A # fence)
     = Some (JObj [(''scores'', JObj [(''overall_priority'', JNum 50)]), (''priority_recommendation'', JStr ''Medium'')])"
proof -
  have c: "json_canon (JObj [(''scores'', JObj [(''overall_priority'', JNum 50)]), (''priority_recommendation'', JStr ''Medium'')])" by code_simp
  have v: "validate_analysis (JObj [(''scores'', JObj [(''overall_priority'', JNum 50)]), (''priority_recommendation'', JStr ''Medium'')])
             = Some (JObj [(''scores'', JObj [(''overall_priority'', JNum 50)]), (''priority_recommendation'', JStr ''Medium'')])" by code_simp
  have f: "\<not> js_includes (json_print (JObj [(''scores'', JObj [(''overall_priority'', JNum 50)]), (''priority_recommendation'', JStr ''Medium'')])) fence" by code_simp
  show ?thesis by (rule parse_AI_response_roundtrip[OF c v f])
qed

end
