(* ===== verification/Test_Scripts.thy ===== *)
theory Test_Scripts
  imports Request_Log Server Reply_Roundtrip
begin

text \<open>
  The repository's test scripts, as functions from the model of the code they call to
  what they report: the local script \<^verbatim>\<open>src/unnamed/part_002\<close>
  (\<^verbatim>\<open>test-local.js\<close>), which calls the prompt builder, the parser and the
  calculator of \<^verbatim>\<open>src/api/triage.js\<close> directly; \<^verbatim>\<open>src/test-api.js\<close>, which
  posts its fixtures to the local server of \<^verbatim>\<open>src/server.js\<close> and reads its health
  check; and \<^verbatim>\<open>src/test-ai.js\<close>, which calls the two vendors directly. Console
  output is reduced to the values the scripts print or test; emoji and decoration are
  left out.
\<close>

subsection \<open>\<^verbatim>\<open>test-local.js\<close> (\<^verbatim>\<open>part_002\<close>)\<close>

text \<open>The fixtures (lines 13--62): the same three issues \<^verbatim>\<open>test-api.js\<close> posts.\<close>

definition fixture_issues :: "jsval list" where
  "fixture_issues =
     [JObj [(''key'', JStr ''PROJ-123''), (''fields'', JObj [(''summary'', JStr ''Add bulk import feature for customer data''), (''description'', JStr ''Enterprise clients need to import large CSV files with customer data. Current manual entry is too slow for their needs. This feature would significantly improve customer satisfaction and reduce data entry errors.''), (''priority'', JObj [(''name'', JStr ''High'')]), (''reporter'', JObj [(''displayName'', JStr ''Sarah Johnson'')]), (''created'', JStr ''2024-01-15T10:30:00.000Z''), (''components'', JArr [JObj [(''name'', JStr ''Data Management'')]]), (''labels'', JArr [JStr ''enterprise'', JStr ''customer-request'', JStr ''high-priority'']), (''status'', JObj [(''name'', JStr ''Open'')])])],
      JObj [(''key'', JStr ''PROJ-124''), (''fields'', JObj [(''summary'', JStr ''Add dark mode toggle to user preferences''), (''description'', JStr ''Users have requested a dark mode option for better visibility in low-light environments. This would be a simple UI enhancement.''), (''priority'', JObj [(''name'', JStr ''Medium'')]), (''reporter'', JObj [(''displayName'', JStr ''John Doe'')]), (''created'', JStr ''2024-01-15T11:00:00.000Z''), (''components'', JArr [JObj [(''name'', JStr ''User Interface'')]]), (''labels'', JArr [JStr ''ui'', JStr ''user-request'', JStr ''enhancement'']), (''status'', JObj [(''name'', JStr ''Open'')])])],
      JObj [(''key'', JStr ''PROJ-125''), (''fields'', JObj [(''summary'', JStr ''Fix critical security vulnerability in authentication''), (''description'', JStr ''Security audit revealed a critical vulnerability in the authentication system that could allow unauthorized access. Immediate fix required.''), (''priority'', JObj [(''name'', JStr ''Critical'')]), (''reporter'', JObj [(''displayName'', JStr ''Security Team'')]), (''created'', JStr ''2024-01-15T12:00:00.000Z''), (''components'', JArr [JObj [(''name'', JStr ''Security'')]]), (''labels'', JArr [JStr ''security'', JStr ''critical'', JStr ''bug'']), (''status'', JObj [(''name'', JStr ''Open'')])])]]"

text \<open>\<^verbatim>\<open>testPromptBuilding\<close> (lines 65--87): the four \<^verbatim>\<open>includes\<close> checks on the
  prompt, or the failure the \<^verbatim>\<open>catch\<close> reports.\<close>

datatype prompt_report = PromptBuilt nat "bool list" | PromptFailed string

definition prompt_report_of :: "jsval \<Rightarrow> prompt_report" where
  "prompt_report_of issue =
     (case build_comprehensive_triage_prompt issue [] of
        Inl e \<Rightarrow> PromptFailed (error_text e)
      | Inr p \<Rightarrow> PromptBuilt (length p)
          [js_includes p (template_val (get_prop issue ''key'')),
           js_includes p (template_val (issue_field issue ''summary'')),
           js_includes p ''ANALYSIS FRAMEWORK'',
           js_includes p ''REQUIRED OUTPUT FORMAT''])"

text \<open>The replies of \<^verbatim>\<open>testResponseParsing\<close> (lines 93--130), template literals
  as the lists of their lines.\<close>

definition mock_valid :: string where
  "mock_valid = js_join [CHR 0x0A]
     [''Here\\'s my analysis:'',
      '''',
      ''```json'',
      ''{'',
      ''  \"scores\": {'',
      ''    \"business_impact\": 85,'',
      ''    \"effort_size\": \"M\",'',
      ''    \"effort_score\": 60,'',
      ''    \"strategic_fit\": 75,'',
      ''    \"cross_client_value\": 80,'',
      ''    \"overall_priority\": 78'',
      ''  },'',
      ''  \"priority_recommendation\": \"Standard\",'',
      ''  \"key_insights\": [\"High business impact\", \"Moderate effort\"],'',
      ''  \"risks\": [\"Complexity in implementation\"],'',
      ''  \"opportunities\": [\"Platform improvement\"],'',
      ''  \"similar_features\": \"Existing CSV export\",'',
      ''  \"recommended_next_steps\": [\"Validate requirements\"],'',
      ''  \"executive_summary\": \"This feature addresses critical needs.\"'',
      ''}'',
      ''```'']"

definition mock_markdown :: string where
  "mock_markdown = js_join [CHR 0x0A]
     [''Analysis complete:'',
      '''',
      ''```json'',
      ''{\"scores\":{\"business_impact\":90,\"effort_size\":\"S\",\"effort_score\":80,\"strategic_fit\":85,\"cross_client_value\":70,\"overall_priority\":82},\"priority_recommendation\":\"Fast Track\",\"key_insights\":[\"Critical business need\"],\"risks\":[\"None identified\"],\"opportunities\":[\"Market advantage\"],\"similar_features\":\"None\",\"recommended_next_steps\":[\"Immediate development\"],\"executive_summary\":\"High priority feature.\"}'',
      ''```'']"

definition mock_invalid :: string where
  "mock_invalid = ''Sorry, I couldn\\'t analyze this properly.''"

text \<open>Lines 133--151: a parse with a truthy \<^verbatim>\<open>scores\<close> prints the recommendation,
  the overall priority and the effort size; anything else is a failure. The script
  imports \<^verbatim>\<open>parseAIResponse\<close> from \<^verbatim>\<open>src/api/triage.js\<close> (line 10), the
  older revision.\<close>

datatype parse_report = Parsed "jsval option" "jsval option" "jsval option" | ParseMissing

definition parse_report_of :: "string \<Rightarrow> parse_report" where
  "parse_report_of text =
     (case parse_AI_response_v1 text of
        Some parsed \<Rightarrow>
          if truthy (get_prop parsed ''scores'')
          then Parsed (get_prop parsed ''priority_recommendation'')
                 (opt_get (get_prop parsed ''scores'') ''overall_priority'')
                 (opt_get (get_prop parsed ''scores'') ''effort_size'')
          else ParseMissing
      | None \<Rightarrow> ParseMissing)"

text \<open>\<^verbatim>\<open>testPriorityCalculation\<close> (lines 155--209): the score fixtures, and the
  priority with the recommendation the script derives from it.\<close>

definition fixture_scores :: "jsval list" where
  "fixture_scores =
     [JObj [(''business_impact'', JNum 90), (''effort_size'', JStr ''S''), (''strategic_fit'', JNum 85), (''cross_client_value'', JNum 80)],
      JObj [(''business_impact'', JNum 60), (''effort_size'', JStr ''M''), (''strategic_fit'', JNum 70), (''cross_client_value'', JNum 65)],
      JObj [(''business_impact'', JNum 30), (''effort_size'', JStr ''L''), (''strategic_fit'', JNum 40), (''cross_client_value'', JNum 35)]]"

definition priority_report_of :: "jsval \<Rightarrow> (jsval \<times> string) option" where
  "priority_report_of sc =
     (case calculate_overall_priority sc of
        Inl _ \<Rightarrow> None
      | Inr (Some p) \<Rightarrow> Some (JNum p, recommendation_band p)
      | Inr None \<Rightarrow> Some (JNaN, ''Low''))"

text \<open>\<^verbatim>\<open>testEnvironmentVariables\<close> (lines 212--234): a set variable is reported
  with its length and its first ten characters.\<close>

datatype env_report = EnvSet nat string | EnvNotSet

definition env_report_of :: "string option \<Rightarrow> env_report" where
  "env_report_of v = (case v of Some s \<Rightarrow> if s = [] then EnvNotSet else EnvSet (length s) (take 10 s) | None \<Rightarrow> EnvNotSet)"

text \<open>\<^verbatim>\<open>runLocalTests\<close> (lines 237--259): the four sections in order.\<close>

definition run_local_tests ::
  "env \<Rightarrow> env_report list \<times> prompt_report list \<times> parse_report list \<times> (jsval \<times> string) option list" where
  "run_local_tests e =
     ([env_report_of (gemini_api_key e), env_report_of (claude_api_key e)],
      map prompt_report_of fixture_issues,
      map parse_report_of [mock_valid, mock_markdown, mock_invalid],
      map priority_report_of fixture_scores)"

subsection \<open>\<^verbatim>\<open>test-api.js\<close>\<close>

text \<open>\<^verbatim>\<open>API_URL\<close> at its default (line 8) and the health URL derived from it by
  \<^verbatim>\<open>replace('/triage', '/health')\<close> (line 125); \<^verbatim>\<open>replace\<close> with a string
  pattern rewrites the first occurrence. The path is what follows the host.\<close>

definition js_replace_first :: "string \<Rightarrow> string \<Rightarrow> string \<Rightarrow> string" where
  "js_replace_first s pat rep = (case split_first pat s of None \<Rightarrow> s | Some (a, b) \<Rightarrow> a @ rep @ b)"

definition api_url :: string where
  "api_url = ''http://localhost:3000/api/triage''"

definition health_url :: string where
  "health_url = js_replace_first api_url ''/triage'' ''/health''"

definition url_path :: "string \<Rightarrow> string" where
  "url_path u = dropWhile (\<lambda>c. c \<noteq> CHR ''/'') (drop 7 u)"

text \<open>The request of one fixture (lines 84--90): the body is
  \<^verbatim>\<open>JSON.stringify(testCase.data)\<close>, which \<^verbatim>\<open>express.json()\<close> parses back.\<close>

definition api_request :: "jsval \<Rightarrow> request" where
  "api_request issue =
     \<lparr>req_method = ''POST'', req_headers = [''content-type'' \<mapsto> ''application/json''],
      req_body = json_parse (json_print (JObj [(''issue'', issue), (''webhookEvent'', JStr ''jira:issue_created'')]))\<rparr>"

definition health_request :: request where
  "health_request = \<lparr>req_method = ''GET'', req_headers = Map.empty, req_body = None\<rparr>"

text \<open>What the loop body reports (lines 95--118): \<^verbatim>\<open>response.ok\<close> with
  \<^verbatim>\<open>result.result?.modelUsed || 'Unknown'\<close> and the analysis, or the status with
  \<^verbatim>\<open>result.error || 'Unknown error'\<close>; a body that is not JSON makes
  \<^verbatim>\<open>response.json()\<close> throw into the \<^verbatim>\<open>catch\<close>. The local server answers an
  unmatched route with an HTML page.\<close>

datatype api_report = ApiSuccess string "jsval option" | ApiFailed nat string | ApiError

definition handler_error_text :: "handler_error \<Rightarrow> string" where
  "handler_error_text e =
     (case e of NoIssueKey \<Rightarrow> ''Error: No issue key provided in webhook'' | JsError x \<Rightarrow> error_text x)"

definition api_report_of :: "server_reply \<Rightarrow> api_report" where
  "api_report_of r =
     (case r of
        Routed (Processed key a m) \<Rightarrow> ApiSuccess (or_unknown m) a
      | Routed (Triaged b) \<Rightarrow> ApiSuccess (str_or (tb_model_used b) ''Unknown'') (tb_analysis b)
      | Routed (Failed e) \<Rightarrow> ApiFailed 500 (handler_error_text e)
      | Routed (Rejected n v) \<Rightarrow> ApiFailed n (template_or (get_prop v ''error'') ''Unknown error'')
      | Routed Preflight \<Rightarrow> ApiError
      | Json n v \<Rightarrow>
          if 200 \<le> n \<and> n < 300
          then ApiSuccess (template_or (opt_get (get_prop v ''result'') ''modelUsed'') ''Unknown'')
                 (opt_get (get_prop v ''result'') ''analysis'')
          else ApiFailed n (template_or (get_prop v ''error'') ''Unknown error'')
      | Cors \<Rightarrow> ApiError
      | NotFound \<Rightarrow> ApiError)"

text \<open>The health check's report (lines 123--140): \<^verbatim>\<open>health.services.gemini.available\<close>
  and the same for Claude, each of which throws when a member on the way is missing.\<close>

datatype health_report = HealthPassed "jsval option" bool bool | HealthFailed "jsval option" | HealthError

definition health_report_of :: "server_reply \<Rightarrow> health_report" where
  "health_report_of r =
     (case r of
        Json n v \<Rightarrow>
          if 200 \<le> n \<and> n < 300 then
            (case js_get (get_prop v ''services'') ''gemini'' of
               Inl _ \<Rightarrow> HealthError
             | Inr gv \<Rightarrow>
                 (case js_get gv ''available'' of
                    Inl _ \<Rightarrow> HealthError
                  | Inr ga \<Rightarrow>
                      (case js_get (get_prop v ''services'') ''claude'' of
                         Inl _ \<Rightarrow> HealthError
                       | Inr cv \<Rightarrow>
                           (case js_get cv ''available'' of
                              Inl _ \<Rightarrow> HealthError
                            | Inr ca \<Rightarrow> HealthPassed (get_prop v ''status'') (truthy ga) (truthy ca)))))
          else HealthFailed (get_prop v ''status'')
      | _ \<Rightarrow> HealthError)"

text \<open>\<^verbatim>\<open>testAPI\<close> against the local server (lines 71--141): the fixtures in order,
  then the health check. The server must listen on the port of \<^verbatim>\<open>API_URL\<close>;
  otherwise every fetch fails.\<close>

definition test_api_run :: "env \<Rightarrow> provider \<Rightarrow> provider \<Rightarrow> (api_report list \<times> health_report) \<times> backend list" where
  "test_api_run e g c =
     (if server_port e \<noteq> ''3000'' then ((map (\<lambda>_. ApiError) fixture_issues, HealthError), [])
      else
        (let runs = map (\<lambda>i. server_route e g c (url_path api_url) (api_request i)) fixture_issues
         in ((map (\<lambda>r. api_report_of (fst r)) runs,
              health_report_of (fst (server_route e g c (url_path health_url) health_request))),
             concat (map snd runs))))"

subsection \<open>\<^verbatim>\<open>test-ai.js\<close>\<close>

text \<open>The prompts (lines 21, 40 and 68--91) and the issue of
  \<^verbatim>\<open>testTriagePrompt\<close> (lines 55--63).\<close>

definition ok_prompt :: string where
  "ok_prompt = ''Respond with just \"OK\" if you receive this message.''"

definition test_ai_issue :: jsval where
  "test_ai_issue =
     JObj [(''key'', JStr ''TEST-123''),
           (''fields'', JObj [(''summary'', JStr ''Test feature request''),
                              (''description'', JStr ''This is a test description for validation''),
                              (''priority'', JObj [(''name'', JStr ''Medium'')]),
                              (''reporter'', JObj [(''displayName'', JStr ''Test User'')])])]"

definition test_ai_prompt :: string where
  "test_ai_prompt = js_join [CHR 0x0A]
     [''Analyze this feature request and return JSON with scores and recommendations:'',
      [],
      ''Ticket: '' @ template_val (get_prop test_ai_issue ''key''),
      ''Summary: '' @ template_val (issue_field test_ai_issue ''summary''),
      ''Description: '' @ template_val (issue_field test_ai_issue ''description''),
      [],
      ''Return JSON with this structure:'',
      ''{'',
      ''  \"scores\": {'',
      ''    \"business_impact\": 75,'',
      ''    \"effort_size\": \"S\",'',
      ''    \"effort_score\": 80,'',
      ''    \"strategic_fit\": 70,'',
      ''    \"cross_client_value\": 65,'',
      ''    \"overall_priority\": 72'',
      ''  },'',
      ''  \"priority_recommendation\": \"Standard\",'',
      ''  \"key_insights\": [\"Test insight\"],'',
      ''  \"risks\": [\"Test risk\"],'',
      ''  \"opportunities\": [\"Test opportunity\"],'',
      ''  \"similar_features\": \"None\",'',
      ''  \"recommended_next_steps\": [\"Test step\"],'',
      ''  \"executive_summary\": \"Test summary\"'',
      ''}'']"

text \<open>\<^verbatim>\<open>testGemini\<close> and \<^verbatim>\<open>testClaude\<close> (lines 17--50): the reply text or the
  error. \<^verbatim>\<open>testTriagePrompt\<close> (lines 52--113) parses the reply with a bare
  \<^verbatim>\<open>JSON.parse\<close>; reading \<^verbatim>\<open>parsed.priority_recommendation\<close> of \<^verbatim>\<open>null\<close>
  throws into the same \<^verbatim>\<open>catch\<close>, which prints the first 200 characters.\<close>

datatype vendor_check = VendorReplied string | VendorError

datatype triage_check = TriageParsed jsval | TriageParseFailed string | TriageError

definition vendor_check_of :: "reply \<Rightarrow> vendor_check" where
  "vendor_check_of r = (case r of Reply t \<Rightarrow> VendorReplied t | Failure \<Rightarrow> VendorError)"

definition triage_check_of :: "reply \<Rightarrow> triage_check" where
  "triage_check_of r =
     (case r of
        Failure \<Rightarrow> TriageError
      | Reply t \<Rightarrow>
          (case json_parse t of
             Some v \<Rightarrow> if v = JNull then TriageParseFailed (take 200 t) else TriageParsed v
           | None \<Rightarrow> TriageParseFailed (take 200 t)))"

text \<open>\<^verbatim>\<open>main\<close> (lines 115--137): nothing is called unless both keys are set; then
  Gemini, Claude and Gemini again, in that order.\<close>

definition test_ai_main ::
  "env \<Rightarrow> provider \<Rightarrow> provider \<Rightarrow> (vendor_check \<times> vendor_check \<times> triage_check) option \<times> backend list" where
  "test_ai_main e g c =
     (if \<not> (env_flag (gemini_api_key e) \<and> env_flag (claude_api_key e)) then (None, [])
      else (Some (vendor_check_of (g ok_prompt), vendor_check_of (c ok_prompt), triage_check_of (g test_ai_prompt)),
            [Gemini, Claude, Gemini]))"

text \<open>The Claude deployment check appended to \<^verbatim>\<open>test-ai.js\<close> (lines 148--179): it
  stops when the key is unset, otherwise it calls Claude once.\<close>

datatype deploy_check = ClaudeKeyMissing | ClaudeOk string | ClaudeError

definition test_claude_deploy :: "env \<Rightarrow> provider \<Rightarrow> deploy_check \<times> backend list" where
  "test_claude_deploy e c =
     (if \<not> env_flag (claude_api_key e) then (ClaudeKeyMissing, [])
      else ((case c ok_prompt of Reply t \<Rightarrow> ClaudeOk t | Failure \<Rightarrow> ClaudeError), [Claude]))"

declare fixture_issues_def [js_eval] prompt_report_of_def [js_eval] mock_valid_def [js_eval] mock_markdown_def [js_eval]
  mock_invalid_def [js_eval] parse_report_of_def [js_eval] fixture_scores_def [js_eval] priority_report_of_def [js_eval]
  env_report_of_def [js_eval] run_local_tests_def [js_eval] js_replace_first_def [js_eval] api_url_def [js_eval]
  health_url_def [js_eval] url_path_def [js_eval] api_request_def [js_eval] health_request_def [js_eval]
  handler_error_text_def [js_eval] api_report_of_def [js_eval] health_report_of_def [js_eval] test_api_run_def [js_eval]
  ok_prompt_def [js_eval] test_ai_issue_def [js_eval] test_ai_prompt_def [js_eval] vendor_check_of_def [js_eval]
  triage_check_of_def [js_eval] test_ai_main_def [js_eval] test_claude_deploy_def [js_eval]

subsection \<open>Properties\<close>


lemma report_keys_plain [simp]:
  "plain_key ''services''" "plain_key ''gemini''" "plain_key ''claude''" "plain_key ''available''" "plain_key ''status''"
  by (simp_all add: plain_key_def js_eval)

lemma url_paths: "url_path api_url = ''/api/triage''" "url_path health_url = ''/api/health''"
  by code_simp+

lemma health_route: "fst (server_route e g c ''/api/health'' health_request) = Json 200 (snd (health_check e))"
  by (simp add: server_route_def health_request_def route_match_def health_check_def js_to_lower_def js_lower_char_def)

text \<open>With the server on the port \<^verbatim>\<open>test-api.js\<close> expects, its health check
  passes with status \<^verbatim>\<open>healthy\<close> but shows neither vendor available, whatever keys
  are set: it reads \<^verbatim>\<open>services.gemini.available\<close>, and \<^verbatim>\<open>healthCheck\<close> answers
  a boolean per service.\<close>

theorem test_api_health_never_available:
  assumes "server_port e = ''3000''"
  shows "snd (fst (test_api_run e g c)) = HealthPassed (Some (JStr ''healthy'')) False False"
  using assms by (simp add: test_api_run_def url_paths health_route health_report_of_def health_check_def js_get_def truthy_def)

lemma server_route_cong:
  assumes "providers_v1 e g c = providers_v1 e' g' c'" and "server_port e = server_port e'"
    and "health_check e = health_check e'"
  shows "server_route e g c = server_route e' g' c'"
  unfolding server_route_def assms ..

lemma test_api_run_cong:
  assumes "providers_v1 e g c = providers_v1 e' g' c'" and "server_port e = server_port e'"
    and "health_check e = health_check e'"
  shows "test_api_run e g c = test_api_run e' g' c'"
  unfolding test_api_run_def server_route_cong[OF assms] assms(2) ..

text \<open>C21: with neither API key set, \<^verbatim>\<open>test-api.js\<close> reports success for all three
  fixtures, with model \<^verbatim>\<open>Unknown\<close> and no analysis: the older handler the server
  routes to answers 200 when both vendors fail, and the script checks only
  \<^verbatim>\<open>response.ok\<close>.\<close>

theorem test_api_success_without_keys:
  assumes "\<not> env_flag (gemini_api_key e)" and "\<not> env_flag (claude_api_key e)" and "server_port e = ''3000''"
  shows "fst (fst (test_api_run e g c)) = replicate 3 (ApiSuccess ''Unknown'' None)"
proof -
  let ?e0 = "\<lparr>gemini_api_key = None, claude_api_key = None, port = None\<rparr>"
  have "test_api_run e g c = test_api_run ?e0 (\<lambda>_. Failure) (\<lambda>_. Failure)"
    by (rule test_api_run_cong) (use assms in \<open>simp_all add: providers_v1_def health_check_def server_port_def env_flag_def\<close>)
  moreover have "fst (fst (test_api_run ?e0 (\<lambda>_. Failure) (\<lambda>_. Failure))) = replicate 3 (ApiSuccess ''Unknown'' None)"
    by code_simp
  ultimately show ?thesis by simp
qed

lemma json_parse_backtick: "json_parse (CHR ''`'' # s) = None"
proof -
  have "pvalue (Suc n) (CHR ''`'' # s) = None" for n
    by (simp add: skip_ws_def json_ws_def parse_num_def is_digit_def)
  then show ?thesis by (simp add: json_parse_def)
qed

text \<open>C22: \<^verbatim>\<open>test-ai.js\<close> reports a parse failure for a reply that is a valid
  analysis in a \<^verbatim>\<open>```json\<close> fence, which \<^verbatim>\<open>parseAIResponse\<close> reads back: its bare
  \<^verbatim>\<open>JSON.parse\<close> rejects the fence.\<close>

theorem test_ai_rejects_fenced_reply:
  assumes "env_flag (gemini_api_key e)" and "env_flag (claude_api_key e)"
    and "g test_ai_prompt = Reply (fence_json @ CHR 0x0A # json_print (JObj kvs) @ CHR 0x0A # fence)"
    and "json_canon (JObj kvs)" and "validate_analysis (JObj kvs) = Some w"
    and "\<not> js_includes (json_print (JObj kvs)) fence"
  shows "(\<exists>v1 v2 pv. fst (test_ai_main e g c) = Some (v1, v2, TriageParseFailed pv)) \<and>
         parse_AI_response (fence_json @ CHR 0x0A # json_print (JObj kvs) @ CHR 0x0A # fence) = Some w"
proof -
  have "json_parse (fence_json @ CHR 0x0A # json_print (JObj kvs) @ CHR 0x0A # fence) = None"
    using json_parse_backtick by (simp add: fence_json_def)
  then show ?thesis
    using assms printed_analysis_reads_back[OF assms(4-6)]
    by (simp add: test_ai_main_def triage_check_of_def)
qed

theorem test_ai_rejects_fenced_reply_witness:
  "(\<exists>v1 v2 pv. fst (test_ai_main \<lparr>gemini_api_key = Some ''g'', claude_api_key = Some ''c'', port = None\<rparr>
      (\<lambda>p. Reply (fence_json @ CHR 0x0A # json_print (JObj [(''scores'', JObj [(''overall_priority'', JNum 50)]), (''priority_recommendation'', JStr ''Medium'')]) @ CHR 0x0A # fence))
      (\<lambda>_. Reply ''OK'')) = Some (v1, v2, TriageParseFailed pv)) \<and>
   parse_AI_response (fence_json @ CHR 0x0A # json_print (JObj [(''scores'', JObj [(''overall_priority'', JNum 50)]), (''priority_recommendation'', JStr ''Medium'')]) @ CHR 0x0A # fence)
     = Some (JObj [(''scores'', JObj [(''overall_priority'', JNum 50)]), (''priority_recommendation'', JStr ''Medium'')])"
proof -
  have c: "json_canon (JObj [(''scores'', JObj [(''overall_priority'', JNum 50)]), (''priority_recommendation'', JStr ''Medium'')])" by code_simp
  have v: "validate_analysis (JObj [(''scores'', JObj [(''overall_priority'', JNum 50)]), (''priority_recommendation'', JStr ''Medium'')])
             = Some (JObj [(''scores'', JObj [(''overall_priority'', JNum 50)]), (''priority_recommendation'', JStr ''Medium'')])" by code_simp
  have f: "\<not> js_includes (json_print (JObj [(''scores'', JObj [(''overall_priority'', JNum 50)]), (''priority_recommendation'', JStr ''Medium'')])) fence" by code_simp
  show ?thesis
    by (rule test_ai_rejects_fenced_reply[OF _ _ _ c v f]) (simp_all add: env_flag_def)
qed

lemma triage_prompt_contents:
  assumes "components_line issue = Inr comps" and "labels_line issue = Inr labs"
  shows "\<exists>p. build_comprehensive_triage_prompt issue [] = Inr p \<and>
           js_includes p (''Ticket Key: '' @ template_val (get_prop issue ''key'')) \<and>
           js_includes p (''Title: '' @ template_or (issue_field issue ''summary'') ''No title provided'') \<and>
           js_includes p ''ANALYSIS FRAMEWORK:'' \<and> js_includes p ''REQUIRED OUTPUT FORMAT (JSON):''"
proof -
  let ?p = "js_join [CHR 0x0A] (triage_lines issue ''No similar tickets found'' comps labs)"
  have "build_comprehensive_triage_prompt issue [] = Inr ?p"
    using assms by (simp add: build_comprehensive_triage_prompt_def similar_text_def)
  moreover have "js_includes ?p (''Ticket Key: '' @ template_val (get_prop issue ''key''))"
    "js_includes ?p (''Title: '' @ template_or (issue_field issue ''summary'') ''No title provided'')"
    "js_includes ?p ''ANALYSIS FRAMEWORK:''" "js_includes ?p ''REQUIRED OUTPUT FORMAT (JSON):''"
    by (rule js_join_includes_member; simp add: triage_lines_def)+
  ultimately show ?thesis by blast
qed

lemma js_includes_suffix: "js_includes p (x @ k) \<Longrightarrow> js_includes p k"
  using js_includes_trans js_includes_mono[of k k x "[]"] by (fastforce simp: js_includes_sublist)

theorem prompt_checks_pass:
  assumes "components_line issue = Inr comps" and "labels_line issue = Inr labs"
    and "issue_field issue ''summary'' = Some (JStr s)" and "s \<noteq> []"
  shows "\<exists>n. prompt_report_of issue = PromptBuilt n [True, True, True, True]"
proof -
  obtain p where p: "build_comprehensive_triage_prompt issue [] = Inr p"
    and k: "js_includes p (''Ticket Key: '' @ template_val (get_prop issue ''key''))"
    and t: "js_includes p (''Title: '' @ template_or (issue_field issue ''summary'') ''No title provided'')"
    and a: "js_includes p (''ANALYSIS FRAMEWORK'' @ '':'')" and r: "js_includes p (''REQUIRED OUTPUT FORMAT'' @ '' (JSON):'')"
    using triage_prompt_contents[OF assms(1,2)] by auto
  have "template_or (issue_field issue ''summary'') ''No title provided'' = s"
    "template_val (issue_field issue ''summary'') = s"
    using assms(3,4) by (simp_all add: template_or_def template_val_def js_or_d_def)
  with k t have "js_includes p (template_val (get_prop issue ''key''))" "js_includes p (template_val (issue_field issue ''summary''))"
    using js_includes_suffix by (metis, metis)
  moreover have "js_includes p ''ANALYSIS FRAMEWORK''" "js_includes p ''REQUIRED OUTPUT FORMAT''"
    using a r js_includes_trans js_includes_mono by (fastforce simp: js_includes_sublist)+
  ultimately show ?thesis using p by (simp add: prompt_report_of_def)
qed


theorem test_api_health_never_available_witness:
  "snd (fst (test_api_run \<lparr>gemini_api_key = Some ''g'', claude_api_key = Some ''c'', port = None\<rparr> (\<lambda>_. Failure) (\<lambda>_. Failure)))
     = HealthPassed (Some (JStr ''healthy'')) False False"
  by (rule test_api_health_never_available) (simp add: server_port_def)

theorem test_api_success_without_keys_witness:
  "fst (fst (test_api_run \<lparr>gemini_api_key = None, claude_api_key = Some [], port = Some ''3000''\<rparr> (\<lambda>_. Failure) (\<lambda>_. Failure)))
     = replicate 3 (ApiSuccess ''Unknown'' None)"
  by (rule test_api_success_without_keys) (simp_all add: env_flag_def server_port_def)

lemma fixture_prompt_checks:
  "list_all (\<lambda>i. \<exists>n. prompt_report_of i = PromptBuilt n [True, True, True, True]) fixture_issues"
proof -
  have h: "list_all (\<lambda>i. \<not> isl (components_line i) \<and> \<not> isl (labels_line i) \<and>
          (case issue_field i ''summary'' of Some (JStr s) \<Rightarrow> s \<noteq> [] | _ \<Rightarrow> False)) fixture_issues"
    by code_simp
  have step: "\<exists>n. prompt_report_of i = PromptBuilt n [True, True, True, True]"
    if a: "\<not> isl (components_line i) \<and> \<not> isl (labels_line i) \<and>
           (case issue_field i ''summary'' of Some (JStr s) \<Rightarrow> s \<noteq> [] | _ \<Rightarrow> False)" for i
  proof -
    obtain c where c: "components_line i = Inr c" using a by (cases "components_line i") auto
    obtain l where l: "labels_line i = Inr l" using a by (cases "labels_line i") auto
    obtain s where "issue_field i ''summary'' = Some (JStr s)" and "s \<noteq> []"
      using a by (auto split: option.splits jsval.splits)
    then show ?thesis by (rule prompt_checks_pass[OF c l])
  qed
  from h show ?thesis unfolding list_all_iff by (blast intro: step)
qed

lemma local_parse_and_priority_results:
  "map parse_report_of [mock_valid, mock_markdown, mock_invalid] =
     [Parsed (Some (JStr ''Standard'')) (Some (JNum 78)) (Some (JStr ''M'')),
      Parsed (Some (JStr ''Fast Track'')) (Some (JNum 82)) (Some (JStr ''S'')), ParseMissing] \<and>
   map priority_report_of fixture_scores =
     [Some (JNum 85, ''Fast Track''), Some (JNum 64, ''Standard''), Some (JNum 35, ''On Hold'')]"
  by code_simp

text \<open>C12: \<^verbatim>\<open>test-api.js\<close> reads \<^verbatim>\<open>services.gemini.available\<close> and
  \<^verbatim>\<open>services.claude.available\<close>, the members of the README's health handler: against
  that handler it passes, showing both vendors available, exactly when both keys are
  set, and otherwise reports the 503 with status \<^verbatim>\<open>degraded\<close>; against the
  \<^verbatim>\<open>healthCheck\<close> that \<^verbatim>\<open>server.js\<close> actually serves, it passes with status
  \<^verbatim>\<open>healthy\<close> and shows neither vendor available, whatever the keys.\<close>

theorem test_api_readme_health:
  "health_report_of (Json (fst (readme_health e ne ''GET'')) (the (snd (readme_health e ne ''GET'')))) =
     (if env_flag (gemini_api_key e) \<and> env_flag (claude_api_key e)
      then HealthPassed (Some (JStr ''healthy'')) True True
      else HealthFailed (Some (JStr ''degraded''))) \<and>
   (server_port e = ''3000'' \<longrightarrow> snd (fst (test_api_run e g c)) = HealthPassed (Some (JStr ''healthy'')) False False)"
  using test_api_health_never_available[of e g c]
  by (simp add: readme_health_def health_report_of_def service_status_def js_get_def get_prop.simps(1) truthy_def Let_def)

theorem test_api_readme_health_witness:
  "health_report_of (Json (fst (readme_health \<lparr>gemini_api_key = Some ''AIza-key'', claude_api_key = None, port = None\<rparr> None ''GET''))
      (the (snd (readme_health \<lparr>gemini_api_key = Some ''AIza-key'', claude_api_key = None, port = None\<rparr> None ''GET'')))) =
     HealthFailed (Some (JStr ''degraded'')) \<and>
   snd (fst (test_api_run \<lparr>gemini_api_key = Some ''AIza-key'', claude_api_key = None, port = None\<rparr> (\<lambda>_. Failure) (\<lambda>_. Failure)))
     = HealthPassed (Some (JStr ''healthy'')) False False"
  using test_api_readme_health[of "\<lparr>gemini_api_key = Some ''AIza-key'', claude_api_key = None, port = None\<rparr>" None
                                  "\<lambda>_. Failure" "\<lambda>_. Failure"]
  by (simp add: env_flag_def server_port_def)

end
