(* ===== verification/Dispatch_Log.thy ===== *)
theory Dispatch_Log
  imports Request_Log
begin

text \<open>
  The entries that \<^verbatim>\<open>estimateEffort\<close>, \<^verbatim>\<open>classifyTheme\<close> and
  \<^verbatim>\<open>analyzePriority\<close> (\<^verbatim>\<open>part_001\<close>) write into the request's
  \<^verbatim>\<open>TriageLogger\<close>, and \<^verbatim>\<open>processTicketWithFullTriage\<close> with them: each
  operation of \<open>Ticket_Inference\<close>, \<open>Backend_Dispatcher\<close> and \<open>Orchestrator\<close> is
  written again with the logger threaded through it (its result paired with the new
  logger, as let-bound state passing). The text of a vendor's exception
  (\<^verbatim>\<open>geminiError.toString()\<close>, \<^verbatim>\<open>claudeError.toString()\<close>) is the input
  \<open>err\<close>, since a provider's \<open>Failure\<close> carries none. Every entry gets the clock
  value \<open>now\<close>. The erasure lemmas show that the logged operations compute the
  results of the unlogged ones.
\<close>

subsection \<open>\<^verbatim>\<open>Object.keys\<close>\<close>

text \<open>An array index key: the canonical decimal form of an integer below
  \<open>2\<^sup>3\<^sup>2 - 1\<close>.\<close>

definition index_key :: "string \<Rightarrow> nat option" where
  "index_key k = (case array_index k of Some i \<Rightarrow> if i < 4294967295 then Some i else None | None \<Rightarrow> None)"

text \<open>\<^verbatim>\<open>Object.keys(v)\<close> (the own keys of ECMAScript's
  \<^verbatim>\<open>OrdinaryOwnPropertyKeys\<close>): the array index keys in ascending order, then the
  other keys in insertion order; an array's and a string's keys are their indices.\<close>

definition js_object_keys :: "jsval \<Rightarrow> string list" where
  "js_object_keys v =
     (case v of
        JObj kvs \<Rightarrow>
          sort_key (\<lambda>k. the (index_key k)) (filter (\<lambda>k. index_key k \<noteq> None) (map fst kvs)) @
          filter (\<lambda>k. index_key k = None) (map fst kvs)
      | JArr xs \<Rightarrow> map nat_to_str [0..<length xs]
      | JStr s \<Rightarrow> map nat_to_str [0..<length s]
      | _ \<Rightarrow> [])"

subsection \<open>\<^verbatim>\<open>estimateEffort\<close>\<close>

text \<open>Lines 603--745: \<open>estimate_effort\<close> and the entry \<^verbatim>\<open>EFFORT_ESTIMATION\<close>
  (lines 732--737) with the loop's \<^verbatim>\<open>maxScore\<close> and the reasons as an array; an
  issue whose fields throw leaves no entry.\<close>

definition estimate_effort_logged :: "int \<Rightarrow> jsval \<Rightarrow> triage_logger \<Rightarrow> (js_error + effort_estimate) \<times> triage_logger" where
  "estimate_effort_logged now issue lg =
     (case read_issue issue of
        Inl e \<Rightarrow> (Inl e, lg)
      | Inr (summary, description, components, labels) \<Rightarrow>
          (let (max_score, est, rs) = effort_loop summary description components effort_indicators (0, ''M'', []);
               (est', rs') = effort_overrides summary (est, rs);
               ind = the (map_of effort_indicators est')
           in (Inr \<lparr>effort_size = est', effort_score = ind_score ind, reasoning = js_join ''; '' rs',
                    effort_description = ind_description ind\<rparr>,
               log_action now ''EFFORT_ESTIMATION''
                 (JObj [(''estimatedEffort'', JStr est'), (''effortScore'', JNum (ind_score ind)),
                        (''reasoning'', JArr (map JStr rs')), (''maxScore'', JNum max_score)]) lg)))"

subsection \<open>\<^verbatim>\<open>classifyTheme\<close>\<close>

text \<open>The Claude stage (lines 1175--1189) and the fall-through of line 1192. The outer
  \<^verbatim>\<open>catch\<close> (\<^verbatim>\<open>THEME_CLASSIFICATION_ERROR\<close>, line 1196) guards only the two
  inner \<^verbatim>\<open>try\<close> blocks, which catch every exception of a vendor, and three
  \<^verbatim>\<open>logAction\<close> calls on string details: it is never reached.\<close>

definition theme_claude_logged ::
  "(backend \<Rightarrow> string) \<Rightarrow> int \<Rightarrow> clients \<Rightarrow> string \<Rightarrow> backend list \<Rightarrow> triage_logger \<Rightarrow>
     ((string \<times> string) \<times> backend list) \<times> triage_logger" where
  "theme_claude_logged err now cs prompt calls lg =
     (case claude_client cs of
        None \<Rightarrow> (((theme_not_identified, both_failed), calls),
                 log_action now ''THEME_CLASSIFICATION_BOTH_FAILED'' (JObj []) lg)
      | Some c \<Rightarrow>
          (case c prompt of
             Reply t \<Rightarrow> (((js_trim t, ''Claude Sonnet 3.5''), calls @ [Claude]),
                         log_action now ''THEME_CLASSIFICATION_SUCCESS''
                           (JObj [(''theme'', JStr (js_trim t)), (''model'', JStr ''Claude Sonnet 3.5'')]) lg)
           | Failure \<Rightarrow> (((theme_not_identified, both_failed), calls @ [Claude]),
                         log_action now ''THEME_CLASSIFICATION_BOTH_FAILED'' (JObj [])
                           (log_action now ''THEME_CLAUDE_FAILED'' (JObj [(''error'', JStr (err Claude))]) lg))))"

text \<open>The dispatch of lines 1157--1193: Gemini, then the Claude stage.\<close>

definition classify_theme_logged ::
  "(backend \<Rightarrow> string) \<Rightarrow> int \<Rightarrow> clients \<Rightarrow> string \<Rightarrow> triage_logger \<Rightarrow>
     ((string \<times> string) \<times> backend list) \<times> triage_logger" where
  "classify_theme_logged err now cs prompt lg =
     (case gemini_client cs of
        None \<Rightarrow> theme_claude_logged err now cs prompt [] lg
      | Some g \<Rightarrow>
          (case g prompt of
             Reply t \<Rightarrow> (((js_trim t, ''Gemini Flash 2.0''), [Gemini]),
                         log_action now ''THEME_CLASSIFICATION_SUCCESS''
                           (JObj [(''theme'', JStr (js_trim t)), (''model'', JStr ''Gemini Flash 2.0'')]) lg)
           | Failure \<Rightarrow> theme_claude_logged err now cs prompt [Gemini]
                         (log_action now ''THEME_GEMINI_FAILED'' (JObj [(''error'', JStr (err Gemini))]) lg)))"

text \<open>\<^verbatim>\<open>classifyTheme\<close> as a whole (lines 1029--1199): the product context and the
  prompt are computed before the \<^verbatim>\<open>try\<close>; their exception leaves the function
  with no entry of its own.\<close>

definition theme_step_logged ::
  "(backend \<Rightarrow> string) \<Rightarrow> int \<Rightarrow> clients \<Rightarrow> prompt_builders \<Rightarrow> jsval \<Rightarrow> triage_logger \<Rightarrow>
     (js_error + (string \<times> string) \<times> backend list) \<times> triage_logger" where
  "theme_step_logged err now cs pb issue lg =
     (case get_product_context issue of
        Inl e \<Rightarrow> (Inl e, lg)
      | Inr pc \<Rightarrow>
          (case build_theme pb issue pc of
             Inl e \<Rightarrow> (Inl e, lg)
           | Inr prompt \<Rightarrow> (let (r, lg') = classify_theme_logged err now cs prompt lg in (Inr r, lg'))))"

subsection \<open>\<^verbatim>\<open>analyzePriority\<close>\<close>

text \<open>The details of \<^verbatim>\<open>PRIORITY_ANALYSIS_SUCCESS\<close> (lines 1356--1360 and
  1399--1403).\<close>

definition priority_success_details :: "jsval option \<Rightarrow> string \<Rightarrow> jsval" where
  "priority_success_details parsed m =
     defined_members [(''recommendation'', opt_get parsed ''priority_recommendation''),
                      (''score'', opt_get (opt_get parsed ''scores'') ''overall_priority''),
                      (''model'', Some (JStr m))]"

text \<open>\<^verbatim>\<open>!!parsed\<close>, \<^verbatim>\<open>!!(parsed && parsed.scores)\<close> and
  \<^verbatim>\<open>parsed ? Object.keys(parsed) : null\<close> of \<^verbatim>\<open>PRIORITY_CLAUDE_PARSE_RESULT\<close>
  (lines 1390--1395); \<^verbatim>\<open>substring(0, n)\<close> is \<open>take n\<close>.\<close>

definition parse_result_details :: "jsval option \<Rightarrow> string \<Rightarrow> jsval" where
  "parse_result_details parsed text =
     JObj [(''parsed'', JBool (truthy parsed)),
           (''hasScores'', JBool (truthy parsed \<and> truthy (opt_get parsed ''scores''))),
           (''parseResult'', (case parsed of
                                Some p \<Rightarrow> if js_truthy p then JArr (map JStr (js_object_keys p)) else JNull
                              | None \<Rightarrow> JNull)),
           (''rawResponse'', JStr (take 500 text))]"

text \<open>The Claude stage (lines 1368--1415) and the fall-through of lines 1418--1419.
  A reply without text throws at \<^verbatim>\<open>text.length\<close>, before
  \<^verbatim>\<open>PRIORITY_CLAUDE_RESPONSE\<close>: it is a \<open>Failure\<close>.\<close>

definition priority_claude_logged ::
  "(backend \<Rightarrow> string) \<Rightarrow> int \<Rightarrow> clients \<Rightarrow> string \<Rightarrow> backend list \<Rightarrow> triage_logger \<Rightarrow>
     ((jsval option \<times> string) \<times> backend list) \<times> triage_logger" where
  "priority_claude_logged err now cs prompt calls lg =
     (case claude_client cs of
        None \<Rightarrow> (((None, both_failed), calls), log_action now ''PRIORITY_ANALYSIS_BOTH_FAILED'' (JObj []) lg)
      | Some c \<Rightarrow>
          (let lg1 = log_action now ''PRIORITY_CLAUDE_ATTEMPT'' (JObj [(''promptLength'', JNum (int (length prompt)))]) lg
           in case c prompt of
                Failure \<Rightarrow>
                  (((None, both_failed), calls @ [Claude]),
                   log_action now ''PRIORITY_ANALYSIS_BOTH_FAILED'' (JObj [])
                     (log_action now ''PRIORITY_CLAUDE_FAILED'' (JObj [(''error'', JStr (err Claude))]) lg1))
              | Reply text \<Rightarrow>
                  (let lg2 = log_action now ''PRIORITY_CLAUDE_RESPONSE''
                               (JObj [(''responseLength'', JNum (int (length text))),
                                      (''responsePreview'', JStr (take 200 text)),
                                      (''hasContent'', JBool (text \<noteq> []))]) lg1;
                       parsed = parse_AI_response text;
                       lg3 = log_action now ''PRIORITY_CLAUDE_PARSE_RESULT'' (parse_result_details parsed text) lg2
                   in if truthy parsed \<and> truthy (opt_get parsed ''scores'')
                      then (((parsed, ''Claude Sonnet 3.5''), calls @ [Claude]),
                            log_action now ''PRIORITY_ANALYSIS_SUCCESS''
                              (priority_success_details parsed ''Claude Sonnet 3.5'') lg3)
                      else (((None, both_failed), calls @ [Claude]),
                            log_action now ''PRIORITY_ANALYSIS_BOTH_FAILED'' (JObj [])
                              (log_action now ''PRIORITY_CLAUDE_PARSE_FAILED''
                                 (JObj [(''reason'', JStr ''Parsed result missing scores''),
                                        (''parsed'', (case parsed of None \<Rightarrow> JNull | Some p \<Rightarrow> p)),
                                        (''rawResponse'', JStr (take 500 text))]) lg3)))))"

text \<open>The Gemini stage (lines 1346--1366): a reply that does not parse to an analysis
  with scores falls through to Claude with no entry.\<close>

definition priority_dispatch_logged ::
  "(backend \<Rightarrow> string) \<Rightarrow> int \<Rightarrow> clients \<Rightarrow> string \<Rightarrow> triage_logger \<Rightarrow>
     ((jsval option \<times> string) \<times> backend list) \<times> triage_logger" where
  "priority_dispatch_logged err now cs prompt lg =
     (case gemini_client cs of
        None \<Rightarrow> priority_claude_logged err now cs prompt [] lg
      | Some g \<Rightarrow>
          (case g prompt of
             Failure \<Rightarrow> priority_claude_logged err now cs prompt [Gemini]
                         (log_action now ''PRIORITY_GEMINI_FAILED'' (JObj [(''error'', JStr (err Gemini))]) lg)
           | Reply text \<Rightarrow>
               (let parsed = parse_AI_response text
                in if truthy parsed \<and> truthy (opt_get parsed ''scores'')
                   then (((parsed, ''Gemini Flash 2.0''), [Gemini]),
                         log_action now ''PRIORITY_ANALYSIS_SUCCESS''
                           (priority_success_details parsed ''Gemini Flash 2.0'') lg)
                   else priority_claude_logged err now cs prompt [Gemini] lg)))"

text \<open>The \<^verbatim>\<open>catch\<close> of lines 1421--1424.\<close>

definition priority_error ::
  "int \<Rightarrow> js_error \<Rightarrow> triage_logger \<Rightarrow> ((jsval option \<times> string) \<times> backend list) \<times> triage_logger" where
  "priority_error now e lg =
     (((None, ''Error occurred''), []), log_action now ''PRIORITY_ANALYSIS_ERROR'' (JObj [(''error'', JStr (error_text e))]) lg)"

text \<open>\<^verbatim>\<open>analyzePriority\<close> as a whole (lines 1202--1425): the effort estimate (and
  its entry), the product context check (\<^verbatim>\<open>PRODUCT_CONTEXT_ERROR\<close>, lines
  1211--1218), the prompt (\<^verbatim>\<open>PRIORITY_PROMPT_BUILT\<close>, lines 1339--1343) and the
  dispatch, all in one \<^verbatim>\<open>try\<close>.\<close>

definition analyze_priority_logged ::
  "(backend \<Rightarrow> string) \<Rightarrow> int \<Rightarrow> clients \<Rightarrow> prompt_builders \<Rightarrow> jsval \<Rightarrow> triage_logger \<Rightarrow>
     ((jsval option \<times> string) \<times> backend list) \<times> triage_logger" where
  "analyze_priority_logged err now cs pb issue lg =
     (case estimate_effort_logged now issue lg of
        (Inl e, lg1) \<Rightarrow> priority_error now e lg1
      | (Inr eff, lg1) \<Rightarrow>
          (case get_product_context issue of
             Inl e \<Rightarrow> priority_error now e lg1
           | Inr pc \<Rightarrow>
               (case product_context.details pc of
                  None \<Rightarrow> (((None, ''Error - Product context missing''), []),
                           log_action now ''PRODUCT_CONTEXT_ERROR''
                             (JObj [(''error'', JStr ''Product context is missing''),
                                    (''product'', JStr (product pc)), (''confidence'', JStr (confidence pc))]) lg1)
                | Some _ \<Rightarrow>
                    (case build_priority pb issue pc eff of
                       Inl e \<Rightarrow> priority_error now e lg1
                     | Inr prompt \<Rightarrow>
                         priority_dispatch_logged err now cs prompt
                           (log_action now ''PRIORITY_PROMPT_BUILT''
                              (JObj [(''promptLength'', JNum (int (length prompt))),
                                     (''productContext'', JStr (product pc)),
                                     (''effortEstimation'', JStr (effort_size eff))]) lg1)))))"

subsection \<open>\<^verbatim>\<open>processTicketWithFullTriage\<close> with the entries of its callees\<close>

text \<open>Step 4 of \<^verbatim>\<open>processTicketWithFullTriage\<close> (lines 269--289), entered with
  the result \<open>r\<close> after the theme and the vendors \<open>c1\<close> called so far.\<close>

definition ticket_priority_traced ::
  "(backend \<Rightarrow> string) \<Rightarrow> clients \<Rightarrow> prompt_builders \<Rightarrow> jsval \<Rightarrow> ticket_result \<Rightarrow> backend list \<Rightarrow> int \<Rightarrow>
     triage_logger \<Rightarrow> (ticket_result \<times> backend list) \<times> triage_logger" where
  "ticket_priority_traced err cs pb issue r c1 now lg =
     (let lg1 = log_action now ''PRIORITY_ANALYSIS_START'' (JObj []) lg;
          (((analysis, pm), c2), lg2) = analyze_priority_logged err now cs pb issue lg1
      in if truthy analysis \<and> truthy (opt_get analysis ''scores'')
         then ((r\<lparr>tr_priority_model := Some pm, tr_analysis := analysis\<rparr>, c1 @ c2),
               log_action now ''PRIORITY_ANALYSIS_SUCCESS''
                 (defined_members [(''recommendation'', opt_get analysis ''priority_recommendation''),
                                   (''score'', opt_get (opt_get analysis ''scores'') ''overall_priority''),
                                   (''model'', Some (JStr pm))]) lg2)
         else ((r\<lparr>tr_priority_model := Some ''Failed''\<rparr>, c1 @ c2),
               log_action now ''PRIORITY_ANALYSIS_FAILED'' (JObj []) lg2))"

text \<open>\<open>process_ticket_logged\<close> of \<open>Request_Log\<close> with \<^verbatim>\<open>classifyTheme\<close> and
  \<^verbatim>\<open>analyzePriority\<close> writing their own entries into the same logger (lines
  227--301).\<close>

definition process_ticket_traced ::
  "(backend \<Rightarrow> string) \<Rightarrow> clients \<Rightarrow> prompt_builders \<Rightarrow> jsval \<Rightarrow> jsval option \<Rightarrow> int \<Rightarrow> triage_logger \<Rightarrow>
     (ticket_result \<times> backend list) \<times> triage_logger" where
  "process_ticket_traced err cs pb key issue_data now lg =
     (let lg1 = log_action now ''PROCESSING_START'' (JObj [(''status'', JStr ''Starting'')]) lg;
          lg2 = log_action now ''USING_PROVIDED_DATA'' (JObj []) lg1;
          issue = js_or_d issue_data (default_issue key);
          lg3 = log_action now ''ISSUE_DATA_READY''
                  (defined_members [(''summary'', issue_field issue ''summary''),
                                    (''reporter'', opt_get (issue_field issue ''reporter'') ''displayName'')]) lg2;
          lg4 = log_action now ''THEME_CLASSIFICATION_START'' (JObj []) lg3;
          (th, lg5) = theme_step_logged err now cs pb issue lg4
      in case th of
           Inl e \<Rightarrow> ((ticket_init, []), log_action now ''ERROR'' (JObj [(''error'', JStr (error_text e))]) lg5)
         | Inr ((theme, tm), c1) \<Rightarrow>
             ticket_priority_traced err cs pb issue
               (ticket_init\<lparr>tr_model_used := Some tm, tr_theme := Some theme, tr_theme_model := Some tm\<rparr>) c1 now
               (log_action now ''THEME_CLASSIFICATION_COMPLETE'' (JObj [(''theme'', JStr theme)]) lg5))"

text \<open>The entries that end \<^verbatim>\<open>analyzePriority\<close>: one of them is its last entry.\<close>

definition priority_outcome :: "string \<Rightarrow> bool" where
  "priority_outcome a \<longleftrightarrow>
     a \<in> {''PRIORITY_ANALYSIS_SUCCESS'', ''PRIORITY_ANALYSIS_BOTH_FAILED'', ''PRIORITY_ANALYSIS_ERROR'',
          ''PRODUCT_CONTEXT_ERROR''}"

subsection \<open>Reading the log\<close>

text \<open>The actions a call appended, from logger \<open>lg\<close> to logger \<open>lg'\<close>.\<close>

definition new_actions :: "triage_logger \<Rightarrow> triage_logger \<Rightarrow> string list" where
  "new_actions lg lg' = map action (drop (length (logs lg)) (logs lg'))"

text \<open>A trace that ends with the outcome \<open>a\<close> and has no other outcome entry.\<close>

definition outcome_trace :: "string list \<Rightarrow> string \<Rightarrow> bool" where
  "outcome_trace acts a \<longleftrightarrow> acts \<noteq> [] \<and> last acts = a \<and> \<not> list_ex priority_outcome (butlast acts)"

text \<open>The actions \<^verbatim>\<open>classifyTheme\<close> writes.\<close>

definition theme_action :: "string \<Rightarrow> bool" where
  "theme_action a \<longleftrightarrow>
     a \<in> {''THEME_GEMINI_FAILED'', ''THEME_CLAUDE_FAILED'', ''THEME_CLASSIFICATION_SUCCESS'',
          ''THEME_CLASSIFICATION_BOTH_FAILED''}"

declare index_key_def [js_eval] js_object_keys_def [js_eval] estimate_effort_logged_def [js_eval]
  theme_claude_logged_def [js_eval] classify_theme_logged_def [js_eval] theme_step_logged_def [js_eval]
  priority_success_details_def [js_eval] parse_result_details_def [js_eval]
  priority_claude_logged_def [js_eval] priority_dispatch_logged_def [js_eval] priority_error_def [js_eval]
  analyze_priority_logged_def [js_eval] ticket_priority_traced_def [js_eval] process_ticket_traced_def [js_eval] priority_outcome_def [js_eval]

subsection \<open>Erasure: the logged operations compute the same results\<close>

lemma estimate_effort_logged_result: "fst (estimate_effort_logged now issue lg) = estimate_effort issue"
  by (simp add: estimate_effort_logged_def estimate_effort_def Let_def split: sum.splits prod.splits)

lemma classify_theme_logged_result: "fst (classify_theme_logged err now cs prompt lg) = classify_theme cs prompt"
  by (simp add: classify_theme_logged_def classify_theme_def theme_claude_logged_def theme_claude_def
           split: option.splits reply.splits)

lemma theme_step_logged_result: "fst (theme_step_logged err now cs pb issue lg) = theme_step cs pb issue"
  by (simp add: theme_step_logged_def theme_step_def case_prod_unfold classify_theme_logged_result
           split: sum.splits)

text \<open>A plain key is read as \<^verbatim>\<open>undefined\<close> from a falsy value: \<^verbatim>\<open>p.scores\<close>
  truthy implies \<^verbatim>\<open>p\<close> truthy.\<close>

lemma truthy_get_plain: "plain_key k \<Longrightarrow> truthy (get_prop p k) \<Longrightarrow> js_truthy p"
  by (cases p) (auto simp: plain_key_def)

lemma scores_truthy: "truthy (get_prop p ''scores'') \<Longrightarrow> js_truthy p"
  by (rule truthy_get_plain) simp_all

lemma accepted_parse:
  "(truthy parsed \<and> truthy (opt_get parsed ''scores'')) =
     (case parsed of None \<Rightarrow> False | Some p \<Rightarrow> truthy (get_prop p ''scores''))"
  by (auto simp: opt_get_def scores_truthy split: option.splits)

lemma priority_claude_logged_result:
  "fst (priority_claude_logged err now cs prompt calls lg) = priority_claude cs prompt calls"
  by (auto simp: priority_claude_logged_def priority_claude_def priority_attempt_def Let_def accepted_parse
           split: option.splits reply.splits)

lemma priority_dispatch_logged_result:
  "fst (priority_dispatch_logged err now cs prompt lg) = priority_dispatch cs prompt"
  by (auto simp: priority_dispatch_logged_def priority_dispatch_def priority_attempt_def Let_def accepted_parse
                 priority_claude_logged_result split: option.splits reply.splits)

lemma analyze_priority_logged_result:
  "fst (analyze_priority_logged err now cs pb issue lg) = analyze_priority cs (priority_prep pb issue)"
proof -
  obtain r lg1 where e: "estimate_effort_logged now issue lg = (r, lg1)" by fastforce
  then have r: "r = estimate_effort issue" using estimate_effort_logged_result[of now issue lg] by simp
  show ?thesis
    using e r priority_dispatch_logged_result
    by (auto simp: analyze_priority_logged_def priority_prep_def analyze_priority_def priority_error_def
             split: sum.splits option.splits)
qed

subsection \<open>The order of the entries\<close>


lemma logger_run_trans: "logger_run b c \<Longrightarrow> logger_run a b \<Longrightarrow> logger_run a c"
  by (induction rule: logger_run.induct) (auto intro: logger_run.step)

lemma logger_run_prefix: "logger_run lg lg' \<Longrightarrow> prefix (logs lg) (logs lg')"
  using logger_run_grows by blast

lemma new_actions_self [simp]: "new_actions lg lg = []"
  by (simp add: new_actions_def)

lemma new_actions_log_action [simp]:
  "prefix (logs lg) (logs lg') \<Longrightarrow> new_actions lg (log_action now a d lg') = new_actions lg lg' @ [a]"
  by (auto simp: new_actions_def prefix_def)

lemma new_actions_trans:
  "prefix (logs a) (logs b) \<Longrightarrow> prefix (logs b) (logs c) \<Longrightarrow> new_actions a c = new_actions a b @ new_actions b c"
  by (auto simp: new_actions_def prefix_def)

lemma outcome_trace_append:
  "\<not> list_ex priority_outcome xs \<Longrightarrow> outcome_trace ys a \<Longrightarrow> outcome_trace (xs @ ys) a"
  by (auto simp: outcome_trace_def butlast_append)

lemma theme_claude_logged_run: "logger_run lg (snd (theme_claude_logged err now cs prompt calls lg))"
  by (auto simp: theme_claude_logged_def split: option.splits reply.splits intro!: logger_run.step logger_run.start)

lemma classify_theme_logged_run: "logger_run lg (snd (classify_theme_logged err now cs prompt lg))"
  by (auto simp: classify_theme_logged_def split: option.splits reply.splits
           intro!: logger_run.step logger_run.start theme_claude_logged_run
           intro: logger_run_trans[OF theme_claude_logged_run])

lemma priority_claude_logged_run: "logger_run lg (snd (priority_claude_logged err now cs prompt calls lg))"
  by (auto simp: priority_claude_logged_def Let_def split: option.splits reply.splits
           intro!: logger_run.step logger_run.start)

lemma priority_dispatch_logged_run: "logger_run lg (snd (priority_dispatch_logged err now cs prompt lg))"
  by (auto simp: priority_dispatch_logged_def Let_def split: option.splits reply.splits
           intro!: logger_run.step logger_run.start priority_claude_logged_run
           intro: logger_run_trans[OF priority_claude_logged_run])

lemma truthy_some: "truthy x \<Longrightarrow> \<exists>v. x = Some v"
  by (cases x) simp_all

lemma outcome_trace_step:
  assumes "logger_run lg lg'" "logger_run lg' lg''" "\<not> list_ex priority_outcome (new_actions lg lg')"
    "outcome_trace (new_actions lg' lg'') a"
  shows "outcome_trace (new_actions lg lg'') a"
  using assms new_actions_trans[OF logger_run_prefix logger_run_prefix, of lg lg' lg'']
  by (simp add: outcome_trace_append)

lemma priority_claude_logged_outcome:
  "outcome_trace (new_actions lg (snd (priority_claude_logged err now cs prompt calls lg)))
     (if fst (fst (fst (priority_claude_logged err now cs prompt calls lg))) = None
      then ''PRIORITY_ANALYSIS_BOTH_FAILED'' else ''PRIORITY_ANALYSIS_SUCCESS'')"
  by (auto simp: priority_claude_logged_def Let_def outcome_trace_def priority_outcome_def
           split: option.splits reply.splits dest: truthy_some)

lemma priority_dispatch_logged_outcome:
  "outcome_trace (new_actions lg (snd (priority_dispatch_logged err now cs prompt lg)))
     (if fst (fst (fst (priority_dispatch_logged err now cs prompt lg))) = None
      then ''PRIORITY_ANALYSIS_BOTH_FAILED'' else ''PRIORITY_ANALYSIS_SUCCESS'')"
proof (cases "gemini_client cs")
  case None
  then show ?thesis using priority_claude_logged_outcome by (simp add: priority_dispatch_logged_def)
next
  case (Some g)
  show ?thesis
  proof (cases "g prompt")
    case (Reply t)
    then show ?thesis using Some priority_claude_logged_outcome[of lg]
      by (auto simp: priority_dispatch_logged_def Let_def outcome_trace_def priority_outcome_def
               dest: truthy_some)
  next
    case Failure
    let ?lg = "log_action now ''PRIORITY_GEMINI_FAILED'' (JObj [(''error'', JStr (err Gemini))]) lg"
    have "outcome_trace (new_actions lg (snd (priority_claude_logged err now cs prompt [Gemini] ?lg)))
            (if fst (fst (fst (priority_claude_logged err now cs prompt [Gemini] ?lg))) = None
             then ''PRIORITY_ANALYSIS_BOTH_FAILED'' else ''PRIORITY_ANALYSIS_SUCCESS'')"
      by (rule outcome_trace_step[OF logger_run.step[OF logger_run.start] priority_claude_logged_run _
                                     priority_claude_logged_outcome])
         (simp add: priority_outcome_def)
    then show ?thesis using Some Failure by (simp add: priority_dispatch_logged_def)
  qed
qed

lemma estimate_effort_logged_trace:
  "logger_run lg (snd (estimate_effort_logged now issue lg)) \<and>
   \<not> list_ex priority_outcome (new_actions lg (snd (estimate_effort_logged now issue lg)))"
  by (auto simp: estimate_effort_logged_def Let_def priority_outcome_def split: sum.splits prod.splits
           intro!: logger_run.step logger_run.start)

lemma analyze_priority_logged_outcome:
  "\<exists>a. outcome_trace (new_actions lg (snd (analyze_priority_logged err now cs pb issue lg))) a \<and>
       priority_outcome a \<and>
       (a = ''PRIORITY_ANALYSIS_SUCCESS'') = (fst (fst (fst (analyze_priority_logged err now cs pb issue lg))) \<noteq> None)"
proof -
  obtain r lg1 where e: "estimate_effort_logged now issue lg = (r, lg1)" by fastforce
  have run1: "logger_run lg lg1" and quiet1: "\<not> list_ex priority_outcome (new_actions lg lg1)"
    using estimate_effort_logged_trace[of lg now issue] e by simp_all
  have end1: "\<exists>a'. outcome_trace (new_actions lg (log_action now a d lg1)) a' \<and> priority_outcome a' \<and>
                   (a' = ''PRIORITY_ANALYSIS_SUCCESS'') = False"
    if "priority_outcome a" "a \<noteq> ''PRIORITY_ANALYSIS_SUCCESS''" for a d
    using that quiet1 logger_run_prefix[OF run1] by (auto simp: outcome_trace_def)
  show ?thesis
  proof (cases r)
    case (Inl x)
    then show ?thesis using e end1[of "''PRIORITY_ANALYSIS_ERROR''"]
      by (simp add: analyze_priority_logged_def priority_error_def priority_outcome_def)
  next
    case (Inr eff)
    show ?thesis
    proof (cases "get_product_context issue")
      case (Inl x)
      then show ?thesis using e Inr end1[of "''PRIORITY_ANALYSIS_ERROR''"]
        by (simp add: analyze_priority_logged_def priority_error_def priority_outcome_def)
    next
      case pc: (Inr pc)
      show ?thesis
      proof (cases "product_context.details pc")
        case None
        then show ?thesis using e Inr pc end1[of "''PRODUCT_CONTEXT_ERROR''"]
          by (simp add: analyze_priority_logged_def priority_outcome_def)
      next
        case (Some d)
        show ?thesis
        proof (cases "build_priority pb issue pc eff")
          case (Inl x)
          then show ?thesis using e Inr pc Some end1[of "''PRIORITY_ANALYSIS_ERROR''"]
            by (simp add: analyze_priority_logged_def priority_error_def priority_outcome_def)
        next
          case (Inr prompt)
          let ?lg2 = "log_action now ''PRIORITY_PROMPT_BUILT''
                        (JObj [(''promptLength'', JNum (int (length prompt))), (''productContext'', JStr (product pc)),
                               (''effortEstimation'', JStr (effort_size eff))]) lg1"
          let ?R = "priority_dispatch_logged err now cs prompt ?lg2"
          have "outcome_trace (new_actions lg (snd ?R))
                  (if fst (fst (fst ?R)) = None then ''PRIORITY_ANALYSIS_BOTH_FAILED'' else ''PRIORITY_ANALYSIS_SUCCESS'')"
            by (rule outcome_trace_step[OF logger_run.step[OF run1] priority_dispatch_logged_run _
                                           priority_dispatch_logged_outcome])
               (use quiet1 logger_run_prefix[OF run1] in \<open>simp add: priority_outcome_def\<close>)
          then have "\<exists>a. outcome_trace (new_actions lg (snd ?R)) a \<and> priority_outcome a \<and>
                         (a = ''PRIORITY_ANALYSIS_SUCCESS'') = (fst (fst (fst ?R)) \<noteq> None)"
            by (intro exI[of _ "if fst (fst (fst ?R)) = None then ''PRIORITY_ANALYSIS_BOTH_FAILED''
                                else ''PRIORITY_ANALYSIS_SUCCESS''"]) (simp add: priority_outcome_def)
          then show ?thesis using e \<open>r = Inr eff\<close> pc Some Inr by (simp add: analyze_priority_logged_def)
        qed
      qed
    qed
  qed
qed

lemma theme_step_logged_trace:
  "logger_run lg (snd (theme_step_logged err now cs pb issue lg)) \<and>
   list_all theme_action (new_actions lg (snd (theme_step_logged err now cs pb issue lg)))"
proof -
  have c: "logger_run lg (snd (theme_claude_logged err now cs prompt calls lg)) \<and>
           list_all theme_action (new_actions lg (snd (theme_claude_logged err now cs prompt calls lg)))"
    for lg prompt calls
    by (auto simp: theme_claude_logged_def theme_action_def split: option.splits reply.splits
             intro!: logger_run.step logger_run.start)
  have "logger_run lg (snd (classify_theme_logged err now cs prompt lg)) \<and>
        list_all theme_action (new_actions lg (snd (classify_theme_logged err now cs prompt lg)))" for prompt
  proof (cases "gemini_client cs")
    case (Some g)
    let ?lg = "log_action now ''THEME_GEMINI_FAILED'' (JObj [(''error'', JStr (err Gemini))]) lg"
    have r: "logger_run lg ?lg" by (rule logger_run.step[OF logger_run.start])
    have "logger_run lg (snd (theme_claude_logged err now cs prompt [Gemini] ?lg)) \<and>
          list_all theme_action (new_actions lg (snd (theme_claude_logged err now cs prompt [Gemini] ?lg)))"
      using c[of ?lg prompt "[Gemini]"] logger_run_trans[OF _ r]
            new_actions_trans[OF logger_run_prefix[OF r] logger_run_prefix, of "snd (theme_claude_logged err now cs prompt [Gemini] ?lg)"]
      by (simp add: theme_action_def)
    then show ?thesis using Some c
      by (auto simp: classify_theme_logged_def theme_action_def split: reply.splits
               intro!: logger_run.step logger_run.start)
  qed (simp add: classify_theme_logged_def c)
  then show ?thesis
    by (auto simp: theme_step_logged_def case_prod_unfold Let_def split: sum.splits intro: logger_run.start)
qed

lemma outcome_trace_count:
  "outcome_trace acts a \<Longrightarrow>
     length (filter ((=) ''PRIORITY_ANALYSIS_SUCCESS'') acts) = (if a = ''PRIORITY_ANALYSIS_SUCCESS'' then 1 else 0)"
proof -
  assume o: "outcome_trace acts a"
  then have acts: "acts = butlast acts @ [a]" and q: "\<not> list_ex priority_outcome (butlast acts)"
    by (metis append_butlast_last_id outcome_trace_def) (simp add: o[unfolded outcome_trace_def])
  have "filter ((=) ''PRIORITY_ANALYSIS_SUCCESS'') (butlast acts) = []"
    using q by (auto simp: filter_empty_conv list_ex_iff priority_outcome_def)
  then show ?thesis by (subst acts) simp
qed

lemma priority_claude_logged_some:
  "fst (fst (fst (priority_claude_logged err now cs prompt calls lg))) = Some p \<Longrightarrow> truthy (get_prop p ''scores'')"
  by (auto simp: priority_claude_logged_def Let_def accepted_parse split: option.splits reply.splits if_splits)

lemma analyze_priority_logged_some:
  "fst (fst (fst (analyze_priority_logged err now cs pb issue lg))) = Some p \<Longrightarrow> truthy (get_prop p ''scores'')"
  by (auto simp: analyze_priority_logged_def priority_dispatch_logged_def priority_error_def Let_def accepted_parse
           split: option.splits reply.splits if_splits sum.splits prod.splits dest: priority_claude_logged_some)

lemma run_new_actions:
  "logger_run L L' \<Longrightarrow> prefix (logs lg) (logs L) \<Longrightarrow> new_actions lg L' = new_actions lg L @ new_actions L L'"
  by (rule new_actions_trans) (simp_all add: logger_run_prefix)

lemma run_prefix: "logger_run L L' \<Longrightarrow> prefix (logs lg) (logs L) \<Longrightarrow> prefix (logs lg) (logs L')"
  using logger_run_prefix prefix_order.trans by blast

lemmas theme_step_logged_run = conjunct1[OF theme_step_logged_trace]

lemma analyze_priority_logged_run: "logger_run lg (snd (analyze_priority_logged err now cs pb issue lg))"
proof -
  obtain r lg1 where e: "estimate_effort_logged now issue lg = (r, lg1)" by fastforce
  have run1: "logger_run lg lg1" using estimate_effort_logged_trace[of lg now issue] e by simp
  have step: "logger_run lg (log_action now a d lg1)" for a d by (rule logger_run.step[OF run1])
  show ?thesis using e step logger_run_trans[OF priority_dispatch_logged_run step]
    by (auto simp: analyze_priority_logged_def priority_error_def split: sum.splits option.splits)
qed

lemma analyze_priority_logged_count:
  "length (filter ((=) ''PRIORITY_ANALYSIS_SUCCESS'') (new_actions lg (snd (analyze_priority_logged err now cs pb issue lg)))) =
     (if fst (fst (fst (analyze_priority_logged err now cs pb issue lg))) = None then 0 else 1)"
proof -
  obtain a where o: "outcome_trace (new_actions lg (snd (analyze_priority_logged err now cs pb issue lg))) a"
    and eq: "(a = ''PRIORITY_ANALYSIS_SUCCESS'') = (fst (fst (fst (analyze_priority_logged err now cs pb issue lg))) \<noteq> None)"
    using analyze_priority_logged_outcome by blast
  show ?thesis using outcome_trace_count[OF o] eq by simp
qed

lemma theme_step_logged_count:
  "filter ((=) ''PRIORITY_ANALYSIS_SUCCESS'') (new_actions lg (snd (theme_step_logged err now cs pb issue lg))) = []"
proof -
  have f: "list_all P xs \<Longrightarrow> \<not> P a \<Longrightarrow> filter ((=) a) xs = []" for P xs and a :: string
    by (induction xs) auto
  show ?thesis
    by (rule f[OF conjunct2[OF theme_step_logged_trace]]) (simp add: theme_action_def)
qed

lemma ticket_priority_traced_run: "logger_run lg (snd (ticket_priority_traced err cs pb issue r c1 now lg))"
proof -
  let ?lg1 = "log_action now ''PRIORITY_ANALYSIS_START'' (JObj []) lg"
  have "logger_run lg (snd (analyze_priority_logged err now cs pb issue ?lg1))"
    by (rule logger_run_trans[OF analyze_priority_logged_run logger_run.step[OF logger_run.start]])
  then show ?thesis
    by (auto simp: ticket_priority_traced_def case_prod_unfold Let_def intro: logger_run.step)
qed

lemma ticket_priority_traced_count:
  assumes r: "tr_analysis r = None"
  shows "length (filter ((=) ''PRIORITY_ANALYSIS_SUCCESS'') (new_actions lg (snd (ticket_priority_traced err cs pb issue r c1 now lg)))) =
     (if tr_analysis (fst (fst (ticket_priority_traced err cs pb issue r c1 now lg))) = None then 0 else 2)"
proof -
  let ?lg1 = "log_action now ''PRIORITY_ANALYSIS_START'' (JObj []) lg"
  obtain a pm c2 lg2 where R: "analyze_priority_logged err now cs pb issue ?lg1 = (((a, pm), c2), lg2)"
    by (metis prod.exhaust)
  have run: "logger_run ?lg1 lg2" using analyze_priority_logged_run[of ?lg1 err now cs pb issue] R by simp
  have na: "new_actions lg lg2 = [''PRIORITY_ANALYSIS_START''] @ new_actions ?lg1 lg2"
    using run_new_actions[OF run, of lg] by simp
  have p: "prefix (logs lg) (logs lg2)" using run_prefix[OF run, of lg] by simp
  have c: "length (filter ((=) ''PRIORITY_ANALYSIS_SUCCESS'') (new_actions ?lg1 lg2)) = (if a = None then 0 else 1)"
    using analyze_priority_logged_count[of ?lg1 err now cs pb issue] R by simp
  have s: "a = Some v \<Longrightarrow> truthy (get_prop v ''scores'')" for v
    using analyze_priority_logged_some[of err now cs pb issue ?lg1 v] R by simp
  show ?thesis
  proof (cases a)
    case None
    then show ?thesis using R na p c r by (simp add: ticket_priority_traced_def)
  next
    case (Some v)
    then show ?thesis using R na p c s[OF Some] scores_truthy[OF s[OF Some]]
      by (simp add: ticket_priority_traced_def opt_get_def)
  qed
qed

lemma process_ticket_traced_count:
  "length (filter ((=) ''PRIORITY_ANALYSIS_SUCCESS'') (new_actions lg (snd (process_ticket_traced err cs pb key issue now lg)))) =
     (if tr_analysis (fst (fst (process_ticket_traced err cs pb key issue now lg))) = None then 0 else 2)"
proof -
  let ?i = "js_or_d issue (default_issue key)"
  let ?lg4 = "log_action now ''THEME_CLASSIFICATION_START'' (JObj [])
               (log_action now ''ISSUE_DATA_READY''
                  (defined_members [(''summary'', issue_field ?i ''summary''),
                                    (''reporter'', opt_get (issue_field ?i ''reporter'') ''displayName'')])
                  (log_action now ''USING_PROVIDED_DATA'' (JObj [])
                     (log_action now ''PROCESSING_START'' (JObj [(''status'', JStr ''Starting'')]) lg)))"
  obtain th lg5 where T: "theme_step_logged err now cs pb ?i ?lg4 = (th, lg5)" by fastforce
  have run: "logger_run ?lg4 lg5" using theme_step_logged_run[of ?lg4 err now cs pb ?i] T by simp
  have na: "new_actions lg lg5 = new_actions lg ?lg4 @ new_actions ?lg4 lg5"
    using run_new_actions[OF run, of lg] by simp
  have p: "prefix (logs lg) (logs lg5)" using run_prefix[OF run, of lg] by simp
  have z: "filter ((=) ''PRIORITY_ANALYSIS_SUCCESS'') (new_actions ?lg4 lg5) = []"
    using theme_step_logged_count[of ?lg4 err now cs pb ?i] T by simp
  show ?thesis
  proof (cases th)
    case (Inl e)
    then show ?thesis using T na p z by (simp add: process_ticket_traced_def ticket_init_def)
  next
    case (Inr x)
    obtain theme tm c1 where x: "x = ((theme, tm), c1)" by (metis prod.exhaust)
    let ?r = "ticket_init\<lparr>tr_model_used := Some tm, tr_theme := Some theme, tr_theme_model := Some tm\<rparr>"
    let ?lg6 = "log_action now ''THEME_CLASSIFICATION_COMPLETE'' (JObj [(''theme'', JStr theme)]) lg5"
    have c: "length (filter ((=) ''PRIORITY_ANALYSIS_SUCCESS'') (new_actions ?lg6 (snd (ticket_priority_traced err cs pb ?i ?r c1 now ?lg6)))) =
               (if tr_analysis (fst (fst (ticket_priority_traced err cs pb ?i ?r c1 now ?lg6))) = None then 0 else 2)"
      by (rule ticket_priority_traced_count) (simp add: ticket_init_def)
    have run2: "logger_run ?lg6 (snd (ticket_priority_traced err cs pb ?i ?r c1 now ?lg6))"
      by (rule ticket_priority_traced_run)
    show ?thesis using T Inr x c na p z run_new_actions[OF run2, of lg]
      by (simp add: process_ticket_traced_def)
  qed
qed

lemma process_ticket_traced_run: "logger_run lg (snd (process_ticket_traced err cs pb key issue now lg))"
proof -
  have s4: "logger_run lg (log_action now a4 d4 (log_action now a3 d3 (log_action now a2 d2 (log_action now a1 d1 lg))))"
    for a1 a2 a3 a4 d1 d2 d3 d4
    by (intro logger_run.step logger_run.start)
  have t: "logger_run lg (snd (theme_step_logged err now cs pb i (log_action now a4 d4 (log_action now a3 d3 (log_action now a2 d2 (log_action now a1 d1 lg))))))"
    for i a1 a2 a3 a4 d1 d2 d3 d4
    by (rule logger_run_trans[OF theme_step_logged_run s4])
  show ?thesis
    using t logger_run_trans[OF ticket_priority_traced_run logger_run.step[OF t]]
    by (auto simp: process_ticket_traced_def case_prod_unfold Let_def intro: logger_run.step split: sum.splits)
qed

lemma ticket_priority_traced_result:
  "fst (ticket_priority_traced err cs pb issue r c1 now lg) =
     (let ((analysis, pm), c2) = analyze_priority cs (priority_prep pb issue)
      in if truthy analysis \<and> truthy (opt_get analysis ''scores'')
         then (r\<lparr>tr_priority_model := Some pm, tr_analysis := analysis\<rparr>, c1 @ c2)
         else (r\<lparr>tr_priority_model := Some ''Failed''\<rparr>, c1 @ c2))"
  using analyze_priority_logged_result[of err now cs pb issue "log_action now ''PRIORITY_ANALYSIS_START'' (JObj []) lg"]
  by (simp add: ticket_priority_traced_def case_prod_unfold Let_def)

lemma process_ticket_traced_result:
  "fst (process_ticket_traced err cs pb key issue now lg) = process_ticket cs pb key issue"
  using theme_step_logged_result
  by (simp add: process_ticket_traced_def process_ticket_def ticket_priority_traced_result case_prod_unfold Let_def
           split: sum.splits)

lemma logger_run_extends: "logger_run lg lg' \<Longrightarrow> \<exists>ys. logs lg' = logs lg @ ys \<and> request_id lg' = request_id lg"
  using logger_run_grows[of lg lg'] by (auto simp: prefix_def)

subsection \<open>Properties of the log\<close>

text \<open>C18: when Gemini gives no usable analysis and the Claude call throws,
  \<^verbatim>\<open>analyzePriority\<close> returns no analysis and logs the Claude attempt, its
  failure and \<^verbatim>\<open>PRIORITY_ANALYSIS_BOTH_FAILED\<close>; a Gemini failure is logged only
  when the Gemini call throws, not when its reply does not parse to an analysis.\<close>

theorem priority_failures_logged:
  assumes "gemini_client cs = Some g" "claude_client cs = Some c" "priority_attempt g prompt = None"
    "c prompt = Failure"
  shows "fst (fst (priority_dispatch_logged err now cs prompt lg)) = (None, both_failed) \<and>
         new_actions lg (snd (priority_dispatch_logged err now cs prompt lg)) =
           (if g prompt = Failure then [''PRIORITY_GEMINI_FAILED''] else []) @
           [''PRIORITY_CLAUDE_ATTEMPT'', ''PRIORITY_CLAUDE_FAILED'', ''PRIORITY_ANALYSIS_BOTH_FAILED'']"
  using assms
  by (cases "g prompt")
     (auto simp: priority_dispatch_logged_def priority_claude_logged_def priority_attempt_def accepted_parse Let_def
           split: option.splits if_splits)

theorem priority_failures_logged_witness:
  "fst (fst (priority_dispatch_logged (\<lambda>_. ''Error'') 0
              \<lparr>gemini_client = Some (\<lambda>_. Reply ''Sorry''), claude_client = Some (\<lambda>_. Failure)\<rparr> ''p'' (new_logger (\<lambda>_. 0) 0)))
     = (None, both_failed) \<and>
   new_actions (new_logger (\<lambda>_. 0) 0)
     (snd (priority_dispatch_logged (\<lambda>_. ''Error'') 0
            \<lparr>gemini_client = Some (\<lambda>_. Reply ''Sorry''), claude_client = Some (\<lambda>_. Failure)\<rparr> ''p'' (new_logger (\<lambda>_. 0) 0)))
     = [''PRIORITY_CLAUDE_ATTEMPT'', ''PRIORITY_CLAUDE_FAILED'', ''PRIORITY_ANALYSIS_BOTH_FAILED'']"
proof -
  have "priority_attempt (\<lambda>_. Reply ''Sorry'') ''p'' = None"
    by code_simp
  from priority_failures_logged[OF _ _ this, of "\<lparr>gemini_client = Some (\<lambda>_. Reply ''Sorry''), claude_client = Some (\<lambda>_. Failure)\<rparr>"
         "\<lambda>_. Failure" "\<lambda>_. ''Error''" 0 "new_logger (\<lambda>_. 0) 0"]
  show ?thesis by simp
qed

text \<open>C19: the entries of \<^verbatim>\<open>analyzePriority\<close> end with exactly one outcome entry
  (\<^verbatim>\<open>PRIORITY_ANALYSIS_SUCCESS\<close>, \<^verbatim>\<open>PRIORITY_ANALYSIS_BOTH_FAILED\<close>,
  \<^verbatim>\<open>PRIORITY_ANALYSIS_ERROR\<close> or \<^verbatim>\<open>PRODUCT_CONTEXT_ERROR\<close>), and it is
  \<^verbatim>\<open>PRIORITY_ANALYSIS_SUCCESS\<close> exactly when the unlogged
  \<^verbatim>\<open>analyzePriority\<close> returns an analysis.\<close>

theorem analyze_priority_log_outcome:
  "\<exists>a. outcome_trace (new_actions lg (snd (analyze_priority_logged err now cs pb issue lg))) a \<and> priority_outcome a \<and>
       (a = ''PRIORITY_ANALYSIS_SUCCESS'') = (fst (fst (analyze_priority cs (priority_prep pb issue))) \<noteq> None)"
  using analyze_priority_logged_outcome[where lg = lg and err = err and now = now and cs = cs and pb = pb and issue = issue]
  by (simp add: analyze_priority_logged_result)

text \<open>C20: a ticket whose priority analysis succeeds gets two
  \<^verbatim>\<open>PRIORITY_ANALYSIS_SUCCESS\<close> entries, one written by \<^verbatim>\<open>analyzePriority\<close>
  and one by \<^verbatim>\<open>processTicketWithFullTriage\<close>; a ticket without analysis gets
  none.\<close>

theorem ticket_log_success_twice:
  "length (filter ((=) ''PRIORITY_ANALYSIS_SUCCESS'') (new_actions lg (snd (process_ticket_traced err cs pb key issue now lg)))) =
     (if tr_analysis (fst (process_ticket cs pb key issue)) = None then 0 else 2)"
  using process_ticket_traced_count[where lg = lg and err = err and now = now and cs = cs and pb = pb and issue = issue
                                    and key = key]
  by (simp add: process_ticket_traced_result)

text \<open>The entries \<^verbatim>\<open>processTicketWithFullTriage\<close> writes itself
  (\<open>process_ticket_logged\<close>) occur, in order and unchanged, in the full log with
  the entries of its callees: the full log refines the function's own.\<close>

theorem ticket_log_refines:
  "subseq (logs (snd (process_ticket_logged cs pb key issue now lg)))
          (logs (snd (process_ticket_traced err cs pb key issue now lg)))"
proof -
  let ?i = "js_or_d issue (default_issue key)"
  let ?lg4 = "log_action now ''THEME_CLASSIFICATION_START'' (JObj [])
               (log_action now ''ISSUE_DATA_READY''
                  (defined_members [(''summary'', issue_field ?i ''summary''),
                                    (''reporter'', opt_get (issue_field ?i ''reporter'') ''displayName'')])
                  (log_action now ''USING_PROVIDED_DATA'' (JObj [])
                     (log_action now ''PROCESSING_START'' (JObj [(''status'', JStr ''Starting'')]) lg)))"
  obtain th lg5 where T: "theme_step_logged err now cs pb ?i ?lg4 = (th, lg5)" by fastforce
  have th: "th = theme_step cs pb ?i" using theme_step_logged_result[of err now cs pb ?i ?lg4] T by simp
  obtain ys where ys: "logs lg5 = logs ?lg4 @ ys" and rid: "request_id lg5 = request_id lg"
    using logger_run_extends[OF theme_step_logged_run[of ?lg4 err now cs pb ?i]] T by auto
  show ?thesis
  proof (cases th)
    case (Inl e)
    then show ?thesis using T th ys rid
      by (auto simp: process_ticket_traced_def process_ticket_logged_def Let_def subseq_append')
  next
    case (Inr x)
    obtain theme tm c1 where x: "x = ((theme, tm), c1)" by (metis prod.exhaust)
    let ?lg7 = "log_action now ''PRIORITY_ANALYSIS_START'' (JObj [])
                  (log_action now ''THEME_CLASSIFICATION_COMPLETE'' (JObj [(''theme'', JStr theme)]) lg5)"
    obtain a pm c2 lg8 where A: "analyze_priority_logged err now cs pb ?i ?lg7 = (((a, pm), c2), lg8)"
      by (metis prod.exhaust)
    have a: "analyze_priority cs (priority_prep pb ?i) = ((a, pm), c2)"
      using analyze_priority_logged_result[of err now cs pb ?i ?lg7] A by simp
    obtain zs where zs: "logs lg8 = logs ?lg7 @ zs" and rid8: "request_id lg8 = request_id lg"
      using logger_run_extends[OF analyze_priority_logged_run[of ?lg7 err now cs pb ?i]] A rid by auto
    have ts: "theme_step cs pb ?i = Inr ((theme, tm), c1)" using th Inr x by simp
    have T': "theme_step_logged err now cs pb ?i ?lg4 = (Inr ((theme, tm), c1), lg5)" using T Inr x by simp
    show ?thesis using T' ts A a ys zs rid rid8
      by (auto simp: process_ticket_traced_def process_ticket_logged_def ticket_priority_traced_def Let_def
                     subseq_append')
  qed
qed

end
