(* ===== verification/Handler_Log.thy ===== *)
theory Handler_Log
  imports Dispatch_Log
begin

text \<open>
  The request log of the handler of \<^verbatim>\<open>part_001\<close> (lines 97--224): the logger it
  creates once a POST passes the rate limiter, the entries \<^verbatim>\<open>WEBHOOK_RECEIVED\<close>,
  \<^verbatim>\<open>WEBHOOK_PARSED\<close>, \<^verbatim>\<open>PROCESSING_COMPLETE\<close> and \<^verbatim>\<open>ERROR\<close> it
  writes around \<open>process_ticket_traced\<close>, and the order in which they occur. The
  request's headers, which the model's \<open>request\<close> keeps as a lookup function, enter
  the \<^verbatim>\<open>WEBHOOK_RECEIVED\<close> entry as the JSON object \<open>hdrs\<close>.
\<close>

text \<open>\<^verbatim>\<open>error.toString()\<close> of what the handler's \<^verbatim>\<open>catch\<close> receives: its own
  \<^verbatim>\<open>Error\<close> (line 144) or an exception of the language.\<close>

definition handler_error_text :: "handler_error \<Rightarrow> string" where
  "handler_error_text e =
     (case e of NoIssueKey \<Rightarrow> ''Error: No issue key provided in webhook'' | JsError x \<Rightarrow> error_text x)"

text \<open>The details of \<^verbatim>\<open>WEBHOOK_RECEIVED\<close> (lines 133--138):
  \<^verbatim>\<open>req.body ? JSON.stringify(req.body).length : 0\<close>.\<close>

definition webhook_received_details :: "string \<Rightarrow> jsval \<Rightarrow> jsval \<Rightarrow> jsval" where
  "webhook_received_details client hdrs data =
     JObj [(''clientIP'', JStr client),
           (''contentLength'', JNum (if js_truthy data then int (length (json_print data)) else 0)),
           (''headers'', hdrs), (''body'', data)]"

text \<open>The \<^verbatim>\<open>result\<close> object as \<^verbatim>\<open>PROCESSING_COMPLETE\<close> records it (line 156),
  with the members \<open>ticket_result\<close> keeps; \<^verbatim>\<open>priorityModel\<close> is added last and
  only once set. The timings and the \<^verbatim>\<open>actions\<close> lines are not modelled.\<close>

definition ticket_result_json :: "ticket_result \<Rightarrow> jsval" where
  "ticket_result_json r =
     (let str = (\<lambda>v. case v of None \<Rightarrow> JNull | Some s \<Rightarrow> JStr s)
      in JObj ([(''modelUsed'', str (tr_model_used r)),
                (''analysis'', (case tr_analysis r of None \<Rightarrow> JNull | Some a \<Rightarrow> a)),
                (''theme'', str (tr_theme r)), (''themeModel'', str (tr_theme_model r))] @
               (case tr_priority_model r of None \<Rightarrow> [] | Some p \<Rightarrow> [(''priorityModel'', JStr p)])))"

text \<open>The \<^verbatim>\<open>catch\<close> of lines 215--222: the entry \<^verbatim>\<open>ERROR\<close> and the 500.\<close>

definition request_failed ::
  "int \<Rightarrow> handler_error \<Rightarrow> backend list \<Rightarrow> triage_logger \<Rightarrow> (response \<times> backend list) \<times> triage_logger" where
  "request_failed now e calls lg =
     ((Failed e, calls), log_action now ''ERROR'' (JObj [(''error'', JStr (handler_error_text e))]) lg)"

text \<open>The \<^verbatim>\<open>try\<close> block of the handler (lines 124--213) with its entries. Line 131
  (\<^verbatim>\<open>JSON.stringify(req.body).length\<close>) throws before any entry when the body is
  \<^verbatim>\<open>undefined\<close> or a function; line 140 (\<^verbatim>\<open>data.issue\<close>) throws on
  \<^verbatim>\<open>null\<close>, after \<^verbatim>\<open>WEBHOOK_RECEIVED\<close>; the body of the 200 is computed
  after \<^verbatim>\<open>PROCESSING_COMPLETE\<close> and may still throw.\<close>

definition triage_request_logged ::
  "(backend \<Rightarrow> string) \<Rightarrow> clients \<Rightarrow> prompt_builders \<Rightarrow> string \<Rightarrow> jsval \<Rightarrow> jsval option \<Rightarrow> int \<Rightarrow>
     triage_logger \<Rightarrow> (response \<times> backend list) \<times> triage_logger" where
  "triage_request_logged err cs pb client hdrs body now lg =
     (case body of
        None \<Rightarrow> request_failed now (JsError TypeError) [] lg
      | Some data \<Rightarrow>
          if data = JHost then request_failed now (JsError TypeError) [] lg
          else
            (let lg1 = log_action now ''WEBHOOK_RECEIVED'' (webhook_received_details client hdrs data) lg
             in case webhook_issue body of
                  Inl e \<Rightarrow> request_failed now e [] lg1
                | Inr (key, issue) \<Rightarrow>
                    (let lg2 = log_action now ''WEBHOOK_PARSED''
                                 (defined_members [(''issueKey'', Some key), (''webhookEvent'', get_prop data ''webhookEvent''),
                                                   (''fullData'', Some data)]) lg1;
                         ((r, calls), lg3) = process_ticket_traced err cs pb key issue now lg2;
                         lg4 = log_action now ''PROCESSING_COMPLETE'' (ticket_result_json r) lg3
                     in case triage_body_of key issue r of
                          Inl e \<Rightarrow> request_failed now (JsError e) calls lg4
                        | Inr b \<Rightarrow> ((Triaged b, calls), lg4))))"

text \<open>The handler (lines 97--224) with the logger it creates at line 121 from the
  random stream \<open>rnd\<close> and the clock \<open>now\<close>; \<open>None\<close> when it returns before.\<close>

definition handler_logged ::
  "(backend \<Rightarrow> string) \<Rightarrow> (nat \<Rightarrow> real) \<Rightarrow> jsval \<Rightarrow> clients \<Rightarrow> prompt_builders \<Rightarrow> rl_state \<Rightarrow> int \<Rightarrow> request \<Rightarrow>
     ((response \<times> backend list) \<times> rl_state) \<times> triage_logger option" where
  "handler_logged err rnd hdrs cs pb st now req =
     (if req_method req = ''OPTIONS'' then (((Preflight, []), st), None)
      else if req_method req \<noteq> ''POST'' then (((Rejected 405 method_not_allowed, []), st), None)
      else (let (ok, st') = check_rate_limit st (client_ip (req_headers req)) now in
            if ok then
              (let (res, lg) = triage_request_logged err cs pb (client_ip (req_headers req)) hdrs (req_body req) now
                                 (new_logger rnd now)
               in ((res, st'), Some lg))
            else (((Rejected 429 rate_limited, []), st'), None)))"

declare handler_error_text_def [js_eval] webhook_received_details_def [js_eval] ticket_result_json_def [js_eval]
  request_failed_def [js_eval] triage_request_logged_def [js_eval] handler_logged_def [js_eval]

subsection \<open>Erasure\<close>

lemma triage_request_logged_result:
  "fst (triage_request_logged err cs pb client hdrs body now lg) = triage_request cs pb body"
  using process_ticket_traced_result
  by (auto simp: triage_request_logged_def triage_request_def request_failed_def webhook_issue_def case_prod_unfold
                 Let_def split: option.splits sum.splits)

text \<open>The handler with its log answers every request, calls the same vendors
  and leaves the limiter in the same state as the handler without it: logging changes
  nothing observable.\<close>

theorem handler_logged_refines: "fst (handler_logged err rnd hdrs cs pb st now req) = handler cs pb st now req"
  by (simp add: handler_logged_def handler_def case_prod_unfold Let_def triage_request_logged_result)

subsection \<open>The order of the entries\<close>

lemma request_failed_run: "logger_run lg (snd (request_failed now e calls lg))"
  by (simp add: request_failed_def logger_run.step logger_run.start)

lemma triage_request_logged_shape:
  fixes err cs pb client hdrs body now lg
  assumes "logs lg = []"
  defines "R \<equiv> triage_request_logged err cs pb client hdrs body now lg"
  shows "logger_run lg (snd R) \<and> logs (snd R) \<noteq> [] \<and>
         (action (hd (logs (snd R))) = ''WEBHOOK_RECEIVED'') = (body \<noteq> None \<and> body \<noteq> Some JHost) \<and>
         (action (last (logs (snd R))) = ''ERROR'') = (\<exists>e. fst (fst R) = Failed e)"
proof (cases "body = None \<or> body = Some JHost")
  case True
  then show ?thesis using assms
    by (auto simp: R_def triage_request_logged_def request_failed_def intro!: logger_run.step logger_run.start)
next
  case False
  then obtain data where data: "body = Some data" "data \<noteq> JHost" by auto
  let ?lg1 = "log_action now ''WEBHOOK_RECEIVED'' (webhook_received_details client hdrs data) lg"
  have run1: "logger_run lg ?lg1" by (rule logger_run.step[OF logger_run.start])
  show ?thesis
  proof (cases "webhook_issue body")
    case (Inl e)
    then show ?thesis using data assms run1
      by (auto simp: R_def triage_request_logged_def request_failed_def intro: logger_run.step)
  next
    case (Inr ki)
    obtain key issue where ki: "ki = (key, issue)" by fastforce
    let ?lg2 = "log_action now ''WEBHOOK_PARSED''
                  (defined_members [(''issueKey'', Some key), (''webhookEvent'', get_prop data ''webhookEvent''),
                                    (''fullData'', Some data)]) ?lg1"
    obtain r calls lg3 where P: "process_ticket_traced err cs pb key issue now ?lg2 = ((r, calls), lg3)"
      by (metis prod.exhaust)
    have "logger_run lg (snd (process_ticket_traced err cs pb key issue now ?lg2))"
      by (rule logger_run_trans[OF process_ticket_traced_run logger_run.step[OF run1]])
    then have run3: "logger_run lg lg3" using P by simp
    obtain ys where ys: "logs lg3 = logs ?lg2 @ ys"
      using logger_run_prefix[OF process_ticket_traced_run, of ?lg2 err cs pb key issue now] P
      by (auto simp: prefix_def)
    let ?lg4 = "log_action now ''PROCESSING_COMPLETE'' (ticket_result_json r) lg3"
    have hd4: "action (hd (logs ?lg4)) = ''WEBHOOK_RECEIVED''" using ys assms by simp
    show ?thesis
    proof (cases "triage_body_of key issue r")
      case (Inl e)
      then show ?thesis using data Inr ki P run3 hd4 ys assms
        by (auto simp: R_def triage_request_logged_def request_failed_def Let_def intro: logger_run.step)
    next
      case (Inr b)
      then show ?thesis using data \<open>webhook_issue body = Inr ki\<close> ki P run3 hd4
        by (auto simp: R_def triage_request_logged_def Let_def intro: logger_run.step)
    qed
  qed
qed

text \<open>C16: when the handler creates a logger (a POST the limiter admits), its log is
  not empty, every entry carries the request id from \<^verbatim>\<open>generateUUID\<close>, the
  first entry is \<^verbatim>\<open>WEBHOOK_RECEIVED\<close> unless line 131 throws (no body, or a body
  with no JSON form), and the last entry is \<^verbatim>\<open>ERROR\<close> exactly when the answer is
  the 500.\<close>

theorem handler_log_order:
  assumes "snd (handler_logged err rnd hdrs cs pb st now req) = Some lg"
  shows "request_id lg = generate_uuid rnd \<and> logs lg \<noteq> [] \<and>
         list_all (\<lambda>e. entry_request_id e = generate_uuid rnd) (logs lg) \<and>
         (action (hd (logs lg)) = ''WEBHOOK_RECEIVED'') = (req_body req \<noteq> None \<and> req_body req \<noteq> Some JHost) \<and>
         (action (last (logs lg)) = ''ERROR'') = (\<exists>e. fst (fst (fst (handler_logged err rnd hdrs cs pb st now req))) = Failed e)"
proof -
  obtain ok st' where rl: "check_rate_limit st (client_ip (req_headers req)) now = (ok, st')" by fastforce
  have post: "req_method req = ''POST''" and ok: ok
    and lg: "lg = snd (triage_request_logged err cs pb (client_ip (req_headers req)) hdrs (req_body req) now (new_logger rnd now))"
    using assms rl by (auto simp: handler_logged_def case_prod_unfold Let_def split: if_splits)
  have resp: "fst (fst (fst (handler_logged err rnd hdrs cs pb st now req))) =
                fst (fst (triage_request_logged err cs pb (client_ip (req_headers req)) hdrs (req_body req) now (new_logger rnd now)))"
    using post ok rl by (simp add: handler_logged_def case_prod_unfold Let_def)
  have shape: "logger_run (new_logger rnd now) lg \<and> logs lg \<noteq> [] \<and>
         (action (hd (logs lg)) = ''WEBHOOK_RECEIVED'') = (req_body req \<noteq> None \<and> req_body req \<noteq> Some JHost) \<and>
         (action (last (logs lg)) = ''ERROR'') =
           (\<exists>e. fst (fst (triage_request_logged err cs pb (client_ip (req_headers req)) hdrs (req_body req) now (new_logger rnd now))) = Failed e)"
    unfolding lg by (rule triage_request_logged_shape) (simp add: new_logger_def)
  have "request_id lg = generate_uuid rnd \<and> (\<forall>e \<in> set (logs lg). entry_request_id e = generate_uuid rnd)"
    using logger_run_grows[OF conjunct1[OF shape]] by (simp add: new_logger_def)
  then show ?thesis using shape resp by (simp add: list_all_iff)
qed

theorem handler_log_order_witness:
  "request_id (the (snd (handler_logged (\<lambda>_. []) (\<lambda>_. 0) (JObj []) \<lparr>gemini_client = None, claude_client = None\<rparr>
      khoros_prompts (\<lambda>_. None) 0 \<lparr>req_method = ''POST'', req_headers = (\<lambda>_. None), req_body = Some (JObj [])\<rparr>)))
     = generate_uuid (\<lambda>_. 0) \<and>
   map action (logs (the (snd (handler_logged (\<lambda>_. []) (\<lambda>_. 0) (JObj []) \<lparr>gemini_client = None, claude_client = None\<rparr>
      khoros_prompts (\<lambda>_. None) 0 \<lparr>req_method = ''POST'', req_headers = (\<lambda>_. None), req_body = Some (JObj [])\<rparr>))))
     = [''WEBHOOK_RECEIVED'', ''ERROR'']"
proof -
  let ?h = "handler_logged (\<lambda>_. []) (\<lambda>_. 0) (JObj []) \<lparr>gemini_client = None, claude_client = None\<rparr>
      khoros_prompts (\<lambda>_. None) 0 \<lparr>req_method = ''POST'', req_headers = (\<lambda>_. None), req_body = Some (JObj [])\<rparr>"
  have s: "snd ?h = Some (the (snd ?h))"
    by (simp add: handler_logged_def check_rate_limit_def case_prod_unfold Let_def RATE_LIMIT_def)
  have "map action (logs (the (snd ?h))) = [''WEBHOOK_RECEIVED'', ''ERROR'']"
    by (simp add: handler_logged_def check_rate_limit_def case_prod_unfold Let_def triage_request_logged_def
                  webhook_issue_def request_failed_def new_logger_def client_ip_def header_or_def RATE_LIMIT_def
                  get_prop.simps(1) opt_get_def inherited_def object_proto_keys_def)
  with handler_log_order[OF s] show ?thesis by simp
qed

end
