(* ===== verification/Setup_Scripts.thy ===== *)
theory Setup_Scripts
  imports Server
begin

text \<open>
  The two shell scripts of the repository: the environment setup script
  (\<^verbatim>\<open>src/unnamed/part_000\<close>) and the quick deploy script (\<^verbatim>\<open>part_001\<close>, lines
  1504--1557). Their state is the part of the file system and of the shell they read
  and write: the file \<^verbatim>\<open>.env.local\<close>, the shell variables, the presence of the
  Vercel CLI and of \<^verbatim>\<open>node_modules\<close>, and standard input; the exit status of each
  external command is an input. The banner and hint lines they \<^verbatim>\<open>echo\<close> are not
  modelled; the lines that print a value are.
\<close>

subsection \<open>The setup script (\<^verbatim>\<open>part_000\<close>)\<close>

record setup_state =
  env_local :: "string option"
  shell_vars :: "string \<Rightarrow> string option"

text \<open>The here-document of lines 20--31 (an unquoted delimiter, and no
  \<^verbatim>\<open>$\<close> in the text, so it is written as it stands), one line feed after each line.\<close>

definition env_template :: string where
  "env_template =
     concat (map (\<lambda>l. l @ [CHR 0x0A])
       [''# Jira AI Triage System Environment Variables'',
        ''# Replace with your actual API keys'',
        '''',
        ''# Google Gemini API Key'',
        ''# Get from: https://makersuite.google.com/app/apikey'',
        ''GEMINI_API_KEY=your_gemini_api_key_here'',
        '''',
        ''# Anthropic Claude API Key  '',
        ''# Get from: https://console.anthropic.com/'',
        ''CLAUDE_API_KEY=your_claude_api_key_here''])"

text \<open>The lines \<^verbatim>\<open>source\<close> is modelled on: blank lines, comments, and assignments
  \<^verbatim>\<open>NAME=VALUE\<close> whose value is one word without quotes or expansions, with optional
  trailing blanks and comment. Any other line is outside the model.\<close>

definition sh_blank :: "char \<Rightarrow> bool" where
  "sh_blank c \<longleftrightarrow> c = CHR '' '' \<or> c = CHR 0x09"

definition char_between :: "char \<Rightarrow> char \<Rightarrow> char \<Rightarrow> bool" where
  "char_between a b c \<longleftrightarrow> (of_char a :: nat) \<le> of_char c \<and> (of_char c :: nat) \<le> of_char b"

definition sh_name_char :: "char \<Rightarrow> bool" where
  "sh_name_char c \<longleftrightarrow> c = CHR ''_'' \<or> char_between CHR ''a'' CHR ''z'' c \<or> char_between CHR ''A'' CHR ''Z'' c \<or>
                     char_between CHR ''0'' CHR ''9'' c"

text \<open>A shell name: letters, digits and underscores, not starting with a digit.\<close>

definition sh_name :: "string \<Rightarrow> bool" where
  "sh_name n \<longleftrightarrow> n \<noteq> [] \<and> list_all sh_name_char n \<and> \<not> char_between CHR ''0'' CHR ''9'' (hd n)"

text \<open>A character of an unquoted word that is taken literally.\<close>

definition sh_plain_char :: "char \<Rightarrow> bool" where
  "sh_plain_char c \<longleftrightarrow>
     \<not> sh_blank c \<and>
     c \<notin> set [CHR 0x22, CHR 0x27, CHR ''$'', CHR 0x60, CHR 0x5C, CHR '';'', CHR ''&'', CHR ''|'', CHR ''<'',
                CHR ''>'', CHR ''('', CHR '')'', CHR ''~'']"

text \<open>One line read by \<^verbatim>\<open>source\<close>: \<open>Some None\<close> for a line without effect,
  \<open>Some (Some (n, v))\<close> for the assignment \<open>n=v\<close>, \<open>None\<close> outside the model.\<close>

definition sh_line :: "string \<Rightarrow> (string \<times> string) option option" where
  "sh_line l =
     (let l' = dropWhile sh_blank l
      in if l' = [] \<or> hd l' = CHR ''#'' then Some None
         else (case split_first ''='' l' of
                 None \<Rightarrow> None
               | Some (n, rest) \<Rightarrow>
                   (let v = takeWhile sh_plain_char rest;
                        tl' = dropWhile sh_blank (drop (length v) rest)
                    in if sh_name n \<and> (tl' = [] \<or> hd tl' = CHR ''#'') then Some (Some (n, v)) else None)))"

text \<open>\<^verbatim>\<open>source .env.local\<close> (line 13): the lines in order, each assignment setting
  its shell variable.\<close>

fun sh_source_lines :: "string list \<Rightarrow> (string \<Rightarrow> string option) \<Rightarrow> (string \<Rightarrow> string option) option" where
  "sh_source_lines [] vs = Some vs"
| "sh_source_lines (l # ls) vs =
     (case sh_line l of
        None \<Rightarrow> None
      | Some None \<Rightarrow> sh_source_lines ls vs
      | Some (Some (n, v)) \<Rightarrow> sh_source_lines ls (vs(n \<mapsto> v)))"

definition sh_source :: "string \<Rightarrow> (string \<Rightarrow> string option) \<Rightarrow> (string \<Rightarrow> string option) option" where
  "sh_source f vs = sh_source_lines (js_split f [CHR 0x0A]) vs"

text \<open>\<^verbatim>\<open>${V:0:10}\<close>: the first ten characters, empty when unset.\<close>

definition sh_prefix10 :: "string option \<Rightarrow> string" where
  "sh_prefix10 v = (case v of None \<Rightarrow> [] | Some s \<Rightarrow> take 10 s)"

text \<open>Lines 10--35: with the file present, source it and print the two key prefixes
  (lines 13--15); without it, write the template (lines 20--31). \<open>None\<close> when the
  file holds a line outside the model of \<^verbatim>\<open>source\<close>.\<close>

definition setup_env :: "setup_state \<Rightarrow> (string list \<times> setup_state) option" where
  "setup_env st =
     (case env_local st of
        Some f \<Rightarrow>
          (case sh_source f (shell_vars st) of
             None \<Rightarrow> None
           | Some vs \<Rightarrow>
               Some ([''   GEMINI_API_KEY: '' @ sh_prefix10 (vs ''GEMINI_API_KEY'') @ ''...'',
                      ''   CLAUDE_API_KEY: '' @ sh_prefix10 (vs ''CLAUDE_API_KEY'') @ ''...''],
                     st\<lparr>shell_vars := vs\<rparr>))
      | None \<Rightarrow> Some ([], st\<lparr>env_local := Some env_template\<rparr>))"

subsection \<open>The quick deploy script (\<^verbatim>\<open>part_001\<close>, lines 1504--1557)\<close>

datatype deploy_cmd = NpmInstallVercel | NpmInstall | VercelProd

record deploy_state =
  has_vercel :: bool
  has_node_modules :: bool
  gemini_var :: "string option"
  claude_var :: "string option"
  stdin :: string

text \<open>\<^verbatim>\<open>[ -z "$V" ]\<close>.\<close>

definition sh_empty :: "string option \<Rightarrow> bool" where
  "sh_empty v \<longleftrightarrow> (case v of None \<Rightarrow> True | Some s \<Rightarrow> s = [])"

text \<open>\<^verbatim>\<open>read -p ... -n 1 -r\<close> (line 1537): one character, none for a line feed;
  at the end of input \<^verbatim>\<open>read\<close> fails (status 1), which \<^verbatim>\<open>set -e\<close> turns into
  the script's exit.\<close>

definition read_one :: "string \<Rightarrow> string option" where
  "read_one s = (case s of [] \<Rightarrow> None | c # _ \<Rightarrow> Some (if c = CHR 0x0A then [] else [c]))"

text \<open>The script under \<^verbatim>\<open>set -e\<close> (line 1508): the commands it runs, in order, and
  its exit status; \<open>status\<close> gives each command's exit status. A failing command ends
  the script with its status; \<^verbatim>\<open>$REPLY =~ ^[Yy]$\<close> (line 1539) holds for the
  one-character replies \<^verbatim>\<open>y\<close> and \<^verbatim>\<open>Y\<close>.\<close>

definition quick_deploy :: "(deploy_cmd \<Rightarrow> nat) \<Rightarrow> deploy_state \<Rightarrow> deploy_cmd list \<times> nat" where
  "quick_deploy status ds =
     (let c1 = (if has_vercel ds then [] else [NpmInstallVercel])
      in if \<not> has_vercel ds \<and> status NpmInstallVercel \<noteq> 0 then (c1, status NpmInstallVercel)
         else
           (let c2 = c1 @ (if has_node_modules ds then [] else [NpmInstall])
            in if \<not> has_node_modules ds \<and> status NpmInstall \<noteq> 0 then (c2, status NpmInstall)
               else if sh_empty (gemini_var ds) \<and> sh_empty (claude_var ds) then
                 (case read_one (stdin ds) of
                    None \<Rightarrow> (c2, 1)
                  | Some r \<Rightarrow> if r = ''y'' \<or> r = ''Y'' then (c2 @ [VercelProd], status VercelProd) else (c2, 1))
               else (c2 @ [VercelProd], status VercelProd)))"

declare env_template_def [js_eval] sh_blank_def [js_eval] char_between_def [js_eval] sh_name_char_def [js_eval] sh_name_def [js_eval]
  sh_plain_char_def [js_eval] sh_line_def [js_eval] sh_source_def [js_eval] sh_prefix10_def [js_eval]
  setup_env_def [js_eval] sh_empty_def [js_eval] read_one_def [js_eval] quick_deploy_def [js_eval]

subsection \<open>Properties\<close>

text \<open>\<^verbatim>\<open>source\<close> reads the template as the two placeholder assignments.\<close>

lemma sh_source_template:
  "sh_source env_template vs =
     Some (vs(''GEMINI_API_KEY'' \<mapsto> ''your_gemini_api_key_here'', ''CLAUDE_API_KEY'' \<mapsto> ''your_claude_api_key_here''))"
  by (simp add: sh_source_def env_template_def js_split_def sh_line_def sh_blank_def sh_name_def sh_name_char_def
                char_between_def sh_plain_char_def)

text \<open>The setup script never overwrites an existing \<^verbatim>\<open>.env.local\<close>.\<close>

lemma setup_keeps_existing:
  "env_local st = Some f \<Longrightarrow> setup_env st = Some (out, st') \<Longrightarrow> env_local st' = Some f"
  by (auto simp: setup_env_def split: option.splits)

text \<open>Run where \<^verbatim>\<open>.env.local\<close> is missing, the setup script writes the
  template, and run again it reads the template back through \<^verbatim>\<open>source\<close> as the two
  placeholder keys and prints their first ten characters; an environment holding these
  placeholders passes the health check as two available services.\<close>

theorem setup_template_roundtrip:
  "\<exists>st'. setup_env \<lparr>env_local = None, shell_vars = vs\<rparr> = Some ([], st') \<and> env_local st' = Some env_template \<and>
     setup_env st' =
       Some ([''   GEMINI_API_KEY: your_gemin...'', ''   CLAUDE_API_KEY: your_claud...''],
             st'\<lparr>shell_vars := vs(''GEMINI_API_KEY'' \<mapsto> ''your_gemini_api_key_here'',
                                 ''CLAUDE_API_KEY'' \<mapsto> ''your_claude_api_key_here'')\<rparr>) \<and>
     health_check \<lparr>gemini_api_key = Some ''your_gemini_api_key_here'', claude_api_key = Some ''your_claude_api_key_here'',
                   port = p\<rparr> =
       (200, JObj [(''status'', JStr ''healthy''),
                   (''services'', JObj [(''gemini'', JBool True), (''claude'', JBool True)])])"
  by (simp add: setup_env_def sh_source_template sh_prefix10_def health_check_def env_flag_def)

text \<open>C36: the deploy script runs \<^verbatim>\<open>vercel --prod\<close> exactly when its installs
  succeed and either some API key is non-empty or the user answers \<^verbatim>\<open>y\<close> or
  \<^verbatim>\<open>Y\<close>; it exits with 0 exactly when that deployment ran and succeeded. Only
  emptiness is checked: one key, or placeholder keys, deploy without a question.\<close>

theorem quick_deploy_consent:
  "(VercelProd \<in> set (fst (quick_deploy status ds))) =
     ((has_vercel ds \<or> status NpmInstallVercel = 0) \<and> (has_node_modules ds \<or> status NpmInstall = 0) \<and>
      (\<not> sh_empty (gemini_var ds) \<or> \<not> sh_empty (claude_var ds) \<or> read_one (stdin ds) \<in> {Some ''y'', Some ''Y''})) \<and>
   (snd (quick_deploy status ds) = 0) =
     (VercelProd \<in> set (fst (quick_deploy status ds)) \<and> status VercelProd = 0)"
  by (auto simp: quick_deploy_def Let_def split: option.splits if_splits)

theorem quick_deploy_consent_witness:
  "VercelProd \<in> set (fst (quick_deploy (\<lambda>_. 0)
      \<lparr>has_vercel = True, has_node_modules = True, gemini_var = Some ''x'', claude_var = None, stdin = []\<rparr>))"
  by (rule iffD2[OF conjunct1[OF quick_deploy_consent]]) (simp add: sh_empty_def)

end
