(* ===== verification/Triage_Callers.thy ===== *)
theory Triage_Callers
  imports Dispatch_Log
begin

text \<open>
  \<^verbatim>\<open>callGeminiWithTriage\<close> and \<^verbatim>\<open>callClaudeWithTriage\<close> of the current revision
  (\<^verbatim>\<open>part_001\<close>, lines 421--533). The handler of this revision no longer calls them
  (it dispatches through \<^verbatim>\<open>analyzePriority\<close>), but they are part of the module: the
  Gemini caller talks to the REST endpoint with \<^verbatim>\<open>fetch\<close>, the Claude caller to
  the SDK, and both log what they see. The HTTP exchange is an input: \<open>HttpError\<close>
  when \<^verbatim>\<open>fetch\<close> rejects, otherwise the status, the status text and the body that
  \<^verbatim>\<open>response.json()\<close> yields (\<open>None\<close> when it throws). The SDK's answer is the
  response object as a JavaScript value, \<open>None\<close> when the call throws. The
  \<^verbatim>\<open>responseTime\<close> members of the entries are timings, not modelled; the text
  of a vendor's exception is the input \<open>err\<close>, as in \<open>Dispatch_Log\<close>.
\<close>

datatype http_reply = HttpError | HttpResponse nat string "jsval option"

text \<open>\<^verbatim>\<open>response.ok\<close>: a status in \<open>200..299\<close>.\<close>

definition http_ok :: "nat \<Rightarrow> bool" where
  "http_ok s \<longleftrightarrow> 200 \<le> s \<and> s \<le> 299"

text \<open>\<^verbatim>\<open>v.k\<close> on a value that may be \<^verbatim>\<open>undefined\<close> or \<^verbatim>\<open>null\<close>, which
  throws.\<close>

definition read_prop :: "jsval option \<Rightarrow> string \<Rightarrow> js_error + jsval option" where
  "read_prop v k = (case v of None \<Rightarrow> Inl TypeError | Some x \<Rightarrow> if x = JNull then Inl TypeError else Inr (get_prop x k))"

text \<open>\<^verbatim>\<open>parseAIResponse(text)\<close> on any value: a string is parsed; on any other value
  \<^verbatim>\<open>text.substring\<close> throws in the \<^verbatim>\<open>try\<close> (line 538) and again in the
  \<^verbatim>\<open>catch\<close> (line 602), so the call throws.\<close>

definition parse_any :: "jsval option \<Rightarrow> js_error + jsval option" where
  "parse_any t = (case t of Some (JStr s) \<Rightarrow> Inr (parse_AI_response s) | _ \<Rightarrow> Inl TypeError)"

text \<open>\<^verbatim>\<open>result.candidates[0].content.parts[0].text\<close> (line 459) after the guard of
  line 458: \<open>Inr None\<close> when the guard fails.\<close>

definition candidate_text :: "jsval option \<Rightarrow> js_error + jsval option option" where
  "candidate_text result =
     (case read_prop result ''candidates'' of
        Inl e \<Rightarrow> Inl e
      | Inr cands \<Rightarrow>
          if \<not> truthy cands then Inr None
          else (let c0 = opt_get cands ''0''
                in if \<not> truthy c0 then Inr None
                   else (let content = opt_get c0 ''content''
                         in if \<not> truthy content then Inr None
                            else (case read_prop (opt_get content ''parts'') ''0'' of
                                    Inl e \<Rightarrow> Inl e
                                  | Inr p0 \<Rightarrow>
                                      (case read_prop p0 ''text'' of
                                         Inl e \<Rightarrow> Inl e
                                       | Inr t \<Rightarrow> Inr (Some t))))))"

text \<open>The entry of a parsed analysis (lines 464--467 and 516--519).\<close>

definition parse_success_details :: "jsval option \<Rightarrow> jsval" where
  "parse_success_details parsed =
     defined_members [(''recommendation'', opt_get parsed ''priority_recommendation''),
                      (''score'', opt_get (opt_get parsed ''scores'') ''overall_priority'')]"

text \<open>\<^verbatim>\<open>callGeminiWithTriage\<close> (lines 422--482): the \<^verbatim>\<open>catch\<close> of lines 479--481
  takes every exception, of \<^verbatim>\<open>fetch\<close>, of \<^verbatim>\<open>response.json()\<close>, of the property
  reads and of \<^verbatim>\<open>parseAIResponse\<close>.\<close>

definition call_gemini_rest ::
  "(backend \<Rightarrow> string) \<Rightarrow> (string \<Rightarrow> http_reply) \<Rightarrow> int \<Rightarrow> string \<Rightarrow> triage_logger \<Rightarrow>
     jsval option \<times> triage_logger" where
  "call_gemini_rest err fetch now prompt lg =
     (let gemini_error = (\<lambda>e lg'. (None, log_action now ''GEMINI_ERROR'' (JObj [(''error'', JStr (error_text e))]) lg'))
      in case fetch prompt of
           HttpError \<Rightarrow> (None, log_action now ''GEMINI_ERROR'' (JObj [(''error'', JStr (err Gemini))]) lg)
         | HttpResponse status status_text body \<Rightarrow>
             (let lg1 = log_action now ''GEMINI_RESPONSE''
                          (JObj [(''statusCode'', JNum (int status)), (''hasContent'', JBool (http_ok status))]) lg;
                  failed = (None, log_action now ''GEMINI_FAILED''
                                    (JObj [(''statusCode'', JNum (int status)), (''response'', JStr status_text)]) lg1)
              in if \<not> http_ok status then failed
                 else (case body of
                         None \<Rightarrow> gemini_error SyntaxError lg1
                       | Some result \<Rightarrow>
                           (case candidate_text (Some result) of
                              Inl e \<Rightarrow> gemini_error e lg1
                            | Inr None \<Rightarrow> failed
                            | Inr (Some t) \<Rightarrow>
                                (case parse_any t of
                                   Inl e \<Rightarrow> gemini_error e lg1
                                 | Inr parsed \<Rightarrow>
                                     if truthy parsed \<and> truthy (opt_get parsed ''scores'')
                                     then (parsed, log_action now ''GEMINI_PARSE_SUCCESS'' (parse_success_details parsed) lg1)
                                     else failed)))))"

text \<open>\<^verbatim>\<open>callClaudeWithTriage\<close> (lines 486--533). The client is \<^verbatim>\<open>null\<close> when the
  key is missing (\<open>None\<close>): \<^verbatim>\<open>typeof null\<close> is \<^verbatim>\<open>'object'\<close> and the import check
  of lines 489--496 logs \<^verbatim>\<open>CLAUDE_IMPORT_ERROR\<close>. A present client's
  \<^verbatim>\<open>messages.create\<close> is \<open>api\<close>.\<close>

definition call_claude_sdk ::
  "(backend \<Rightarrow> string) \<Rightarrow> (string \<Rightarrow> jsval option) option \<Rightarrow> int \<Rightarrow> string \<Rightarrow> triage_logger \<Rightarrow>
     jsval option \<times> triage_logger" where
  "call_claude_sdk err client now prompt lg =
     (case client of
        None \<Rightarrow> (None, log_action now ''CLAUDE_IMPORT_ERROR''
                          (JObj [(''error'', JStr ''Anthropic SDK not properly imported''),
                                 (''anthropicType'', JStr ''object''), (''hasMessages'', JBool False)]) lg)
      | Some api \<Rightarrow>
          (case api prompt of
             None \<Rightarrow> (None, log_action now ''CLAUDE_ERROR'' (JObj [(''error'', JStr (err Claude))]) lg)
           | Some response \<Rightarrow>
               (case read_prop (Some response) ''content'' of
                  Inl e \<Rightarrow> (None, log_action now ''CLAUDE_ERROR'' (JObj [(''error'', JStr (error_text e))]) lg)
                | Inr content \<Rightarrow>
                    (let lg1 = log_action now ''CLAUDE_RESPONSE'' (JObj [(''hasContent'', JBool (truthy content))]) lg;
                         failed = (None, log_action now ''CLAUDE_FAILED''
                                           (JObj [(''response'', JStr (if truthy content then ''No valid content''
                                                                      else ''No response''))]) lg1);
                         c0 = opt_get content ''0'';
                         t = opt_get c0 ''text''
                     in if \<not> (truthy content \<and> truthy c0 \<and> truthy t) then failed
                        else (case parse_any t of
                                Inl e \<Rightarrow> (None, log_action now ''CLAUDE_ERROR'' (JObj [(''error'', JStr (error_text e))]) lg1)
                              | Inr parsed \<Rightarrow>
                                  if truthy parsed \<and> truthy (opt_get parsed ''scores'')
                                  then (parsed, log_action now ''CLAUDE_PARSE_SUCCESS'' (parse_success_details parsed) lg1)
                                  else failed)))))"

subsection \<open>The callers as providers\<close>

text \<open>The HTTP exchange and the SDK call seen as a provider of
  \<open>Backend_Dispatcher\<close>: a reply text when the caller reaches
  \<^verbatim>\<open>parseAIResponse\<close> with a string, a failure otherwise.\<close>

definition rest_provider :: "(string \<Rightarrow> http_reply) \<Rightarrow> provider" where
  "rest_provider fetch p =
     (case fetch p of
        HttpResponse s _ (Some r) \<Rightarrow>
          if http_ok s then (case candidate_text (Some r) of Inr (Some (Some (JStr t))) \<Rightarrow> Reply t | _ \<Rightarrow> Failure)
          else Failure
      | _ \<Rightarrow> Failure)"

definition sdk_provider :: "(string \<Rightarrow> jsval option) \<Rightarrow> provider" where
  "sdk_provider api p =
     (case api p of
        Some resp \<Rightarrow>
          (case read_prop (Some resp) ''content'' of
             Inr content \<Rightarrow>
               (let t = opt_get (opt_get content ''0'') ''text''
                in if truthy content \<and> truthy (opt_get content ''0'') \<and> truthy t
                   then (case t of Some (JStr s) \<Rightarrow> Reply s | _ \<Rightarrow> Failure) else Failure)
           | Inl _ \<Rightarrow> Failure)
      | None \<Rightarrow> Failure)"

declare http_ok_def [js_eval] read_prop_def [js_eval] parse_any_def [js_eval] candidate_text_def [js_eval]
  parse_success_details_def [js_eval] call_gemini_rest_def [js_eval] call_claude_sdk_def [js_eval]

subsection \<open>Refinement and log\<close>

text \<open>Each caller returns what \<open>priority_attempt\<close> returns on its provider: the
  HTTP and SDK details are absorbed by the provider abstraction. Its log ends with
  exactly one outcome entry, the success entry exactly when it returns an analysis.\<close>

lemma call_gemini_rest_refines:
  "fst (call_gemini_rest err fetch now prompt lg) = priority_attempt (rest_provider fetch) prompt"
  by (auto simp: call_gemini_rest_def rest_provider_def priority_attempt_def parse_any_def Let_def accepted_parse
           split: http_reply.splits option.splits sum.splits jsval.splits)

lemma call_claude_sdk_refines:
  "fst (call_claude_sdk err (Some api) now prompt lg) = priority_attempt (sdk_provider api) prompt"
  by (auto simp: call_claude_sdk_def sdk_provider_def priority_attempt_def parse_any_def Let_def accepted_parse
           split: option.splits sum.splits jsval.splits)

text \<open>C17: \<^verbatim>\<open>callGeminiWithTriage\<close> logs \<^verbatim>\<open>GEMINI_RESPONSE\<close> exactly when
  \<^verbatim>\<open>fetch\<close> returns a response, and then exactly one outcome entry:
  \<^verbatim>\<open>GEMINI_PARSE_SUCCESS\<close> exactly when it returns an analysis,
  \<^verbatim>\<open>GEMINI_FAILED\<close> or \<^verbatim>\<open>GEMINI_ERROR\<close> otherwise.\<close>

theorem call_gemini_rest_log:
  "butlast (new_actions lg (snd (call_gemini_rest err fetch now prompt lg))) =
     (if fetch prompt = HttpError then [] else [''GEMINI_RESPONSE'']) \<and>
   last (new_actions lg (snd (call_gemini_rest err fetch now prompt lg))) \<in>
     {''GEMINI_PARSE_SUCCESS'', ''GEMINI_FAILED'', ''GEMINI_ERROR''} \<and>
   (last (new_actions lg (snd (call_gemini_rest err fetch now prompt lg))) = ''GEMINI_PARSE_SUCCESS'') =
     (fst (call_gemini_rest err fetch now prompt lg) \<noteq> None)"
  by (auto simp: call_gemini_rest_def parse_any_def Let_def
           split: http_reply.splits option.splits sum.splits jsval.splits dest: truthy_some)

lemma call_claude_sdk_log:
  "length (new_actions lg (snd (call_claude_sdk err client now prompt lg))) \<le> 2 \<and>
   last (new_actions lg (snd (call_claude_sdk err client now prompt lg))) \<in>
     {''CLAUDE_PARSE_SUCCESS'', ''CLAUDE_FAILED'', ''CLAUDE_ERROR'', ''CLAUDE_IMPORT_ERROR''} \<and>
   (last (new_actions lg (snd (call_claude_sdk err client now prompt lg))) = ''CLAUDE_PARSE_SUCCESS'') =
     (fst (call_claude_sdk err client now prompt lg) \<noteq> None)"
  by (auto simp: call_claude_sdk_def parse_any_def Let_def
           split: option.splits sum.splits jsval.splits dest: truthy_some)

end
