(* ===== verification/Theme_Vocabulary.thy ===== *)
theory Theme_Vocabulary
  imports Prompt_Builder
begin

text \<open>
  The table \<^verbatim>\<open>THEME_MAP\<close> (\<^verbatim>\<open>part_001\<close>, lines 973--1027), the controlled
  vocabulary of themes per product, and how it compares with the vocabulary the theme
  prompt offers (\<open>theme_block\<close> of \<open>Prompt_Builder\<close>). No code reads the table:
  \<^verbatim>\<open>classifyTheme\<close> takes the model's reply as it is.
\<close>

definition theme_map :: "(string \<times> string list) list" where
  "theme_map =
     [(''Khoros Aurora Community'',
        [''ANALYTICS & REPORTING - AI-Powered Analytics'',
         ''ANALYTICS & REPORTING - Core Analytics'',
         ''ANALYTICS & REPORTING - REVIEW'',
         ''ANALYTICS & REPORTING - Reporting Enhancements'',
         ''COMMUNITY FEATURES & ENGAGEMENT - ACCEPTED'',
         ''CONTENT MANAGEMENT & MODERATION - Content Controls'',
         ''CONTENT MANAGEMENT & MODERATION - Moderation Features'',
         ''CONTENT MANAGEMENT & MODERATION - REVIEW'',
         ''CONTENT MANAGEMENT & MODERATION - Spam & Security Controls'',
         ''INTEGRATION & PUBLISHING - Events & Calendar'',
         ''INTEGRATION & PUBLISHING - Other Integrations'',
         ''INTEGRATION & PUBLISHING - Social Media Integration'',
         ''PLATFORM ADMINISTRATION - Admin Tools'',
         ''PLATFORM ADMINISTRATION - Infrastructure & Security'',
         ''SEARCH & DISCOVERY - Content Discovery'',
         ''SEARCH & DISCOVERY - Search Functionality'',
         ''USER EXPERIENCE & INTERFACE - Communication Customization'',
         ''USER EXPERIENCE & INTERFACE - Navigation & Layout'',
         ''USER EXPERIENCE & INTERFACE - UI Components & Widgets'',
         ''USER EXPERIENCE & INTERFACE - Visual Design'']),
      (''Khoros Care'',
        [''AGENT PRODUCTIVITY & USER EXPERIENCE - Platform Stability (ONE Items)'',
         ''AI, AUTOMATION & INTELLIGENT FEATURES - ROADMAP REVIEW'',
         ''ANALYTICS & REPORTING - Permissions - LIKELY CARE'',
         ''CHANNEL INTEGRATION & EXPANSION - App Store Integrations'',
         ''CHANNEL INTEGRATION & EXPANSION - Bluesky (Twitter Replacement)'',
         ''CHANNEL INTEGRATION & EXPANSION - Facebook Updates'',
         ''CHANNEL INTEGRATION & EXPANSION - LinkedIn Enhancements'',
         ''CHANNEL INTEGRATION & EXPANSION - SMS & Messaging Platforms'',
         ''CHANNEL INTEGRATION & EXPANSION - Third-Party Integrations'',
         ''CHANNEL INTEGRATION & EXPANSION - TikTok Suite'',
         ''COMPLIANCE, SECURITY & AUTHENTICATION'',
         ''CONFIGURATION & SYSTEM MANAGEMENT - CARE'']),
      (''Khoros Classic Community'',
        [''UI/UX ENHANCEMENTS - UI/UX ENHANCEMENTS (4 Features)'',
         ''USER MANAGEMENT & ANALYTICS - User Data & Export'',
         ''SOCIAL MEDIA & PUBLISHING - Consider exceptions to maintenance mode'',
         ''SOCIAL MEDIA & PUBLISHING - Phase 1: Immediate (Bugs Only)'']),
      (''Khoros Social Media & Marketing'',
        [''AI & AUTOMATION'',
         ''ANALYTICS & REPORTING - ROADMAP REVIEW'',
         ''CHANNEL-SPECIFIC ENHANCEMENTS - LinkedIn Suite'',
         ''CHANNEL-SPECIFIC ENHANCEMENTS - YouTube Features'',
         ''PUBLISHING & CONTENT MANAGEMENT - Channel-Specific Publishing'',
         ''PUBLISHING & CONTENT MANAGEMENT - Core Publishing Capabilities'',
         ''USER EXPERIENCE & WORKFLOW''])]"

text \<open>The themes the theme prompt offers for a product: the lines
  \<^verbatim>\<open>- theme\<close> of its theme block.\<close>

definition offered_themes :: "string \<Rightarrow> string list" where
  "offered_themes p = map (drop 2) (filter (\<lambda>l. take 2 l = ''- '') (js_split (theme_block p) [CHR 0x0A]))"

declare theme_map_def [js_eval] offered_themes_def [js_eval]

lemma split_scan_plain: "c \<notin> set x \<Longrightarrow> split_scan [c] acc (x @ r) = split_scan [c] (rev x @ acc) r"
  by (induction x arbitrary: acc) auto

lemma split_scan_join:
  "ls \<noteq> [] \<Longrightarrow> \<forall>l \<in> set ls. c \<notin> set l \<Longrightarrow>
     split_scan [c] acc (js_join [c] ls) = (rev acc @ hd ls) # tl ls"
proof (induction ls arbitrary: acc)
  case (Cons x xs)
  show ?case
  proof (cases xs)
    case Nil
    then show ?thesis using Cons.prems split_scan_plain[of c x acc "[]"] by simp
  next
    case (Cons y ys)
    have "split_scan [c] [] (js_join [c] xs) = ([] @ hd xs) # tl xs"
      using Cons.IH[of "[]"] Cons.prems \<open>xs = y # ys\<close> by simp
    then show ?thesis using Cons.prems \<open>xs = y # ys\<close> split_scan_plain[of c x acc "c # js_join [c] (y # ys)"]
      by simp
  qed
qed simp

lemma js_split_join: "ls \<noteq> [] \<Longrightarrow> \<forall>l \<in> set ls. c \<notin> set l \<Longrightarrow> js_split (js_join [c] ls) [c] = ls"
  using split_scan_join[of ls c "[]"] by (simp add: js_split_def)

lemma theme_lists_one_line:
  "list_all (\<lambda>t. CHR 0x0A \<notin> set t) aurora_themes"
  "list_all (\<lambda>t. CHR 0x0A \<notin> set t) care_themes"
  "list_all (\<lambda>t. CHR 0x0A \<notin> set t) social_themes"
  by code_simp+

lemma offered_themes_list:
  assumes "list_all (\<lambda>t. CHR 0x0A \<notin> set t) ts" "CHR 0x0A \<notin> set h" "take 2 h \<noteq> ''- ''"
  shows "map (drop 2) (filter (\<lambda>l. take 2 l = ''- '') (js_split (js_join [CHR 0x0A] ([] # h # map (\<lambda>t. ''- '' @ t) ts)) [CHR 0x0A])) = ts"
proof -
  have "js_split (js_join [CHR 0x0A] ([] # h # map (\<lambda>t. ''- '' @ t) ts)) [CHR 0x0A] = [] # h # map (\<lambda>t. ''- '' @ t) ts"
    using assms by (intro js_split_join) (auto simp: list_all_iff)
  moreover have "map (drop 2) (filter (\<lambda>l. take 2 l = ''- '') (map (\<lambda>t. ''- '' @ t) ts)) = ts"
    by (induction ts) auto
  ultimately show ?thesis using assms(3) by simp
qed

lemma theme_block_joins:
  "theme_block ''Khoros Aurora Community'' =
     js_join [CHR 0x0A] ([] # ''Khoros Aurora Community:'' # map (\<lambda>t. ''- '' @ t) aurora_themes)"
  "theme_block ''Khoros Care'' = js_join [CHR 0x0A] ([] # ''Khoros Care:'' # map (\<lambda>t. ''- '' @ t) care_themes)"
  "theme_block ''Khoros Social Media & Marketing'' =
     js_join [CHR 0x0A] ([] # ''Khoros Social Media & Marketing:'' # map (\<lambda>t. ''- '' @ t) social_themes)"
proof -
  have dash: "(@) ''- '' = (\<lambda>t. CHR ''-'' # CHR '' '' # t)" by (rule ext) simp
  show "theme_block ''Khoros Aurora Community'' =
     js_join [CHR 0x0A] ([] # ''Khoros Aurora Community:'' # map (\<lambda>t. ''- '' @ t) aurora_themes)"
    by (simp add: theme_block_def dash)
  show "theme_block ''Khoros Care'' = js_join [CHR 0x0A] ([] # ''Khoros Care:'' # map (\<lambda>t. ''- '' @ t) care_themes)"
    by (simp add: theme_block_def dash)
  show "theme_block ''Khoros Social Media & Marketing'' =
     js_join [CHR 0x0A] ([] # ''Khoros Social Media & Marketing:'' # map (\<lambda>t. ''- '' @ t) social_themes)"
    by (simp add: theme_block_def dash)
qed

lemma offered_themes_lists:
  "offered_themes ''Khoros Aurora Community'' = aurora_themes"
  "offered_themes ''Khoros Care'' = care_themes"
  "offered_themes ''Khoros Social Media & Marketing'' = social_themes"
  "offered_themes ''Khoros Classic Community'' = []"
  unfolding offered_themes_def theme_block_joins
     apply (rule offered_themes_list; simp add: theme_lists_one_line)+
  by (simp add: theme_block_def js_split_not_found)

text \<open>The two vocabularies disagree: for each product, the themes of the table that
  the prompt does not offer. The Classic Community prompt offers no list at all, and
  the Aurora prompt spells \<^verbatim>\<open>Core Analytics\<close> with two trailing blanks.\<close>

lemma theme_map_not_offered:
  "map (\<lambda>(p, ts). (p, filter (\<lambda>t. t \<notin> set (offered_themes p)) ts)) theme_map =
     [(''Khoros Aurora Community'', [''ANALYTICS & REPORTING - Core Analytics'']),
      (''Khoros Care'', [''ANALYTICS & REPORTING - Permissions - LIKELY CARE'', ''COMPLIANCE, SECURITY & AUTHENTICATION'',
                        ''CONFIGURATION & SYSTEM MANAGEMENT - CARE'']),
      (''Khoros Classic Community'', the (map_of theme_map ''Khoros Classic Community'')),
      (''Khoros Social Media & Marketing'', [''AI & AUTOMATION'', ''USER EXPERIENCE & WORKFLOW''])]"
  by (simp add: theme_map_def offered_themes_lists aurora_themes_def care_themes_def social_themes_def)

end
