(* ===== verification/Spec2Isabelle.thy ===== *)
theory Spec2Isabelle
  imports Test_Scripts Handler_Log Setup_Scripts Triage_Callers Theme_Vocabulary
begin

text \<open>
  \<^bold>\<open>A verification library for the AI feature-triage service.\<close>

  The program receives a Jira issue by HTTP (\<^verbatim>\<open>src/unnamed/part_001\<close>, the
  handler \<^verbatim>\<open>api/triage.js\<close> in its current revision; \<^verbatim>\<open>src/api/triage.js\<close>, an
  older revision; \<^verbatim>\<open>src/server.js\<close>, a local Express server that calls the older
  revision; \<^verbatim>\<open>src/README.md\<close>, which carries the deployed health handler). The
  current handler rate-limits the caller, checks the webhook for an issue key, asks a
  language model (Gemini, with Claude as fallback) first for a theme and then for
  scores, parses the reply, completes the overall priority with a weighted formula,
  and adds inferred fields (effort, bug/feature class, similarity group) before it
  answers with JSON; a per-request logger records what happened. Control flows handler
  \<open>\<rightarrow>\<close> prompt builder \<open>\<rightarrow>\<close> dispatcher \<open>\<rightarrow>\<close> response parser \<open>\<rightarrow>\<close> priority
  calculator \<open>\<rightarrow>\<close> response body. Three test scripts (\<^verbatim>\<open>part_002\<close>,
  \<^verbatim>\<open>test-api.js\<close>, \<^verbatim>\<open>test-ai.js\<close>) exercise these parts, and two shell scripts
  set up and deploy the service.

  \<^bold>\<open>Theories, in import order.\<close>
  \<^item> \<^verbatim>\<open>Triage_Prelude\<close>: the JavaScript string built-ins the code calls
    (\<^verbatim>\<open>includes\<close>, \<^verbatim>\<open>split\<close>, \<^verbatim>\<open>trim\<close>, \<^verbatim>\<open>toLowerCase\<close>,
    \<^verbatim>\<open>lastIndexOf\<close>, \<^verbatim>\<open>join\<close>) as functions on \<^typ>\<open>string\<close>, their shared
    lemmas (first occurrences, \<^verbatim>\<open>split\<close> at a separator, \<^verbatim>\<open>trim\<close> of a trimmed
    text), and the collection \<open>js_eval\<close> of the equations that evaluate a concrete
    input.
  \<^item> \<^verbatim>\<open>Js_Value\<close>: JavaScript values as the datatype \<^typ>\<open>jsval\<close>
    (\<^verbatim>\<open>undefined\<close> is \<open>None\<close>, a function value is \<open>JHost\<close>), truthiness,
    \<^verbatim>\<open>||\<close>, \<^verbatim>\<open>?.\<close>, \<^verbatim>\<open>ToNumber\<close>, \<^verbatim>\<open>ToString\<close>, property read and the
    strict-mode property write (a write to a primitive is a \<open>TypeError\<close>, the left
    of the result type \<open>js_error + 'a\<close>).
  \<^item> \<^verbatim>\<open>Binary64\<close>: Number arithmetic as IEEE 754 binary64. A finite double is a
    pair \<open>(m, e)\<close> standing for \<open>m \<cdot> 2^e\<close>; \<open>round64\<close> rounds to a 53-bit
    significand, ties to even (\<open>rne_shift\<close> on the integer quotient, \<^verbatim>\<open>bitlen\<close> of
    \<^verbatim>\<open>Log_Nat\<close> for the length); \<open>add64\<close> and \<open>mul64\<close> round the exact result
    once, and \<open>math_round\<close> is \<^verbatim>\<open>Math.round\<close>. Lemmas: one rounding changes a
    value by at most \<open>2^-53\<close> of it, integers below \<open>2^53\<close> are exact, and
    \<open>math_round d = floor (dval d + 1/2)\<close>. The exponent is unbounded: overflow to
    \<^verbatim>\<open>Infinity\<close> is not modelled, and no subnormal arises in the computation modelled.
  \<^item> \<^verbatim>\<open>Json_Text\<close>: \<^verbatim>\<open>JSON.parse\<close> as a recursive-descent parser
    \<open>pvalue\<close>/\<open>pmembers\<close>/\<open>pelems\<close> on fuel, and \<^verbatim>\<open>JSON.stringify\<close> as
    \<open>json_print\<close>, modelled from the ECMAScript grammar; whatever the parser returns
    is a JSON value.
  \<^item> \<^verbatim>\<open>Priority_Calculator\<close>: \<^verbatim>\<open>calculateOverallPriority\<close> and the
    recommendation bands of \<^verbatim>\<open>part_002\<close>. The weighted sum \<open>overall_sum\<close> is
    computed in binary64 exactly as the code computes it, the weights being the doubles
    nearest to their literals (\<open>weights_nearest\<close>). An error analysis bounds the
    double within \<open>7 \<cdot> 10^9 / 2^50\<close> of the exact average for scores up to
    \<open>10^9\<close>; since the exact average is a multiple of \<open>1/20\<close>, \<^verbatim>\<open>Math.round\<close>
    then gives the exact rounding except at exact halves. Properties: the result lies
    in \<open>[0, 100]\<close> (C1), and it is the spec's round-half-up except at halves, where
    it can be one less, as for business impact 1 and effort score 41 (C23); the
    \<^verbatim>\<open>NaN\<close> results and the ignored zero effort score are lemmas.
  \<^item> \<^verbatim>\<open>Response_Parser\<close>: \<^verbatim>\<open>parseAIResponse\<close> of both revisions (fence
    extraction, brace repair, \<^verbatim>\<open>JSON.parse\<close>, validation and completion): an
    accepted reply is complete (C2), a missing priority is filled in (C3), the repair
    cannot rebalance a truncated reply (C4), a supplied priority is kept unchecked
    (C24), and the revisions agree where the repair does not fire (C25).
  \<^item> \<^verbatim>\<open>Reply_Roundtrip\<close>: the printer and the parser are inverse on canonical
    values (no \<^verbatim>\<open>NaN\<close>, no functions, distinct keys), by structural induction on the
    value; the parser consumes input and its fuel suffices (induction on the fuel, a
    lemma); on top of both, a printed analysis is read back, bare or fenced (C5).
  \<^item> \<^verbatim>\<open>Backend_Dispatcher\<close>: the Gemini-then-Claude fallback of
    \<^verbatim>\<open>analyzePriority\<close> and \<^verbatim>\<open>classifyTheme\<close> (with the vendors called, in
    order, as a trace), refined against an abstract first-success dispatch (C26, C28),
    with its call order (C27); the unchecked theme, the older dispatcher and the
    both-fail path are lemmas there.
  \<^item> \<^verbatim>\<open>Similarity_Group\<close>: \<^verbatim>\<open>generateSimilarityGroup\<close> with its 32-bit hash
    on JavaScript numbers and on \<^typ>\<open>32 word\<close>, proved equal (C29), and the
    identifier format (C30).
  \<^item> \<^verbatim>\<open>Issue_Classifier\<close>: \<^verbatim>\<open>classifyBugOrFeature\<close> with its keyword lists and
    regular expressions; the doubled keyword, the single-word patterns and the
    \<open>TypeError\<close> of labels that are not an array are lemmas.
  \<^item> \<^verbatim>\<open>Ticket_Inference\<close>: \<^verbatim>\<open>estimateEffort\<close>, \<^verbatim>\<open>getProductContext\<close> and
    \<^verbatim>\<open>getProductDetails\<close> (C33; the reasons it reports are a lemma).
  \<^item> \<^verbatim>\<open>Rate_Limiter\<close>: \<^verbatim>\<open>checkRateLimit\<close> as a step on the map
    \<^verbatim>\<open>requestCounts\<close>, the inductive set of reachable states with their history,
    the refinement of a sliding-window specification (C31) and recovery after a window
    (C32).
  \<^item> \<^verbatim>\<open>Prompt_Builder\<close>: the theme and priority prompts of \<^verbatim>\<open>part_001\<close> and
    \<^verbatim>\<open>buildComprehensiveTriagePrompt\<close> of the older revision, each template literal
    as the list of its source lines; the placeholders of missing fields (C11), and the
    \<open>TypeError\<close> of a field that is not an array.
  \<^item> \<^verbatim>\<open>Orchestrator\<close>: the handler of both revisions and
    \<^verbatim>\<open>processTicketWithFullTriage\<close>, composed from the components above; the
    prompts enter through the record \<open>prompt_builders\<close> (instantiated by
    \<open>khoros_prompts\<close>), the limiter's map is threaded through \<open>handler_run\<close>. Its
    lemmas: the window bound over every run (C6, an invariant carried from the
    limiter's reachable states), the 429 path (C7), the missing key (C8), the fallback
    flag (C9), the degraded outcome (C10), a client rotating
    \<^verbatim>\<open>X-Forwarded-For\<close> never limited (C34, by induction over the run with the
    keys still unused as invariant), and the 500 after all vendor calls when
    \<^verbatim>\<open>similar_features\<close> is not a string (C35).
  \<^item> \<^verbatim>\<open>Server\<close>: the environment, the clients it yields in both revisions, the
    \<^verbatim>\<open>healthCheck\<close> of \<^verbatim>\<open>src/api/triage.js\<close> and the Express routes of
    \<^verbatim>\<open>server.js\<close>, and the health handler of \<^verbatim>\<open>src/README.md\<close> (lines
    273--324: 503 \<^verbatim>\<open>degraded\<close> when a key is missing, \<^verbatim>\<open>available\<close> and
    \<^verbatim>\<open>keyLength\<close> per service).
  \<^item> \<^verbatim>\<open>Request_Log\<close>: \<^verbatim>\<open>TriageLogger\<close> as a record passed through the calls
    that log, \<^verbatim>\<open>generateUUID\<close> with \<^verbatim>\<open>Math.random()\<close> as an input stream and its
    32-bit \<^verbatim>\<open>&\<close> and \<^verbatim>\<open>|\<close> on \<^typ>\<open>32 word\<close>, and
    \<^verbatim>\<open>processTicketWithFullTriage\<close> with its entries, whose result is that of the
    unlogged model. Its lemmas: the two failure cases the specification wants told apart
    are logged differently (C13), the UUID matches its template (C14), and a logger's
    entries all carry its request id (C15, by rule induction over the runs).
  \<^item> \<^verbatim>\<open>Dispatch_Log\<close>: \<^verbatim>\<open>estimateEffort\<close>, \<^verbatim>\<open>classifyTheme\<close> and
    \<^verbatim>\<open>analyzePriority\<close> with every entry they write (\<^verbatim>\<open>Object.keys\<close> for one of
    them), and \<^verbatim>\<open>processTicketWithFullTriage\<close> with the entries of its callees,
    each written with the logger passed through let-bound state and shown to compute
    the result of its unlogged model (erasure lemmas). On top of the appended actions
    (\<open>new_actions\<close>) and the shape \<open>outcome_trace\<close>: what is logged when vendors
    fail (C18), exactly one outcome entry per analysis (C19), the doubled success entry
    (C20); that the function's own entries occur in order in the full log is a lemma.
  \<^item> \<^verbatim>\<open>Handler_Log\<close>: the handler with the logger it creates:
    \<^verbatim>\<open>WEBHOOK_RECEIVED\<close>, \<^verbatim>\<open>WEBHOOK_PARSED\<close>, \<^verbatim>\<open>PROCESSING_COMPLETE\<close> and
    \<^verbatim>\<open>ERROR\<close> around the ticket's entries; the log's first and last entries follow
    the request's fate (C16); that logging changes no answer is a lemma.
  \<^item> \<^verbatim>\<open>Triage_Callers\<close>: \<^verbatim>\<open>callGeminiWithTriage\<close> (REST over
    \<^verbatim>\<open>fetch\<close>, the HTTP exchange an input) and \<^verbatim>\<open>callClaudeWithTriage\<close> (the
    SDK's response object an input) of \<^verbatim>\<open>part_001\<close>, which the current handler
    no longer calls, with their entries; each is \<open>priority_attempt\<close> on the provider
    its exchange defines (lemmas), and the Gemini caller's log has its response entry
    exactly when \<^verbatim>\<open>fetch\<close> answered, then one outcome entry (C17).
  \<^item> \<^verbatim>\<open>Test_Scripts\<close>: the three test scripts as functions from the modelled code
    and the vendors to what they report. \<^verbatim>\<open>test-api.js\<close> runs against the server
    model: it reports success with no key set (C21), and its health check reads the
    members of the README's handler, not of the \<^verbatim>\<open>healthCheck\<close> the server serves
    (C12); \<^verbatim>\<open>test-ai.js\<close> rejects a fenced reply the service accepts (C22);
    \<^verbatim>\<open>test-local.js\<close> runs the older revision's parser and calculator, and its
    checks hold on its fixtures and, for the prompt, on every issue whose components and
    labels build.
  \<^item> \<^verbatim>\<open>Setup_Scripts\<close>: the setup script \<^verbatim>\<open>part_000\<close> (the file
    \<^verbatim>\<open>.env.local\<close>, its template and \<^verbatim>\<open>source\<close> of assignment lines) and the
    quick deploy script at the end of \<^verbatim>\<open>part_001\<close> (its commands under
    \<^verbatim>\<open>set -e\<close>, each command's exit status an input, and the one-character
    confirmation read from standard input): when the deploy script deploys and how it
    exits (C36); the template read back by \<^verbatim>\<open>source\<close> is a lemma.
  \<^item> \<^verbatim>\<open>Theme_Vocabulary\<close>: the table \<^verbatim>\<open>THEME_MAP\<close> of \<^verbatim>\<open>part_001\<close>
    (lines 973--1027), which no code reads, against the vocabulary the theme prompt
    offers: the prompt's \<^verbatim>\<open>- theme\<close> lines are exactly the Aurora, Care and
    Social lists of \<open>Prompt_Builder\<close> (none for Classic Community), and the lemma
    \<open>theme_map_not_offered\<close> lists, per product, the table's themes the prompt
    never offers.

  \<^bold>\<open>Modelling choices.\<close> JSON numbers are integers (\<^typ>\<open>int\<close>): the parser
  rejects fractions and exponents. Where the code computes with them, a number is the
  double it denotes (\<open>of_int64\<close>, exact below \<open>2^53\<close>), and the weighted sum is
  binary64 arithmetic; the results the code produces from it are again integers.
  Strings are lists of characters; non-ASCII text is written as its UTF-8 bytes, and
  \<^verbatim>\<open>trim\<close> removes ASCII white space only. Vendors are functions from prompt to
  reply text or failure, so every reply is an input. Time is an input of the limiter
  and of the logger (\<^verbatim>\<open>Date.now()\<close>, \<^verbatim>\<open>new Date()\<close>), and random numbers are an
  input stream; runs are lists of timed requests. \<^verbatim>\<open>JSON.parse\<close> runs on fuel
  \<open>2 * length s + 2\<close>: each call of the parser consumes a character or hands a
  shorter suffix to a callee, so \<open>2 * length s + 1\<close> units already give the final
  answer, and more fuel changes nothing (\<open>parse_AI_response_fuel\<close>). The error
  analysis of the weighted sum is stated for scores up to \<open>10^9\<close> in magnitude, far
  beyond the prompt's \<open>[0, 100]\<close>, where its bound \<open>7 \<cdot> 10^9 / 2^50\<close> stays
  below the \<open>1/20\<close> that separates a non-half average from a rounding boundary.

  \<^bold>\<open>Not modelled.\<close> The network calls to the vendors themselves and the text of
  their exceptions (an input of the logged models); console output; the clock beyond
  one value per request, hence the timings and the \<^verbatim>\<open>actions\<close> lines of the
  ticket result, and the \<^verbatim>\<open>timestamp\<close> and \<^verbatim>\<open>uptime\<close> of the health answers;
  Number overflow to \<^verbatim>\<open>Infinity\<close>; \<^verbatim>\<open>express.json()\<close> body parsing and
  \<^verbatim>\<open>app.listen\<close>; the banner and hint lines the shell scripts print, shell lines
  other than comments and plain assignments in \<^verbatim>\<open>.env.local\<close> (the model of
  \<^verbatim>\<open>source\<close> answers \<open>None\<close> on them), and the deployment guide at the end of
  \<^verbatim>\<open>part_001\<close>, which is prose. The unused constant \<^verbatim>\<open>CONFIG\<close> of \<^verbatim>\<open>part_001\<close> is not
  modelled, nor is its copy of \<^verbatim>\<open>buildComprehensiveTriagePrompt\<close>, whose text is that
  of the older revision modelled in \<^verbatim>\<open>Prompt_Builder\<close>.
\<close>

end
